(* ===== verification/Venus_Prelude.thy ===== *)
theory Venus_Prelude
  imports Main "HOL-Library.AList" "HOL-Library.Char_ord" "HOL-Library.List_Lexorder"
    "HOL-Library.Product_Lexorder"
begin

section \<open>Shared vocabulary of the development\<close>

text \<open>
  The collections of rewrite rules the component theories fill, the error type of the
  Python exceptions the modelled code raises or lets through, and the generic facts on
  insertion-ordered dictionaries, on finding the first element of a list and on results.

  A Python \<^verbatim>\<open>dict\<close> is an association list in insertion order: \<open>map_of\<close> is
  \<^verbatim>\<open>d.get(k)\<close>, \<^const>\<open>AList.update\<close> is \<^verbatim>\<open>d[k] = v\<close> (it keeps the position of a key that is
  present and appends a new one) and \<^const>\<open>AList.delete\<close> is \<^verbatim>\<open>d.pop(k, None)\<close>.  An operation that
  can raise returns \<open>py_exc + 'a\<close>, with \<open>Inl\<close> for the exception.
\<close>

named_theorems py_str_simps
named_theorems py_num_simps
named_theorems gate_simps
named_theorems mqtt_defs

datatype py_exc =
    OverflowError
  | ValueError
  | TypeError
  | KeyError
  | IndexError
  | AttributeError
  | MissingPortalIdError
  | NotConnectedError
  | ConnectionTimeoutError
  | MQTTError
  | DBusNotConnectedError
  | DBusCallError
  | AssertionError

type_synonym 'a res = "py_exc + 'a"
type_synonym ('k, 'v) dict = "('k \<times> 'v) list"

definition bind_res :: "'e + 'a \<Rightarrow> ('a \<Rightarrow> 'e + 'b) \<Rightarrow> 'e + 'b" where
  "bind_res r f = (case r of Inl e \<Rightarrow> Inl e | Inr a \<Rightarrow> f a)"

lemma bind_res_simps [simp]:
  "bind_res (Inl e) f = Inl e"
  "bind_res (Inr a) f = f a"
  by (simp_all add: bind_res_def)

lemma bind_res_eq_Inr_iff [simp]:
  "bind_res r f = Inr b \<longleftrightarrow> (\<exists>a. r = Inr a \<and> f a = Inr b)"
  by (cases r) auto

text \<open>A Python loop or sequence of calls that stops at the first exception.\<close>

fun map_res :: "('a \<Rightarrow> 'e + 'b) \<Rightarrow> 'a list \<Rightarrow> 'e + 'b list" where
  "map_res f [] = Inr []"
| "map_res f (x # xs) = bind_res (f x) (\<lambda>y. bind_res (map_res f xs) (\<lambda>ys. Inr (y # ys)))"

lemma map_res_cong [fundef_cong]:
  "xs = ys \<Longrightarrow> (\<And>x. x \<in> set ys \<Longrightarrow> f x = g x) \<Longrightarrow> map_res f xs = map_res g ys"
proof (induction xs arbitrary: ys)
  case (Cons x xs)
  then show ?case by (cases ys) auto
qed simp

lemma map_res_Inr_iff: "map_res f xs = Inr ys \<longleftrightarrow> list_all2 (\<lambda>x y. f x = Inr y) xs ys"
  by (induction xs arbitrary: ys) (auto simp: list_all2_Cons1)

lemma map_res_Inl: "map_res f xs = Inl e \<Longrightarrow> \<exists>x \<in> set xs. f x = Inl e"
proof (induction xs)
  case (Cons x xs)
  then show ?case by (cases "f x"; cases "map_res f xs") auto
qed simp

subsection \<open>Dictionaries\<close>

abbreviation dict_set :: "'k \<Rightarrow> 'v \<Rightarrow> ('k, 'v) dict \<Rightarrow> ('k, 'v) dict" where
  "dict_set \<equiv> AList.update"

abbreviation dict_pop :: "'k \<Rightarrow> ('k, 'v) dict \<Rightarrow> ('k, 'v) dict" where
  "dict_pop \<equiv> AList.delete"

abbreviation dict_keys :: "('k, 'v) dict \<Rightarrow> 'k list" where
  "dict_keys \<equiv> map fst"

lemma map_of_dict_set [simp]: "map_of (dict_set k v d) = (map_of d)(k \<mapsto> v)"
  by (rule update_conv')

lemma map_of_dict_pop [simp]: "map_of (dict_pop k d) = (map_of d)(k := None)"
  by (rule delete_conv')

lemma set_keys_dict_set [simp]: "fst ` set (dict_set k v d) = insert k (fst ` set d)"
  by (induction d) auto

lemma set_keys_dict_pop [simp]: "fst ` set (dict_pop k d) = fst ` set d - {k}"
  by (induction d) auto

lemma distinct_keys_dict_set [intro]: "distinct (dict_keys d) \<Longrightarrow> distinct (dict_keys (dict_set k v d))"
  by (rule distinct_update)

lemma distinct_keys_dict_pop [intro]: "distinct (dict_keys d) \<Longrightarrow> distinct (dict_keys (dict_pop k d))"
  by (rule distinct_delete)

lemma set_dict_set_subset: "set (dict_set k v d) \<subseteq> insert (k, v) (set d)"
  by (induction d) auto

lemma set_dict_pop_subset: "set (dict_pop k d) \<subseteq> set d"
  by (induction d) auto

lemma dict_set_new: "k \<notin> fst ` set d \<Longrightarrow> dict_set k v d = d @ [(k, v)]"
  by (induction d) auto

lemma dict_set_keys_old: "k \<in> fst ` set d \<Longrightarrow> map fst (dict_set k v d) = map fst d"
  by (simp add: update_keys)

lemma dict_pop_filter: "dict_pop k d = filter (\<lambda>(k', _). k' \<noteq> k) d"
  by (induction d) auto

lemma map_fst_dict_pop: "map fst (dict_pop k d) = filter (\<lambda>k'. k' \<noteq> k) (map fst d)"
  by (induction d) auto

lemma list_all_dict_set:
  "list_all P d \<Longrightarrow> P (k, v) \<Longrightarrow> list_all P (dict_set k v d)"
  using set_dict_set_subset by (fastforce simp: list_all_iff)

lemma list_all_dict_pop: "list_all P d \<Longrightarrow> list_all P (dict_pop k d)"
  using set_dict_pop_subset by (fastforce simp: list_all_iff)

text \<open>\<^verbatim>\<open>a | b\<close> and \<^verbatim>\<open>a.update(b)\<close>.\<close>

definition dict_merge :: "('k, 'v) dict \<Rightarrow> ('k, 'v) dict \<Rightarrow> ('k, 'v) dict" where
  "dict_merge a b = foldl (\<lambda>d (k, v). dict_set k v d) a b"

lemma set_dict_merge: "set (dict_merge d e) \<subseteq> set d \<union> set e"
  unfolding dict_merge_def
proof (induction e arbitrary: d)
  case (Cons x e)
  then show ?case using set_dict_set_subset [of "fst x" "snd x" d] by (cases x) fastforce
qed simp

lemma list_all_dict_merge: "list_all P d \<Longrightarrow> list_all P e \<Longrightarrow> list_all P (dict_merge d e)"
  using set_dict_merge [of d e] by (auto simp: list_all_iff)

lemma map_of_dict_merge: "map_of (dict_merge d e) = map_of d ++ map_of (rev e)"
  unfolding dict_merge_def
  by (induction e arbitrary: d) (auto simp: update_conv fun_eq_iff map_add_def split: option.splits prod.splits)

lemma dom_dict_merge: "dom (map_of (dict_merge d e)) = dom (map_of d) \<union> fst ` set e"
  by (simp add: map_of_dict_merge dom_map_of_conv_image_fst Un_commute)

text \<open>The interface of a dictionary, as the components that keep one use it.\<close>

locale dictionary =
  fixes get :: "'d \<Rightarrow> 'k \<Rightarrow> 'v option"
    and put :: "'k \<Rightarrow> 'v \<Rightarrow> 'd \<Rightarrow> 'd"
    and pop :: "'k \<Rightarrow> 'd \<Rightarrow> 'd"
    and invar :: "'d \<Rightarrow> bool"
  assumes get_put: "invar d \<Longrightarrow> get (put k v d) = (get d)(k \<mapsto> v)"
    and get_pop: "invar d \<Longrightarrow> get (pop k d) = (get d)(k := None)"
    and invar_put: "invar d \<Longrightarrow> invar (put k v d)"
    and invar_pop: "invar d \<Longrightarrow> invar (pop k d)"
begin

lemma get_put_same: "invar d \<Longrightarrow> get (put k v d) k = Some v"
  by (simp add: get_put)

lemma get_put_other: "invar d \<Longrightarrow> k' \<noteq> k \<Longrightarrow> get (put k v d) k' = get d k'"
  by (simp add: get_put)

lemma get_pop_same: "invar d \<Longrightarrow> get (pop k d) k = None"
  by (simp add: get_pop)

lemma put_put_get: "invar d \<Longrightarrow> get (put k w (put k v d)) = get (put k w d)"
  by (simp add: get_put invar_put)

lemma pop_put_get: "invar d \<Longrightarrow> get (pop k (put k v d)) = get (pop k d)"
  by (simp add: get_put get_pop invar_put)

end

interpretation alist: dictionary map_of AList.update AList.delete "\<lambda>d. distinct (map fst d)"
  by unfold_locales (auto intro: distinct_update distinct_delete)

subsection \<open>The first element that satisfies a predicate, errors included\<close>

text \<open>A Python loop that returns at the first element for which a check fails.\<close>

fun first_some :: "('a \<Rightarrow> 'b option) \<Rightarrow> 'a list \<Rightarrow> 'b option" where
  "first_some f [] = None"
| "first_some f (x # xs) = (case f x of Some y \<Rightarrow> Some y | None \<Rightarrow> first_some f xs)"

lemma first_some_None_iff: "first_some f xs = None \<longleftrightarrow> (\<forall>x \<in> set xs. f x = None)"
  by (induction xs) (auto split: option.splits)

lemma first_some_SomeD: "first_some f xs = Some y \<Longrightarrow> \<exists>x \<in> set xs. f x = Some y"
  by (induction xs) (auto split: option.splits)

lemma first_some_append:
  "first_some f (xs @ ys) = (case first_some f xs of Some y \<Rightarrow> Some y | None \<Rightarrow> first_some f ys)"
  by (induction xs) (auto split: option.splits)

lemma filter_length_1_iff:
  "length (filter P xs) = 1 \<longleftrightarrow> (\<exists>x. filter P xs = [x])"
  by (auto simp: length_Suc_conv)

subsection \<open>Splitting at the first separator\<close>

lemma split_first:
  "x \<notin> set xs \<Longrightarrow> x \<notin> set ys \<Longrightarrow> xs @ x # r = ys @ x # t \<longleftrightarrow> xs = ys \<and> r = t"
proof (induction xs arbitrary: ys)
  case Nil
  then show ?case by (cases ys) auto
next
  case (Cons a xs)
  then show ?case by (cases ys) auto
qed

end
