(* ===== verification/Py_Float.thy ===== *)
theory Py_Float
  imports Complex_Main Venus_Prelude
begin

section \<open>Python floats\<close>

text \<open>
  A Python \<^verbatim>\<open>float\<close> is an IEEE 754 binary64 value.  A finite one is the rational it denotes
  (the two zeros are one value: no comparison or branch of the code tells them apart);
  infinities and NaN are separate constructors.  Arithmetic is exact rational arithmetic
  followed by \<open>fl\<close>, the rounding to the nearest double with ties to even, so the
  comparisons and sums below are the ones the interpreter computes.
\<close>

datatype pyfloat = Fin rat | PInf | NInf | NaN

subsection \<open>Rounding\<close>

definition round_half_even :: "rat \<Rightarrow> int" where
  "round_half_even x =
     (let f = \<lfloor>x\<rfloor>; d = x - of_int f in
      if d < 1 / 2 then f else if 1 / 2 < d then f + 1 else if even f then f else f + 1)"

text \<open>The number of bits of a positive integer, and the binary exponent of a positive rational.\<close>

fun nat_bits :: "nat \<Rightarrow> nat" where
  "nat_bits n = (if n = 0 then 0 else Suc (nat_bits (n div 2)))"

declare nat_bits.simps [simp del]

definition pow2 :: "int \<Rightarrow> rat" where
  "pow2 e = (if 0 \<le> e then 2 ^ nat e else 1 / 2 ^ nat (- e))"

definition rat_exp :: "rat \<Rightarrow> int" where
  "rat_exp x =
     (let (p, q) = quotient_of x;
          d = int (nat_bits (nat p)) - int (nat_bits (nat q))
      in if pow2 d \<le> x then d else d - 1)"

definition float_limit :: rat where
  "float_limit = 2 ^ 1024"

definition fl_mag :: "rat \<Rightarrow> rat" where
  "fl_mag a =
     (let u = pow2 (max (rat_exp a - 52) (-1074)) in of_int (round_half_even (a / u)) * u)"

definition fl :: "rat \<Rightarrow> pyfloat" where
  "fl x =
     (if x = 0 then Fin 0
      else if float_limit \<le> fl_mag \<bar>x\<bar> then (if x < 0 then NInf else PInf)
      else Fin (if x < 0 then - fl_mag \<bar>x\<bar> else fl_mag \<bar>x\<bar>))"

subsection \<open>Predicates, comparisons and arithmetic\<close>

fun isfinite :: "pyfloat \<Rightarrow> bool" where
  "isfinite (Fin _) = True"
| "isfinite _ = False"

fun float_lt :: "pyfloat \<Rightarrow> pyfloat \<Rightarrow> bool" where
  "float_lt (Fin x) (Fin y) = (x < y)"
| "float_lt (Fin x) PInf = True"
| "float_lt NInf (Fin y) = True"
| "float_lt NInf PInf = True"
| "float_lt _ _ = False"

fun float_eq :: "pyfloat \<Rightarrow> pyfloat \<Rightarrow> bool" where
  "float_eq (Fin x) (Fin y) = (x = y)"
| "float_eq PInf PInf = True"
| "float_eq NInf NInf = True"
| "float_eq _ _ = False"

definition float_le :: "pyfloat \<Rightarrow> pyfloat \<Rightarrow> bool" where
  "float_le x y \<longleftrightarrow> float_lt x y \<or> float_eq x y"

fun float_neg :: "pyfloat \<Rightarrow> pyfloat" where
  "float_neg (Fin x) = Fin (- x)"
| "float_neg PInf = NInf"
| "float_neg NInf = PInf"
| "float_neg NaN = NaN"

fun float_add :: "pyfloat \<Rightarrow> pyfloat \<Rightarrow> pyfloat" where
  "float_add (Fin x) (Fin y) = fl (x + y)"
| "float_add NaN _ = NaN"
| "float_add _ NaN = NaN"
| "float_add PInf NInf = NaN"
| "float_add NInf PInf = NaN"
| "float_add PInf _ = PInf"
| "float_add _ PInf = PInf"
| "float_add NInf _ = NInf"
| "float_add _ NInf = NInf"

definition float_sub :: "pyfloat \<Rightarrow> pyfloat \<Rightarrow> pyfloat" where
  "float_sub x y = float_add x (float_neg y)"

fun float_mul :: "pyfloat \<Rightarrow> pyfloat \<Rightarrow> pyfloat" where
  "float_mul (Fin x) (Fin y) = fl (x * y)"
| "float_mul NaN _ = NaN"
| "float_mul _ NaN = NaN"
| "float_mul (Fin x) b =
     (if x = 0 then NaN else if (0 < x) = (b = PInf) then PInf else NInf)"
| "float_mul a (Fin y) =
     (if y = 0 then NaN else if (0 < y) = (a = PInf) then PInf else NInf)"
| "float_mul a b = (if a = b then PInf else NInf)"

text \<open>Python's \<^verbatim>\<open>max(a, b)\<close> keeps the first argument unless the second is strictly greater.\<close>

definition float_max :: "pyfloat \<Rightarrow> pyfloat \<Rightarrow> pyfloat" where
  "float_max a b = (if float_lt a b then b else a)"

text \<open>\<^verbatim>\<open>round(x, n)\<close>: the nearest multiple of \<open>10 ^ -n\<close>, ties to even, as the nearest double.\<close>

fun float_round :: "nat \<Rightarrow> pyfloat \<Rightarrow> pyfloat" where
  "float_round n (Fin x) = fl (of_int (round_half_even (x * 10 ^ n)) / 10 ^ n)"
| "float_round n x = x"

text \<open>\<^verbatim>\<open>float(i)\<close> for an integer: \<open>None\<close> is the \<^verbatim>\<open>OverflowError\<close>.\<close>

definition float_of_int :: "int \<Rightarrow> pyfloat option" where
  "float_of_int i = (case fl (of_int i) of Fin x \<Rightarrow> Some (Fin x) | _ \<Rightarrow> None)"

subsection \<open>Facts about rounding\<close>

lemma round_half_even_int [simp]: "round_half_even (of_int n) = n"
  by (simp add: round_half_even_def)

lemma round_half_even_nonneg: "0 \<le> x \<Longrightarrow> 0 \<le> round_half_even x"
  by (auto simp: round_half_even_def Let_def)

lemma round_half_even_near: "\<bar>of_int (round_half_even x) - x\<bar> \<le> 1 / 2"
proof -
  have f: "of_int \<lfloor>x\<rfloor> \<le> x" "x < of_int \<lfloor>x\<rfloor> + 1"
    using floor_correct [of x] by simp_all
  consider "x - of_int \<lfloor>x\<rfloor> < 1 / 2" | "1 / 2 < x - of_int \<lfloor>x\<rfloor>" | "x - of_int \<lfloor>x\<rfloor> = 1 / 2"
    by linarith
  then show ?thesis
    using f by cases (auto simp: round_half_even_def Let_def abs_le_iff)
qed

lemma round_half_even_mono:
  assumes "x \<le> y"
  shows "round_half_even x \<le> round_half_even y"
proof (rule ccontr)
  assume "\<not> ?thesis"
  then have lt: "round_half_even y + 1 \<le> round_half_even x" by simp
  then have "of_int (round_half_even y) + 1 \<le> (of_int (round_half_even x) :: rat)"
    by (metis of_int_1 of_int_add of_int_le_iff)
  with round_half_even_near [of x] round_half_even_near [of y] assms
  have "x = y" by linarith
  with lt show False by simp
qed

lemma pow2_pos [simp]: "0 < pow2 e"
  by (simp add: pow2_def)

lemma pow2_nonzero [simp]: "pow2 e \<noteq> 0"
  using pow2_pos [of e] by linarith

lemma fl_0 [simp]: "fl 0 = Fin 0"
  by (simp add: fl_def)

lemma fl_mag_nonneg: "0 \<le> a \<Longrightarrow> 0 \<le> fl_mag a"
  by (simp add: fl_mag_def Let_def round_half_even_nonneg less_imp_le)

lemma fl_nonneg: "0 \<le> x \<Longrightarrow> float_le (Fin 0) (fl x)"
  using fl_mag_nonneg [of x] by (auto simp: fl_def float_le_def)

lemma fl_neg: "fl (- x) = float_neg (fl x)"
  by (auto simp: fl_def)

lemma nat_bits_bounds: "0 < n \<Longrightarrow> 2 ^ (nat_bits n - 1) \<le> n \<and> n < 2 ^ nat_bits n \<and> 0 < nat_bits n"
proof (induction n rule: nat_bits.induct)
  case (1 n)
  show ?case
  proof (cases "n div 2 = 0")
    case True
    with 1 have "n = 1" by arith
    then show ?thesis by (simp add: nat_bits.simps)
  next
    case False
    with 1 have ih: "2 ^ (nat_bits (n div 2) - 1) \<le> n div 2" "n div 2 < 2 ^ nat_bits (n div 2)"
      "0 < nat_bits (n div 2)" by auto
    then obtain k where k: "nat_bits (n div 2) = Suc k" by (cases "nat_bits (n div 2)") auto
    have "nat_bits n = Suc (Suc k)" using 1 k by (simp add: nat_bits.simps [of n])
    moreover have "2 * (n div 2) \<le> n" "n < 2 * (n div 2) + 2" by linarith+
    ultimately show ?thesis using ih k by auto
  qed
qed

lemma rat_exp_of_int:
  assumes "0 < n"
  shows "rat_exp (of_int n) = int (nat_bits (nat n)) - 1"
proof -
  define b where "b = nat_bits (nat n)"
  have b: "2 ^ (b - 1) \<le> nat n" "0 < b"
    using nat_bits_bounds [of "nat n"] assms by (simp_all add: b_def)
  have one: "nat_bits 1 = 1" by (simp add: nat_bits.simps)
  have "(2::int) ^ (b - 1) \<le> n" using b(1) assms by (metis int_nat_eq less_imp_le of_nat_le_iff of_nat_numeral of_nat_power)
  then have "(2::rat) ^ (b - 1) \<le> of_int n"
    by (metis of_int_le_iff of_int_numeral of_int_power)
  moreover have "pow2 (int b - 1) = 2 ^ (b - 1)"
    using b(2) by (simp add: pow2_def nat_diff_distrib')
  ultimately show ?thesis
    using assms one by (simp add: rat_exp_def quotient_of_int b_def)
qed

lemma fl_mag_of_int:
  assumes "0 < n" "n \<le> 2 ^ 53"
  shows "fl_mag (of_int n) = of_int n"
proof -
  define b where "b = nat_bits (nat n)"
  have b: "2 ^ (b - 1) \<le> nat n" "0 < b"
    using nat_bits_bounds [of "nat n"] assms by (simp_all add: b_def)
  have e: "rat_exp (of_int n) = int b - 1"
    using rat_exp_of_int [OF assms(1)] by (simp add: b_def)
  have "nat n \<le> 2 ^ 53" using assms by (simp add: nat_le_iff)
  with b(1) have le: "(2::nat) ^ (b - 1) \<le> 2 ^ 53" by (rule order_trans)
  then have b54: "b - 1 \<le> 53" by (subst (asm) power_increasing_iff) auto
  show ?thesis
  proof (cases "b - 1 = 53")
    case True
    with b assms have "n = 2 ^ 53" by (simp add: le_nat_iff)
    then have "of_int n / 2 = (of_int (2 ^ 52) :: rat)" by simp
    moreover have "pow2 (max (rat_exp (of_int n) - 52) (- 1074)) = 2"
    proof -
      have "int b = 54" using True b(2) by simp
      then show ?thesis by (simp add: e pow2_def)
    qed
    ultimately show ?thesis by (simp only: fl_mag_def Let_def round_half_even_int)
  next
    case False
    define k where "k = 53 - b"
    have k: "pow2 (max (rat_exp (of_int n) - 52) (- 1074)) = 1 / 2 ^ k"
      using False b54 b(2) by (auto simp: e pow2_def k_def nat_diff_distrib' max_def)
    have "of_int n / (1 / 2 ^ k) = (of_int (n * 2 ^ k) :: rat)" by simp
    then have "round_half_even (of_int n / (1 / 2 ^ k)) = n * 2 ^ k"
      by (simp only: round_half_even_int)
    then show ?thesis by (simp add: fl_mag_def k)
  qed
qed

text \<open>Integers of magnitude up to \<open>2 ^ 53\<close> convert exactly.\<close>

lemma fl_of_int:
  assumes "\<bar>n\<bar> \<le> 2 ^ 53"
  shows "fl (of_int n) = Fin (of_int n)"
proof (cases "n = 0")
  case False
  have "fl_mag (of_int \<bar>n\<bar>) = of_int \<bar>n\<bar>"
    by (rule fl_mag_of_int) (use False assms in auto)
  then have m: "fl_mag \<bar>of_int n\<bar> = \<bar>of_int n\<bar>" by simp
  have "(of_int \<bar>n\<bar> :: rat) \<le> of_int (2 ^ 53)" using assms by (simp only: of_int_le_iff)
  moreover have "(2::rat) ^ 53 < 2 ^ 1024" by (rule power_strict_increasing) auto
  ultimately have "\<not> float_limit \<le> \<bar>of_int n\<bar>" by (simp add: float_limit_def)
  with m False show ?thesis by (auto simp: fl_def)
qed simp

lemma float_of_int_exact: "\<bar>n\<bar> \<le> 2 ^ 53 \<Longrightarrow> float_of_int n = Some (Fin (of_int n))"
  by (simp add: float_of_int_def fl_of_int)

text \<open>Integers from \<open>2 ^ 1024\<close> on do not convert.\<close>

lemma float_of_int_overflow:
  assumes "2 ^ 1024 \<le> n"
  shows "float_of_int n = None"
proof -
  define k where "k = nat_bits (nat n) - 1"
  have pos: "0 < n" using assms by (rule less_le_trans [rotated]) simp
  then have b: "2 ^ k \<le> nat n" "nat n < 2 ^ Suc k" "0 < nat_bits (nat n)"
    using nat_bits_bounds [of "nat n"] by (simp_all add: k_def)
  have "(2::nat) ^ 1024 \<le> nat n" using assms by (simp add: le_nat_iff)
  also note b(2)
  finally have "(2::nat) ^ 1024 < 2 ^ Suc k" .
  then have k: "1024 \<le> k" by (subst (asm) power_strict_increasing_iff) auto
  define u where "u = (2::rat) ^ (k - 52)"
  have e: "rat_exp (of_int n) = int k" using rat_exp_of_int [OF pos] b(3) by (simp add: k_def)
  have u: "pow2 (max (rat_exp (of_int n) - 52) (- 1074)) = u"
    using k by (simp add: e pow2_def u_def nat_diff_distrib')
  have split: "(2::rat) ^ k = of_int (2 ^ 52) * u"
  proof -
    have "k = 52 + (k - 52)" using k by simp
    then have "(2::rat) ^ k = 2 ^ 52 * 2 ^ (k - 52)" by (metis power_add)
    then show ?thesis by (simp add: u_def)
  qed
  have "(2::int) ^ k \<le> n"
    using b(1) pos by (metis int_nat_eq less_imp_le of_nat_le_iff of_nat_numeral of_nat_power)
  then have n: "(2::rat) ^ k \<le> of_int n" by (metis of_int_le_iff of_int_numeral of_int_power)
  have upos: "0 < u" by (simp add: u_def)
  with n split have "of_int (2 ^ 52) \<le> of_int n / u" by (simp add: pos_le_divide_eq)
  then have "2 ^ 52 \<le> round_half_even (of_int n / u)"
    using round_half_even_mono round_half_even_int by metis
  then have "of_int (2 ^ 52) * u \<le> of_int (round_half_even (of_int n / u)) * u"
    using upos by (intro mult_right_mono) (simp_all only: of_int_le_iff less_imp_le)
  with split u have mag: "2 ^ k \<le> fl_mag (of_int n)" by (simp only: fl_mag_def Let_def)
  have "float_limit \<le> 2 ^ k" unfolding float_limit_def using k by (rule power_increasing) simp
  from this mag have lim: "float_limit \<le> fl_mag (of_int n)" by (rule order_trans)
  then have "fl (of_int n) = PInf" using pos by (simp add: fl_def)
  then show ?thesis by (simp add: float_of_int_def)
qed

lemma float_of_int_Some_isfinite: "float_of_int n = Some x \<Longrightarrow> isfinite x"
  by (cases "fl (of_int n)") (auto simp: float_of_int_def)

subsection \<open>Facts about comparisons and differences\<close>

lemma float_le_Fin [simp]: "float_le (Fin x) (Fin y) \<longleftrightarrow> x \<le> y"
  by (auto simp: float_le_def)

lemma isfinite_iff: "isfinite x \<longleftrightarrow> (\<exists>r. x = Fin r)"
  by (cases x) auto

lemma float_lt_irrefl [simp]: "\<not> float_lt x x"
  by (cases x) auto

lemma float_add_not_NaN: "float_add (Fin x) (Fin y) \<noteq> NaN"
  by (simp add: fl_def)

lemma float_le_iff_not_lt: "x \<noteq> NaN \<Longrightarrow> y \<noteq> NaN \<Longrightarrow> float_le x y \<longleftrightarrow> \<not> float_lt y x"
  by (cases x; cases y) (auto simp: float_le_def)

lemma float_le_trans: "float_le x y \<Longrightarrow> float_le y z \<Longrightarrow> float_le x z"
  by (cases x; cases y; cases z) (auto simp: float_le_def)

lemma float_lt_le_trans: "float_lt x y \<Longrightarrow> float_le y z \<Longrightarrow> float_lt x z"
  by (cases x; cases y; cases z) (auto simp: float_le_def)

lemma float_not_lt_Fin: "\<not> float_lt (Fin x) (Fin y) \<longleftrightarrow> float_le (Fin y) (Fin x)"
  by (auto simp: not_less)

lemma float_sub_nonneg: "r \<le> t \<Longrightarrow> float_le (Fin 0) (float_sub (Fin t) (Fin r))"
  by (simp add: float_sub_def fl_nonneg)

lemma float_sub_self [simp]: "float_sub (Fin t) (Fin t) = Fin 0"
  by (simp add: float_sub_def)

lemma float_max_le_iff:
  "float_lt c (float_max a b) \<longleftrightarrow> (if float_lt a b then float_lt c b else float_lt c a)"
  by (simp add: float_max_def)

end
