(* ===== verification/Py_Str.thy ===== *)
theory Py_Str
  imports Venus_Prelude
begin

section \<open>Python strings\<close>

text \<open>
  The string operations the server uses: \<^verbatim>\<open>startswith\<close>, \<^verbatim>\<open>endswith\<close>, \<^verbatim>\<open>split\<close>, \<^verbatim>\<open>join\<close>,
  \<^verbatim>\<open>isdigit\<close>, \<^verbatim>\<open>isdecimal\<close>, \<^verbatim>\<open>strip\<close>, \<^verbatim>\<open>lower\<close>, \<^verbatim>\<open>str(int)\<close> and \<^verbatim>\<open>int(str)\<close>.  A
  \<^typ>\<open>char\<close> is a code point below 256, so a string is a Python string of Latin-1 code points;
  the character classes (white space, digits, letters, case) are Python's on that range.
\<close>

subsection \<open>Affixes, splitting and joining\<close>

definition startswith :: "string \<Rightarrow> string \<Rightarrow> bool" where
  "startswith s p \<longleftrightarrow> take (length p) s = p"

definition endswith :: "string \<Rightarrow> string \<Rightarrow> bool" where
  "endswith s p \<longleftrightarrow> startswith (rev s) (rev p)"

lemma startswith_iff: "startswith s p \<longleftrightarrow> (\<exists>t. s = p @ t)"
  unfolding startswith_def by (metis append_eq_conv_conj append_take_drop_id)

lemma endswith_iff: "endswith s p \<longleftrightarrow> (\<exists>t. s = t @ p)"
  unfolding endswith_def startswith_iff by (metis rev_append rev_rev_ident)

lemma startswith_append [simp]: "startswith (p @ s) p"
  by (simp add: startswith_iff)

lemma startswith_code [py_str_simps]:
  "startswith s [] = True"
  "startswith [] (c # p) = False"
  "startswith (d # s) (c # p) = (d = c \<and> startswith s p)"
  by (auto simp: startswith_def)

lemma startswith_hd_unique: "startswith s (c # p) \<Longrightarrow> startswith s (d # q) \<Longrightarrow> c = d"
  by (cases s) (auto simp: startswith_code)

lemma startswith_refl [simp]: "startswith s s"
  by (simp add: startswith_def)

fun split_on :: "char \<Rightarrow> string \<Rightarrow> string list" where
  "split_on c [] = [[]]"
| "split_on c (x # xs) =
     (if x = c then [] # split_on c xs
      else (case split_on c xs of [] \<Rightarrow> [[x]] | w # ws \<Rightarrow> (x # w) # ws))"

fun split_max :: "char \<Rightarrow> nat \<Rightarrow> string \<Rightarrow> string list" where
  "split_max c n [] = [[]]"
| "split_max c n (x # xs) =
     (if x = c \<and> 0 < n then [] # split_max c (n - 1) xs
      else (case split_max c n xs of [] \<Rightarrow> [[x]] | w # ws \<Rightarrow> (x # w) # ws))"

fun join :: "string \<Rightarrow> string list \<Rightarrow> string" where
  "join sep [] = []"
| "join sep [w] = w"
| "join sep (w # v # ws) = w @ sep @ join sep (v # ws)"

lemma split_on_nonempty [simp]: "split_on c s \<noteq> []"
  by (induction s) (auto split: list.splits)

lemma split_max_nonempty [simp]: "split_max c n s \<noteq> []"
  by (induction c n s rule: split_max.induct) (auto split: list.splits)

lemma join_Cons: "ws \<noteq> [] \<Longrightarrow> join sep (w # ws) = w @ sep @ join sep ws"
  by (cases ws) auto

lemma join_split_on: "join [c] (split_on c s) = s"
proof (induction s)
  case (Cons x s)
  show ?case
  proof (cases "split_on c s")
    case (Cons w ws)
    with \<open>join [c] (split_on c s) = s\<close> show ?thesis by (cases ws) auto
  qed simp
qed simp

lemma split_on_no_sep: "w \<in> set (split_on c s) \<Longrightarrow> c \<notin> set w"
  by (induction s arbitrary: w) (fastforce split: if_splits list.splits)+

lemma split_on_chars: "w \<in> set (split_on c s) \<Longrightarrow> set w \<subseteq> set s"
proof (induction s arbitrary: w)
  case (Cons x s)
  obtain v vs where v: "split_on c s = v # vs" by (cases "split_on c s") auto
  have "\<forall>u \<in> insert v (set vs). set u \<subseteq> set s" using Cons.IH v by simp
  with v Cons.prems show ?case by (auto split: if_splits)
qed simp

lemma split_on_word: "c \<notin> set w \<Longrightarrow> split_on c w = [w]"
  by (induction w) auto

lemma split_on_append_sep:
  "c \<notin> set w \<Longrightarrow> split_on c (w @ c # s) = w # split_on c s"
  by (induction w) auto

lemma split_on_join:
  "ws \<noteq> [] \<Longrightarrow> \<forall>w \<in> set ws. c \<notin> set w \<Longrightarrow> split_on c (join [c] ws) = ws"
proof (induction ws)
  case (Cons w ws)
  then show ?case
    by (cases ws) (auto simp: split_on_word split_on_append_sep)
qed simp

lemma split_max_append_sep:
  "c \<notin> set w \<Longrightarrow> 0 < n \<Longrightarrow> split_max c n (w @ c # s) = w # split_max c (n - 1) s"
  by (induction w) auto

lemma split_max_0 [simp]: "split_max c 0 s = [s]"
  by (induction s) auto

subsection \<open>Character classes\<close>

abbreviation code :: "char \<Rightarrow> nat" where
  "code c \<equiv> of_char c"

definition is_space :: "char \<Rightarrow> bool" where
  "is_space c \<longleftrightarrow> (let n = code c in (9 \<le> n \<and> n \<le> 13) \<or> (28 \<le> n \<and> n \<le> 32) \<or> n = 133 \<or> n = 160)"

definition is_decimal_char :: "char \<Rightarrow> bool" where
  "is_decimal_char c \<longleftrightarrow> 48 \<le> code c \<and> code c \<le> 57"

definition is_digit_char :: "char \<Rightarrow> bool" where
  "is_digit_char c \<longleftrightarrow> is_decimal_char c \<or> code c = 178 \<or> code c = 179 \<or> code c = 185"

definition is_word_char :: "char \<Rightarrow> bool" where
  "is_word_char c \<longleftrightarrow> (let n = code c in
     (48 \<le> n \<and> n \<le> 57) \<or> (65 \<le> n \<and> n \<le> 90) \<or> n = 95 \<or> (97 \<le> n \<and> n \<le> 122) \<or>
     n = 170 \<or> n = 178 \<or> n = 179 \<or> n = 181 \<or> n = 185 \<or> n = 186 \<or> (188 \<le> n \<and> n \<le> 190) \<or>
     (192 \<le> n \<and> n \<le> 214) \<or> (216 \<le> n \<and> n \<le> 246) \<or> 248 \<le> n)"

definition lower_char :: "char \<Rightarrow> char" where
  "lower_char c = (let n = code c in
     if (65 \<le> n \<and> n \<le> 90) \<or> (192 \<le> n \<and> n \<le> 222 \<and> n \<noteq> 215) then char_of (n + 32) else c)"

definition lower :: "string \<Rightarrow> string" where
  "lower s = map lower_char s"

definition isdigit :: "string \<Rightarrow> bool" where
  "isdigit s \<longleftrightarrow> s \<noteq> [] \<and> list_all is_digit_char s"

definition isdecimal :: "string \<Rightarrow> bool" where
  "isdecimal s \<longleftrightarrow> s \<noteq> [] \<and> list_all is_decimal_char s"

definition isascii :: "string \<Rightarrow> bool" where
  "isascii s \<longleftrightarrow> list_all (\<lambda>c. code c < 128) s"

definition strip :: "string \<Rightarrow> string" where
  "strip s = rev (dropWhile is_space (rev (dropWhile is_space s)))"

subsection \<open>Integers and their decimal text\<close>

definition digit_char :: "nat \<Rightarrow> char" where
  "digit_char d = char_of (48 + d)"

definition digit_val :: "char \<Rightarrow> nat" where
  "digit_val c = code c - 48"

fun str_of_nat :: "nat \<Rightarrow> string" where
  "str_of_nat n =
     (if n < 10 then [digit_char n] else str_of_nat (n div 10) @ [digit_char (n mod 10)])"

declare str_of_nat.simps [simp del]

definition str_of_int :: "int \<Rightarrow> string" where
  "str_of_int i = (if i < 0 then CHR ''-'' # str_of_nat (nat (- i)) else str_of_nat (nat i))"

text \<open>The digits of a decimal literal; single underscores may separate them.\<close>

fun dec_body :: "string \<Rightarrow> nat list option" where
  "dec_body [] = None"
| "dec_body [c] = (if is_decimal_char c then Some [digit_val c] else None)"
| "dec_body (c # d # cs) =
     (if is_decimal_char c
      then map_option ((#) (digit_val c)) (dec_body (if d = CHR ''_'' then cs else d # cs))
      else None)"

definition digits_val :: "nat list \<Rightarrow> nat" where
  "digits_val ds = foldl (\<lambda>a d. 10 * a + d) 0 ds"

definition max_str_digits :: nat where
  "max_str_digits = 4300"

text \<open>\<^verbatim>\<open>int(s)\<close>: \<open>None\<close> is the \<^verbatim>\<open>ValueError\<close>.\<close>

definition int_of_str :: "string \<Rightarrow> int option" where
  "int_of_str s =
     (let t = strip s;
          neg = (case t of c # _ \<Rightarrow> c = CHR ''-'' | [] \<Rightarrow> False);
          body = (case t of c # cs \<Rightarrow> if c = CHR ''-'' \<or> c = CHR ''+'' then cs else t | [] \<Rightarrow> [])
      in case dec_body body of
           None \<Rightarrow> None
         | Some ds \<Rightarrow>
             if max_str_digits < length ds then None
             else Some (if neg then - int (digits_val ds) else int (digits_val ds)))"

lemma code_digit_char: "d < 10 \<Longrightarrow> code (digit_char d) = 48 + d"
  by (simp add: digit_char_def)

lemma digit_char_facts:
  assumes "d < 10"
  shows "is_decimal_char (digit_char d)" and "digit_val (digit_char d) = d"
    and "\<not> is_space (digit_char d)" and "digit_char d \<noteq> CHR ''_''"
    and "digit_char d \<noteq> CHR ''-''" and "digit_char d \<noteq> CHR ''+''"
    and "digit_char d \<noteq> CHR ''/''" and "code (digit_char d) < 128"
proof -
  have c: "code (digit_char d) = 48 + d" using assms by (rule code_digit_char)
  show "is_decimal_char (digit_char d)" "digit_val (digit_char d) = d" "\<not> is_space (digit_char d)"
    "code (digit_char d) < 128"
    using assms by (simp_all add: is_decimal_char_def digit_val_def is_space_def c Let_def)
  have ne: "digit_char d \<noteq> x" if "code x < 48 \<or> 57 < code x" for x
    using that c assms by auto
  show "digit_char d \<noteq> CHR ''_''" "digit_char d \<noteq> CHR ''-''" "digit_char d \<noteq> CHR ''+''"
    "digit_char d \<noteq> CHR ''/''"
    by (rule ne, simp)+
qed

lemma str_of_nat_chars: "\<forall>c \<in> set (str_of_nat n). \<exists>d < 10. c = digit_char d"
proof (induction n rule: str_of_nat.induct)
  case (1 n)
  have "\<exists>d < 10. digit_char (n mod 10) = digit_char d"
    by (rule exI [of _ "n mod 10"]) simp
  with 1 show ?case
    by (subst str_of_nat.simps) auto
qed

lemma str_of_nat_nonempty [simp]: "str_of_nat n \<noteq> []"
  by (subst str_of_nat.simps) simp

lemma dec_body_append_digit:
  "dec_body s = Some ds \<Longrightarrow> is_decimal_char c \<Longrightarrow> c \<noteq> CHR ''_'' \<Longrightarrow>
   dec_body (s @ [c]) = Some (ds @ [digit_val c])"
  by (induction s arbitrary: ds rule: dec_body.induct) (auto split: if_splits)

lemma digits_val_append [simp]: "digits_val (ds @ [d]) = 10 * digits_val ds + d"
  by (simp add: digits_val_def)

lemma dec_body_str_of_nat:
  "\<exists>ds. dec_body (str_of_nat n) = Some ds \<and> digits_val ds = n \<and> length ds = length (str_of_nat n)"
proof (induction n rule: str_of_nat.induct)
  case (1 n)
  show ?case
  proof (cases "n < 10")
    case True
    then show ?thesis
      by (subst (1 2) str_of_nat.simps) (simp add: digit_char_facts digits_val_def)
  next
    case False
    with "1.IH" obtain ds where ds: "dec_body (str_of_nat (n div 10)) = Some ds"
      "digits_val ds = n div 10" "length ds = length (str_of_nat (n div 10))"
      by blast
    have "dec_body (str_of_nat (n div 10) @ [digit_char (n mod 10)]) = Some (ds @ [n mod 10])"
      using dec_body_append_digit [OF ds(1), of "digit_char (n mod 10)"]
      by (simp add: digit_char_facts)
    with False ds show ?thesis
      by (subst (1 2) str_of_nat.simps) simp
  qed
qed

lemma dropWhile_no_space: "\<forall>c \<in> set s. \<not> is_space c \<Longrightarrow> dropWhile is_space s = s"
  by (cases s) auto

lemma strip_id: "\<forall>c \<in> set s. \<not> is_space c \<Longrightarrow> strip s = s"
  by (simp add: strip_def dropWhile_no_space)

lemma str_of_int_no_space: "\<forall>c \<in> set (str_of_int i). \<not> is_space c"
proof -
  have "\<not> is_space (CHR ''-'')" by (simp add: is_space_def)
  moreover have "\<forall>c \<in> set (str_of_nat n). \<not> is_space c" for n
    using str_of_nat_chars [of n] by (auto simp: digit_char_facts)
  ultimately show ?thesis by (auto simp: str_of_int_def)
qed

lemma str_of_nat_hd_not_sign:
  assumes "str_of_nat n = c # cs"
  shows "c \<noteq> CHR ''-''" and "c \<noteq> CHR ''+''"
  using str_of_nat_chars [of n] assms by (auto simp: digit_char_facts)

text \<open>\<^verbatim>\<open>int(str(i)) == i\<close>, below the interpreter's digit limit.\<close>

lemma int_of_str_of_int:
  assumes "length (str_of_int i) \<le> max_str_digits"
  shows "int_of_str (str_of_int i) = Some i"
proof -
  obtain ds where ds: "dec_body (str_of_nat (nat \<bar>i\<bar>)) = Some ds" "digits_val ds = nat \<bar>i\<bar>"
    "length ds = length (str_of_nat (nat \<bar>i\<bar>))"
    using dec_body_str_of_nat by blast
  have strip: "strip (str_of_int i) = str_of_int i"
    by (rule strip_id) (rule str_of_int_no_space)
  show ?thesis
  proof (cases "i < 0")
    case True
    with ds assms show ?thesis
      by (simp add: int_of_str_def strip) (simp add: str_of_int_def)
  next
    case False
    obtain c cs where ccs: "str_of_nat (nat i) = c # cs"
      using str_of_nat_nonempty by (cases "str_of_nat (nat i)") auto
    note sign = str_of_nat_hd_not_sign [OF ccs]
    from False ds assms sign ccs show ?thesis
      by (simp add: int_of_str_def strip) (simp add: str_of_int_def)
  qed
qed

lemma str_of_int_inject:
  assumes "length (str_of_int i) \<le> max_str_digits" "str_of_int i = str_of_int j"
  shows "i = j"
  using int_of_str_of_int [of i] int_of_str_of_int [of j] assms by simp

lemma str_of_int_no_slash: "CHR ''/'' \<notin> set (str_of_int i)"
proof -
  have "CHR ''/'' \<notin> set (str_of_nat n)" for n
    using str_of_nat_chars [of n] digit_char_facts(7) by metis
  then show ?thesis by (simp add: str_of_int_def)
qed

lemma str_of_int_no_dot: "CHR ''.'' \<notin> set (str_of_int i)"
proof -
  have "digit_char d \<noteq> CHR ''.''" if "d < 10" for d
    using code_digit_char [OF that] by auto
  then have "CHR ''.'' \<notin> set (str_of_nat n)" for n
    using str_of_nat_chars [of n] by metis
  then show ?thesis by (simp add: str_of_int_def)
qed

lemma str_of_nat_inject:
  assumes "str_of_nat m = str_of_nat n"
  shows "m = n"
proof -
  obtain ds where "dec_body (str_of_nat m) = Some ds" "digits_val ds = m" using dec_body_str_of_nat [of m] by blast
  moreover obtain es where "dec_body (str_of_nat n) = Some es" "digits_val es = n" using dec_body_str_of_nat [of n] by blast
  ultimately show ?thesis using assms by simp
qed

lemma str_of_int_inj_nonneg: "0 \<le> i \<Longrightarrow> 0 \<le> j \<Longrightarrow> str_of_int i = str_of_int j \<Longrightarrow> i = j"
  by (auto simp: str_of_int_def dest: str_of_nat_inject)

subsection \<open>White space of bytes\<close>

text \<open>\<^verbatim>\<open>isspace\<close> of a byte, and \<^verbatim>\<open>split()\<close> and \<^verbatim>\<open>strip()\<close> of bytes.\<close>

definition byte_space :: "char \<Rightarrow> bool" where
  "byte_space c \<longleftrightarrow> (9 \<le> code c \<and> code c \<le> 13) \<or> code c = 32"

definition split_ws :: "string \<Rightarrow> string list" where
  "split_ws s = filter (\<lambda>w. w \<noteq> []) (split_on (CHR '' '') (map (\<lambda>c. if byte_space c then CHR '' '' else c) s))"

definition strip_bytes :: "string \<Rightarrow> string" where
  "strip_bytes s = rev (dropWhile byte_space (rev (dropWhile byte_space s)))"

end
