(* ===== verification/Py_Value.thy ===== *)
theory Py_Value
  imports Py_Float Py_Str
begin

section \<open>Python values\<close>

text \<open>
  The dynamically typed values that flow through the server: decoded MQTT payloads, tool
  arguments and the result dictionaries of the tools.  \<^verbatim>\<open>bool\<close> is kept apart from \<^verbatim>\<open>int\<close>, as
  the code's \<^verbatim>\<open>isinstance(x, bool)\<close> guards do.  Numbers of both kinds compare by exact
  value, so an integer compares with a float through the rational it denotes.
\<close>

datatype pyval =
    VNone
  | VBool bool
  | VInt int
  | VFloat pyfloat
  | VStr string
  | VList "pyval list"
  | VDict "(string \<times> pyval) list"

datatype pytype = TNone | TBool | TInt | TFloat | TStr | TList | TDict

fun type_of :: "pyval \<Rightarrow> pytype" where
  "type_of VNone = TNone"
| "type_of (VBool _) = TBool"
| "type_of (VInt _) = TInt"
| "type_of (VFloat _) = TFloat"
| "type_of (VStr _) = TStr"
| "type_of (VList _) = TList"
| "type_of (VDict _) = TDict"

subsection \<open>Numbers\<close>

text \<open>\<^verbatim>\<open>isinstance(v, (int, float))\<close>, which holds of a \<^verbatim>\<open>bool\<close> too, and the number compared.\<close>

fun num_val :: "pyval \<Rightarrow> pyfloat option" where
  "num_val (VBool b) = Some (Fin (if b then 1 else 0))"
| "num_val (VInt i) = Some (Fin (of_int i))"
| "num_val (VFloat f) = Some f"
| "num_val _ = None"

definition is_number :: "pyval \<Rightarrow> bool" where
  "is_number v \<longleftrightarrow> type_of v = TInt \<or> type_of v = TFloat"

lemma is_number_cases:
  assumes "is_number v"
  obtains (int) i where "v = VInt i" | (float) f where "v = VFloat f"
  using assms by (cases v) (auto simp: is_number_def)

text \<open>\<^verbatim>\<open>math.isfinite(v)\<close> converts to a double first: a huge integer raises.\<close>

fun math_isfinite :: "pyval \<Rightarrow> bool res" where
  "math_isfinite (VFloat f) = Inr (isfinite f)"
| "math_isfinite (VInt i) = (case float_of_int i of None \<Rightarrow> Inl OverflowError | Some _ \<Rightarrow> Inr True)"
| "math_isfinite (VBool _) = Inr True"
| "math_isfinite _ = Inl TypeError"

lemma math_isfinite_True_num:
  assumes "is_number v" "math_isfinite v = Inr True"
  shows "\<exists>x. num_val v = Some (Fin x)"
  using assms by (cases v) (auto simp: is_number_def isfinite_iff)

subsection \<open>\<^verbatim>\<open>float(v)\<close>\<close>

fun underscores_ok :: "bool \<Rightarrow> string \<Rightarrow> bool" where
  "underscores_ok after_digit [] = True"
| "underscores_ok after_digit (c # cs) =
     (if c = CHR ''_''
      then after_digit \<and> (case cs of d # _ \<Rightarrow> is_decimal_char d | [] \<Rightarrow> False) \<and> underscores_ok False cs
      else underscores_ok (is_decimal_char c) cs)"

definition plain_digits :: "string \<Rightarrow> nat option" where
  "plain_digits s =
     (if list_all is_decimal_char s then Some (digits_val (map digit_val s)) else None)"

definition pow10 :: "int \<Rightarrow> rat" where
  "pow10 e = (if 0 \<le> e then 10 ^ nat e else 1 / 10 ^ nat (- e))"

text \<open>An unsigned decimal literal: digits, an optional fraction, an optional exponent.\<close>

definition exponent_of_str :: "string \<Rightarrow> int option" where
  "exponent_of_str s =
     (case s of
        [] \<Rightarrow> Some 0
      | _ # e \<Rightarrow>
          (let neg = startswith e ''-'';
               ds = (if neg \<or> startswith e ''+'' then drop 1 e else e)
           in if ds = [] then None
              else map_option (\<lambda>n. if neg then - int n else int n) (plain_digits ds)))"

definition decimal_of_str :: "string \<Rightarrow> rat option" where
  "decimal_of_str s =
     (let mant = takeWhile (\<lambda>c. c \<noteq> CHR ''e'') s;
          whole = takeWhile (\<lambda>c. c \<noteq> CHR ''.'') mant;
          frac = drop 1 (dropWhile (\<lambda>c. c \<noteq> CHR ''.'') mant)
      in if whole @ frac = [] then None
         else case (plain_digits (whole @ frac), exponent_of_str (dropWhile (\<lambda>c. c \<noteq> CHR ''e'') s)) of
                (Some n, Some e) \<Rightarrow> Some (of_nat n * pow10 (e - int (length frac)))
              | _ \<Rightarrow> None)"

definition float_of_str :: "string \<Rightarrow> pyfloat option" where
  "float_of_str s =
     (let t = strip s in
      if \<not> underscores_ok False t then None
      else let u = lower (filter (\<lambda>c. c \<noteq> CHR ''_'') t);
               neg = startswith u ''-'';
               body = (if neg \<or> startswith u ''+'' then drop 1 u else u);
               sgn = (if neg then float_neg else id)
           in if body = ''inf'' \<or> body = ''infinity'' then Some (sgn PInf)
              else if body = ''nan'' then Some NaN
              else map_option (\<lambda>r. sgn (fl r)) (decimal_of_str body))"

fun py_float :: "pyval \<Rightarrow> pyfloat res" where
  "py_float (VFloat f) = Inr f"
| "py_float (VInt i) = (case float_of_int i of None \<Rightarrow> Inl OverflowError | Some f \<Rightarrow> Inr f)"
| "py_float (VBool b) = Inr (Fin (if b then 1 else 0))"
| "py_float (VStr s) = (case float_of_str s of None \<Rightarrow> Inl ValueError | Some f \<Rightarrow> Inr f)"
| "py_float _ = Inl TypeError"

lemma py_float_num:
  assumes "is_number v" "py_float v = Inr (Fin x)" "\<And>i. v = VInt i \<Longrightarrow> \<bar>i\<bar> \<le> 2 ^ 53"
  shows "num_val v = Some (Fin x)"
  using assms(1)
proof (cases rule: is_number_cases)
  case (int i)
  with assms(2,3) show ?thesis by (simp add: float_of_int_exact)
next
  case (float f)
  with assms(2) show ?thesis by simp
qed

subsection \<open>Truth and \<^verbatim>\<open>int(v)\<close>\<close>

fun truthy :: "pyval \<Rightarrow> bool" where
  "truthy VNone = False"
| "truthy (VBool b) = b"
| "truthy (VInt i) = (i \<noteq> 0)"
| "truthy (VFloat f) = (f \<noteq> Fin 0)"
| "truthy (VStr s) = (s \<noteq> [])"
| "truthy (VList xs) = (xs \<noteq> [])"
| "truthy (VDict kv) = (kv \<noteq> [])"

text \<open>A float is truncated towards zero; an infinity and NaN raise.\<close>

fun py_int :: "pyval \<Rightarrow> int res" where
  "py_int (VInt i) = Inr i"
| "py_int (VBool b) = Inr (if b then 1 else 0)"
| "py_int (VFloat (Fin x)) = Inr (if 0 \<le> x then \<lfloor>x\<rfloor> else - \<lfloor>- x\<rfloor>)"
| "py_int (VFloat NaN) = Inl ValueError"
| "py_int (VFloat _) = Inl OverflowError"
| "py_int (VStr s) = (case int_of_str s of None \<Rightarrow> Inl ValueError | Some i \<Rightarrow> Inr i)"
| "py_int _ = Inl TypeError"

end
