(* ===== verification/Py_Regex.thy ===== *)
theory Py_Regex
  imports Py_Str
begin

section \<open>The regular expressions of the standard library\<close>

text \<open>
  The fragment of Python's \<^verbatim>\<open>re\<close> that the server's patterns use, as abstract syntax: classes,
  \<^verbatim>\<open>.\<close>, \<^verbatim>\<open>\b\<close>, \<^verbatim>\<open>^\<close>, \<^verbatim>\<open>$\<close>, concatenation, alternation and repetition, with or without
  \<^verbatim>\<open>IGNORECASE\<close>.  The code only asks whether a match exists, so the meaning of an
  expression on a subject string is the relation \<open>rmatch\<close> between start and end positions;
  \<open>ends\<close> computes the end positions, and \<open>search\<close> and \<open>fullmatch\<close> are
  \<^verbatim>\<open>re.search\<close> and \<^verbatim>\<open>re.fullmatch\<close>.
\<close>

datatype citem = CChar char | CRange char char | CSpace | CDigit | CWord

datatype re =
    Eps
  | Cls "citem list"
  | Dot
  | WordB
  | Bol
  | Eol
  | Seq re re
  | Alt re re
  | Star re

definition Plus :: "re \<Rightarrow> re" where
  "Plus r = Seq r (Star r)"

definition Opt :: "re \<Rightarrow> re" where
  "Opt r = Alt r Eps"

definition Chr :: "char \<Rightarrow> re" where
  "Chr c = Cls [CChar c]"

fun Lit :: "string \<Rightarrow> re" where
  "Lit [] = Eps"
| "Lit (c # cs) = Seq (Chr c) (Lit cs)"

fun Rep :: "nat \<Rightarrow> re \<Rightarrow> re" where
  "Rep 0 r = Eps"
| "Rep (Suc n) r = Seq r (Rep n r)"

fun RepUpTo :: "nat \<Rightarrow> re \<Rightarrow> re" where
  "RepUpTo 0 r = Eps"
| "RepUpTo (Suc n) r = Opt (Seq r (RepUpTo n r))"

subsection \<open>One character, one position\<close>

text \<open>Under \<^verbatim>\<open>IGNORECASE\<close> a character matches an item if it or its other case does.\<close>

definition swap_char :: "char \<Rightarrow> char" where
  "swap_char c = (let n = code c in
     if (65 \<le> n \<and> n \<le> 90) \<or> (192 \<le> n \<and> n \<le> 222 \<and> n \<noteq> 215) then char_of (n + 32)
     else if (97 \<le> n \<and> n \<le> 122) \<or> (224 \<le> n \<and> n \<le> 254 \<and> n \<noteq> 247) then char_of (n - 32)
     else c)"

fun item_has :: "char \<Rightarrow> citem \<Rightarrow> bool" where
  "item_has c (CChar d) = (c = d)"
| "item_has c (CRange a b) = (code a \<le> code c \<and> code c \<le> code b)"
| "item_has c CSpace = is_space c"
| "item_has c CDigit = is_decimal_char c"
| "item_has c CWord = is_word_char c"

definition class_has :: "bool \<Rightarrow> citem list \<Rightarrow> char \<Rightarrow> bool" where
  "class_has ic items c \<longleftrightarrow> list_ex (item_has c) items \<or> (ic \<and> list_ex (item_has (swap_char c)) items)"

definition word_at :: "string \<Rightarrow> nat \<Rightarrow> bool" where
  "word_at s i \<longleftrightarrow> i < length s \<and> is_word_char (s ! i)"

definition word_boundary :: "string \<Rightarrow> nat \<Rightarrow> bool" where
  "word_boundary s i \<longleftrightarrow> (0 < i \<and> word_at s (i - 1)) \<noteq> word_at s i"

definition end_of_line :: "string \<Rightarrow> nat \<Rightarrow> bool" where
  "end_of_line s i \<longleftrightarrow> i = length s \<or> (Suc i = length s \<and> s ! i = CHR 0x0A)"

subsection \<open>The match relation\<close>

inductive rmatch :: "bool \<Rightarrow> string \<Rightarrow> re \<Rightarrow> nat \<Rightarrow> nat \<Rightarrow> bool" for ic s where
  eps: "rmatch ic s Eps i i"
| cls: "i < length s \<Longrightarrow> class_has ic items (s ! i) \<Longrightarrow> rmatch ic s (Cls items) i (Suc i)"
| dot: "i < length s \<Longrightarrow> s ! i \<noteq> CHR 0x0A \<Longrightarrow> rmatch ic s Dot i (Suc i)"
| wordb: "word_boundary s i \<Longrightarrow> rmatch ic s WordB i i"
| bol: "rmatch ic s Bol 0 0"
| eol: "end_of_line s i \<Longrightarrow> rmatch ic s Eol i i"
| seq: "rmatch ic s r i k \<Longrightarrow> rmatch ic s q k j \<Longrightarrow> rmatch ic s (Seq r q) i j"
| altl: "rmatch ic s r i j \<Longrightarrow> rmatch ic s (Alt r q) i j"
| altr: "rmatch ic s q i j \<Longrightarrow> rmatch ic s (Alt r q) i j"
| star0: "rmatch ic s (Star r) i i"
| star1: "rmatch ic s r i k \<Longrightarrow> rmatch ic s (Star r) k j \<Longrightarrow> rmatch ic s (Star r) i j"

inductive_cases rmatch_StarE: "rmatch ic s (Star r) i j"

inductive_simps rmatch_simps:
  "rmatch ic s Eps i j"
  "rmatch ic s (Cls items) i j"
  "rmatch ic s Dot i j"
  "rmatch ic s WordB i j"
  "rmatch ic s Bol i j"
  "rmatch ic s Eol i j"
  "rmatch ic s (Seq r q) i j"
  "rmatch ic s (Alt r q) i j"

lemma rmatch_bounds: "rmatch ic s r i j \<Longrightarrow> i \<le> length s \<Longrightarrow> i \<le> j \<and> j \<le> length s"
  by (induction rule: rmatch.induct) auto

lemma rmatch_Star_iff: "rmatch ic s (Star r) i j \<longleftrightarrow> (rmatch ic s r)\<^sup>*\<^sup>* i j"
proof
  assume "rmatch ic s (Star r) i j"
  then show "(rmatch ic s r)\<^sup>*\<^sup>* i j"
    by (induction "Star r" i j rule: rmatch.induct) (auto intro: converse_rtranclp_into_rtranclp)
next
  assume "(rmatch ic s r)\<^sup>*\<^sup>* i j"
  then show "rmatch ic s (Star r) i j"
    by (induction rule: converse_rtranclp_induct) (auto intro: rmatch.intros)
qed

subsection \<open>The executable matcher\<close>

text \<open>
  \<open>star_ends step n seen todo\<close> closes a set of positions under \<open>step\<close>.  Every round but the
  last adds a position, and positions are at most \<open>length s\<close>, so \<open>length s + 1\<close> rounds are
  enough: see \<open>ends_iff\<close>, which needs no hypothesis on the number of rounds.
\<close>

fun star_ends :: "(nat \<Rightarrow> nat list) \<Rightarrow> nat \<Rightarrow> nat list \<Rightarrow> nat list" where
  "star_ends step 0 ps = ps"
| "star_ends step (Suc n) ps =
     (let new = filter (\<lambda>j. j \<notin> set ps) (remdups (concat (map step ps)))
      in if new = [] then ps else star_ends step n (ps @ new))"

primrec ends :: "bool \<Rightarrow> string \<Rightarrow> re \<Rightarrow> nat \<Rightarrow> nat list" where
  "ends ic s Eps i = [i]"
| "ends ic s (Cls items) i = (if i < length s \<and> class_has ic items (s ! i) then [Suc i] else [])"
| "ends ic s Dot i = (if i < length s \<and> s ! i \<noteq> CHR 0x0A then [Suc i] else [])"
| "ends ic s WordB i = (if word_boundary s i then [i] else [])"
| "ends ic s Bol i = (if i = 0 then [0] else [])"
| "ends ic s Eol i = (if end_of_line s i then [i] else [])"
| "ends ic s (Seq r q) i = concat (map (ends ic s q) (ends ic s r i))"
| "ends ic s (Alt r q) i = ends ic s r i @ ends ic s q i"
| "ends ic s (Star r) i = star_ends (ends ic s r) (Suc (length s)) [i]"

definition search :: "bool \<Rightarrow> re \<Rightarrow> string \<Rightarrow> bool" where
  "search ic r s \<longleftrightarrow> list_ex (\<lambda>i. ends ic s r i \<noteq> []) [0..<Suc (length s)]"

definition fullmatch :: "re \<Rightarrow> string \<Rightarrow> bool" where
  "fullmatch r s \<longleftrightarrow> length s \<in> set (ends False s r 0)"

subsection \<open>The matcher computes the relation\<close>

lemma star_ends_sound:
  "j \<in> set (star_ends step n ps) \<Longrightarrow> \<exists>i \<in> set ps. (\<lambda>a b. b \<in> set (step a))\<^sup>*\<^sup>* i j"
proof (induction n arbitrary: ps)
  case (Suc n)
  define new where "new = filter (\<lambda>j. j \<notin> set ps) (remdups (concat (map step ps)))"
  show ?case
  proof (cases "new = []")
    case True
    with Suc.prems show ?thesis by (auto simp: new_def)
  next
    case False
    with Suc.prems have "j \<in> set (star_ends step n (ps @ new))"
      by (simp add: new_def Let_def)
    then obtain i where i: "i \<in> set (ps @ new)" "(\<lambda>a b. b \<in> set (step a))\<^sup>*\<^sup>* i j"
      using Suc.IH by blast
    show ?thesis
    proof (cases "i \<in> set ps")
      case False
      with i obtain p where "p \<in> set ps" "i \<in> set (step p)" by (auto simp: new_def)
      with i(2) show ?thesis by (auto intro: converse_rtranclp_into_rtranclp)
    qed (use i in auto)
  qed
qed auto

lemma star_ends_closed:
  assumes "distinct ps" "set ps \<subseteq> {..N}" "\<And>p. p \<le> N \<Longrightarrow> set (step p) \<subseteq> {..N}"
    and "N + 1 \<le> n + length ps"
  shows "set ps \<subseteq> set (star_ends step n ps) \<and>
    (\<forall>p \<in> set (star_ends step n ps). set (step p) \<subseteq> set (star_ends step n ps))"
  using assms(1,2,4)
proof (induction n arbitrary: ps)
  case 0
  have "card (set ps) = length ps" using 0 by (simp add: distinct_card)
  moreover have "card {..N} = N + 1" by simp
  ultimately have "set ps = {..N}"
    using 0 by (intro card_subset_eq) (auto dest: card_mono [rotated])
  with assms(3) show ?case by auto
next
  case (Suc n)
  define new where "new = filter (\<lambda>j. j \<notin> set ps) (remdups (concat (map step ps)))"
  show ?case
  proof (cases "new = []")
    case True
    then have "star_ends step (Suc n) ps = ps" by (simp add: new_def)
    moreover have "\<forall>p \<in> set ps. set (step p) \<subseteq> set ps"
      using True by (auto simp: new_def filter_empty_conv)
    ultimately show ?thesis by simp
  next
    case False
    have sub: "set new \<subseteq> {..N}" using Suc.prems assms(3) by (auto simp: new_def)
    have "set (ps @ new) \<subseteq> set (star_ends step n (ps @ new)) \<and>
      (\<forall>p \<in> set (star_ends step n (ps @ new)). set (step p) \<subseteq> set (star_ends step n (ps @ new)))"
    proof (rule Suc.IH)
      show "distinct (ps @ new)" using Suc.prems by (auto simp: new_def)
      show "set (ps @ new) \<subseteq> {..N}" using Suc.prems sub by auto
      have "1 \<le> length new" using False by (cases new) auto
      with Suc.prems show "N + 1 \<le> n + length (ps @ new)" by simp
    qed
    moreover have "star_ends step (Suc n) ps = star_ends step n (ps @ new)"
      using False by (simp add: new_def Let_def)
    ultimately show ?thesis by auto
  qed
qed

lemma star_ends_iff:
  assumes "i \<le> N" "\<And>p. p \<le> N \<Longrightarrow> set (step p) \<subseteq> {..N}"
  shows "j \<in> set (star_ends step (Suc N) [i]) \<longleftrightarrow> (\<lambda>a b. b \<in> set (step a))\<^sup>*\<^sup>* i j"
proof
  assume "j \<in> set (star_ends step (Suc N) [i])"
  then have "\<exists>i' \<in> set [i]. (\<lambda>a b. b \<in> set (step a))\<^sup>*\<^sup>* i' j" by (rule star_ends_sound)
  then show "(\<lambda>a b. b \<in> set (step a))\<^sup>*\<^sup>* i j" by simp
next
  let ?E = "set (star_ends step (Suc N) [i])"
  have cl: "i \<in> ?E" "\<And>p. p \<in> ?E \<Longrightarrow> set (step p) \<subseteq> ?E"
    using star_ends_closed [of "[i]" N step "Suc N"] assms by auto
  assume "(\<lambda>a b. b \<in> set (step a))\<^sup>*\<^sup>* i j"
  then show "j \<in> ?E" by (induction rule: rtranclp_induct) (use cl in auto)
qed

lemma rtranclp_cong_below:
  assumes "i \<le> N" "\<And>a b. a \<le> N \<Longrightarrow> R a b \<longleftrightarrow> S a b" "\<And>a b. a \<le> N \<Longrightarrow> R a b \<Longrightarrow> b \<le> N"
  shows "R\<^sup>*\<^sup>* i j \<longleftrightarrow> S\<^sup>*\<^sup>* i (j::nat)"
proof
  have "j \<le> N \<and> S\<^sup>*\<^sup>* i j" if "R\<^sup>*\<^sup>* i j"
    using that by (induction rule: rtranclp_induct) (use assms in \<open>auto intro: rtranclp.rtrancl_into_rtrancl\<close>)
  then show "R\<^sup>*\<^sup>* i j \<Longrightarrow> S\<^sup>*\<^sup>* i j" by blast
  have "j \<le> N \<and> R\<^sup>*\<^sup>* i j" if "S\<^sup>*\<^sup>* i j"
    using that by (induction rule: rtranclp_induct) (use assms in \<open>auto intro: rtranclp.rtrancl_into_rtrancl\<close>)
  then show "S\<^sup>*\<^sup>* i j \<Longrightarrow> R\<^sup>*\<^sup>* i j" by blast
qed

lemma ends_iff: "i \<le> length s \<Longrightarrow> j \<in> set (ends ic s r i) \<longleftrightarrow> rmatch ic s r i j"
proof (induction r arbitrary: i j)
  case (Seq r q)
  have "rmatch ic s r i k \<Longrightarrow> k \<le> length s" for k
    using rmatch_bounds Seq.prems by blast
  with Seq show ?case by (fastforce simp: rmatch_simps)
next
  case (Star r)
  have below: "set (ends ic s r p) \<subseteq> {..length s}" if "p \<le> length s" for p
    using that Star.IH rmatch_bounds by blast
  have "j \<in> set (ends ic s (Star r) i) \<longleftrightarrow> (\<lambda>a b. b \<in> set (ends ic s r a))\<^sup>*\<^sup>* i j"
    using star_ends_iff [of i "length s" "ends ic s r" j] Star.prems below by simp
  also have "\<dots> \<longleftrightarrow> (rmatch ic s r)\<^sup>*\<^sup>* i j"
    by (rule rtranclp_cong_below [of i "length s"]) (use Star.prems Star.IH below in auto)
  finally show ?case by (simp add: rmatch_Star_iff)
qed (auto simp: rmatch_simps)

lemma search_iff: "search ic r s \<longleftrightarrow> (\<exists>i j. i \<le> length s \<and> rmatch ic s r i j)"
proof -
  have "search ic r s \<longleftrightarrow> (\<exists>i \<le> length s. ends ic s r i \<noteq> [])"
    by (simp only: search_def list_ex_iff set_upt) (auto simp: less_Suc_eq_le)
  also have "\<dots> \<longleftrightarrow> (\<exists>i \<le> length s. \<exists>j. j \<in> set (ends ic s r i))"
    by (metis ex_in_conv set_empty)
  also have "\<dots> \<longleftrightarrow> (\<exists>i j. i \<le> length s \<and> rmatch ic s r i j)"
    using ends_iff by blast
  finally show ?thesis .
qed

lemma fullmatch_iff: "fullmatch r s \<longleftrightarrow> rmatch False s r 0 (length s)"
  by (simp add: fullmatch_def ends_iff)

subsection \<open>Runs of one character class\<close>

definition class_run :: "bool \<Rightarrow> citem list \<Rightarrow> string \<Rightarrow> nat \<Rightarrow> nat \<Rightarrow> bool" where
  "class_run ic items s i j \<longleftrightarrow> i \<le> j \<and> j \<le> length s \<and> (\<forall>p \<in> {i..<j}. class_has ic items (s ! p))"

lemma class_run_refl [simp]: "i \<le> length s \<Longrightarrow> class_run ic items s i i"
  by (simp add: class_run_def)

lemma class_run_step:
  "i < j \<Longrightarrow> class_run ic items s i j \<longleftrightarrow>
     i < length s \<and> class_has ic items (s ! i) \<and> class_run ic items s (Suc i) j"
proof -
  assume "i < j"
  then have "{i..<j} = insert i {Suc i..<j}" by auto
  with \<open>i < j\<close> show ?thesis unfolding class_run_def by auto
qed

lemma rmatch_Star_Cls:
  assumes "i \<le> length s"
  shows "rmatch ic s (Star (Cls items)) i j \<longleftrightarrow> class_run ic items s i j"
proof
  assume "rmatch ic s (Star (Cls items)) i j"
  then show "class_run ic items s i j"
    unfolding rmatch_Star_iff using assms
  proof (induction rule: converse_rtranclp_induct)
    case (step i k)
    then have k: "k = Suc i" "i < length s" "class_has ic items (s ! i)" by (auto simp: rmatch_simps)
    with step have "class_run ic items s (Suc i) j" by simp
    then show ?case using k class_run_step [of i j ic items s] by (simp add: class_run_def)
  qed simp
next
  assume "class_run ic items s i j"
  then show "rmatch ic s (Star (Cls items)) i j"
  proof (induction "j - i" arbitrary: i)
    case 0
    then have "i = j" by (simp add: class_run_def)
    then show ?case by (simp add: star0)
  next
    case (Suc n)
    then have "i < j" by simp
    with Suc.prems have s: "i < length s" "class_has ic items (s ! i)" "class_run ic items s (Suc i) j"
      using class_run_step [of i j ic items s] by simp_all
    have "rmatch ic s (Star (Cls items)) (Suc i) j"
      using Suc.hyps s(3) by simp
    with cls [OF s(1,2)] show ?case by (rule star1)
  qed
qed

lemma rmatch_Rep_Cls:
  "i \<le> length s \<Longrightarrow> rmatch ic s (Rep n (Cls items)) i j \<longleftrightarrow> j = i + n \<and> class_run ic items s i j"
proof (induction n arbitrary: i)
  case (Suc n)
  then show ?case
    using class_run_step [of i j ic items s]
    by (auto simp: rmatch_simps class_run_def)
qed (auto simp: rmatch_simps)

lemma rmatch_RepUpTo_Cls:
  "i \<le> length s \<Longrightarrow> rmatch ic s (RepUpTo n (Cls items)) i j \<longleftrightarrow> j \<le> i + n \<and> class_run ic items s i j"
proof (induction n arbitrary: i)
  case 0
  then show ?case by (auto simp: rmatch_simps class_run_def)
next
  case (Suc n)
  show ?case
  proof (cases "i < j")
    case True
    then show ?thesis using Suc class_run_step [of i j ic items s]
      by (auto simp: rmatch_simps Opt_def)
  next
    case False
    then show ?thesis using Suc
      by (auto simp: rmatch_simps Opt_def class_run_def)
  qed
qed

lemma class_run_whole: "class_run ic items s 0 (length s) \<longleftrightarrow> list_all (class_has ic items) s"
  by (auto simp: class_run_def list_all_length)

lemma class_run_tl: "class_run ic items (c # s) (Suc 0) (Suc (length s)) \<longleftrightarrow> list_all (class_has ic items) s"
  by (auto simp: class_run_def list_all_length nth_Cons' dest!: bspec [where x = "Suc _"])

lemma fullmatch_Rep_Cls: "fullmatch (Rep n (Cls items)) s \<longleftrightarrow> length s = n \<and> list_all (class_has False items) s"
  by (auto simp: fullmatch_iff rmatch_Rep_Cls class_run_whole)

lemma rmatch_Seq_Cls:
  "rmatch ic s (Seq (Cls items) q) i j \<longleftrightarrow>
     i < length s \<and> class_has ic items (s ! i) \<and> rmatch ic s q (Suc i) j"
  by (auto simp: rmatch_simps)

lemma fullmatch_head_tail:
  "fullmatch (Seq (Cls a) (Star (Cls b))) s \<longleftrightarrow>
     (case s of [] \<Rightarrow> False | c # cs \<Rightarrow> class_has False a c \<and> list_all (class_has False b) cs)"
  "fullmatch (Seq (Cls a) (RepUpTo n (Cls b))) s \<longleftrightarrow>
     (case s of [] \<Rightarrow> False | c # cs \<Rightarrow> class_has False a c \<and> length cs \<le> n \<and> list_all (class_has False b) cs)"
  by (cases s; auto simp: fullmatch_iff rmatch_Seq_Cls rmatch_Star_Cls rmatch_RepUpTo_Cls class_run_tl)+

lemma fullmatch_Plus_Cls:
  "fullmatch (Plus (Cls items)) s \<longleftrightarrow> s \<noteq> [] \<and> list_all (class_has False items) s"
  unfolding Plus_def fullmatch_head_tail by (cases s) auto

lemma rmatch_Plus_Cls:
  assumes "i \<le> length s"
  shows "rmatch ic s (Plus (Cls items)) i j \<longleftrightarrow> i < j \<and> class_run ic items s i j"
proof (cases "i < j")
  case True
  with assms show ?thesis by (auto simp: Plus_def rmatch_Seq_Cls rmatch_Star_Cls class_run_step)
next
  case False
  with assms show ?thesis by (auto simp: Plus_def rmatch_Seq_Cls rmatch_Star_Cls class_run_def)
qed

lemma class_run_slice:
  "class_run ic items s i j \<longleftrightarrow> i \<le> j \<and> j \<le> length s \<and> list_all (class_has ic items) (take (j - i) (drop i s))"
proof (cases "i \<le> j \<and> j \<le> length s")
  case True
  then have "(\<forall>p \<in> {i..<j}. class_has ic items (s ! p)) \<longleftrightarrow> (\<forall>k < j - i. class_has ic items (s ! (i + k)))"
    by (metis add_diff_inverse_nat atLeastLessThan_iff diff_less_mono less_diff_conv add.commute le_add1 not_less)
  with True show ?thesis by (auto simp: class_run_def list_all_length)
qed (auto simp: class_run_def)

text \<open>The characters an expression can consume.\<close>

fun re_chars :: "bool \<Rightarrow> re \<Rightarrow> char \<Rightarrow> bool" where
  "re_chars ic (Cls items) c = class_has ic items c"
| "re_chars ic Dot c = True"
| "re_chars ic (Seq r q) c = (re_chars ic r c \<or> re_chars ic q c)"
| "re_chars ic (Alt r q) c = (re_chars ic r c \<or> re_chars ic q c)"
| "re_chars ic (Star r) c = re_chars ic r c"
| "re_chars ic _ c = False"

lemma rmatch_chars: "rmatch ic s r i j \<Longrightarrow> i \<le> p \<and> p < j \<Longrightarrow> re_chars ic r (s ! p)"
proof (induction arbitrary: p rule: rmatch.induct)
  case (seq r i k q j)
  then show ?case by (cases "p < k") auto
next
  case (star1 r i k j)
  then show ?case by (cases "p < k") auto
qed (auto simp: less_Suc_eq)

lemma fullmatch_chars: "fullmatch r s \<Longrightarrow> list_all (re_chars False r) s"
  using rmatch_chars [of False s r 0 "length s"] by (simp add: fullmatch_iff list_all_length)

subsection \<open>Literals\<close>

text \<open>A literal matches at the positions where the subject spells it.\<close>

lemma class_has_self: "class_has ic [CChar c] c"
  by (simp add: class_has_def)

lemma rmatch_Lit:
  assumes "s = pre @ w @ post"
  shows "rmatch ic s (Lit w) (length pre) (length pre + length w)"
  using assms
proof (induction w arbitrary: pre)
  case Nil
  then show ?case by (simp add: rmatch.eps)
next
  case (Cons c w)
  have "rmatch ic s (Lit w) (length (pre @ [c])) (length (pre @ [c]) + length w)"
    using Cons.prems by (intro Cons.IH) simp
  moreover have "rmatch ic s (Chr c) (length pre) (Suc (length pre))"
    unfolding Chr_def using Cons.prems by (intro rmatch.cls) (simp_all add: class_has_self)
  ultimately show ?case by (auto intro: rmatch.seq)
qed

lemma rmatch_Lit_slice:
  "rmatch False s (Lit w) i j \<Longrightarrow> j = i + length w \<and> take (length w) (drop i s) = w"
proof (induction w arbitrary: i)
  case Nil
  then show ?case by (simp add: rmatch_simps)
next
  case (Cons c w)
  then have c: "i < length s" "s ! i = c" and "rmatch False s (Lit w) (Suc i) j"
    by (auto simp: rmatch_simps Chr_def class_has_def)
  from Cons.IH [OF this(3)] c show ?case by (simp flip: Cons_nth_drop_Suc)
qed

lemma fullmatch_Lit: "fullmatch (Lit w) s \<longleftrightarrow> s = w"
proof
  assume "fullmatch (Lit w) s"
  then have "rmatch False s (Lit w) 0 (length s)" by (simp add: fullmatch_iff)
  then show "s = w" using rmatch_Lit_slice [of s w 0 "length s"] by (metis drop0 add_0 take_all order_refl)
next
  assume "s = w"
  then show "fullmatch (Lit w) s" using rmatch_Lit [of s "[]" w "[]" False] by (simp add: fullmatch_iff)
qed

lemma fullmatch_Alt: "fullmatch (Alt r q) s \<longleftrightarrow> fullmatch r s \<or> fullmatch q s"
  by (auto simp: fullmatch_iff rmatch_simps)

lemma fullmatch_Lit_Seq:
  "fullmatch (Seq (Lit w) r) s \<Longrightarrow> \<exists>t. s = w @ t"
proof -
  assume "fullmatch (Seq (Lit w) r) s"
  then obtain k where "rmatch False s (Lit w) 0 k" by (auto simp: fullmatch_iff rmatch_simps)
  then show "\<exists>t. s = w @ t" using rmatch_Lit_slice [of s w 0 k] by (metis append_take_drop_id drop0)
qed

end
