(* ===== verification/Hardware_Contracts.thy ===== *)
theory Hardware_Contracts
  imports Py_Value Py_Regex
begin

section \<open>Reviewed hardware write contracts\<close>

text \<open>
  Model of \<^verbatim>\<open>src/mcp_venus_os/hardware_contracts.py\<close>: the contract and its identity probes,
  the constraints a contract is checked against when the configuration is loaded, and the
  gate that every MQTT control write passes.  The pydantic field constraints (patterns are
  anchored at both ends, so they are full matches) are the predicates \<open>probe_fields_ok\<close>
  and \<open>contract_fields_ok\<close>; the reasons the gate gives are the constructors of \<open>hw_problem\<close>.
\<close>

subsection \<open>Data\<close>

datatype role = Venus_firmware | Target_product | Target_firmware | Bms_product | Bms_firmware

fun role_name :: "role \<Rightarrow> string" where
  "role_name Venus_firmware = ''venus_firmware''"
| "role_name Target_product = ''target_product''"
| "role_name Target_firmware = ''target_firmware''"
| "role_name Bms_product = ''bms_product''"
| "role_name Bms_firmware = ''bms_firmware''"

record identity_probe =
  probe_role :: role
  probe_device_type :: string
  probe_instance :: int
  probe_path :: string
  expected :: pyval

record hardware_write_contract =
  contract_id :: string
  contract_portal_id :: string
  contract_device_type :: string
  contract_instance :: int
  contract_path :: string
  identity :: "identity_probe list"
  reviewed_by :: string
  evidence_sha256 :: string
  semantics :: string
  mode_codes :: "(string, int) dict"
  unit_name :: string
  minimum :: "pyval option"
  maximum :: "pyval option"

text \<open>\<^verbatim>\<open>_finite\<close>: an integer beyond the range of a double is not finite.\<close>

definition finite_number :: "pyval \<Rightarrow> bool" where
  "finite_number v = (case math_isfinite v of Inr b \<Rightarrow> b | Inl _ \<Rightarrow> False)"

text \<open>\<^verbatim>\<open>x <= y\<close> on numbers.\<close>

definition num_le :: "pyval \<Rightarrow> pyval \<Rightarrow> bool" where
  "num_le v w = (case (num_val v, num_val w) of (Some x, Some y) \<Rightarrow> float_le x y | _ \<Rightarrow> False)"

subsection \<open>Loading a contract\<close>

definition low_alnum :: "citem list" where
  "low_alnum = [CRange (CHR ''a'') (CHR ''z''), CRange (CHR ''0'') (CHR ''9''), CChar (CHR ''_'')]"

definition alnum :: "citem list" where
  "alnum = [CRange (CHR ''A'') (CHR ''Z''), CRange (CHR ''a'') (CHR ''z''), CRange (CHR ''0'') (CHR ''9'')]"

definition device_type_pattern :: re where
  "device_type_pattern = Seq (Cls [CRange (CHR ''a'') (CHR ''z'')]) (Star (Cls low_alnum))"

definition item_path_pattern :: re where
  "item_path_pattern =
     Seq (Plus (Cls (CChar (CHR ''_'') # alnum)))
       (Star (Seq (Chr (CHR ''/'')) (Plus (Cls (CChar (CHR ''_'') # alnum)))))"

definition contract_id_pattern :: re where
  "contract_id_pattern =
     Seq (Cls alnum) (RepUpTo 79 (Cls (CChar (CHR ''_'') # CChar (CHR ''.'') # CChar (CHR ''-'') # alnum)))"

definition portal_id_pattern :: re where
  "portal_id_pattern = Plus (Cls (CChar (CHR ''_'') # CChar (CHR ''-'') # alnum))"

definition sha256_pattern :: re where
  "sha256_pattern = Rep 64 (Cls [CRange (CHR ''0'') (CHR ''9''), CRange (CHR ''a'') (CHR ''f'')])"

definition probe_fields_ok :: "identity_probe \<Rightarrow> bool" where
  "probe_fields_ok p \<longleftrightarrow>
     fullmatch device_type_pattern (probe_device_type p) \<and>
     0 \<le> probe_instance p \<and>
     fullmatch item_path_pattern (probe_path p) \<and>
     (type_of (expected p) = TStr \<or> type_of (expected p) = TInt)"

definition number_field_ok :: "pyval option \<Rightarrow> bool" where
  "number_field_ok n = (case n of None \<Rightarrow> True | Some v \<Rightarrow> is_number v)"

definition contract_fields_ok :: "hardware_write_contract \<Rightarrow> bool" where
  "contract_fields_ok c \<longleftrightarrow>
     fullmatch contract_id_pattern (contract_id c) \<and>
     fullmatch portal_id_pattern (contract_portal_id c) \<and>
     contract_device_type c \<in> {''vebus'', ''battery''} \<and>
     0 \<le> contract_instance c \<and>
     contract_path c \<in> {''Mode'', ''Dc/0/MaxChargeCurrent'', ''SocLimit''} \<and>
     length (identity c) = 5 \<and> list_all probe_fields_ok (identity c) \<and>
     1 \<le> length (reviewed_by c) \<and>
     fullmatch sha256_pattern (evidence_sha256 c) \<and>
     20 \<le> length (semantics c) \<and>
     unit_name c \<in> {''mode'', ''ampere'', ''percent''} \<and>
     number_field_ok (minimum c) \<and> number_field_ok (maximum c)"

definition expected_roles :: "role set" where
  "expected_roles = {Venus_firmware, Target_product, Target_firmware, Bms_product, Bms_firmware}"

definition bounds_ok :: "hardware_write_contract \<Rightarrow> bool" where
  "bounds_ok c =
     (case (minimum c, maximum c) of
        (Some lo, Some hi) \<Rightarrow>
          finite_number lo \<and> finite_number hi \<and> num_le (VInt 0) lo \<and> num_le lo hi \<and>
          (unit_name c \<noteq> ''percent'' \<or> num_le hi (VInt 100))
      | _ \<Rightarrow> False)"

definition scope_valid :: "hardware_write_contract \<Rightarrow> bool" where
  "scope_valid c \<longleftrightarrow>
     set (map probe_role (identity c)) = expected_roles \<and>
     list_all (\<lambda>p. probe_device_type p = contract_device_type c \<and> probe_instance p = contract_instance c)
       (filter (\<lambda>p. startswith (role_name (probe_role p)) ''target_'') (identity c)) \<and>
     list_all (\<lambda>p. probe_device_type p = ''battery'')
       (filter (\<lambda>p. startswith (role_name (probe_role p)) ''bms_'') (identity c)) \<and>
     (if contract_path c = ''Mode''
      then contract_device_type c = ''vebus'' \<and> unit_name c = ''mode'' \<and> mode_codes c \<noteq> [] \<and>
        minimum c = None \<and> maximum c = None
      else let (expected_type, unit) =
                 (if contract_path c = ''SocLimit'' then (''battery'', ''percent'') else (''vebus'', ''ampere''))
           in contract_device_type c = expected_type \<and> unit_name c = unit \<and> mode_codes c = [] \<and> bounds_ok c)"

definition validate_scope :: "hardware_write_contract \<Rightarrow> hardware_write_contract res" where
  "validate_scope c = (if scope_valid c then Inr c else Inl ValueError)"

definition contract_ok :: "hardware_write_contract \<Rightarrow> bool" where
  "contract_ok c \<longleftrightarrow> contract_fields_ok c \<and> validate_scope c = Inr c"

subsection \<open>The write gate\<close>

datatype hw_problem =
    Exactly_one_contract_required
  | Freshness_limit_invalid
  | Identity_missing role
  | Identity_changed_or_stale role
  | Finite_number_required
  | Mode_not_qualified
  | Outside_qualified_range

type_synonym reader = "string \<Rightarrow> int \<Rightarrow> string \<Rightarrow> (pyval \<times> pyfloat) option res"

definition contract_matches ::
  "string option \<Rightarrow> string \<Rightarrow> int \<Rightarrow> string \<Rightarrow> hardware_write_contract \<Rightarrow> bool" where
  "contract_matches portal device_type inst path c \<longleftrightarrow>
     (Some (contract_portal_id c), contract_device_type c, contract_instance c, contract_path c) =
     (portal, device_type, inst, path)"

definition probe_fresh :: "identity_probe \<Rightarrow> pyfloat \<Rightarrow> pyval \<Rightarrow> pyfloat \<Rightarrow> bool" where
  "probe_fresh p max_age observed age \<longleftrightarrow>
     type_of observed = type_of (expected p) \<and> observed = expected p \<and>
     finite_number (VFloat age) \<and> float_le (Fin 0) age \<and> float_le age max_age"

fun check_identity :: "reader \<Rightarrow> pyfloat \<Rightarrow> identity_probe list \<Rightarrow> hw_problem option res" where
  "check_identity rd max_age [] = Inr None"
| "check_identity rd max_age (p # ps) =
     bind_res (rd (probe_device_type p) (probe_instance p) (probe_path p)) (\<lambda>actual.
       case actual of
         None \<Rightarrow> Inr (Some (Identity_missing (probe_role p)))
       | Some (observed, age) \<Rightarrow>
           if probe_fresh p max_age observed age then check_identity rd max_age ps
           else Inr (Some (Identity_changed_or_stale (probe_role p))))"

definition value_problem :: "hardware_write_contract \<Rightarrow> string \<Rightarrow> pyval \<Rightarrow> string option \<Rightarrow> hw_problem option" where
  "value_problem c path v semantic_mode =
     (if \<not> is_number v \<or> \<not> finite_number v then Some Finite_number_required
      else if path = ''Mode'' then
        (case semantic_mode of
           None \<Rightarrow> Some Mode_not_qualified
         | Some m \<Rightarrow>
             (case map_of (mode_codes c) m of
                None \<Rightarrow> Some Mode_not_qualified
              | Some n \<Rightarrow> if num_val v = num_val (VInt n) then None else Some Mode_not_qualified))
      else
        (case (minimum c, maximum c) of
           (Some lo, Some hi) \<Rightarrow>
             if num_le lo v \<and> num_le v hi then None else Some Outside_qualified_range
         | _ \<Rightarrow> Some Outside_qualified_range))"

definition validate_hardware_write ::
  "hardware_write_contract list \<Rightarrow> string option \<Rightarrow> string \<Rightarrow> int \<Rightarrow> string \<Rightarrow> pyval \<Rightarrow> string option \<Rightarrow>
   reader \<Rightarrow> pyfloat \<Rightarrow> (hw_problem + hardware_write_contract) res" where
  "validate_hardware_write contracts portal device_type inst path v semantic_mode rd max_age =
     (case filter (contract_matches portal device_type inst path) contracts of
        [c] \<Rightarrow>
          if \<not> finite_number (VFloat max_age) \<or> float_le max_age (Fin 0)
          then Inr (Inl Freshness_limit_invalid)
          else bind_res (check_identity rd max_age (identity c)) (\<lambda>problem.
            case problem of
              Some e \<Rightarrow> Inr (Inl e)
            | None \<Rightarrow>
                (case value_problem c path v semantic_mode of
                   Some e \<Rightarrow> Inr (Inl e)
                 | None \<Rightarrow> Inr (Inr c)))
      | _ \<Rightarrow> Inr (Inl Exactly_one_contract_required))"

subsection \<open>What the gate accepts\<close>

definition identity_fresh :: "reader \<Rightarrow> pyfloat \<Rightarrow> hardware_write_contract \<Rightarrow> bool" where
  "identity_fresh rd max_age c \<longleftrightarrow>
     (\<forall>p \<in> set (identity c). \<exists>observed age.
        rd (probe_device_type p) (probe_instance p) (probe_path p) = Inr (Some (observed, age)) \<and>
        probe_fresh p max_age observed age)"

definition qualified_value :: "hardware_write_contract \<Rightarrow> string \<Rightarrow> pyval \<Rightarrow> string option \<Rightarrow> bool" where
  "qualified_value c path v semantic_mode \<longleftrightarrow>
     is_number v \<and> finite_number v \<and>
     (if path = ''Mode''
      then \<exists>m n. semantic_mode = Some m \<and> map_of (mode_codes c) m = Some n \<and> num_val v = num_val (VInt n)
      else \<exists>lo hi. minimum c = Some lo \<and> maximum c = Some hi \<and> num_le lo v \<and> num_le v hi)"

lemma check_identity_ok_iff:
  "check_identity rd max_age ps = Inr None \<longleftrightarrow>
     (\<forall>p \<in> set ps. \<exists>observed age.
        rd (probe_device_type p) (probe_instance p) (probe_path p) = Inr (Some (observed, age)) \<and>
        probe_fresh p max_age observed age)"
proof (induction ps)
  case (Cons p ps)
  show ?case
    using Cons.IH
    by (cases "rd (probe_device_type p) (probe_instance p) (probe_path p)")
      (auto split: option.splits)
qed simp

lemma value_problem_None_iff: "value_problem c path v m = None \<longleftrightarrow> qualified_value c path v m"
  by (auto simp: value_problem_def qualified_value_def split: option.splits)

lemma finite_number_VFloat [simp]: "finite_number (VFloat x) = isfinite x"
  by (simp add: finite_number_def)

lemma finite_number_num_val:
  assumes "is_number v" "finite_number v"
  obtains x where "num_val v = Some (Fin x)"
  using assms
  by (cases v) (auto simp: is_number_def finite_number_def isfinite_iff split: option.splits)

lemma freshness_limit_iff:
  "(isfinite x \<and> \<not> float_le x (Fin 0)) \<longleftrightarrow> (\<exists>r. x = Fin r \<and> 0 < r)"
  by (cases x) auto

lemma validate_hardware_write_accept:
  "validate_hardware_write cs portal dt i path v m rd ma = Inr (Inr c) \<longleftrightarrow>
     filter (contract_matches portal dt i path) cs = [c] \<and>
     (\<exists>r. ma = Fin r \<and> 0 < r) \<and> identity_fresh rd ma c \<and> qualified_value c path v m"
  unfolding freshness_limit_iff [symmetric] identity_fresh_def
    value_problem_None_iff [symmetric] check_identity_ok_iff [symmetric] validate_hardware_write_def
  by (auto split: list.splits option.splits if_splits)

lemma filter_singletonD: "filter P xs = [x] \<Longrightarrow> x \<in> set xs \<and> P x"
  using filter_set [of P xs] by auto

lemma validate_hardware_write_acceptD:
  assumes "validate_hardware_write cs portal dt i path v m rd ma = Inr (Inr c)"
  shows "c \<in> set cs" and "portal = Some (contract_portal_id c)" and "contract_device_type c = dt"
    and "contract_instance c = i" and "contract_path c = path"
    and "identity_fresh rd ma c" and "qualified_value c path v m"
  using assms filter_singletonD [of "contract_matches portal dt i path" cs c]
  by (auto simp: validate_hardware_write_accept contract_matches_def)

text \<open>
  C3: a control write is qualified exactly when one and only one reviewed contract names the
  portal, device type, instance and path, the freshness limit is a positive finite number,
  every identity probe of that contract was read with the exact expected value of the exact
  type and an age between zero and the limit, and the value itself is a finite number that the
  contract allows (the code reviewed for the requested mode, or a number inside the bounds).
\<close>

theorem hardware_write_qualified_iff:
  "validate_hardware_write contracts portal device_type inst path v semantic_mode rd max_age = Inr (Inr c) \<longleftrightarrow>
     filter (contract_matches portal device_type inst path) contracts = [c] \<and>
     (\<exists>limit > 0. max_age = Fin limit) \<and>
     (\<forall>p \<in> set (identity c). \<exists>age.
        rd (probe_device_type p) (probe_instance p) (probe_path p) = Inr (Some (expected p, Fin age)) \<and>
        0 \<le> age \<and> float_le (Fin age) max_age) \<and>
     is_number v \<and> finite_number v \<and>
     (if path = ''Mode''
      then \<exists>m n. semantic_mode = Some m \<and> map_of (mode_codes c) m = Some n \<and> num_val v = num_val (VInt n)
      else \<exists>lo hi. minimum c = Some lo \<and> maximum c = Some hi \<and> num_le lo v \<and> num_le v hi)"
proof -
  have "(\<exists>observed age. rd dt i q = Inr (Some (observed, age)) \<and> probe_fresh p max_age observed age) \<longleftrightarrow>
    (\<exists>age. rd dt i q = Inr (Some (expected p, Fin age)) \<and> 0 \<le> age \<and> float_le (Fin age) max_age)"
    for p dt i q
    by (auto simp: probe_fresh_def isfinite_iff)
  then show ?thesis
    unfolding validate_hardware_write_accept identity_fresh_def qualified_value_def by auto
qed

lemma hardware_write_qualified_iff_empty:
  "validate_hardware_write [] portal dt i path v m rd ma = Inr (Inl Exactly_one_contract_required)"
  by (simp add: validate_hardware_write_def)

text \<open>Shapes of the contracts that the loader accepts.\<close>

lemma contract_ok_nonmode:
  assumes "contract_ok c" "contract_path c \<noteq> ''Mode''"
  shows "bounds_ok c"
    and "contract_path c = ''SocLimit'' \<Longrightarrow> contract_device_type c = ''battery'' \<and> unit_name c = ''percent''"
    and "contract_path c \<noteq> ''SocLimit'' \<Longrightarrow>
      contract_path c = ''Dc/0/MaxChargeCurrent'' \<and> contract_device_type c = ''vebus'' \<and> unit_name c = ''ampere''"
proof -
  from assms have sv: "scope_valid c" and ok: "contract_fields_ok c"
    by (auto simp: contract_ok_def validate_scope_def split: if_splits)
  have path: "contract_path c \<in> {''Mode'', ''Dc/0/MaxChargeCurrent'', ''SocLimit''}"
    using ok unfolding contract_fields_ok_def by blast
  show "bounds_ok c" using sv assms(2) unfolding scope_valid_def Let_def by (auto split: if_splits)
  show "contract_device_type c = ''battery'' \<and> unit_name c = ''percent''"
    if "contract_path c = ''SocLimit''"
    using sv assms(2) that unfolding scope_valid_def by simp
  show "contract_path c = ''Dc/0/MaxChargeCurrent'' \<and> contract_device_type c = ''vebus'' \<and> unit_name c = ''ampere''"
    if "contract_path c \<noteq> ''SocLimit''"
    using sv assms(2) that path unfolding scope_valid_def by simp
qed

lemma num_le_trans_val:
  assumes "num_le u v" "num_le v w"
  shows "num_le u w"
  using assms float_le_trans
  by (auto simp: num_le_def split: option.splits)

text \<open>
  C28: whatever a client sends, a charge-current or SoC write that a loaded contract qualifies
  carries a finite number that is not negative and stays within the reviewed bounds, and a SoC
  limit is at most 100 percent.
\<close>

theorem qualified_range_write_bounded:
  assumes "validate_hardware_write contracts portal device_type inst path v semantic_mode rd max_age = Inr (Inr c)"
    and "list_all contract_ok contracts"
    and "path \<noteq> ''Mode''"
  shows "\<exists>x lo hi. num_val v = Some (Fin x) \<and> 0 \<le> x \<and>
    minimum c = Some lo \<and> maximum c = Some hi \<and> num_le lo v \<and> num_le v hi \<and>
    (path = ''SocLimit'' \<longrightarrow> x \<le> 100 \<and> device_type = ''battery'') \<and>
    (path \<noteq> ''SocLimit'' \<longrightarrow> path = ''Dc/0/MaxChargeCurrent'' \<and> device_type = ''vebus'')"
proof -
  note acc = validate_hardware_write_acceptD [OF assms(1)]
  from acc(1) assms(2) have ok: "contract_ok c" by (simp add: list_all_iff)
  from acc(7) assms(3) obtain lo hi where v: "is_number v" "finite_number v"
    "minimum c = Some lo" "maximum c = Some hi" "num_le lo v" "num_le v hi"
    by (auto simp: qualified_value_def)
  from v(1,2) obtain x where x: "num_val v = Some (Fin x)" by (rule finite_number_num_val)
  have nm: "contract_path c \<noteq> ''Mode''" using acc(5) assms(3) by simp
  note shape = contract_ok_nonmode [OF ok nm]
  from shape(1) v(3,4) have b: "num_le (VInt 0) lo" "unit_name c \<noteq> ''percent'' \<or> num_le hi (VInt 100)"
    by (auto simp: bounds_ok_def)
  from num_le_trans_val [OF b(1) v(5)] x have "0 \<le> x" by (simp add: num_le_def)
  moreover have "x \<le> 100" if "path = ''SocLimit''"
  proof -
    have "num_le hi (VInt 100)" using that shape(2) b(2) acc(5) by auto
    with v(6) have "num_le v (VInt 100)" by (rule num_le_trans_val)
    with x show ?thesis by (simp add: num_le_def)
  qed
  ultimately show ?thesis
    using x v shape(2,3) acc(3,5) by blast
qed

subsection \<open>A contract that loads and qualifies a write\<close>

definition example_probe :: "role \<Rightarrow> string \<Rightarrow> int \<Rightarrow> string \<Rightarrow> pyval \<Rightarrow> identity_probe" where
  "example_probe r dt i path v =
     \<lparr>probe_role = r, probe_device_type = dt, probe_instance = i, probe_path = path, expected = v\<rparr>"

definition example_soc_contract :: hardware_write_contract where
  "example_soc_contract = \<lparr>
     contract_id = ''soc-1'', contract_portal_id = ''c0ffee'', contract_device_type = ''battery'',
     contract_instance = 512, contract_path = ''SocLimit'',
     identity =
       [example_probe Venus_firmware ''system'' 0 ''FirmwareVersion'' (VStr ''v3.60''),
        example_probe Target_product ''battery'' 512 ''ProductId'' (VInt 41910),
        example_probe Target_firmware ''battery'' 512 ''FirmwareVersion'' (VInt 1034),
        example_probe Bms_product ''battery'' 512 ''ProductName'' (VStr ''BMS''),
        example_probe Bms_firmware ''battery'' 512 ''HardwareVersion'' (VInt 2)],
     reviewed_by = ''owner'', evidence_sha256 = replicate 64 (CHR ''a''),
     semantics = ''Minimum state of charge.'', mode_codes = [], unit_name = ''percent'',
     minimum = Some (VInt 10), maximum = Some (VFloat (Fin 90))\<rparr>"

definition example_reader :: reader where
  "example_reader dt i path =
     Inr (map_option (\<lambda>p. (expected p, Fin 1))
       (find (\<lambda>p. probe_device_type p = dt \<and> probe_instance p = i \<and> probe_path p = path)
          (identity example_soc_contract)))"

lemmas contract_patterns =
  device_type_pattern_def contract_id_pattern_def portal_id_pattern_def sha256_pattern_def
  fullmatch_head_tail fullmatch_Rep_Cls fullmatch_Plus_Cls low_alnum_def alnum_def class_has_def

lemma item_path_word:
  "s \<noteq> [] \<Longrightarrow> list_all (class_has False (CChar (CHR ''_'') # alnum)) s \<Longrightarrow> fullmatch item_path_pattern s"
  unfolding item_path_pattern_def fullmatch_iff
  by (rule seq [OF _ star0]) (simp add: fullmatch_Plus_Cls flip: fullmatch_iff)

lemma finite_number_VInt: "\<bar>i\<bar> \<le> 2 ^ 53 \<Longrightarrow> finite_number (VInt i)"
  by (simp add: finite_number_def float_of_int_exact)

lemma example_soc_contract_ok: "contract_ok example_soc_contract"
  by (simp add: contract_ok_def contract_fields_ok_def example_soc_contract_def example_probe_def
    probe_fields_ok_def item_path_word contract_patterns validate_scope_def scope_valid_def
    expected_roles_def bounds_ok_def num_le_def number_field_ok_def is_number_def startswith_code finite_number_VInt
    list_all_iff)

lemma example_soc_write:
  "validate_hardware_write [example_soc_contract] (Some ''c0ffee'') ''battery'' 512 ''SocLimit'' (VInt 40) None
     example_reader (Fin 5) = Inr (Inr example_soc_contract)"
  by (simp add: validate_hardware_write_def contract_matches_def example_soc_contract_def example_reader_def
    example_probe_def probe_fresh_def value_problem_def is_number_def num_le_def finite_number_VInt)

theorem hardware_write_qualified_iff_witness:
  "(\<exists>age. example_reader ''system'' 0 ''FirmwareVersion'' = Inr (Some (VStr ''v3.60'', Fin age)) \<and> 0 \<le> age \<and> age \<le> 5) \<and>
   num_le (VInt 10) (VInt 40)"
  using iffD1 [OF hardware_write_qualified_iff example_soc_write]
  by (auto simp: example_soc_contract_def example_probe_def num_le_def)

theorem qualified_range_write_bounded_witness:
  "\<exists>x. num_val (VInt 40) = Some (Fin x) \<and> 0 \<le> x \<and> x \<le> 100"
  using qualified_range_write_bounded [OF example_soc_write]
  by (simp add: example_soc_contract_ok)

end
