(* ===== verification/Venus_Config.thy ===== *)
theory Venus_Config
  imports Hardware_Contracts
begin

section \<open>Configuration\<close>

text \<open>
  Model of \<^verbatim>\<open>src/mcp_venus_os/config.py\<close>: one record per settings class, the defaults of
  the safety settings, the constraints the loader enforces on them and the two derived
  properties (\<^verbatim>\<open>topic_prefix\<close>, \<^verbatim>\<open>effective_host\<close>).  Reading the environment is pydantic's
  work: a loaded configuration is an arbitrary value that satisfies \<open>safety_config_ok\<close>.
  \<^verbatim>\<open>get_config\<close> is cached, so every component sees the same record.  A deny pattern is the
  abstract syntax that \<^verbatim>\<open>re\<close> compiles its text to.
\<close>

record dbus_config =
  bus_type :: string
  service_name :: string

record mqtt_config =
  mqtt_host :: string
  mqtt_port :: int
  mqtt_username :: "string option"
  mqtt_password :: "string option"
  mqtt_client_id :: string
  portal_id :: "string option"
  stale_after_seconds :: pyfloat
  mqtt_tls :: bool

record ssh_config =
  ssh_host :: "string option"
  ssh_port :: int
  ssh_user :: string
  ssh_key_path :: "string option"
  ssh_password :: "string option"
  ssh_timeout_s :: pyfloat
  ssh_known_hosts :: "string option"

record safety_config =
  enable_writes :: bool
  require_confirmation :: bool
  hardware_write_contracts :: "hardware_write_contract list"
  max_charge_current :: pyfloat
  max_discharge_current :: pyfloat
  min_soc_limit :: int
  max_soc_limit :: int
  allowed_modes :: "string list"
  write_path_allowlist :: "(string, string list) dict"
  ssh_command_deny_patterns :: "re list"

record server_config =
  dbus :: dbus_config
  mqtt :: mqtt_config
  safety :: safety_config
  ssh :: ssh_config
  root_password :: "string option"
  transport_backend :: string
  server_transport :: string
  server_host :: string
  server_port :: int
  server_auth_token :: "string option"
  log_level :: string

definition default_mqtt_config :: mqtt_config where
  "default_mqtt_config = \<lparr>
     mqtt_host = ''localhost'', mqtt_port = 1883, mqtt_username = None, mqtt_password = None,
     mqtt_client_id = ''mcp-venus-os'', portal_id = None, stale_after_seconds = Fin 60, mqtt_tls = False\<rparr>"

subsection \<open>Derived properties\<close>

text \<open>\<^verbatim>\<open>not x\<close> for an optional string: unset or empty.\<close>

definition unset :: "string option \<Rightarrow> bool" where
  "unset x \<longleftrightarrow> x = None \<or> x = Some []"

lemma unset_simps [simp]: "unset None" "unset (Some s) \<longleftrightarrow> s = []"
  by (simp_all add: unset_def)

definition topic_prefix :: "mqtt_config \<Rightarrow> string res" where
  "topic_prefix m = (if unset (portal_id m) then Inl MissingPortalIdError else Inr (''N/'' @ the (portal_id m)))"

definition effective_host :: "server_config \<Rightarrow> string" where
  "effective_host c = (if unset (ssh_host (ssh c)) then mqtt_host (mqtt c) else the (ssh_host (ssh c)))"

subsection \<open>Safety settings: defaults and constraints\<close>

fun Seqs :: "re list \<Rightarrow> re" where
  "Seqs [] = Eps"
| "Seqs [r] = r"
| "Seqs (r # q # rs) = Seq r (Seqs (q # rs))"

definition Space :: re where
  "Space = Cls [CSpace]"

definition Word :: "string \<Rightarrow> re" where
  "Word w = Seqs [WordB, Lit w, WordB]"

definition pipe_to_shell :: "string \<Rightarrow> re" where
  "pipe_to_shell w =
     Seqs [WordB, Lit w, WordB, Star Dot, Chr (CHR ''|''), Star Space, Opt (Lit ''ba''), Lit ''sh'']"

definition default_deny_patterns :: "re list" where
  "default_deny_patterns =
     [Seqs [WordB, Lit ''rm'', Plus Space, Lit ''-rf'', Plus Space, Chr (CHR ''/''), Alt Space Eol],
      Seqs [WordB, Lit ''mkfs''],
      Seqs [WordB, Lit ''dd'', Plus Space, Lit ''if=''],
      pipe_to_shell ''curl'',
      pipe_to_shell ''wget'',
      Word ''shutdown'',
      Word ''reboot'',
      Word ''halt'',
      Word ''poweroff'',
      Word ''flash.sh'']"

definition default_write_path_allowlist :: "(string, string list) dict" where
  "default_write_path_allowlist =
     [(''vebus'', [''Mode'', ''Dc/0/MaxChargeCurrent'', ''Ac/ActiveIn/CurrentLimit'']),
      (''battery'', [''SocLimit'']),
      (''solarcharger'', [''Mode'', ''Dc/0/MaxChargeCurrent''])]"

definition default_safety_config :: safety_config where
  "default_safety_config = \<lparr>
     enable_writes = False,
     require_confirmation = True,
     hardware_write_contracts = [],
     max_charge_current = Fin 100,
     max_discharge_current = Fin 100,
     min_soc_limit = 10,
     max_soc_limit = 100,
     allowed_modes = [''on'', ''off'', ''charger_only'', ''inverter_only'', ''eco''],
     write_path_allowlist = default_write_path_allowlist,
     ssh_command_deny_patterns = default_deny_patterns \<rparr>"

definition reject_boolean_limits :: "pyval \<Rightarrow> pyval res" where
  "reject_boolean_limits v = (if type_of v = TBool then Inl ValueError else Inr v)"

definition validate_soc_range :: "safety_config \<Rightarrow> safety_config res" where
  "validate_soc_range c = (if max_soc_limit c < min_soc_limit c then Inl ValueError else Inr c)"

definition limit_field_ok :: "pyfloat \<Rightarrow> bool" where
  "limit_field_ok x \<longleftrightarrow> isfinite x \<and> float_le (Fin 0) x"

definition safety_config_ok :: "safety_config \<Rightarrow> bool" where
  "safety_config_ok c \<longleftrightarrow>
     list_all contract_ok (hardware_write_contracts c) \<and>
     limit_field_ok (max_charge_current c) \<and> limit_field_ok (max_discharge_current c) \<and>
     0 \<le> min_soc_limit c \<and> min_soc_limit c \<le> 100 \<and>
     0 \<le> max_soc_limit c \<and> max_soc_limit c \<le> 100 \<and>
     validate_soc_range c = Inr c"

lemma default_safety_config_ok: "safety_config_ok default_safety_config"
  by (simp add: safety_config_ok_def default_safety_config_def limit_field_ok_def validate_soc_range_def)

subsection \<open>Word patterns\<close>

lemma word_at_append: "word_at (pre @ s) (length pre) \<longleftrightarrow> (case s of [] \<Rightarrow> False | c # _ \<Rightarrow> is_word_char c)"
  by (cases s) (auto simp: word_at_def)

lemma word_before_append:
  "(0 < length pre \<and> word_at (pre @ s) (length pre - 1)) \<longleftrightarrow> (pre \<noteq> [] \<and> is_word_char (last pre))"
  by (cases pre rule: rev_cases) (auto simp: word_at_def nth_append)

lemma search_Word:
  assumes "w \<noteq> []" "is_word_char (hd w)" "is_word_char (last w)"
    and "pre = [] \<or> \<not> is_word_char (last pre)"
    and "post = [] \<or> \<not> is_word_char (hd post)"
  shows "search ic (Word w) (pre @ w @ post)"
proof -
  let ?s = "pre @ w @ post"
  have "word_boundary ?s (length pre)"
    using assms(1,2,4) word_before_append [of pre "w @ post"] word_at_append [of pre "w @ post"]
    by (cases w) (auto simp: word_boundary_def)
  moreover have "word_boundary ?s (length pre + length w)"
    using assms(1,3,5) word_before_append [of "pre @ w" post] word_at_append [of "pre @ w" post]
    by (cases post) (auto simp: word_boundary_def)
  moreover have "rmatch ic ?s (Lit w) (length pre) (length pre + length w)"
    by (rule rmatch_Lit) simp
  ultimately have "rmatch ic ?s (Word w) (length pre) (length pre + length w)"
    unfolding Word_def by (auto intro: rmatch.intros)
  then show ?thesis
    unfolding search_iff by (intro exI conjI) simp_all
qed

end
