(* ===== verification/Safety.thy ===== *)
theory Safety
  imports Venus_Config
begin

section \<open>The safety validator and the confirmation manager\<close>

text \<open>
  Model of \<^verbatim>\<open>src/mcp_venus_os/safety.py\<close>.  The gates run in the order of the source and the
  first failure wins; a reason is a constructor that carries the values the message quotes.
  \<^verbatim>\<open>math.isfinite\<close> and \<^verbatim>\<open>re.search\<close> may raise, so a check returns a \<open>res\<close>.
\<close>

datatype reason =
    Writes_disabled
  | Path_not_in_allowlist string string "string list"
  | Command_denied re
  | Charge_not_finite
  | Charge_negative
  | Charge_exceeds pyval pyfloat
  | Discharge_not_finite
  | Discharge_negative
  | Discharge_exceeds pyval pyfloat
  | Soc_not_integer
  | Soc_below int int
  | Soc_exceeds int int
  | Mode_not_allowed pyval "string list"
  | Confirmation_required

type_synonym params = "(string, pyval) dict"

record safety_check_result =
  allowed :: bool
  reason :: "reason option"
  requires_confirmation :: bool
  confirmation_message :: "(string \<times> params) option"

definition check_pass :: safety_check_result where
  "check_pass = \<lparr>allowed = True, reason = None, requires_confirmation = False, confirmation_message = None\<rparr>"

definition check_deny :: "reason \<Rightarrow> safety_check_result" where
  "check_deny r = \<lparr>allowed = False, reason = Some r, requires_confirmation = False, confirmation_message = None\<rparr>"

definition check_confirm :: "string \<Rightarrow> params \<Rightarrow> safety_check_result" where
  "check_confirm operation params =
     \<lparr>allowed = False, reason = Some Confirmation_required, requires_confirmation = True,
      confirmation_message = Some (operation, params)\<rparr>"

subsection \<open>Operations, device types and paths\<close>

definition OPERATION_DEVICE_TYPE :: "(string, string) dict" where
  "OPERATION_DEVICE_TYPE =
     [(''set_inverter_mode'', ''vebus''),
      (''set_charge_current_limit'', ''vebus''),
      (''set_soc_limit'', ''battery'')]"

definition OPERATION_DBUS_PATH :: "(string, string) dict" where
  "OPERATION_DBUS_PATH =
     [(''set_inverter_mode'', ''Mode''),
      (''set_charge_current_limit'', ''Dc/0/MaxChargeCurrent''),
      (''set_soc_limit'', ''SocLimit'')]"

definition operation_device_type :: "string \<Rightarrow> string option" where
  "operation_device_type operation = map_of OPERATION_DEVICE_TYPE operation"

definition operation_dbus_path :: "string \<Rightarrow> string option" where
  "operation_dbus_path operation = map_of OPERATION_DBUS_PATH operation"

definition validate_write_path :: "safety_config \<Rightarrow> string \<Rightarrow> string option \<Rightarrow> safety_check_result" where
  "validate_write_path cfg operation dbus_path =
     (case operation_device_type operation of
        None \<Rightarrow> check_pass
      | Some dtype \<Rightarrow>
          (let paths = (case map_of (write_path_allowlist cfg) dtype of None \<Rightarrow> [] | Some ps \<Rightarrow> ps)
           in case dbus_path of
                Some p \<Rightarrow> if p \<notin> set paths then check_deny (Path_not_in_allowlist p dtype paths) else check_pass
              | None \<Rightarrow> check_pass))"

fun scan_deny_patterns :: "re list \<Rightarrow> string \<Rightarrow> safety_check_result" where
  "scan_deny_patterns [] command = check_pass"
| "scan_deny_patterns (pattern # patterns) command =
     (if search True pattern command then check_deny (Command_denied pattern)
      else scan_deny_patterns patterns command)"

definition validate_ssh_command :: "safety_config \<Rightarrow> pyval \<Rightarrow> safety_check_result res" where
  "validate_ssh_command cfg command =
     (case command of
        VStr s \<Rightarrow> Inr (scan_deny_patterns (ssh_command_deny_patterns cfg) s)
      | _ \<Rightarrow> if ssh_command_deny_patterns cfg = [] then Inr check_pass else Inl TypeError)"

subsection \<open>Parameter checks\<close>

definition num_lt :: "pyval \<Rightarrow> pyval \<Rightarrow> bool" where
  "num_lt v w = (case (num_val v, num_val w) of (Some x, Some y) \<Rightarrow> float_lt x y | _ \<Rightarrow> False)"

definition validate_charge_current :: "safety_config \<Rightarrow> pyval \<Rightarrow> safety_check_result res" where
  "validate_charge_current cfg current =
     (if \<not> is_number current then Inr (check_deny Charge_not_finite)
      else bind_res (math_isfinite current) (\<lambda>fin.
        if \<not> fin then Inr (check_deny Charge_not_finite)
        else if num_lt current (VInt 0) then Inr (check_deny Charge_negative)
        else if num_lt (VFloat (max_charge_current cfg)) current
        then Inr (check_deny (Charge_exceeds current (max_charge_current cfg)))
        else Inr check_pass))"

definition validate_discharge_current :: "safety_config \<Rightarrow> pyval \<Rightarrow> safety_check_result res" where
  "validate_discharge_current cfg current =
     (if \<not> is_number current then Inr (check_deny Discharge_not_finite)
      else bind_res (math_isfinite current) (\<lambda>fin.
        if \<not> fin then Inr (check_deny Discharge_not_finite)
        else if num_lt current (VInt 0) then Inr (check_deny Discharge_negative)
        else if num_lt (VFloat (max_discharge_current cfg)) current
        then Inr (check_deny (Discharge_exceeds current (max_discharge_current cfg)))
        else Inr check_pass))"

definition validate_soc_limit :: "safety_config \<Rightarrow> pyval \<Rightarrow> safety_check_result res" where
  "validate_soc_limit cfg soc =
     (case soc of
        VInt n \<Rightarrow>
          if n < min_soc_limit cfg then Inr (check_deny (Soc_below n (min_soc_limit cfg)))
          else if max_soc_limit cfg < n then Inr (check_deny (Soc_exceeds n (max_soc_limit cfg)))
          else Inr check_pass
      | _ \<Rightarrow> Inr (check_deny Soc_not_integer))"

definition validate_mode :: "safety_config \<Rightarrow> pyval \<Rightarrow> safety_check_result res" where
  "validate_mode cfg mode =
     (if mode \<notin> VStr ` set (allowed_modes cfg)
      then Inr (check_deny (Mode_not_allowed mode (allowed_modes cfg))) else Inr check_pass)"

subsection \<open>The main gate\<close>

text \<open>Run a check and return its result when it denies; go on otherwise.\<close>

definition and_then :: "safety_check_result res \<Rightarrow> safety_check_result res \<Rightarrow> safety_check_result res" where
  "and_then r k = bind_res r (\<lambda>x. if \<not> allowed x then Inr x else k)"

definition param_check ::
  "params \<Rightarrow> string \<Rightarrow> (pyval \<Rightarrow> safety_check_result res) \<Rightarrow> safety_check_result res" where
  "param_check params key check = (case map_of params key of None \<Rightarrow> Inr check_pass | Some v \<Rightarrow> check v)"

definition validate_write_operation ::
  "safety_config \<Rightarrow> string \<Rightarrow> params \<Rightarrow> bool \<Rightarrow> string option \<Rightarrow> safety_check_result res" where
  "validate_write_operation cfg operation params confirmed dbus_path =
     (if \<not> enable_writes cfg then Inr (check_deny Writes_disabled)
      else and_then
        (if operation \<noteq> ''cerbo_ssh_exec'' then Inr (validate_write_path cfg operation dbus_path)
         else Inr check_pass)
      (and_then (param_check params ''charge_current'' (validate_charge_current cfg))
      (and_then (param_check params ''discharge_current'' (validate_discharge_current cfg))
      (and_then (param_check params ''soc_limit'' (validate_soc_limit cfg))
      (and_then (param_check params ''mode'' (validate_mode cfg))
      (and_then
        (if operation = ''cerbo_ssh_exec''
         then validate_ssh_command cfg
           (case map_of params ''command'' of None \<Rightarrow> VStr [] | Some v \<Rightarrow> v)
         else Inr check_pass)
      (if require_confirmation cfg \<and> \<not> confirmed then Inr (check_confirm operation params)
       else Inr check_pass)))))))"

subsection \<open>Confirmations\<close>

record pending =
  pending_operation :: string
  pending_params :: params
  pending_message :: string
  pending_confirmed :: bool

type_synonym confirmation_manager = "(string, pending) dict"

text \<open>The identifier is the first eight characters of a fresh UUID, an argument here.\<close>

definition request_confirmation ::
  "confirmation_manager \<Rightarrow> string \<Rightarrow> string \<Rightarrow> params \<Rightarrow> string \<Rightarrow> confirmation_manager \<times> string" where
  "request_confirmation pend uuid operation params message =
     (let confirmation_id = take 8 uuid
      in (dict_set confirmation_id
            \<lparr>pending_operation = operation, pending_params = params, pending_message = message,
             pending_confirmed = False\<rparr> pend,
          confirmation_id))"

definition confirm :: "confirmation_manager \<Rightarrow> string \<Rightarrow> confirmation_manager \<times> bool" where
  "confirm pend confirmation_id =
     (case map_of pend confirmation_id of
        None \<Rightarrow> (pend, False)
      | Some p \<Rightarrow> (dict_set confirmation_id (p\<lparr>pending_confirmed := True\<rparr>) pend, True))"

definition get_pending :: "confirmation_manager \<Rightarrow> string \<Rightarrow> pending option" where
  "get_pending pend confirmation_id = map_of pend confirmation_id"

definition clear :: "confirmation_manager \<Rightarrow> string \<Rightarrow> confirmation_manager" where
  "clear pend confirmation_id = dict_pop confirmation_id pend"

subsection \<open>Accepted, asking for confirmation, refused\<close>

definition accepted :: "safety_check_result res \<Rightarrow> bool" where
  "accepted r = (case r of Inr x \<Rightarrow> allowed x | Inl _ \<Rightarrow> False)"

definition asks :: "safety_check_result res \<Rightarrow> bool" where
  "asks r = (case r of Inr x \<Rightarrow> \<not> allowed x \<and> requires_confirmation x | Inl _ \<Rightarrow> False)"

lemma check_sel [simp]:
  "allowed check_pass" "\<not> allowed (check_deny d)" "\<not> allowed (check_confirm op ps)"
  "\<not> requires_confirmation check_pass" "\<not> requires_confirmation (check_deny d)"
  "requires_confirmation (check_confirm op ps)"
  "reason (check_deny d) = Some d"
  by (simp_all add: check_pass_def check_deny_def check_confirm_def)

lemma accepted_simps [simp, gate_simps]:
  "accepted (Inr check_pass)" "\<not> accepted (Inr (check_deny d))" "\<not> accepted (Inr (check_confirm op ps))"
  "\<not> accepted (Inl e)"
  "asks (Inr (check_confirm op ps))" "\<not> asks (Inr (check_deny d))" "\<not> asks (Inr check_pass)" "\<not> asks (Inl e)"
  by (simp_all add: accepted_def asks_def)

lemma accepted_and_then [simp]: "accepted (and_then r k) \<longleftrightarrow> accepted r \<and> accepted k"
  by (auto simp: accepted_def and_then_def split: sum.splits)

lemma asks_and_then [simp]: "asks (and_then r k) \<longleftrightarrow> asks r \<or> (accepted r \<and> asks k)"
  by (auto simp: accepted_def asks_def and_then_def split: sum.splits)

lemma accepted_if [simp]:
  "accepted (if b then r else q) \<longleftrightarrow> (if b then accepted r else accepted q)"
  "asks (if b then r else q) \<longleftrightarrow> (if b then asks r else asks q)"
  by auto

definition current_ok :: "pyfloat \<Rightarrow> pyval \<Rightarrow> bool" where
  "current_ok limit v \<longleftrightarrow>
     is_number v \<and> finite_number v \<and>
     (\<exists>x. num_val v = Some (Fin x) \<and> 0 \<le> x \<and> \<not> float_lt limit (Fin x))"

definition soc_ok :: "safety_config \<Rightarrow> pyval \<Rightarrow> bool" where
  "soc_ok cfg v \<longleftrightarrow> (\<exists>n. v = VInt n \<and> min_soc_limit cfg \<le> n \<and> n \<le> max_soc_limit cfg)"

definition mode_ok :: "safety_config \<Rightarrow> pyval \<Rightarrow> bool" where
  "mode_ok cfg v \<longleftrightarrow> (\<exists>m \<in> set (allowed_modes cfg). v = VStr m)"

definition command_ok :: "safety_config \<Rightarrow> pyval \<Rightarrow> bool" where
  "command_ok cfg v \<longleftrightarrow>
     ssh_command_deny_patterns cfg = [] \<or>
     (\<exists>s. v = VStr s \<and> (\<forall>p \<in> set (ssh_command_deny_patterns cfg). \<not> search True p s))"

definition path_ok :: "safety_config \<Rightarrow> string \<Rightarrow> string option \<Rightarrow> bool" where
  "path_ok cfg operation dbus_path \<longleftrightarrow>
     (\<forall>dtype p. operation_device_type operation = Some dtype \<longrightarrow> dbus_path = Some p \<longrightarrow>
        (\<exists>ps. map_of (write_path_allowlist cfg) dtype = Some ps \<and> p \<in> set ps))"

lemma finite_numberD: "finite_number v \<Longrightarrow> math_isfinite v = Inr True"
  by (auto simp: finite_number_def split: sum.splits)

lemma num_lt_Fin:
  "num_val v = Some (Fin x) \<Longrightarrow> num_lt v (VInt 0) \<longleftrightarrow> x < 0"
  "num_val v = Some (Fin x) \<Longrightarrow> num_lt (VFloat y) v \<longleftrightarrow> float_lt y (Fin x)"
  by (simp_all add: num_lt_def)

lemma current_checks [gate_simps]:
  "accepted (validate_charge_current cfg v) \<longleftrightarrow> current_ok (max_charge_current cfg) v"
  "accepted (validate_discharge_current cfg v) \<longleftrightarrow> current_ok (max_discharge_current cfg) v"
  "\<not> asks (validate_charge_current cfg v)"
  "\<not> asks (validate_discharge_current cfg v)"
proof -
  have fin: "is_number v \<Longrightarrow> math_isfinite v = Inr True \<Longrightarrow> \<exists>x. num_val v = Some (Fin x)"
    by (rule math_isfinite_True_num)
  show "accepted (validate_charge_current cfg v) \<longleftrightarrow> current_ok (max_charge_current cfg) v"
    "accepted (validate_discharge_current cfg v) \<longleftrightarrow> current_ok (max_discharge_current cfg) v"
    "\<not> asks (validate_charge_current cfg v)" "\<not> asks (validate_discharge_current cfg v)"
    using fin
    by (cases "math_isfinite v"; auto simp: validate_charge_current_def validate_discharge_current_def
        current_ok_def finite_number_def num_lt_Fin not_less)+
qed

lemma soc_checks [gate_simps]:
  "accepted (validate_soc_limit cfg v) \<longleftrightarrow> soc_ok cfg v" "\<not> asks (validate_soc_limit cfg v)"
  by (auto simp: validate_soc_limit_def soc_ok_def split: pyval.splits)

lemma mode_checks [gate_simps]:
  "accepted (validate_mode cfg v) \<longleftrightarrow> mode_ok cfg v" "\<not> asks (validate_mode cfg v)"
  by (auto simp: validate_mode_def mode_ok_def)

lemma path_checks [gate_simps]:
  "accepted (Inr (validate_write_path cfg operation dbus_path)) \<longleftrightarrow> path_ok cfg operation dbus_path"
  "\<not> asks (Inr (validate_write_path cfg operation dbus_path))"
  unfolding validate_write_path_def path_ok_def Let_def
  by (cases "operation_device_type operation"; cases dbus_path;
      cases "map_of (write_path_allowlist cfg) (the (operation_device_type operation))"; simp)+

lemma scan_checks:
  "accepted (Inr (scan_deny_patterns ps s)) \<longleftrightarrow> (\<forall>p \<in> set ps. \<not> search True p s)"
  "\<not> asks (Inr (scan_deny_patterns ps s))"
  by (induction ps) auto

lemma command_checks [gate_simps]:
  "accepted (validate_ssh_command cfg v) \<longleftrightarrow> command_ok cfg v" "\<not> asks (validate_ssh_command cfg v)"
  by (auto simp: validate_ssh_command_def command_ok_def scan_checks split: pyval.splits)

lemma param_checks [gate_simps]:
  "accepted (param_check ps key f) \<longleftrightarrow> (\<forall>v. map_of ps key = Some v \<longrightarrow> accepted (f v))"
  "asks (param_check ps key f) \<longleftrightarrow> (\<exists>v. map_of ps key = Some v \<and> asks (f v))"
  by (auto simp: param_check_def split: option.splits)

definition parameters_ok :: "safety_config \<Rightarrow> string \<Rightarrow> params \<Rightarrow> string option \<Rightarrow> bool" where
  "parameters_ok cfg operation params dbus_path \<longleftrightarrow>
     (operation \<noteq> ''cerbo_ssh_exec'' \<longrightarrow> path_ok cfg operation dbus_path) \<and>
     (\<forall>v. map_of params ''charge_current'' = Some v \<longrightarrow> current_ok (max_charge_current cfg) v) \<and>
     (\<forall>v. map_of params ''discharge_current'' = Some v \<longrightarrow> current_ok (max_discharge_current cfg) v) \<and>
     (\<forall>v. map_of params ''soc_limit'' = Some v \<longrightarrow> soc_ok cfg v) \<and>
     (\<forall>v. map_of params ''mode'' = Some v \<longrightarrow> mode_ok cfg v) \<and>
     (operation = ''cerbo_ssh_exec'' \<longrightarrow>
        command_ok cfg (case map_of params ''command'' of None \<Rightarrow> VStr [] | Some v \<Rightarrow> v))"

lemma validate_write_operation_accepted:
  "accepted (validate_write_operation cfg operation params confirmed dbus_path) \<longleftrightarrow>
     enable_writes cfg \<and> parameters_ok cfg operation params dbus_path \<and>
     (require_confirmation cfg \<longrightarrow> confirmed)"
  unfolding validate_write_operation_def parameters_ok_def
  by (simp add: gate_simps)

lemma validate_write_operation_asks:
  "asks (validate_write_operation cfg operation params confirmed dbus_path) \<longleftrightarrow>
     enable_writes cfg \<and> parameters_ok cfg operation params dbus_path \<and>
     require_confirmation cfg \<and> \<not> confirmed"
  unfolding validate_write_operation_def parameters_ok_def
  by (simp add: gate_simps)

subsection \<open>Properties of the gate\<close>

lemma unmapped_operation:
  "operation \<notin> {''set_inverter_mode'', ''set_charge_current_limit'', ''set_soc_limit''} \<Longrightarrow>
   operation_device_type operation = None"
  by (simp add: operation_device_type_def OPERATION_DEVICE_TYPE_def)

text \<open>
  C7: a write operation passes the safety gate exactly when the killswitch is on, every check
  that applies to it passes (the allowlist holds the path for the operation's device type,
  currents and SoC limits are in range, the mode is allowed, no deny pattern matches the SSH
  command) and it is confirmed or no confirmation is required.  The allowlist applies only to
  the three operations of the device-type map.  The comment above that map says that anything
  outside it is considered unsafe by default, but the code lets it pass this check: for every
  other operation, whatever its name, the gate gives the same answer for any path as for none,
  and without parameters the killswitch and the confirmation alone decide (with the deny
  patterns for \<^verbatim>\<open>cerbo_ssh_exec\<close>).
\<close>

theorem write_operation_allowed_iff:
  "((\<exists>r. validate_write_operation cfg operation params conf dbus_path = Inr r \<and> allowed r) \<longleftrightarrow>
     enable_writes cfg \<and> parameters_ok cfg operation params dbus_path \<and>
     (if require_confirmation cfg then conf else True)) \<and>
   (if operation \<in> {''set_inverter_mode'', ''set_charge_current_limit'', ''set_soc_limit''} then True
    else validate_write_path cfg operation dbus_path = check_pass \<and>
      validate_write_operation cfg operation params conf dbus_path = validate_write_operation cfg operation params conf None \<and>
      ((\<exists>r. validate_write_operation cfg operation [] conf dbus_path = Inr r \<and> allowed r) \<longleftrightarrow>
         enable_writes cfg \<and> (if operation = ''cerbo_ssh_exec'' then command_ok cfg (VStr []) else True) \<and>
         (if require_confirmation cfg then conf else True)))"
proof -
  have iff: "(\<exists>r. validate_write_operation cfg operation ps conf dbus_path = Inr r \<and> allowed r) \<longleftrightarrow>
      enable_writes cfg \<and> parameters_ok cfg operation ps dbus_path \<and> (if require_confirmation cfg then conf else True)"
    for ps
    using validate_write_operation_accepted [of cfg operation ps conf dbus_path]
    by (auto simp: accepted_def split: sum.splits)
  show ?thesis
  proof (cases "operation \<in> {''set_inverter_mode'', ''set_charge_current_limit'', ''set_soc_limit''}")
    case True
    with iff [of params] show ?thesis by simp
  next
    case False
    then have unmapped: "operation_device_type operation = None" by (rule unmapped_operation)
    then have path: "validate_write_path cfg operation p = check_pass" for p
      by (simp add: validate_write_path_def)
    have "parameters_ok cfg operation [] dbus_path \<longleftrightarrow>
        (if operation = ''cerbo_ssh_exec'' then command_ok cfg (VStr []) else True)"
      using unmapped by (simp add: parameters_ok_def path_ok_def)
    with False iff path show ?thesis by (simp add: validate_write_operation_def)
  qed
qed

text \<open>
  With the killswitch off every operation is refused with that reason, whatever its name,
  parameters, path and confirmation flag, and no confirmation is offered.
\<close>

lemma killswitch_refuses_everything:
  "\<not> enable_writes cfg \<Longrightarrow>
   validate_write_operation cfg operation params conf dbus_path = Inr (check_deny Writes_disabled)"
  by (simp add: validate_write_operation_def)

text \<open>
  the gate asks for confirmation only for an operation that it would let through once
  confirmed: a prompt never hides another refusal, and confirming never changes any other
  outcome.
\<close>

lemma confirmation_is_last_gate:
  "(\<exists>r. validate_write_operation cfg operation params False dbus_path = Inr r \<and>
        \<not> allowed r \<and> requires_confirmation r) \<longleftrightarrow>
   require_confirmation cfg \<and>
   (\<exists>r. validate_write_operation cfg operation params True dbus_path = Inr r \<and> allowed r)"
  using validate_write_operation_asks [of cfg operation params False dbus_path]
    validate_write_operation_accepted [of cfg operation params True dbus_path]
  by (auto simp: accepted_def asks_def split: sum.splits)

text \<open>
  under a loaded safety configuration, a charge current, discharge current or SoC limit
  that passes the gate is a finite number between zero and the configured limit (a SoC limit is
  an integer between the two configured percentages, within 0..100).
\<close>

lemma allowed_limits_in_range:
  assumes "safety_config_ok cfg"
    and "validate_write_operation cfg operation params conf dbus_path = Inr r" and "allowed r"
  shows "(\<forall>v. map_of params ''charge_current'' = Some v \<longrightarrow>
            (\<exists>x limit. num_val v = Some (Fin x) \<and> max_charge_current cfg = Fin limit \<and> 0 \<le> x \<and> x \<le> limit)) \<and>
         (\<forall>v. map_of params ''discharge_current'' = Some v \<longrightarrow>
            (\<exists>x limit. num_val v = Some (Fin x) \<and> max_discharge_current cfg = Fin limit \<and> 0 \<le> x \<and> x \<le> limit)) \<and>
         (\<forall>v. map_of params ''soc_limit'' = Some v \<longrightarrow>
            (\<exists>n. v = VInt n \<and> min_soc_limit cfg \<le> n \<and> n \<le> max_soc_limit cfg \<and> 0 \<le> n \<and> n \<le> 100))"
proof -
  have acc: "parameters_ok cfg operation params dbus_path"
    using assms(2,3) validate_write_operation_accepted [of cfg operation params conf dbus_path]
    by (simp add: accepted_def)
  have lim: "isfinite (max_charge_current cfg)" "isfinite (max_discharge_current cfg)"
    "0 \<le> min_soc_limit cfg" "max_soc_limit cfg \<le> 100"
    using assms(1) by (auto simp: safety_config_ok_def limit_field_ok_def)
  have cur: "\<exists>x limit. num_val v = Some (Fin x) \<and> l = Fin limit \<and> 0 \<le> x \<and> x \<le> limit"
    if "current_ok l v" "isfinite l" for l v
    using that by (auto simp: current_ok_def isfinite_iff not_less)
  have "\<exists>n. v = VInt n \<and> min_soc_limit cfg \<le> n \<and> n \<le> max_soc_limit cfg \<and> 0 \<le> n \<and> n \<le> 100"
    if "soc_ok cfg v" for v
    using that lim(3,4) by (auto simp: soc_ok_def)
  with acc cur lim(1,2) show ?thesis
    unfolding parameters_ok_def by blast
qed

definition permissive_config :: safety_config where
  "permissive_config = default_safety_config\<lparr>enable_writes := True\<rparr>"

lemma permissive_config_ok: "safety_config_ok permissive_config"
  by (simp add: permissive_config_def default_safety_config_def safety_config_ok_def limit_field_ok_def
      validate_soc_range_def)

lemma allowed_limits_in_range_example:
  "safety_config_ok permissive_config \<and>
   validate_write_operation permissive_config ''set_soc_limit'' [(''soc_limit'', VInt 50)] True (Some ''SocLimit'') =
     Inr check_pass \<and>
   (\<exists>n. VInt 50 = VInt n \<and> 0 \<le> n \<and> n \<le> 100)"
proof -
  have ok: "validate_write_operation permissive_config ''set_soc_limit'' [(''soc_limit'', VInt 50)] True
      (Some ''SocLimit'') = Inr check_pass"
    by code_simp
  show ?thesis
    using allowed_limits_in_range [OF permissive_config_ok ok] ok permissive_config_ok by simp
qed

text \<open>
  in any command that contains \<^verbatim>\<open>reboot\<close>, \<^verbatim>\<open>shutdown\<close>, \<^verbatim>\<open>halt\<close> or \<^verbatim>\<open>poweroff\<close> as a whole
  word (nothing or a non-word character on both sides), the default deny patterns refuse
  \<^verbatim>\<open>cerbo_ssh_exec\<close>: it is neither allowed nor offered for confirmation.
\<close>

lemma power_commands_refused:
  assumes "set default_deny_patterns \<subseteq> set (ssh_command_deny_patterns cfg)"
    and "w \<in> {''reboot'', ''shutdown'', ''halt'', ''poweroff''}"
    and "before = [] \<or> \<not> is_word_char (last before)"
    and "after = [] \<or> \<not> is_word_char (hd after)"
    and "map_of params ''command'' = Some (VStr (before @ w @ after))"
  shows "\<not> accepted (validate_write_operation cfg ''cerbo_ssh_exec'' params conf dbus_path) \<and>
    \<not> asks (validate_write_operation cfg ''cerbo_ssh_exec'' params conf dbus_path)"
proof -
  have "w \<noteq> [] \<and> is_word_char (hd w) \<and> is_word_char (last w)"
    using assms(2) by (auto simp: is_word_char_def)
  then have hit: "search True (Word w) (before @ w @ after)"
    using assms(3,4) by (blast intro: search_Word)
  have "Word w \<in> set default_deny_patterns"
    using assms(2) by (auto simp: default_deny_patterns_def)
  with assms(1) have "Word w \<in> set (ssh_command_deny_patterns cfg)" by blast
  with hit have "\<not> command_ok cfg (VStr (before @ w @ after))"
    by (auto simp: command_ok_def)
  with assms(5) show ?thesis
    by (simp add: validate_write_operation_accepted validate_write_operation_asks parameters_ok_def)
qed

lemma power_commands_refused_example:
  "\<not> accepted (validate_write_operation permissive_config ''cerbo_ssh_exec''
      [(''command'', VStr (''sync; '' @ ''reboot'' @ '' -f''))] True None)"
  using power_commands_refused [of permissive_config "''reboot''" "''sync; ''" "'' -f''"
      "[(''command'', VStr (''sync; '' @ ''reboot'' @ '' -f''))]" True None]
  by (simp add: permissive_config_def default_safety_config_def is_word_char_def)

lemma deny_patterns_miss_root_glob:
  "list_all (\<lambda>p. \<not> search True p ''rm -rf /*'') default_deny_patterns"
  by code_simp

lemma deny_patterns_miss_dd_of_first:
  "list_all (\<lambda>p. \<not> search True p ''dd of=sda if=z'') default_deny_patterns"
  by code_simp

lemma deny_patterns_hit_root:
  "search True (hd default_deny_patterns) ''rm -rf /''"
  by code_simp

lemma ssh_exec_accepted_iff:
  "accepted (validate_write_operation permissive_config ''cerbo_ssh_exec'' [(''command'', VStr s)] True None) \<longleftrightarrow>
     list_all (\<lambda>p. \<not> search True p s) default_deny_patterns"
proof -
  have "ssh_command_deny_patterns permissive_config = default_deny_patterns" "default_deny_patterns \<noteq> []"
    "enable_writes permissive_config"
    by (simp_all add: permissive_config_def default_safety_config_def default_deny_patterns_def)
  then show ?thesis
    by (simp add: validate_write_operation_accepted parameters_ok_def command_ok_def list_all_iff)
qed

text \<open>
  The default deny patterns refuse \<^verbatim>\<open>rm -rf /\<close> but do not cover every destructive
  spelling: a glob after the root slash, and a \<^verbatim>\<open>dd\<close> whose output operand comes first, pass
  the confirmed gate.
\<close>

lemma deny_patterns_are_not_exhaustive:
  "accepted (validate_write_operation permissive_config ''cerbo_ssh_exec''
      [(''command'', VStr ''rm -rf /*'')] True None) \<and>
   accepted (validate_write_operation permissive_config ''cerbo_ssh_exec''
      [(''command'', VStr ''dd of=sda if=z'')] True None) \<and>
   \<not> accepted (validate_write_operation permissive_config ''cerbo_ssh_exec''
      [(''command'', VStr ''rm -rf /'')] True None)"
proof -
  have "\<not> list_all (\<lambda>p. \<not> search True p ''rm -rf /'') default_deny_patterns"
    using deny_patterns_hit_root by (auto simp: default_deny_patterns_def)
  then show ?thesis
    using deny_patterns_miss_root_glob deny_patterns_miss_dd_of_first
    by (simp add: ssh_exec_accepted_iff)
qed

text \<open>
  An integer charge current beyond the range of a double is not reported as a refusal: the
  validator raises \<^verbatim>\<open>OverflowError\<close>, where the hardware-contract gate treats the same value as
  not finite.
\<close>

lemma huge_charge_current_raises:
  "2 ^ 1024 \<le> n \<Longrightarrow>
   validate_charge_current cfg (VInt n) = Inl OverflowError \<and> \<not> finite_number (VInt n)"
  by (simp only: validate_charge_current_def is_number_def finite_number_def math_isfinite.simps
      float_of_int_overflow) simp

end
