(* ===== verification/Telemetry.thy ===== *)
theory Telemetry
  imports Hardware_Contracts
begin

section \<open>Read paths and broker-side telemetry selection\<close>

text \<open>
  Model of \<^verbatim>\<open>src/mcp_venus_os/telemetry.py\<close>: the item paths of the read tools, the
  subscription filters and the topics whose freshness is renewed.  Paho's
  \<^verbatim>\<open>topic_matches_sub\<close> is an argument \<open>tms\<close>; where a property relies on it,
  \<open>matcher_spec\<close> states the level-wise matching of the MQTT specification, which
  \<open>mqtt_matches\<close> shows can hold.  A Python set is a HOL set; where the code iterates over a
  set, the definition iterates over a list of its elements.
\<close>

type_synonym matcher = "string \<Rightarrow> string \<Rightarrow> bool"
type_synonym field_paths = "(string, string list) dict"

subsection \<open>Tables\<close>

definition BATTERY_PATHS :: field_paths where
  "BATTERY_PATHS =
     [(''soc'', [''Soc'']),
      (''voltage'', [''Dc/0/Voltage'', ''Voltage'']),
      (''current'', [''Dc/0/Current'', ''Current'']),
      (''power'', [''Dc/0/Power'', ''Power'']),
      (''temperature'', [''Dc/0/Temperature'', ''Temperature'']),
      (''status'', [''Status'']),
      (''time_to_go'', [''TimeToGo''])]"

definition PV_PATHS :: field_paths where
  "PV_PATHS =
     [(''power'', [''Ac/Power'', ''Yield/Power'']),
      (''voltage'', [''Ac/L1/Voltage'', ''Ac/L2/Voltage'', ''Ac/L3/Voltage'', ''Pv/V'']),
      (''current'', [''Ac/L1/Current'', ''Ac/L2/Current'', ''Ac/L3/Current'', ''Pv/I'']),
      (''yield_today'', [''Ac/Energy/Daily'', ''Yield/Today'']),
      (''yield_total'', [''Ac/Energy/Forward'', ''Yield/Pv'', ''Yield/User''])]"

definition GRID_PATHS :: field_paths where
  "GRID_PATHS =
     [(''power'', [''Ac/Power'', ''Ac/L1/Power'', ''Ac/L2/Power'', ''Ac/L3/Power'']),
      (''voltage'', [''Ac/L1/Voltage'', ''Ac/L2/Voltage'', ''Ac/L3/Voltage'']),
      (''current'', [''Ac/L1/Current'', ''Ac/L2/Current'', ''Ac/L3/Current'']),
      (''frequency'', [''Ac/Frequency'', ''Ac/L1/Frequency'']),
      (''status'', [''Connected''])]"

definition INVERTER_PATHS :: field_paths where
  "INVERTER_PATHS =
     [(''mode'', [''Mode'']),
      (''state'', [''State'']),
      (''ac_power_out'', [''Ac/Out/P'']),
      (''ac_power_in'', [''Ac/ActiveIn/P'']),
      (''dc_power'', [''Dc/0/Power'', ''Dc/Pv/Power'']),
      (''temperature'', [''Dc/0/Temperature'', ''Temperature''])]"

definition READ_PATHS :: "(string, field_paths) dict" where
  "READ_PATHS =
     [(''battery'', BATTERY_PATHS),
      (''solarcharger'', PV_PATHS),
      (''pvinverter'', PV_PATHS),
      (''grid'', GRID_PATHS),
      (''vebus'', INVERTER_PATHS)]"

definition DISCOVERY_PATHS :: "(string, string) dict" where
  "DISCOVERY_PATHS =
     [(''digitalinputs'', ''Devices/+/Type''),
      (''logger'', ''Storage/MountState''),
      (''modbustcp'', ''Services/Count''),
      (''settings'', ''Settings/Vrmlogger/LogInterval'')]"

subsection \<open>Operations\<close>

definition item_topic :: "string \<Rightarrow> string \<Rightarrow> int \<Rightarrow> string \<Rightarrow> string" where
  "item_topic prefix device_type inst path = prefix @ ''/'' @ device_type @ ''/'' @ str_of_int inst @ ''/'' @ path"

fun contract_topics :: "string \<Rightarrow> hardware_write_contract list \<Rightarrow> string set" where
  "contract_topics prefix [] = {}"
| "contract_topics prefix (c # cs) =
     (if prefix \<noteq> ''N/'' @ contract_portal_id c then contract_topics prefix cs
      else insert (item_topic prefix (contract_device_type c) (contract_instance c) (contract_path c))
        (set (map (\<lambda>p. item_topic prefix (probe_device_type p) (probe_instance p) (probe_path p)) (identity c))
          \<union> contract_topics prefix cs))"

definition base_filters :: "string \<Rightarrow> string set" where
  "base_filters prefix =
     {prefix @ ''/+/+/+'', prefix @ ''/+/+/Mgmt/+'', prefix @ ''/full_publish_completed''} \<union>
     set (map (\<lambda>(family, path). prefix @ ''/'' @ family @ ''/+/'' @ path) DISCOVERY_PATHS) \<union>
     set (concat (map (\<lambda>(device_type, flds).
       concat (map (\<lambda>(field, paths).
         map (\<lambda>path. prefix @ ''/'' @ device_type @ ''/+/'' @ path)
           (filter (\<lambda>path. CHR ''/'' \<in> set path) paths)) flds)) READ_PATHS))"

fun add_uncovered :: "matcher \<Rightarrow> string set \<Rightarrow> string list \<Rightarrow> string set" where
  "add_uncovered tms filters [] = filters"
| "add_uncovered tms filters (topic # topics) =
     add_uncovered tms (if \<exists>pattern \<in> filters. tms pattern topic then filters else insert topic filters) topics"

definition subscriptions :: "matcher \<Rightarrow> string \<Rightarrow> hardware_write_contract list \<Rightarrow> string set" where
  "subscriptions tms prefix contracts =
     add_uncovered tms (base_filters prefix) (sorted_list_of_set (contract_topics prefix contracts))"

definition wildcard_free :: "string \<Rightarrow> bool" where
  "wildcard_free topic \<longleftrightarrow> CHR ''+'' \<notin> set topic \<and> CHR ''#'' \<notin> set topic"

definition refresh_target :: "string \<Rightarrow> string set \<Rightarrow> string \<Rightarrow> bool" where
  "refresh_target prefix required topic =
     (startswith topic (prefix @ ''/'') \<and>
      (case split_max (CHR ''/'') 2 (drop (length prefix + 1) topic) of
         [family, inst, path] \<Rightarrow>
           isdigit inst \<and>
           (topic \<in> required \<or>
            (case map_of READ_PATHS family of
               None \<Rightarrow> False
             | Some flds \<Rightarrow> list_ex (\<lambda>(field, candidates). path \<in> set candidates) flds))
       | _ \<Rightarrow> False))"

definition refresh_topics ::
  "string \<Rightarrow> string list \<Rightarrow> hardware_write_contract list \<Rightarrow> string list \<Rightarrow> string list" where
  "refresh_topics prefix cached contracts explicit =
     (let required = contract_topics prefix contracts \<union> set (filter wildcard_free explicit)
      in sorted_list_of_set (set (filter (refresh_target prefix required) cached)))"

subsection \<open>The matcher the broker and the client library share\<close>

definition level_ok :: "string \<Rightarrow> string \<Rightarrow> bool" where
  "level_ok f t \<longleftrightarrow> f \<noteq> ''#'' \<and> (f = ''+'' \<or> f = t)"

definition matcher_spec :: "matcher \<Rightarrow> bool" where
  "matcher_spec tms \<longleftrightarrow>
     (\<forall>fs ts. fs \<noteq> [] \<longrightarrow> list_all2 level_ok fs ts \<longrightarrow>
        (\<forall>f \<in> set fs. CHR ''/'' \<notin> set f) \<longrightarrow> (\<forall>t \<in> set ts. CHR ''/'' \<notin> set t) \<longrightarrow>
        \<not> startswith (hd ts) ''$'' \<longrightarrow> tms (join ''/'' fs) (join ''/'' ts))"

fun match_levels :: "string list \<Rightarrow> string list \<Rightarrow> bool" where
  "match_levels [] [] = True"
| "match_levels (f # fs) [] = (f = ''#'' \<and> fs = [])"
| "match_levels [] (t # ts) = False"
| "match_levels (f # fs) (t # ts) = (if f = ''#'' then fs = [] else level_ok f t \<and> match_levels fs ts)"

definition mqtt_matches :: matcher where
  "mqtt_matches sub topic \<longleftrightarrow>
     (startswith topic ''$'' = startswith sub ''$'' \<or> \<not> startswith topic ''$'') \<and>
     match_levels (split_on (CHR ''/'') sub) (split_on (CHR ''/'') topic)"

lemma match_levels_list_all2: "list_all2 level_ok fs ts \<Longrightarrow> match_levels fs ts"
  by (induction fs ts rule: list_all2_induct) (auto simp: level_ok_def)

lemma mqtt_matches_spec: "matcher_spec mqtt_matches"
proof -
  have "mqtt_matches (join ''/'' fs) (join ''/'' ts)"
    if h: "fs \<noteq> []" "list_all2 level_ok fs ts" "\<forall>f \<in> set fs. CHR ''/'' \<notin> set f"
      "\<forall>t \<in> set ts. CHR ''/'' \<notin> set t" "\<not> startswith (hd ts) ''$''" for fs ts
  proof -
    obtain t ts' where ts: "ts = t # ts'"
      using h(1,2) by (cases ts) auto
    have "\<not> startswith (join ''/'' ts) ''$''"
      using h(5) ts by (cases ts'; cases t) (auto simp: startswith_code join_Cons)
    then show ?thesis
      using h ts match_levels_list_all2 [OF h(2)] by (simp add: mqtt_matches_def split_on_join)
  qed
  then show ?thesis unfolding matcher_spec_def by blast
qed

lemma matcher_specD:
  assumes "matcher_spec tms" "fs \<noteq> []" "list_all2 level_ok fs ts"
    "list_all (\<lambda>w. CHR ''/'' \<notin> set w) fs" "list_all (\<lambda>w. CHR ''/'' \<notin> set w) ts"
    "\<not> startswith (hd ts) ''$''"
  shows "tms (join ''/'' fs) (join ''/'' ts)"
  using assms unfolding matcher_spec_def list_all_iff by blast

subsection \<open>Subscriptions cover what the tools and contracts read\<close>

lemma add_uncovered_mono: "filters \<subseteq> add_uncovered tms filters topics"
proof (induction topics arbitrary: filters)
  case (Cons t topics)
  have "filters \<subseteq> (if \<exists>pattern \<in> filters. tms pattern t then filters else insert t filters)" by auto
  also note Cons.IH
  finally show ?case by simp
qed simp

lemma add_uncovered_subset: "add_uncovered tms filters topics \<subseteq> filters \<union> set topics"
  by (induction topics arbitrary: filters) (auto split: if_splits)

lemma add_uncovered_covers:
  assumes "topic \<in> set topics" "tms topic topic"
  shows "\<exists>pattern \<in> add_uncovered tms filters topics. tms pattern topic"
  using assms(1)
proof (induction topics arbitrary: filters)
  case (Cons t topics)
  show ?case
  proof (cases "topic = t")
    case True
    let ?filters = "if \<exists>pattern \<in> filters. tms pattern t then filters else insert t filters"
    have "\<exists>pattern \<in> ?filters. tms pattern topic" using True assms(2) by auto
    moreover have "?filters \<subseteq> add_uncovered tms filters (t # topics)"
      using add_uncovered_mono by simp
    ultimately show ?thesis by blast
  next
    case False
    with Cons show ?thesis by simp
  qed
qed simp

lemma finite_contract_topics: "finite (contract_topics prefix cs)"
  by (induction cs) auto

lemma contract_topics_iff:
  "topic \<in> contract_topics prefix cs \<longleftrightarrow>
     (\<exists>c \<in> set cs. prefix = ''N/'' @ contract_portal_id c \<and>
       (topic = item_topic prefix (contract_device_type c) (contract_instance c) (contract_path c) \<or>
        (\<exists>p \<in> set (identity c).
           topic = item_topic prefix (probe_device_type p) (probe_instance p) (probe_path p))))"
  by (induction cs) auto

lemma subscriptions_bounds:
  "base_filters prefix \<subseteq> subscriptions tms prefix cs"
  "subscriptions tms prefix cs \<subseteq> base_filters prefix \<union> contract_topics prefix cs"
  using add_uncovered_mono [of "base_filters prefix" tms]
    add_uncovered_subset [of tms "base_filters prefix" "sorted_list_of_set (contract_topics prefix cs)"]
  by (simp_all add: subscriptions_def finite_contract_topics)

text \<open>
  whatever the reviewed contracts are, every topic the write gate reads for this portal
  (the target of a contract and each of its identity probes) is covered by a broker
  subscription of the client, provided an exact topic filter matches its own topic.
\<close>

lemma subscriptions_cover_contracts:
  assumes "\<forall>topic \<in> contract_topics prefix contracts. tms topic topic"
    and "c \<in> set contracts" and "prefix = ''N/'' @ contract_portal_id c"
  shows "(\<exists>pattern \<in> subscriptions tms prefix contracts.
      tms pattern (item_topic prefix (contract_device_type c) (contract_instance c) (contract_path c))) \<and>
    (\<forall>p \<in> set (identity c). \<exists>pattern \<in> subscriptions tms prefix contracts.
      tms pattern (item_topic prefix (probe_device_type p) (probe_instance p) (probe_path p)))"
proof -
  have cover: "\<exists>pattern \<in> subscriptions tms prefix contracts. tms pattern topic"
    if "topic \<in> contract_topics prefix contracts" for topic
    unfolding subscriptions_def using that assms(1)
    by (intro add_uncovered_covers) (auto simp: finite_contract_topics)
  show ?thesis
    by (intro conjI ballI cover) (use assms(2,3) in \<open>auto simp: contract_topics_iff\<close>)
qed

lemma subscriptions_cover_contracts_example:
  "\<exists>pattern \<in> subscriptions mqtt_matches (''N/'' @ ''c0ffee'') [example_soc_contract].
      mqtt_matches pattern (item_topic (''N/'' @ ''c0ffee'') ''battery'' 512 ''SocLimit'')"
proof -
  have "\<forall>topic \<in> contract_topics (''N/'' @ ''c0ffee'') [example_soc_contract]. mqtt_matches topic topic"
    by code_simp
  from subscriptions_cover_contracts [where c = example_soc_contract and tms = mqtt_matches, OF this]
  show ?thesis by (simp add: example_soc_contract_def)
qed

lemma read_paths_facts:
  "list_all (\<lambda>(dt, table). CHR ''/'' \<notin> set dt \<and> wildcard_free dt \<and>
     list_all (\<lambda>(field, paths). list_all wildcard_free paths) table) READ_PATHS"
  by code_simp

lemma read_paths_facts_mem:
  assumes "(dt, table) \<in> set READ_PATHS" "(field, paths) \<in> set table" "path \<in> set paths"
  shows "CHR ''/'' \<notin> set dt" "wildcard_free dt" "wildcard_free path"
proof -
  have 1: "CHR ''/'' \<notin> set dt \<and> wildcard_free dt \<and>
    list_all (\<lambda>(field, paths). list_all wildcard_free paths) table"
    using bspec [OF read_paths_facts [unfolded list_all_iff] assms(1)] by (simp add: list_all_iff)
  then show "CHR ''/'' \<notin> set dt" "wildcard_free dt" by simp_all
  from 1 have "\<forall>x \<in> set table. case x of (field, paths) \<Rightarrow> list_all wildcard_free paths"
    by (simp add: list_all_iff)
  from bspec [OF this assms(2)] have "list_all wildcard_free paths" by simp
  with assms(3) show "wildcard_free path" by (simp add: list_all_iff)
qed

lemma wildcard_free_not_hash: "wildcard_free w \<Longrightarrow> w \<noteq> ''#''"
  by (auto simp: wildcard_free_def)

lemma wildcard_free_split: "wildcard_free s \<Longrightarrow> w \<in> set (split_on c s) \<Longrightarrow> wildcard_free w"
  using split_on_chars unfolding wildcard_free_def by blast

lemma level_ok_refl_split: "wildcard_free s \<Longrightarrow> list_all2 level_ok (split_on c s) (split_on c s)"
  by (rule list.rel_refl_strong)
    (use wildcard_free_split wildcard_free_not_hash in \<open>auto simp: level_ok_def\<close>)

lemma topic_levels:
  "''N/'' @ portal @ ''/'' @ a @ ''/'' @ b @ ''/'' @ path =
     join ''/'' (''N'' # portal # a # b # split_on (CHR ''/'') path)"
  using join_split_on [of "CHR ''/''" path] by (simp add: join_Cons)

lemma instance_filter_matches:
  assumes "matcher_spec tms" "wildcard_free portal" "CHR ''/'' \<notin> set portal"
    "CHR ''/'' \<notin> set f" "level_ok f dt" "CHR ''/'' \<notin> set dt"
    "list_all2 level_ok (split_on (CHR ''/'') path') (split_on (CHR ''/'') path)"
  shows "tms (''N/'' @ portal @ ''/'' @ f @ ''/+/'' @ path') (item_topic (''N/'' @ portal) dt i path)"
proof -
  let ?fs = "''N'' # portal # f # ''+'' # split_on (CHR ''/'') path'"
  let ?ts = "''N'' # portal # dt # str_of_int i # split_on (CHR ''/'') path"
  have "tms (join ''/'' ?fs) (join ''/'' ?ts)"
    by (rule matcher_specD [OF assms(1)])
      (use assms split_on_no_sep str_of_int_no_slash wildcard_free_not_hash [OF assms(2)] in
        \<open>auto simp: level_ok_def list_all_iff startswith_code\<close>)
  then show ?thesis
    using topic_levels [of portal f "''+''" path'] topic_levels [of portal dt "str_of_int i" path]
    by (simp add: item_topic_def)
qed

lemma base_filters_nested:
  assumes "(dt, table) \<in> set READ_PATHS" "(field, paths) \<in> set table" "path \<in> set paths"
    "CHR ''/'' \<in> set path"
  shows "portal @ ''/'' @ dt @ ''/+/'' @ path \<in> base_filters portal"
proof -
  let ?per_field = "\<lambda>(field, paths). map (\<lambda>path. portal @ ''/'' @ dt @ ''/+/'' @ path)
    (filter (\<lambda>path. CHR ''/'' \<in> set path) paths)"
  have "portal @ ''/'' @ dt @ ''/+/'' @ path \<in> set (?per_field (field, paths))"
    using assms(3,4) by simp
  then have "portal @ ''/'' @ dt @ ''/+/'' @ path \<in> set (concat (map ?per_field table))"
    using assms(2) unfolding set_concat set_map by (intro UN_I [OF imageI])
  then show ?thesis
    unfolding base_filters_def set_concat set_map
    using assms(1) by (intro UnI2 UN_I [OF imageI, OF assms(1)]) simp
qed

text \<open>
  every item path a read tool may consult, for any instance of its device families, is
  covered by a broker subscription of the client, for every matcher that matches levels as the
  MQTT specification says and every portal ID without separators and wildcards.
\<close>

lemma subscriptions_cover_read_paths:
  assumes "matcher_spec tms" "wildcard_free portal" "CHR ''/'' \<notin> set portal"
    and "(dt, table) \<in> set READ_PATHS" "(field, paths) \<in> set table" "path \<in> set paths"
  shows "\<exists>pattern \<in> subscriptions tms (''N/'' @ portal) contracts.
    tms pattern (item_topic (''N/'' @ portal) dt i path)"
proof -
  let ?prefix = "''N/'' @ portal"
  note facts = read_paths_facts_mem [OF assms(4-6)]
  have "\<exists>pattern \<in> base_filters ?prefix. tms pattern (item_topic ?prefix dt i path)"
  proof (cases "CHR ''/'' \<in> set path")
    case True
    have "?prefix @ ''/'' @ dt @ ''/+/'' @ path \<in> base_filters ?prefix"
      using assms(4-6) True by (rule base_filters_nested)
    moreover have "tms (''N/'' @ portal @ ''/'' @ dt @ ''/+/'' @ path) (item_topic ?prefix dt i path)"
    proof (rule instance_filter_matches [OF assms(1-3) facts(1) _ facts(1)])
      show "level_ok dt dt" using wildcard_free_not_hash [OF facts(2)] by (simp add: level_ok_def)
      show "list_all2 level_ok (split_on (CHR ''/'') path) (split_on (CHR ''/'') path)"
        using facts(3) by (rule level_ok_refl_split)
    qed
    ultimately show ?thesis by (intro bexI) (simp_all only: append_assoc)
  next
    case False
    have "?prefix @ ''/+/+/+'' \<in> base_filters ?prefix" by (simp add: base_filters_def)
    moreover have "tms (''N/'' @ portal @ ''/'' @ ''+'' @ ''/+/'' @ ''+'') (item_topic ?prefix dt i path)"
      using False
      by (intro instance_filter_matches [OF assms(1-3) _ _ facts(1)]) (simp_all add: level_ok_def split_on_word)
    ultimately show ?thesis by (intro bexI) simp_all
  qed
  then show ?thesis using subscriptions_bounds(1) by blast
qed

lemma subscriptions_cover_read_paths_example:
  "\<exists>pattern \<in> subscriptions mqtt_matches (''N/'' @ ''c0ffee'') [].
     mqtt_matches pattern (item_topic (''N/'' @ ''c0ffee'') ''grid'' 30 ''Connected'')"
  by (rule subscriptions_cover_read_paths [OF mqtt_matches_spec, of _ _ GRID_PATHS "''status''" "[''Connected'']"])
    (simp_all add: wildcard_free_def READ_PATHS_def GRID_PATHS_def)

subsection \<open>Refreshed topics\<close>

lemma refresh_topics_set:
  "set (refresh_topics prefix cached contracts explicit) =
     {topic \<in> set cached. refresh_target prefix
        (contract_topics prefix contracts \<union> {t \<in> set explicit. wildcard_free t}) topic}"
  by (auto simp: refresh_topics_def Let_def)

lemma refresh_topics_sorted: "sorted (refresh_topics prefix cached contracts explicit)"
  "distinct (refresh_topics prefix cached contracts explicit)"
  by (simp_all add: refresh_topics_def Let_def)

lemma refresh_target_prefix: "refresh_target prefix required topic \<Longrightarrow> startswith topic (prefix @ ''/'')"
  by (simp add: refresh_target_def)

lemma split_max_three:
  assumes "CHR ''/'' \<notin> set family" "CHR ''/'' \<notin> set inst"
  shows "split_max (CHR ''/'') 2 (family @ ''/'' @ inst @ ''/'' @ path) = [family, inst, path]"
  using split_max_append_sep [OF assms(1), of 2] split_max_append_sep [OF assms(2), of 1]
  by simp

text \<open>
  the topics renewed periodically are exactly the cached topics of this portal, three levels
  or deeper below it with a numeric instance, that either are a contract target, a contract
  identity or a wildcard-free caller subscription, or are a read path of the family's tool; the
  list is sorted and has no duplicates, so nothing that was not received is ever requested.
\<close>

lemma refresh_topics_exact:
  fixes portal path :: string
  assumes "CHR ''/'' \<notin> set family" "CHR ''/'' \<notin> set inst"
  defines "topic \<equiv> portal @ ''/'' @ family @ ''/'' @ inst @ ''/'' @ path"
  shows "(topic \<in> set (refresh_topics portal cached contracts explicit) \<longleftrightarrow>
      topic \<in> set cached \<and> isdigit inst \<and>
      (topic \<in> contract_topics portal contracts \<or> (topic \<in> set explicit \<and> wildcard_free topic) \<or>
       (\<exists>flds field candidates. map_of READ_PATHS family = Some flds \<and>
          (field, candidates) \<in> set flds \<and> path \<in> set candidates))) \<and>
    sorted (refresh_topics portal cached contracts explicit) \<and>
    distinct (refresh_topics portal cached contracts explicit) \<and>
    set (refresh_topics portal cached contracts explicit) \<subseteq> set cached"
proof -
  have "drop (length portal + 1) topic = family @ ''/'' @ inst @ ''/'' @ path"
    "startswith topic (portal @ ''/'')"
    by (simp_all add: topic_def startswith_iff)
  then have "refresh_target portal required topic \<longleftrightarrow>
    isdigit inst \<and> (topic \<in> required \<or>
      (\<exists>flds field candidates. map_of READ_PATHS family = Some flds \<and>
         (field, candidates) \<in> set flds \<and> path \<in> set candidates))" for required
    using split_max_three [OF assms(1,2), of path]
    by (auto simp: refresh_target_def list_ex_iff split: option.splits)
  then show ?thesis
    unfolding refresh_topics_set by (simp add: refresh_topics_sorted refresh_topics_set)
qed

lemma refresh_topics_exact_example:
  "''N/c0ffee/battery/512/Soc'' \<in> set (refresh_topics ''N/c0ffee'' [''N/c0ffee/battery/512/Soc''] [] [])"
  using refresh_topics_exact [of "''battery''" "''512''" "''N/c0ffee''" "''Soc''" "[''N/c0ffee/battery/512/Soc'']" "[]" "[]"]
  by (simp add: isdigit_def is_digit_char_def is_decimal_char_def READ_PATHS_def BATTERY_PATHS_def)
    (rule exI [of _ "''soc''"], rule exI [of _ "[''Soc'']"], simp)

end
