(* ===== verification/Capabilities.thy ===== *)
theory Capabilities
  imports Py_Str
begin

section \<open>Companion-service detection\<close>

text \<open>
  Model of \<^verbatim>\<open>src/mcp_venus_os/capabilities.py\<close>: the marker table, the test whether a topic
  belongs to a companion service, the broker subscriptions that cover the markers, and the
  scan of cached topics for the capabilities whose tools are to be registered.
\<close>

definition CAPABILITY_MARKERS :: "(string, string list) dict" where
  "CAPABILITY_MARKERS =
     [(''control'', [''inverter/state'']),
      (''pump'', [''tank/''])]"

definition VENUS_PREFIXES :: "string list" where
  "VENUS_PREFIXES = [''N/'', ''W/'', ''R/'']"

text \<open>The marker test both scans use: an exact topic, or a prefix that ends in a slash.\<close>

definition marker_hit :: "string \<Rightarrow> string \<Rightarrow> bool" where
  "marker_hit topic marker \<longleftrightarrow>
     topic = marker \<or> (endswith marker ''/'' \<and> startswith topic marker)"

definition is_capability_topic :: "string \<Rightarrow> bool" where
  "is_capability_topic topic \<longleftrightarrow>
     \<not> list_ex (startswith topic) VENUS_PREFIXES \<and>
     list_ex (\<lambda>markers. list_ex (marker_hit topic) markers) (map snd CAPABILITY_MARKERS)"

definition capability_subscriptions :: "string list" where
  "capability_subscriptions =
     concat (map (\<lambda>markers. map (\<lambda>marker. if endswith marker ''/'' then marker @ ''#'' else marker) markers)
       (map snd CAPABILITY_MARKERS))"

fun detect_capabilities :: "string list \<Rightarrow> string set" where
  "detect_capabilities [] = {}"
| "detect_capabilities (topic # topics) =
     (if is_capability_topic topic
      then set (map fst (filter (\<lambda>(cap, markers). list_ex (marker_hit topic) markers) CAPABILITY_MARKERS))
        \<union> detect_capabilities topics
      else detect_capabilities topics)"

subsection \<open>What the markers decide\<close>

lemma endswith_markers [simp]:
  "endswith ''tank/'' ''/''" "\<not> endswith ''inverter/state'' ''/''"
  by (simp_all add: endswith_def startswith_code)

lemma marker_hit_tank: "marker_hit topic ''tank/'' \<longleftrightarrow> startswith topic ''tank/''"
  by (auto simp: marker_hit_def)

lemma marker_hit_state: "marker_hit topic ''inverter/state'' \<longleftrightarrow> topic = ''inverter/state''"
  by (simp add: marker_hit_def)

lemma markers_not_venus:
  assumes "topic = ''inverter/state'' \<or> startswith topic ''tank/''"
  shows "\<not> list_ex (startswith topic) VENUS_PREFIXES"
proof -
  from assms have "startswith topic ''i'' \<or> startswith topic ''t''"
    by (auto simp: startswith_iff)
  then show ?thesis
    unfolding VENUS_PREFIXES_def by (auto dest: startswith_hd_unique)
qed

lemma is_capability_topic_iff:
  "is_capability_topic topic \<longleftrightarrow> topic = ''inverter/state'' \<or> startswith topic ''tank/''"
  using markers_not_venus
  by (auto simp: is_capability_topic_def CAPABILITY_MARKERS_def marker_hit_tank marker_hit_state)

lemma detect_capabilities_iff:
  "cap \<in> detect_capabilities topics \<longleftrightarrow>
     (\<exists>topic \<in> set topics. is_capability_topic topic \<and>
        (\<exists>markers. (cap, markers) \<in> set CAPABILITY_MARKERS \<and> (\<exists>m \<in> set markers. marker_hit topic m)))"
  by (induction topics) (auto simp: list_ex_iff image_iff Bex_def)

lemma detect_capabilities_mono:
  "set topics \<subseteq> set topics' \<Longrightarrow> detect_capabilities topics \<subseteq> detect_capabilities topics'"
  unfolding subset_iff detect_capabilities_iff by blast

lemma detect_capabilities_known: "detect_capabilities topics \<subseteq> {''control'', ''pump''}"
  by (auto simp: detect_capabilities_iff CAPABILITY_MARKERS_def)

lemma detect_capabilities_finite: "finite (detect_capabilities topics)"
  using detect_capabilities_known by (rule finite_subset) simp

text \<open>
  a companion tool group is detected exactly when its own marker topic was seen: the
  control group for \<^verbatim>\<open>inverter/state\<close> itself, the pump group for any topic below \<^verbatim>\<open>tank/\<close>, and
  no other capability is ever reported.
\<close>

lemma detect_capabilities_exact:
  "detect_capabilities topics =
     (if ''inverter/state'' \<in> set topics then {''control''} else {}) \<union>
     (if \<exists>topic \<in> set topics. startswith topic ''tank/'' then {''pump''} else {})"
proof (induction topics)
  case (Cons topic topics)
  have "set (map fst (filter (\<lambda>(cap, markers). list_ex (marker_hit topic) markers) CAPABILITY_MARKERS)) =
    (if topic = ''inverter/state'' then {''control''} else {}) \<union>
    (if startswith topic ''tank/'' then {''pump''} else {})"
    by (simp add: CAPABILITY_MARKERS_def marker_hit_tank marker_hit_state insert_commute)
  then show ?case
    using Cons.IH by (auto simp: is_capability_topic_iff split: if_splits)
qed simp

end
