(* ===== verification/Mqtt_State.thy ===== *)
theory Mqtt_State
  imports Venus_Config Telemetry Capabilities
begin

section \<open>The MQTT client: state, topics and base subscriptions\<close>

text \<open>
  The attributes of \<^verbatim>\<open>MQTTClient\<close> (\<^verbatim>\<open>src/mcp_venus_os/mqtt_client.py\<close>) as a record.  Paho
  clients, sockets and user callbacks are compared by identity only, so they are numbers.  A
  thread attribute is \<open>None\<close> or a thread that is alive or has exited.  The list of callbacks
  that \<^verbatim>\<open>_callbacks\<close> and \<^verbatim>\<open>_callback_index\<close> share is stored once, under its pattern; the index
  holds the sequence number and that pattern.  What the code asks of the paho client is a list of
  \<open>action\<close>s; time is an argument wherever the code calls \<^verbatim>\<open>time.monotonic()\<close>.
\<close>

datatype thread_state = Alive | Exited

record mqtt_message =
  msg_topic :: string
  msg_payload :: string
  msg_retain :: bool

text \<open>An inbox entry is a message with its transport and receive time, or the shutdown sentinel.\<close>

datatype inbox_entry = Entry nat mqtt_message pyfloat | Sentinel

record transport_event =
  event :: string
  event_generation :: nat
  event_socket :: "(string, pyval) dict"

record mqtt_client =
  mq_config :: mqtt_config
  mq_contracts :: "hardware_write_contract list"
  mq_client :: "nat option"
  mq_connected :: bool
  mq_stopping :: bool
  mq_worker_stop :: bool
  mq_callbacks :: "(string, nat list) dict"
  mq_callback_sequence :: nat
  mq_callback_index :: "(string, nat \<times> string) dict"
  mq_cache :: "(string, pyval \<times> pyfloat) dict"
  mq_retained_serial_seen :: bool
  mq_inbox :: "inbox_entry list"
  mq_worker :: "thread_state option"
  mq_loop_thread :: "thread_state option"
  mq_last_drop_log :: pyfloat
  mq_connection_epoch :: nat
  mq_session_started_at :: "pyfloat option"
  mq_last_received_at :: "pyfloat option"
  mq_last_pingreq_at :: "pyfloat option"
  mq_last_pingresp_at :: "pyfloat option"
  mq_pingreq_attempts :: nat
  mq_pingresp_received :: nat
  mq_disconnect_callbacks :: nat
  mq_inbox_dropped :: nat
  mq_socket_generation :: nat
  mq_diagnostic_socket :: "nat option"
  mq_pending_pingreq_generation :: "nat option"
  mq_transport_events :: "(pyfloat \<times> transport_event) list"
  mq_transport_event_revision :: nat
  mq_reported_transport_event_revision :: int
  mq_maintenance_epoch :: int
  mq_next_keepalive :: pyfloat
  mq_next_refresh :: pyfloat
  mq_next_refresh_batch :: pyfloat
  mq_refresh_cursor :: nat
  mq_pending_refresh :: "string list"

definition INBOX_MAXSIZE :: nat where
  "INBOX_MAXSIZE = 50000"

definition TRANSPORT_EVENT_LIMIT :: nat where
  "TRANSPORT_EVENT_LIMIT = 12"

definition init_client :: "mqtt_config \<Rightarrow> hardware_write_contract list \<Rightarrow> mqtt_client" where
  "init_client config contracts = \<lparr>
     mq_config = config,
     mq_contracts = contracts,
     mq_client = None,
     mq_connected = False,
     mq_stopping = False,
     mq_worker_stop = False,
     mq_callbacks = [],
     mq_callback_sequence = 0,
     mq_callback_index = [],
     mq_cache = [],
     mq_retained_serial_seen = False,
     mq_inbox = [],
     mq_worker = None,
     mq_loop_thread = None,
     mq_last_drop_log = Fin 0,
     mq_connection_epoch = 0,
     mq_session_started_at = None,
     mq_last_received_at = None,
     mq_last_pingreq_at = None,
     mq_last_pingresp_at = None,
     mq_pingreq_attempts = 0,
     mq_pingresp_received = 0,
     mq_disconnect_callbacks = 0,
     mq_inbox_dropped = 0,
     mq_socket_generation = 0,
     mq_diagnostic_socket = None,
     mq_pending_pingreq_generation = None,
     mq_transport_events = [],
     mq_transport_event_revision = 0,
     mq_reported_transport_event_revision = -1,
     mq_maintenance_epoch = -1,
     mq_next_keepalive = Fin 0,
     mq_next_refresh = Fin 0,
     mq_next_refresh_batch = Fin 0,
     mq_refresh_cursor = 0,
     mq_pending_refresh = [] \<rparr>"

subsection \<open>Requests to the paho client\<close>

text \<open>A published string is sent as it is, any other value as its JSON text.\<close>

datatype action =
    Subscribe nat string
  | Unsubscribe nat string
  | Publish nat string pyval bool
  | Disconnect nat
  | Reset_sockets nat

fun publish_topic :: "action \<Rightarrow> string option" where
  "publish_topic (Publish _ topic _ _) = Some topic"
| "publish_topic _ = None"

subsection \<open>Prefixes and base subscriptions\<close>

definition prefix_of :: "mqtt_client \<Rightarrow> string res" where
  "prefix_of s = topic_prefix (mq_config s)"

definition write_prefix :: "mqtt_client \<Rightarrow> string res" where
  "write_prefix s =
     (if unset (portal_id (mq_config s)) then Inl MissingPortalIdError
      else Inr (''W/'' @ the (portal_id (mq_config s))))"

text \<open>The portal ID as an f-string prints it.\<close>

definition portal_text :: "mqtt_client \<Rightarrow> string" where
  "portal_text s = (case portal_id (mq_config s) of None \<Rightarrow> ''None'' | Some p \<Rightarrow> p)"

definition base_subscriptions :: "matcher \<Rightarrow> mqtt_client \<Rightarrow> string set res" where
  "base_subscriptions tms s =
     bind_res (prefix_of s) (\<lambda>pre. Inr (subscriptions tms pre (mq_contracts s) \<union> set capability_subscriptions))"

definition covered_by_base :: "matcher \<Rightarrow> mqtt_client \<Rightarrow> string \<Rightarrow> bool res" where
  "covered_by_base tms s pattern =
     bind_res (base_subscriptions tms s) (\<lambda>base.
       Inr (pattern \<in> base \<or> (wildcard_free pattern \<and> (\<exists>owned \<in> base. tms owned pattern))))"

definition explicit_patterns :: "mqtt_client \<Rightarrow> string list" where
  "explicit_patterns s = map fst (filter (\<lambda>(pattern, cbs). cbs \<noteq> []) (mq_callbacks s))"

text \<open>The guard every callback of paho starts with: a stale or stopping transport is ignored.\<close>

definition owned :: "mqtt_client \<Rightarrow> nat \<Rightarrow> bool" where
  "owned s cid \<longleftrightarrow> mq_client s = Some cid \<and> \<not> mq_stopping s"

lemma prefix_of_cases:
  obtains (missing) "prefix_of s = Inl MissingPortalIdError" "unset (portal_id (mq_config s))"
  | (portal) p where "portal_id (mq_config s) = Some p" "p \<noteq> []" "prefix_of s = Inr (''N/'' @ p)"
    "write_prefix s = Inr (''W/'' @ p)" "portal_text s = p"
  by (cases "portal_id (mq_config s)")
    (auto simp: prefix_of_def topic_prefix_def write_prefix_def portal_text_def unset_def)

lemma finite_base_filters: "finite (base_filters p)"
  unfolding base_filters_def by (intro finite_UnI finite_set finite.intros)

lemma finite_subscriptions: "finite (subscriptions tms p cs)"
  using subscriptions_bounds(2) by (rule finite_subset) (simp add: finite_base_filters finite_contract_topics)

end
