(* ===== verification/Mqtt_Session.thy ===== *)
theory Mqtt_Session
  imports Mqtt_State
begin

section \<open>Session and socket callbacks\<close>

text \<open>
  \<^verbatim>\<open>_on_connect\<close>, \<^verbatim>\<open>_on_disconnect\<close>, \<^verbatim>\<open>_on_log\<close> and the three socket callbacks, with the
  bounded metadata they keep.  \<open>sample\<close> stands for \<^verbatim>\<open>sample_socket\<close> on the current socket,
  \<open>client_socket\<close> for \<^verbatim>\<open>client.socket()\<close>.  A callback returns the new state, its requests to
  paho and the exception it raises, if any.
\<close>

type_synonym sampler = "nat option \<Rightarrow> (string, pyval) dict"

subsection \<open>Connection\<close>

definition session_started :: "mqtt_client \<Rightarrow> pyfloat \<Rightarrow> mqtt_client" where
  "session_started s now = s\<lparr>
     mq_connection_epoch := mq_connection_epoch s + 1,
     mq_session_started_at := Some now,
     mq_last_received_at := None,
     mq_last_pingreq_at := None,
     mq_last_pingresp_at := None,
     mq_pingreq_attempts := 0,
     mq_pingresp_received := 0,
     mq_disconnect_callbacks := 0,
     mq_inbox_dropped := 0,
     mq_pending_pingreq_generation := None\<rparr>"

definition on_connect ::
  "matcher \<Rightarrow> mqtt_client \<Rightarrow> nat \<Rightarrow> int \<Rightarrow> pyfloat \<Rightarrow> mqtt_client \<times> action list \<times> py_exc option" where
  "on_connect tms s cid reason_code now =
     (if \<not> owned s cid then (s, [], None)
      else let s1 = s\<lparr>mq_connected := (reason_code = 0)\<rparr>;
               s2 = (if reason_code = 0 then session_started s1 now else s1)
           in if reason_code \<noteq> 0 then (s2, [], None)
              else case base_subscriptions tms s2 of
                     Inl e \<Rightarrow> (s2, [], Some e)
                   | Inr base \<Rightarrow>
                       let additional = set (filter (\<lambda>p. covered_by_base tms s2 p = Inr False) (explicit_patterns s2))
                       in (s2,
                           map (Subscribe cid) (sorted_list_of_set (base \<union> additional)) @
                             [Publish cid (''R/'' @ portal_text s2 @ ''/keepalive'') (VStr []) False],
                           None))"

subsection \<open>Disconnection and its diagnostics\<close>

definition age_at :: "pyfloat \<Rightarrow> pyfloat option \<Rightarrow> pyfloat option" where
  "age_at now received_at =
     map_option (\<lambda>t. float_round 3 (float_max (Fin 0) (float_sub now t))) received_at"

record mqtt_diagnostics =
  dg_connection_epoch :: nat
  dg_disconnect_callback :: nat
  dg_duplicate_in_epoch :: bool
  dg_session_age_s :: "pyfloat option"
  dg_notification_age_s :: "pyfloat option"
  dg_pingreq_attempt_age_s :: "pyfloat option"
  dg_pingresp_age_s :: "pyfloat option"
  dg_pingreq_attempts :: nat
  dg_pingresp_received :: nat
  dg_inbox_depth :: nat
  dg_inbox_dropped :: nat
  dg_socket_generation :: nat
  dg_network_thread_alive :: "bool option"
  dg_transport_events_repeated :: bool
  dg_transport_events :: "(transport_event \<times> pyfloat option) list"

definition diagnostics_of :: "mqtt_client \<Rightarrow> pyfloat \<Rightarrow> mqtt_diagnostics" where
  "diagnostics_of s now = \<lparr>
     dg_connection_epoch = mq_connection_epoch s,
     dg_disconnect_callback = mq_disconnect_callbacks s,
     dg_duplicate_in_epoch = (1 < mq_disconnect_callbacks s),
     dg_session_age_s = age_at now (mq_session_started_at s),
     dg_notification_age_s = age_at now (mq_last_received_at s),
     dg_pingreq_attempt_age_s = age_at now (mq_last_pingreq_at s),
     dg_pingresp_age_s = age_at now (mq_last_pingresp_at s),
     dg_pingreq_attempts = mq_pingreq_attempts s,
     dg_pingresp_received = mq_pingresp_received s,
     dg_inbox_depth = length (mq_inbox s),
     dg_inbox_dropped = mq_inbox_dropped s,
     dg_socket_generation = mq_socket_generation s,
     dg_network_thread_alive = map_option (\<lambda>t. t = Alive) (mq_loop_thread s),
     dg_transport_events_repeated =
       (mq_reported_transport_event_revision s = int (mq_transport_event_revision s)),
     dg_transport_events =
       (if mq_reported_transport_event_revision s \<noteq> int (mq_transport_event_revision s)
        then map (\<lambda>(observed_at, ev). (ev, age_at now (Some observed_at))) (mq_transport_events s)
        else []) \<rparr>"

definition on_disconnect :: "mqtt_client \<Rightarrow> nat \<Rightarrow> pyfloat \<Rightarrow> mqtt_client \<times> mqtt_diagnostics option" where
  "on_disconnect s cid now =
     (if \<not> owned s cid then (s, None)
      else let s1 = s\<lparr>mq_connected := False, mq_disconnect_callbacks := mq_disconnect_callbacks s + 1\<rparr>
           in (s1\<lparr>mq_reported_transport_event_revision := int (mq_transport_event_revision s1)\<rparr>,
               Some (diagnostics_of s1 now)))"

subsection \<open>Transport events\<close>

text \<open>\<^verbatim>\<open>deque(maxlen=12).append\<close>: the oldest entries fall off.\<close>

definition bounded_append :: "nat \<Rightarrow> 'a list \<Rightarrow> 'a \<Rightarrow> 'a list" where
  "bounded_append n xs x = (let ys = xs @ [x] in drop (length ys - n) ys)"

definition record_transport_event :: "sampler \<Rightarrow> mqtt_client \<Rightarrow> string \<Rightarrow> pyfloat \<Rightarrow> mqtt_client" where
  "record_transport_event sample s name observed_at = s\<lparr>
     mq_transport_events := bounded_append TRANSPORT_EVENT_LIMIT (mq_transport_events s)
       (observed_at, \<lparr>event = name, event_generation = mq_socket_generation s,
                      event_socket = sample (mq_diagnostic_socket s)\<rparr>),
     mq_transport_event_revision := mq_transport_event_revision s + 1\<rparr>"

definition on_log :: "sampler \<Rightarrow> mqtt_client \<Rightarrow> nat \<Rightarrow> string \<Rightarrow> pyfloat \<Rightarrow> mqtt_client" where
  "on_log sample s cid message now =
     (if message \<notin> {''Sending PINGREQ'', ''Received PINGRESP''} then s
      else if \<not> owned s cid \<or> \<not> mq_connected s then s
      else if message = ''Sending PINGREQ'' then
        record_transport_event sample (s\<lparr>
          mq_last_pingreq_at := Some now,
          mq_pingreq_attempts := mq_pingreq_attempts s + 1,
          mq_pending_pingreq_generation := Some (mq_socket_generation s)\<rparr>) ''pingreq_attempt'' now
      else
        record_transport_event sample (s\<lparr>
          mq_last_pingresp_at := Some now,
          mq_pingresp_received := mq_pingresp_received s + 1\<rparr>) ''pingresp_decoded'' now)"

definition on_socket_open ::
  "sampler \<Rightarrow> mqtt_client \<Rightarrow> nat \<Rightarrow> nat option \<Rightarrow> nat \<Rightarrow> pyfloat \<Rightarrow> mqtt_client" where
  "on_socket_open sample s cid client_socket sock now =
     (if \<not> owned s cid \<or> client_socket \<noteq> Some sock then s
      else record_transport_event sample (s\<lparr>
        mq_socket_generation := mq_socket_generation s + 1,
        mq_diagnostic_socket := Some sock,
        mq_pending_pingreq_generation := None,
        mq_transport_events := []\<rparr>) ''socket_open'' now)"

definition on_socket_unregister_write ::
  "sampler \<Rightarrow> mqtt_client \<Rightarrow> nat \<Rightarrow> nat option \<Rightarrow> bool \<Rightarrow> nat \<Rightarrow> pyfloat \<Rightarrow> mqtt_client" where
  "on_socket_unregister_write sample s cid client_socket want_write sock now =
     (if \<not> owned s cid \<or> \<not> mq_connected s \<or> mq_diagnostic_socket s \<noteq> Some sock \<or>
         client_socket \<noteq> Some sock \<or> want_write \<or>
         mq_pending_pingreq_generation s \<noteq> Some (mq_socket_generation s)
      then s
      else record_transport_event sample (s\<lparr>mq_pending_pingreq_generation := None\<rparr>)
        ''output_drained_after_pingreq'' now)"

definition on_socket_close :: "sampler \<Rightarrow> mqtt_client \<Rightarrow> nat \<Rightarrow> nat \<Rightarrow> pyfloat \<Rightarrow> mqtt_client" where
  "on_socket_close sample s cid sock now =
     (if \<not> owned s cid \<or> mq_diagnostic_socket s \<noteq> Some sock then s
      else (record_transport_event sample s ''socket_close'' now)\<lparr>
        mq_diagnostic_socket := None,
        mq_pending_pingreq_generation := None\<rparr>)"

subsection \<open>Facts\<close>

lemma bounded_append_length: "length (bounded_append n xs x) \<le> n"
  by (simp add: bounded_append_def Let_def)

lemma bounded_append_below: "length xs < n \<Longrightarrow> bounded_append n xs x = xs @ [x]"
  by (simp add: bounded_append_def Let_def)

lemma bounded_append_full: "xs \<noteq> [] \<Longrightarrow> bounded_append (length xs) xs x = tl xs @ [x]"
  by (cases xs) (simp_all add: bounded_append_def Let_def)

lemma not_owned_ignored [simp]:
  assumes "\<not> owned s cid"
  shows "on_connect tms s cid rc now = (s, [], None)"
    and "on_disconnect s cid now = (s, None)"
    and "on_log sample s cid m now = s"
    and "on_socket_open sample s cid cs sock now = s"
    and "on_socket_unregister_write sample s cid cs w sock now = s"
    and "on_socket_close sample s cid sock now = s"
  using assms
  by (simp_all add: on_connect_def on_disconnect_def on_log_def on_socket_open_def
      on_socket_unregister_write_def on_socket_close_def)

end
