(* ===== verification/Mqtt_Inbox.thy ===== *)
theory Mqtt_Inbox
  imports Mqtt_Session
begin

section \<open>Inbound messages, the cache and subscriptions\<close>

text \<open>
  \<^verbatim>\<open>_on_message\<close>, the decoder (\<^verbatim>\<open>_drain_inbox\<close>, \<^verbatim>\<open>_handle_message\<close>), callback delivery,
  \<^verbatim>\<open>subscribe\<close> and \<^verbatim>\<open>unsubscribe\<close>, the cache readers and device discovery.  \<open>loads\<close> is
  \<^verbatim>\<open>json.loads(payload.decode())\<close>; \<open>iter_match\<close> is the lookup of paho's
  \<^verbatim>\<open>MQTTMatcher\<close>, whose values are the index entries.  A delivery is a callback with the payload
  it is called with.
\<close>

type_synonym json_loads = "string \<Rightarrow> pyval res"
type_synonym match_index = "(string, nat \<times> string) dict \<Rightarrow> string \<Rightarrow> (nat \<times> string) list"

definition DROP_LOG_INTERVAL_S :: pyfloat where
  "DROP_LOG_INTERVAL_S = Fin 10"

subsection \<open>Receiving\<close>

definition on_message :: "mqtt_client \<Rightarrow> nat \<Rightarrow> mqtt_message \<Rightarrow> pyfloat \<Rightarrow> pyfloat \<Rightarrow> mqtt_client" where
  "on_message s cid msg received_at now =
     (if \<not> owned s cid then s
      else let s1 = s\<lparr>mq_last_received_at := Some received_at\<rparr>
           in if length (mq_inbox s1) < INBOX_MAXSIZE
              then s1\<lparr>mq_inbox := mq_inbox s1 @ [Entry cid msg received_at]\<rparr>
              else let s2 = s1\<lparr>mq_inbox_dropped := mq_inbox_dropped s1 + 1\<rparr>
                   in if float_le DROP_LOG_INTERVAL_S (float_sub now (mq_last_drop_log s2))
                      then s2\<lparr>mq_last_drop_log := now\<rparr> else s2)"

subsection \<open>Callbacks\<close>

definition notify_callbacks :: "match_index \<Rightarrow> mqtt_client \<Rightarrow> string \<Rightarrow> pyval \<Rightarrow> (nat \<times> pyval) list" where
  "notify_callbacks iter_match s topic payload =
     (if mq_callbacks s = [] then []
      else let groups = sort_key fst (iter_match (mq_callback_index s) topic)
           in concat (map (\<lambda>(seq, group).
                case map_of (mq_callbacks s) group of
                  None \<Rightarrow> [] | Some cbs \<Rightarrow> map (\<lambda>cb. (cb, payload)) cbs) groups))"

definition subscribe ::
  "matcher \<Rightarrow> mqtt_client \<Rightarrow> string \<Rightarrow> nat \<Rightarrow> mqtt_client \<times> action list \<times> py_exc option" where
  "subscribe tms s pattern cb =
     (let s1 = (case map_of (mq_callbacks s) pattern of
                  Some _ \<Rightarrow> s
                | None \<Rightarrow> s\<lparr>
                    mq_callbacks := dict_set pattern [] (mq_callbacks s),
                    mq_callback_index :=
                      dict_set pattern (mq_callback_sequence s, pattern) (mq_callback_index s),
                    mq_callback_sequence := mq_callback_sequence s + 1\<rparr>);
          cbs = (case map_of (mq_callbacks s1) pattern of None \<Rightarrow> [] | Some xs \<Rightarrow> xs);
          s2 = s1\<lparr>mq_callbacks := dict_set pattern (cbs @ [cb]) (mq_callbacks s1)\<rparr>
      in case mq_client s2 of
           Some cid \<Rightarrow>
             if mq_connected s2 then
               (case covered_by_base tms s2 pattern of
                  Inl e \<Rightarrow> (s2, [], Some e)
                | Inr covered \<Rightarrow> (s2, if covered then [] else [Subscribe cid pattern], None))
             else (s2, [], None)
         | None \<Rightarrow> (s2, [], None))"

definition unsubscribe ::
  "matcher \<Rightarrow> mqtt_client \<Rightarrow> string \<Rightarrow> nat \<Rightarrow> mqtt_client \<times> action list \<times> py_exc option" where
  "unsubscribe tms s pattern cb =
     (case map_of (mq_callbacks s) pattern of
        None \<Rightarrow> (s, [], None)
      | Some cbs \<Rightarrow>
          if cb \<notin> set cbs then (s, [], Some ValueError)
          else let rest = remove1 cb cbs
               in if rest \<noteq> [] then (s\<lparr>mq_callbacks := dict_set pattern rest (mq_callbacks s)\<rparr>, [], None)
                  else let s1 = s\<lparr>mq_callbacks := dict_pop pattern (mq_callbacks s),
                                  mq_callback_index := dict_pop pattern (mq_callback_index s)\<rparr>
                       in (case mq_client s1 of
                             Some cid \<Rightarrow>
                               if mq_connected s1 then
                                 (case covered_by_base tms s1 pattern of
                                    Inl e \<Rightarrow> (s1, [], Some e)
                                  | Inr covered \<Rightarrow> (s1, if covered then [] else [Unsubscribe cid pattern], None))
                               else (s1, [], None)
                           | None \<Rightarrow> (s1, [], None)))"

subsection \<open>Decoding\<close>

definition unwrap_payload :: "pyval \<Rightarrow> pyval" where
  "unwrap_payload payload =
     (case payload of
        VDict kv \<Rightarrow> if set (map fst kv) = {''value''} then the (map_of kv ''value'') else payload
      | _ \<Rightarrow> payload)"

definition serial_topic :: "string \<Rightarrow> string" where
  "serial_topic pre = pre @ ''/system/0/Serial''"

definition forget_topic :: "mqtt_client \<Rightarrow> string \<Rightarrow> mqtt_client" where
  "forget_topic s topic =
     (let s1 = s\<lparr>mq_cache := dict_pop topic (mq_cache s)\<rparr>
      in case prefix_of s1 of
           Inl _ \<Rightarrow> s1
         | Inr pre \<Rightarrow> if topic = serial_topic pre then s1\<lparr>mq_retained_serial_seen := False\<rparr> else s1)"

definition handle_message ::
  "match_index \<Rightarrow> json_loads \<Rightarrow> mqtt_client \<Rightarrow> nat \<Rightarrow> mqtt_message \<Rightarrow> pyfloat \<Rightarrow>
   mqtt_client \<times> (nat \<times> pyval) list" where
  "handle_message iter_match loads s cid msg received_at =
     (if msg_payload msg = [] then (if owned s cid then forget_topic s (msg_topic msg) else s, [])
      else case loads (msg_payload msg) of
        Inl _ \<Rightarrow> (s, [])
      | Inr decoded \<Rightarrow>
          (let payload = unwrap_payload decoded; topic = msg_topic msg
           in if \<not> owned s cid then (s, [])
              else case prefix_of s of
                Inl _ \<Rightarrow> (s, [])
              | Inr pre \<Rightarrow>
                  if topic = serial_topic pre \<and> msg_retain msg then (s\<lparr>mq_retained_serial_seen := True\<rparr>, [])
                  else let s1 = (if startswith topic (pre @ ''/'') \<or> is_capability_topic topic
                                 then s\<lparr>mq_cache := dict_set topic (payload, received_at) (mq_cache s)\<rparr>
                                 else s)
                       in (s1, notify_callbacks iter_match s1 topic payload)))"

text \<open>One round of the decoder: take the oldest entry; sentinels are skipped when draining.\<close>

fun drain_entries ::
  "match_index \<Rightarrow> json_loads \<Rightarrow> inbox_entry list \<Rightarrow> mqtt_client \<Rightarrow> mqtt_client \<times> (nat \<times> pyval) list" where
  "drain_entries iter_match loads [] s = (s, [])"
| "drain_entries iter_match loads (Sentinel # es) s = drain_entries iter_match loads es s"
| "drain_entries iter_match loads (Entry cid msg t # es) s =
     (let (s1, d1) = handle_message iter_match loads s cid msg t;
          (s2, d2) = drain_entries iter_match loads es s1
      in (s2, d1 @ d2))"

definition drain_inbox :: "match_index \<Rightarrow> json_loads \<Rightarrow> mqtt_client \<Rightarrow> mqtt_client \<times> (nat \<times> pyval) list" where
  "drain_inbox iter_match loads s = drain_entries iter_match loads (mq_inbox s) (s\<lparr>mq_inbox := []\<rparr>)"

subsection \<open>Publishing and reading\<close>

definition publish :: "mqtt_client \<Rightarrow> string \<Rightarrow> pyval \<Rightarrow> bool \<Rightarrow> action list res" where
  "publish s topic payload retain =
     (case mq_client s of
        Some cid \<Rightarrow> if mq_connected s then Inr [Publish cid topic payload retain] else Inl NotConnectedError
      | None \<Rightarrow> Inl NotConnectedError)"

definition read_path :: "mqtt_client \<Rightarrow> pyfloat \<Rightarrow> reader" where
  "read_path s now device_type inst path =
     bind_res (prefix_of s) (\<lambda>pre.
       Inr (map_option (\<lambda>(v, t). (v, float_sub now t)) (map_of (mq_cache s) (item_topic pre device_type inst path))))"

fun read_first :: "mqtt_client \<Rightarrow> pyfloat \<Rightarrow> string \<Rightarrow> int \<Rightarrow> string list \<Rightarrow> (pyval \<times> pyfloat) option res" where
  "read_first s now device_type inst [] = Inr None"
| "read_first s now device_type inst (path # paths) =
     bind_res (read_path s now device_type inst path) (\<lambda>result.
       case result of Some r \<Rightarrow> Inr (Some r) | None \<Rightarrow> read_first s now device_type inst paths)"

definition read_path_since ::
  "mqtt_client \<Rightarrow> pyfloat \<Rightarrow> string \<Rightarrow> int \<Rightarrow> string \<Rightarrow> pyfloat \<Rightarrow> (pyval \<times> pyfloat) option res" where
  "read_path_since s now device_type inst path since =
     bind_res (prefix_of s) (\<lambda>pre.
       Inr (case map_of (mq_cache s) (item_topic pre device_type inst path) of
              None \<Rightarrow> None
            | Some (v, t) \<Rightarrow> if float_lt t since then None else Some (v, float_sub now t)))"

subsection \<open>Discovery\<close>

definition device_key :: "string \<Rightarrow> string \<Rightarrow> (string \<times> string) option" where
  "device_key pre topic =
     (if \<not> startswith topic (pre @ ''/'') then None
      else case split_on (CHR ''/'') (drop (length pre + 1) topic) of
             a # b # _ \<Rightarrow> Some (a, b)
           | _ \<Rightarrow> None)"

fun scan_devices :: "string \<Rightarrow> string list \<Rightarrow> (string \<times> string) set \<Rightarrow> (string \<times> int) list" where
  "scan_devices pre [] seen = []"
| "scan_devices pre (topic # topics) seen =
     (case device_key pre topic of
        None \<Rightarrow> scan_devices pre topics seen
      | Some k \<Rightarrow>
          if k \<in> seen then scan_devices pre topics seen
          else (case int_of_str (snd k) of
                  None \<Rightarrow> scan_devices pre topics (insert k seen)
                | Some i \<Rightarrow> (fst k, i) # scan_devices pre topics (insert k seen)))"

definition list_devices :: "mqtt_client \<Rightarrow> (string \<times> int) list res" where
  "list_devices s =
     (case mq_cache s of
        [] \<Rightarrow> Inr []
      | _ # _ \<Rightarrow> bind_res (prefix_of s) (\<lambda>pre. Inr (sort (scan_devices pre (map fst (mq_cache s)) {}))))"

definition discover_instance :: "mqtt_client \<Rightarrow> string \<Rightarrow> int option res" where
  "discover_instance s device_type =
     bind_res (list_devices s) (\<lambda>devices. Inr (map_option snd (find (\<lambda>d. fst d = device_type) devices)))"

subsection \<open>The cache\<close>

text \<open>The entry a message asks the cache to hold: \<open>Some None\<close> removes the topic.\<close>

definition cache_request ::
  "json_loads \<Rightarrow> mqtt_client \<Rightarrow> mqtt_message \<Rightarrow> pyfloat \<Rightarrow> (pyval \<times> pyfloat) option option" where
  "cache_request loads s msg received_at =
     (if msg_payload msg = [] then Some None
      else case (loads (msg_payload msg), prefix_of s) of
        (Inr decoded, Inr pre) \<Rightarrow>
          if (msg_topic msg = serial_topic pre \<and> msg_retain msg) \<or>
             \<not> (startswith (msg_topic msg) (pre @ ''/'') \<or> is_capability_topic (msg_topic msg))
          then None else Some (Some (unwrap_payload decoded, received_at))
      | _ \<Rightarrow> None)"

lemma handle_message_fst:
  "fst (handle_message iter_match loads s cid msg t) =
     (if \<not> owned s cid then s
      else if msg_payload msg = [] then forget_topic s (msg_topic msg)
      else case (loads (msg_payload msg), prefix_of s) of
        (Inr decoded, Inr pre) \<Rightarrow>
          if msg_topic msg = serial_topic pre \<and> msg_retain msg then s\<lparr>mq_retained_serial_seen := True\<rparr>
          else if startswith (msg_topic msg) (pre @ ''/'') \<or> is_capability_topic (msg_topic msg)
          then s\<lparr>mq_cache := dict_set (msg_topic msg) (unwrap_payload decoded, t) (mq_cache s)\<rparr> else s
      | _ \<Rightarrow> s)"
  by (cases "loads (msg_payload msg)"; cases "prefix_of s") (auto simp: handle_message_def Let_def)

lemma forget_topic_cache [simp]: "mq_cache (forget_topic s topic) = dict_pop topic (mq_cache s)"
  by (auto simp: forget_topic_def Let_def split: sum.splits)

lemma handle_message_cache:
  "map_of (mq_cache (fst (handle_message iter_match loads s cid msg received_at))) =
     (if \<not> owned s cid then map_of (mq_cache s)
      else case cache_request loads s msg received_at of
        None \<Rightarrow> map_of (mq_cache s)
      | Some entry \<Rightarrow> (map_of (mq_cache s))(msg_topic msg := entry))"
  unfolding handle_message_fst cache_request_def
  by (cases "loads (msg_payload msg)"; cases "prefix_of s") auto

text \<open>
  a message changes the cache only when its transport is the owned one, and then only at its own
  topic: an empty payload removes the entry, a decodable payload on a topic of the portal or of a
  capability is stored, unwrapped, under the time it was received, and everything else, a retained
  serial number or undecodable bytes, leaves the cache as it was.
\<close>

lemma cache_after_message:
  "map_of (mq_cache (fst (handle_message iter_match loads s cid msg received_at))) =
     (if \<not> owned s cid then map_of (mq_cache s)
      else case cache_request loads s msg received_at of
        None \<Rightarrow> map_of (mq_cache s)
      | Some entry \<Rightarrow> (map_of (mq_cache s))(msg_topic msg := entry))"
  by (rule handle_message_cache)

subsection \<open>Discovery\<close>

lemma scan_devices_set:
  "(dt, i) \<in> set (scan_devices pre topics seen) \<longleftrightarrow>
     (\<exists>topic \<in> set topics. \<exists>inst. device_key pre topic = Some (dt, inst) \<and> (dt, inst) \<notin> seen \<and>
        int_of_str inst = Some i)"
proof (induction topics arbitrary: seen)
  case (Cons topic topics)
  show ?case
  proof (cases "device_key pre topic")
    case None
    then show ?thesis by (simp add: Cons.IH)
  next
    case (Some k)
    show ?thesis
    proof (cases "k \<in> seen")
      case True
      with Some show ?thesis by (auto simp: Cons.IH)
    next
      case False
      with Some show ?thesis
        by (cases "int_of_str (snd k)"; cases k) (auto simp: Cons.IH, force+)
    qed
  qed
qed simp

lemma list_devices_Inr:
  "list_devices s = Inr devices \<longleftrightarrow>
     mq_cache s = [] \<and> devices = [] \<or>
     mq_cache s \<noteq> [] \<and> (\<exists>pre. prefix_of s = Inr pre \<and>
       devices = sort (scan_devices pre (map fst (mq_cache s)) {}))"
  unfolding list_devices_def
  by (cases "mq_cache s") (auto simp del: scan_devices.simps list.map)

text \<open>
  device discovery lists exactly the devices (type and parsed instance) that some cached topic
  of the portal names, ordered by type and then by instance.
\<close>

lemma list_devices_exact:
  assumes "list_devices s = Inr devices"
  shows "sorted devices \<and>
    ((dt, i) \<in> set devices \<longleftrightarrow>
      (\<exists>topic \<in> fst ` set (mq_cache s). \<exists>pre inst. prefix_of s = Inr pre \<and>
         device_key pre topic = Some (dt, inst) \<and> int_of_str inst = Some i))"
  using assms unfolding list_devices_Inr by (force simp: scan_devices_set)

lemma find_fst_sorted:
  assumes "sorted ds"
  shows "map_option snd (find (\<lambda>d. fst d = dt) ds) = Some (i::int) \<longleftrightarrow>
    ((dt::string), i) \<in> set ds \<and> (\<forall>j. (dt, j) \<in> set ds \<longrightarrow> i \<le> j)"
  using assms
proof (induction ds)
  case (Cons d ds)
  obtain a b where d: "d = (a, b)" by fastforce
  from Cons.prems d have lb: "\<forall>j. (a, j) \<in> set ds \<longrightarrow> b \<le> j" by auto
  show ?case
    using Cons d lb by (cases "a = dt") (auto intro: antisym)
qed simp

lemma list_devices_sorted: "list_devices s = Inr devices \<Longrightarrow> sorted devices"
  unfolding list_devices_Inr by auto

text \<open>
  The instance a tool discovers for a device type is the least one that discovery lists, and
  there is none exactly when discovery lists none.
\<close>

lemma discover_instance_least:
  assumes "list_devices s = Inr devices"
  shows "(discover_instance s dt = Inr (Some i) \<longleftrightarrow>
      (dt, i) \<in> set devices \<and> (\<forall>j. (dt, j) \<in> set devices \<longrightarrow> i \<le> j)) \<and>
    (discover_instance s dt = Inr None \<longleftrightarrow> dt \<notin> fst ` set devices)"
proof -
  let ?found = "find (\<lambda>d. fst d = dt) devices"
  have "discover_instance s dt = Inr (map_option snd ?found)"
    by (simp add: discover_instance_def assms)
  moreover have "map_option snd ?found = None \<longleftrightarrow> dt \<notin> fst ` set devices"
    by (auto simp: find_None_iff image_iff)
  ultimately show ?thesis
    using find_fst_sorted [OF list_devices_sorted [OF assms], of dt i] by (simp del: option.map_sel)
qed

definition example_discovery :: mqtt_client where
  "example_discovery = (init_client (default_mqtt_config\<lparr>portal_id := Some ''c0ffee''\<rparr>) [])\<lparr>
     mq_cache := [(''N/c0ffee/battery/512/Soc'', VInt 50, Fin 1), (''N/c0ffee/battery/7/Soc'', VInt 60, Fin 1)]\<rparr>"

lemma example_devices: "list_devices example_discovery = Inr [(''battery'', 7), (''battery'', 512)]"
  by code_simp

lemma list_devices_exact_example:
  "\<exists>topic \<in> fst ` set (mq_cache example_discovery). \<exists>pre inst. prefix_of example_discovery = Inr pre \<and>
     device_key pre topic = Some (''battery'', inst) \<and> int_of_str inst = Some 7"
  using list_devices_exact [OF example_devices, of "''battery''" 7] by auto

end
