(* ===== verification/Mqtt_Feed.thy ===== *)
theory Mqtt_Feed
  imports Mqtt_Inbox
begin

section \<open>Read-feed maintenance on the decoder thread\<close>

text \<open>
  \<^verbatim>\<open>_refresh_candidates\<close>, \<^verbatim>\<open>_maintain_read_feed\<close>, \<^verbatim>\<open>_publish_read\<close> and the worker loop
  \<^verbatim>\<open>_process_inbox\<close>.  The maintenance code releases the state lock between its checks, so
  other threads run in between: \<open>env k s\<close> is the state they leave before the \<open>k\<close>-th point at which
  the code looks again, and \<open>observe\<close> keeps the attributes that only the decoder thread writes.
  \<open>acc k\<close> tells whether paho accepts the publish made at point \<open>k\<close>.
\<close>

type_synonym interference = "nat \<Rightarrow> mqtt_client \<Rightarrow> mqtt_client"

definition APPLICATION_KEEPALIVE_S :: pyfloat where
  "APPLICATION_KEEPALIVE_S = Fin 30"

definition REFRESH_INTERVAL_S :: pyfloat where
  "REFRESH_INTERVAL_S = Fin 30"

definition REFRESH_BATCH_INTERVAL_S :: pyfloat where
  "REFRESH_BATCH_INTERVAL_S = Fin (1 / 4)"

definition REFRESH_BATCH_SIZE :: nat where
  "REFRESH_BATCH_SIZE = 8"

definition MAX_REFRESH_TOPICS :: nat where
  "MAX_REFRESH_TOPICS = 512"

definition INBOX_PROCESS_BATCH_SIZE :: nat where
  "INBOX_PROCESS_BATCH_SIZE = 64"

definition SUPPRESS_REPUBLISH :: string where
  "SUPPRESS_REPUBLISH =
     ''{'' @ [CHR 0x22] @ ''keepalive-options'' @ [CHR 0x22] @ '':['' @ [CHR 0x22] @
     ''suppress-republish'' @ [CHR 0x22] @ '']}''"

definition observe :: "interference \<Rightarrow> nat \<Rightarrow> mqtt_client \<Rightarrow> mqtt_client" where
  "observe env k s = (env k s)\<lparr>
     mq_config := mq_config s,
     mq_contracts := mq_contracts s,
     mq_maintenance_epoch := mq_maintenance_epoch s,
     mq_next_keepalive := mq_next_keepalive s,
     mq_next_refresh := mq_next_refresh s,
     mq_next_refresh_batch := mq_next_refresh_batch s,
     mq_refresh_cursor := mq_refresh_cursor s,
     mq_pending_refresh := mq_pending_refresh s\<rparr>"

text \<open>No other thread runs.\<close>

definition alone :: interference where
  "alone k s = s"

lemma observe_alone [simp]: "observe alone k s = s"
  by (simp add: observe_def alone_def)

subsection \<open>Operations\<close>

definition refresh_candidates :: "mqtt_client \<Rightarrow> string list res" where
  "refresh_candidates s =
     bind_res (prefix_of s) (\<lambda>pre.
       Inr (refresh_topics pre
         (map fst (mq_cache s) @ (if mq_retained_serial_seen s then [serial_topic pre] else []))
         (mq_contracts s) (explicit_patterns s)))"

definition publish_read ::
  "bool \<Rightarrow> mqtt_client \<Rightarrow> nat \<Rightarrow> nat \<Rightarrow> string \<Rightarrow> string \<Rightarrow> action list \<times> bool" where
  "publish_read accepts s transport epoch topic payload =
     (if mq_stopping s \<or> mq_worker_stop s \<or> \<not> mq_connected s \<or>
         mq_client s \<noteq> Some transport \<or> mq_connection_epoch s \<noteq> epoch
      then ([], False)
      else ([Publish transport topic (VStr payload) False], accepts))"

text \<open>The topics of the next round, from the cursor on and wrapping around, and the new cursor.\<close>

definition select_refresh :: "string list \<Rightarrow> nat \<Rightarrow> string list \<times> nat" where
  "select_refresh candidates cursor =
     (let start = cursor mod length candidates;
          rotated = drop start candidates @ take start candidates;
          selected = take MAX_REFRESH_TOPICS rotated
      in (selected, (start + length selected) mod length candidates))"

fun refresh_loop ::
  "interference \<Rightarrow> (nat \<Rightarrow> bool) \<Rightarrow> string set \<Rightarrow> string \<Rightarrow> nat \<Rightarrow> nat \<Rightarrow> nat \<Rightarrow> nat \<Rightarrow>
   mqtt_client \<Rightarrow> mqtt_client \<times> action list" where
  "refresh_loop env acc eligible pre transport epoch 0 k s = (s, [])"
| "refresh_loop env acc eligible pre transport epoch (Suc n) k s =
     (let s1 = observe env k s
      in if mq_stopping s1 \<or> mq_client s1 \<noteq> Some transport \<or> mq_connection_epoch s1 \<noteq> epoch then (s1, [])
         else case mq_pending_refresh s1 of
           [] \<Rightarrow> (s1, [])
         | topic # rest \<Rightarrow>
             (let s2 = s1\<lparr>mq_pending_refresh := rest\<rparr>
              in if topic \<notin> eligible then refresh_loop env acc eligible pre transport epoch n (k + 2) s2
                 else let payload = (if topic = serial_topic pre then SUPPRESS_REPUBLISH else []);
                          s3 = observe env (k + 1) s2;
                          (sent, ok) = publish_read (acc (k + 1)) s3 transport epoch (''R/'' @ drop 2 topic) payload
                      in if ok
                         then let (s4, more) = refresh_loop env acc eligible pre transport epoch n (k + 2) s3
                              in (s4, sent @ more)
                         else (s3\<lparr>mq_pending_refresh := topic # mq_pending_refresh s3\<rparr>, sent)))"

text \<open>The due keepalive, retried after a second when it was not accepted.\<close>

definition send_keepalive ::
  "interference \<Rightarrow> (nat \<Rightarrow> bool) \<Rightarrow> mqtt_client \<Rightarrow> nat \<Rightarrow> nat \<Rightarrow> pyfloat \<Rightarrow> mqtt_client \<times> action list" where
  "send_keepalive env acc s transport epoch now =
     (if float_le (mq_next_keepalive s) now
      then let s1 = observe env 0 s;
               (sent, ok) = publish_read (acc 0) s1 transport epoch
                 (''R/'' @ portal_text s @ ''/keepalive'') SUPPRESS_REPUBLISH
           in (s1\<lparr>mq_next_keepalive := float_add now (if ok then APPLICATION_KEEPALIVE_S else Fin 1)\<rparr>, sent)
      else (s, []))"

definition queue_round :: "mqtt_client \<Rightarrow> string list \<Rightarrow> pyfloat \<Rightarrow> mqtt_client" where
  "queue_round s candidates now =
     (let s1 =
        (if float_le (mq_next_refresh s) now \<and> mq_pending_refresh s = []
         then (if candidates \<noteq> []
               then let (selected, cursor) = select_refresh candidates (mq_refresh_cursor s)
                    in s\<lparr>mq_pending_refresh := mq_pending_refresh s @ selected, mq_refresh_cursor := cursor\<rparr>
               else s)\<lparr>mq_next_refresh := float_add now REFRESH_INTERVAL_S\<rparr>
         else s)
      in s1\<lparr>mq_next_refresh_batch := float_add now REFRESH_BATCH_INTERVAL_S\<rparr>)"

definition maintain_read_feed ::
  "interference \<Rightarrow> (nat \<Rightarrow> bool) \<Rightarrow> mqtt_client \<Rightarrow> pyfloat \<Rightarrow> mqtt_client \<times> action list \<times> py_exc option" where
  "maintain_read_feed env acc s now =
     (case mq_client s of
        None \<Rightarrow> (s, [], None)
      | Some transport \<Rightarrow>
          if mq_stopping s \<or> mq_worker_stop s \<or> \<not> mq_connected s then (s, [], None)
          else let epoch = mq_connection_epoch s
               in if mq_maintenance_epoch s \<noteq> int epoch
                  then (s\<lparr>mq_maintenance_epoch := int epoch,
                          mq_pending_refresh := [],
                          mq_next_keepalive := float_add now APPLICATION_KEEPALIVE_S,
                          mq_next_refresh := float_add now REFRESH_INTERVAL_S,
                          mq_next_refresh_batch := now\<rparr>, [], None)
                  else let (s1, sent) = send_keepalive env acc s transport epoch now
                       in if float_lt now (mq_next_refresh_batch s1) then (s1, sent, None)
                          else if float_lt now (mq_next_refresh s1) \<and> mq_pending_refresh s1 = []
                          then (s1, sent, None)
                          else let s2 = observe env 1 s1
                               in (case refresh_candidates s2 of
                                     Inl e \<Rightarrow> (s2, sent, Some e)
                                   | Inr candidates \<Rightarrow>
                                       let (s3, more) = refresh_loop env acc (set candidates)
                                             (''N/'' @ portal_text s2) transport epoch REFRESH_BATCH_SIZE 2
                                             (queue_round s2 candidates now)
                                       in (s3, sent @ more, None)))"

text \<open>
  One turn of the worker loop.  \<open>entry\<close> is what \<^verbatim>\<open>queue.get\<close> returns, \<open>None\<close> when it times
  out; the loop ends when the stop event is set, on the sentinel, or when maintenance raises.
\<close>

datatype turn = Continue nat | Stop | Crash py_exc

definition process_turn ::
  "match_index \<Rightarrow> json_loads \<Rightarrow> interference \<Rightarrow> (nat \<Rightarrow> bool) \<Rightarrow> mqtt_client \<Rightarrow> nat \<Rightarrow> pyfloat \<Rightarrow> pyfloat \<Rightarrow>
   mqtt_client \<times> action list \<times> (nat \<times> pyval) list \<times> turn" where
  "process_turn iter_match loads env acc s processed now later =
     (if mq_worker_stop s then (s, [], [], Stop)
      else let (s1, sent, exc) = (if processed = 0 then maintain_read_feed env acc s now else (s, [], None))
           in case exc of
             Some e \<Rightarrow> (s1, sent, [], Crash e)
           | None \<Rightarrow>
               (case mq_inbox s1 of
                  [] \<Rightarrow>
                    (let (s2, more, exc2) = maintain_read_feed env acc s1 later
                     in (s2, sent @ more, [], case exc2 of Some e \<Rightarrow> Crash e | None \<Rightarrow> Continue processed))
                | Sentinel # rest \<Rightarrow> (s1\<lparr>mq_inbox := rest\<rparr>, sent, [], Stop)
                | Entry cid msg t # rest \<Rightarrow>
                    (let (s2, calls) = handle_message iter_match loads (s1\<lparr>mq_inbox := rest\<rparr>) cid msg t
                     in (s2, sent, calls,
                         Continue (if INBOX_PROCESS_BATCH_SIZE \<le> processed + 1 then 0 else processed + 1)))))"

subsection \<open>Facts\<close>

text \<open>A read request: a publish under \<^verbatim>\<open>R/\<close>, not retained, on a given transport.\<close>

fun read_request :: "nat \<Rightarrow> action \<Rightarrow> bool" where
  "read_request transport (Publish cid topic payload retain) =
     (cid = transport \<and> startswith topic ''R/'' \<and> \<not> retain \<and> payload \<in> {VStr [], VStr SUPPRESS_REPUBLISH})"
| "read_request transport _ = False"

lemma publish_read_request:
  assumes "startswith topic ''R/''" "payload \<in> {[], SUPPRESS_REPUBLISH}"
  shows "list_all (read_request transport) (fst (publish_read ok s transport epoch topic payload))"
    and "length (fst (publish_read ok s transport epoch topic payload)) \<le> 1"
  using assms by (auto simp: publish_read_def)

text \<open>What one iteration of the batch sends, and that at most the rest of the batch follows.\<close>

definition refresh_request :: "string \<Rightarrow> nat \<Rightarrow> string \<Rightarrow> action" where
  "refresh_request pre transport topic =
     Publish transport (''R/'' @ drop 2 topic)
       (VStr (if topic = serial_topic pre then SUPPRESS_REPUBLISH else [])) False"

definition iteration_sends :: "string set \<Rightarrow> string \<Rightarrow> nat \<Rightarrow> nat \<Rightarrow> action list \<Rightarrow> bool" where
  "iteration_sends eligible pre transport epoch sent \<longleftrightarrow>
     sent = [] \<or> (\<exists>topic \<in> eligible. sent = [refresh_request pre transport topic])"

lemma refresh_request_read: "read_request transport (refresh_request pre transport topic)"
  by (simp add: refresh_request_def startswith_iff)

lemma iteration_sends_publish:
  "topic \<in> eligible \<Longrightarrow>
   iteration_sends eligible pre transport epoch (fst (publish_read ok s transport epoch (''R/'' @ drop 2 topic)
     (if topic = serial_topic pre then SUPPRESS_REPUBLISH else [])))"
  by (simp add: iteration_sends_def publish_read_def refresh_request_def) blast

lemma refresh_loop_Suc_sends:
  "\<exists>sent s'. iteration_sends eligible pre transport epoch sent \<and>
     (snd (refresh_loop env acc eligible pre transport epoch (Suc n) k s) = sent \<or>
      snd (refresh_loop env acc eligible pre transport epoch (Suc n) k s) =
        sent @ snd (refresh_loop env acc eligible pre transport epoch n (k + 2) s'))"
proof -
  let ?loop = "refresh_loop env acc eligible pre transport epoch"
  define s1 where "s1 = observe env k s"
  have none: "iteration_sends eligible pre transport epoch []" by (simp add: iteration_sends_def)
  show ?thesis
  proof (cases "mq_stopping s1 \<or> mq_client s1 \<noteq> Some transport \<or> mq_connection_epoch s1 \<noteq> epoch \<or>
      mq_pending_refresh s1 = []")
    case True
    then have "snd (?loop (Suc n) k s) = []" by (auto simp: s1_def Let_def split: list.split)
    with none show ?thesis by blast
  next
    case False
    then obtain topic rest where go: "mq_pending_refresh s1 = topic # rest"
      "\<not> (mq_stopping s1 \<or> mq_client s1 \<noteq> Some transport \<or> mq_connection_epoch s1 \<noteq> epoch)"
      by (cases "mq_pending_refresh s1") auto
    define s2 where "s2 = s1\<lparr>mq_pending_refresh := rest\<rparr>"
    define s3 where "s3 = observe env (k + 1) s2"
    define payload where "payload = (if topic = serial_topic pre then SUPPRESS_REPUBLISH else [])"
    define pub where "pub = publish_read (acc (k + 1)) s3 transport epoch (''R/'' @ drop 2 topic) payload"
    show ?thesis
    proof (cases "topic \<in> eligible")
      case False
      then have "?loop (Suc n) k s = ?loop n (k + 2) s2"
        using go by (simp add: s1_def s2_def Let_def)
      with none show ?thesis by (metis append_Nil)
    next
      case True
      have sends: "iteration_sends eligible pre transport epoch (fst pub)"
        unfolding pub_def payload_def using True by (rule iteration_sends_publish)
      have "?loop (Suc n) k s =
        (if snd pub then let (s4, more) = ?loop n (k + 2) s3 in (s4, fst pub @ more)
         else (s3\<lparr>mq_pending_refresh := topic # mq_pending_refresh s3\<rparr>, fst pub))"
        using go True unfolding s1_def s2_def s3_def pub_def payload_def
        by (simp add: Let_def case_prod_unfold)
      then have "snd (?loop (Suc n) k s) = fst pub \<or>
          snd (?loop (Suc n) k s) = fst pub @ snd (?loop n (k + 2) s3)"
        by (simp add: case_prod_unfold Let_def)
      with sends show ?thesis by blast
    qed
  qed
qed

lemma iteration_sends_facts:
  assumes "iteration_sends eligible pre transport epoch sent"
  shows "list_all (read_request transport) sent" "length sent \<le> 1"
    "set sent \<subseteq> refresh_request pre transport ` eligible"
  using assms by (auto simp: iteration_sends_def refresh_request_read)

lemma refresh_loop_requests:
  "list_all (read_request transport) (snd (refresh_loop env acc eligible pre transport epoch n k s)) \<and>
   length (snd (refresh_loop env acc eligible pre transport epoch n k s)) \<le> n \<and>
   set (snd (refresh_loop env acc eligible pre transport epoch n k s)) \<subseteq>
     refresh_request pre transport ` eligible"
proof (induction n arbitrary: k s)
  case (Suc n)
  let ?loop = "refresh_loop env acc eligible pre transport epoch"
  obtain sent s' where sent: "iteration_sends eligible pre transport epoch sent"
    and "snd (?loop (Suc n) k s) = sent \<or> snd (?loop (Suc n) k s) = sent @ snd (?loop n (k + 2) s')"
    using refresh_loop_Suc_sends by blast
  then show ?case
    using Suc.IH [of "k + 2" s'] iteration_sends_facts [OF sent]
    by (elim disjE) (simp_all del: refresh_loop.simps)
qed simp

lemma send_keepalive_requests:
  "list_all (read_request transport) (snd (send_keepalive env acc s transport epoch now)) \<and>
   length (snd (send_keepalive env acc s transport epoch now)) \<le> 1"
  using publish_read_request [of "''R/'' @ portal_text s @ ''/keepalive''" SUPPRESS_REPUBLISH]
  by (auto simp: send_keepalive_def Let_def case_prod_unfold startswith_code)

text \<open>
  C30: whatever the other threads do between its checks and whatever paho answers, one round of
  maintenance only publishes unretained read requests (topics under \<^verbatim>\<open>R/\<close>, never a control
  topic) on the transport that was current when it started, and at most nine of them.
\<close>

theorem maintenance_only_reads:
  "list_all (\<lambda>a. \<exists>transport. mq_client s = Some transport \<and> read_request transport a)
     (fst (snd (maintain_read_feed env acc s now))) \<and>
   length (fst (snd (maintain_read_feed env acc s now))) \<le> 9"
proof (cases "mq_client s")
  case None
  then show ?thesis by (simp add: maintain_read_feed_def)
next
  case (Some transport)
  define epoch where "epoch = mq_connection_epoch s"
  define ka where "ka = send_keepalive env acc s transport epoch now"
  have one: "list_all (read_request transport) (snd ka)" "length (snd ka) \<le> 1"
    using send_keepalive_requests by (simp_all add: ka_def)
  have loop: "list_all (read_request transport) (snd (refresh_loop env acc E pre transport epoch REFRESH_BATCH_SIZE k s'))"
    "length (snd (refresh_loop env acc E pre transport epoch REFRESH_BATCH_SIZE k s')) \<le> 8" for E pre k s'
    using refresh_loop_requests [of transport env acc E pre epoch REFRESH_BATCH_SIZE k s']
    by (simp_all add: REFRESH_BATCH_SIZE_def)
  have "list_all (read_request transport) (fst (snd (maintain_read_feed env acc s now))) \<and>
    length (fst (snd (maintain_read_feed env acc s now))) \<le> 9"
    using one loop add_mono [OF one(2) loop(2)] Some
    by (simp add: maintain_read_feed_def Let_def case_prod_unfold epoch_def [symmetric] ka_def [symmetric]
        del: refresh_loop.simps split: sum.split)
  then show ?thesis using Some by (simp add: list_all_iff)
qed

subsection \<open>Every candidate is refreshed\<close>

fun select_rounds :: "string list \<Rightarrow> nat \<Rightarrow> nat \<Rightarrow> string list list" where
  "select_rounds candidates cursor 0 = []"
| "select_rounds candidates cursor (Suc k) =
     (let (selected, cursor') = select_refresh candidates cursor
      in selected # select_rounds candidates cursor' k)"

lemma select_refresh_eq:
  assumes "candidates \<noteq> []"
  shows "select_refresh candidates cursor =
    (take MAX_REFRESH_TOPICS (rotate cursor candidates),
     (cursor + min MAX_REFRESH_TOPICS (length candidates)) mod length candidates)"
  using assms
  by (simp add: select_refresh_def Let_def rotate_drop_take mod_add_left_eq min.commute)

lemma select_refresh_nth:
  assumes "candidates \<noteq> []" "j < length candidates" "j < MAX_REFRESH_TOPICS"
  shows "candidates ! ((cursor + j) mod length candidates) \<in> set (fst (select_refresh candidates cursor))"
proof -
  have "take MAX_REFRESH_TOPICS (rotate cursor candidates) ! j = candidates ! ((cursor + j) mod length candidates)"
    using assms by (simp add: nth_rotate)
  moreover have "j < length (take MAX_REFRESH_TOPICS (rotate cursor candidates))" using assms by simp
  ultimately show ?thesis
    unfolding select_refresh_eq [OF assms(1)] fst_conv by (metis nth_mem)
qed

lemma select_rounds_nth:
  assumes "candidates \<noteq> []"
  shows "j < length candidates \<Longrightarrow> j < k * MAX_REFRESH_TOPICS \<Longrightarrow>
    \<exists>selected \<in> set (select_rounds candidates cursor k).
      candidates ! ((cursor + j) mod length candidates) \<in> set selected"
proof (induction k arbitrary: cursor j)
  case (Suc k)
  let ?n = "length candidates"
  show ?case
  proof (cases "j < MAX_REFRESH_TOPICS")
    case True
    then show ?thesis
      using select_refresh_nth [OF assms Suc.prems(1), of cursor] by (auto simp: Let_def case_prod_unfold)
  next
    case False
    define cursor' where "cursor' = snd (select_refresh candidates cursor)"
    have big: "MAX_REFRESH_TOPICS \<le> j" using False by simp
    then have c': "cursor' = (cursor + MAX_REFRESH_TOPICS) mod ?n"
      using Suc.prems(1) by (simp add: cursor'_def select_refresh_eq [OF assms] min_absorb1)
    have "\<exists>selected \<in> set (select_rounds candidates cursor' k).
      candidates ! ((cursor' + (j - MAX_REFRESH_TOPICS)) mod ?n) \<in> set selected"
      using Suc.prems big by (intro Suc.IH) auto
    moreover have "(cursor' + (j - MAX_REFRESH_TOPICS)) mod ?n = (cursor + j) mod ?n"
    proof -
      have "cursor + MAX_REFRESH_TOPICS + (j - MAX_REFRESH_TOPICS) = cursor + j" using big by simp
      then show ?thesis unfolding c' by (metis mod_add_left_eq)
    qed
    ultimately show ?thesis by (auto simp: Let_def case_prod_unfold cursor'_def)
  qed
qed simp

lemma select_rounds_subset:
  "selected \<in> set (select_rounds candidates cursor k) \<Longrightarrow> set selected \<subseteq> set candidates \<and> length selected \<le> 512"
proof (induction k arbitrary: cursor)
  case (Suc k)
  have "set (fst (select_refresh candidates cursor)) \<subseteq> set candidates"
    "length (fst (select_refresh candidates cursor)) \<le> 512"
    by (auto simp: select_refresh_def Let_def MAX_REFRESH_TOPICS_def dest!: in_set_takeD in_set_dropD)
  then show ?case using Suc by (auto simp: Let_def case_prod_unfold)
qed simp

text \<open>
  C34: the rotating cursor starves no topic.  As long as the candidates stay the same, each round
  selects at most 512 of them, and after enough rounds to hold them all, wherever the cursor
  started, every candidate has been selected.
\<close>

theorem refresh_rounds_cover:
  assumes "length candidates \<le> k * MAX_REFRESH_TOPICS"
  shows "\<Union> (set ` set (select_rounds candidates cursor k)) = set candidates \<and>
    (\<forall>selected \<in> set (select_rounds candidates cursor k). length selected \<le> 512)"
proof (cases "candidates = []")
  case True
  then show ?thesis using select_rounds_subset [of _ candidates cursor k] by fastforce
next
  case False
  let ?n = "length candidates"
  have "topic \<in> \<Union> (set ` set (select_rounds candidates cursor k))" if "topic \<in> set candidates" for topic
  proof -
    from that obtain i where i: "i < ?n" "topic = candidates ! i" by (auto simp: in_set_conv_nth)
    define j where "j = (i + ?n * cursor - cursor) mod ?n"
    have le: "cursor \<le> ?n * cursor" using i(1) by (cases ?n) auto
    have "(cursor + j) mod ?n = i"
    proof -
      have "cursor + (i + ?n * cursor - cursor) = i + ?n * cursor"
        using le by linarith
      then show ?thesis using i(1) by (simp add: j_def mod_add_right_eq)
    qed
    moreover have "j < ?n" using False by (simp add: j_def)
    ultimately show ?thesis
      using select_rounds_nth [OF False, of j k cursor] assms i(2) by auto
  qed
  then show ?thesis using select_rounds_subset [of _ candidates cursor k] by fastforce
qed

theorem refresh_rounds_cover_witness:
  "\<Union> (set ` set (select_rounds [''a'', ''b''] 5 1)) = {''a'', ''b''}"
  using refresh_rounds_cover [of "[''a'', ''b'']" 1 5] by (simp add: MAX_REFRESH_TOPICS_def)

subsection \<open>No pending request is lost\<close>

definition example_session :: mqtt_client where
  "example_session = (init_client (default_mqtt_config\<lparr>portal_id := Some ''c0ffee''\<rparr>) [])\<lparr>
     mq_client := Some 7, mq_connected := True, mq_connection_epoch := 1, mq_maintenance_epoch := 1,
     mq_next_keepalive := Fin 40, mq_next_refresh := Fin 20, mq_next_refresh_batch := Fin 20,
     mq_pending_refresh := [''N/c0ffee/vebus/1/Mode'']\<rparr>"

definition live_session :: "mqtt_client \<Rightarrow> nat \<Rightarrow> nat \<Rightarrow> bool" where
  "live_session s transport epoch \<longleftrightarrow>
     \<not> mq_stopping s \<and> \<not> mq_worker_stop s \<and> mq_connected s \<and>
     mq_client s = Some transport \<and> mq_connection_epoch s = epoch"

lemma live_session_pending [simp]:
  "live_session (s\<lparr>mq_pending_refresh := q\<rparr>) transport epoch = live_session s transport epoch"
  by (simp add: live_session_def)

lemma publish_read_live:
  "live_session s transport epoch \<Longrightarrow>
   publish_read ok s transport epoch topic payload = ([Publish transport topic (VStr payload) False], ok)"
  by (simp add: publish_read_def live_session_def)

lemma refresh_loop_live:
  assumes "live_session s transport epoch"
  shows "refresh_loop alone acc eligible pre transport epoch (Suc n) k s =
    (case mq_pending_refresh s of
       [] \<Rightarrow> (s, [])
     | topic # rest \<Rightarrow>
         if topic \<notin> eligible
         then refresh_loop alone acc eligible pre transport epoch n (k + 2) (s\<lparr>mq_pending_refresh := rest\<rparr>)
         else if acc (k + 1)
         then apsnd (Cons (refresh_request pre transport topic))
           (refresh_loop alone acc eligible pre transport epoch n (k + 2) (s\<lparr>mq_pending_refresh := rest\<rparr>))
         else (s, [refresh_request pre transport topic]))"
proof -
  have "\<not> mq_stopping s" "mq_client s = Some transport" "mq_connection_epoch s = epoch"
    using assms by (simp_all add: live_session_def)
  then show ?thesis
    using publish_read_live [of "s\<lparr>mq_pending_refresh := _\<rparr>"] assms
    by (simp add: refresh_request_def apsnd_def map_prod_def case_prod_unfold Let_def split: list.split)
qed

text \<open>
  while the session lasts and no other thread interferes, a batch takes topics off the front of
  the pending queue, asks for exactly those that are still eligible, in order, and stops at the
  first request that paho refuses, which stays at the front to be asked again: no pending topic
  is lost or skipped, and a batch ends early only on a refusal or an empty queue.
\<close>

lemma refresh_batch_loses_nothing:
  assumes "live_session s transport epoch"
  shows "\<exists>done refused. refresh_loop alone acc eligible pre transport epoch n k s =
      (s\<lparr>mq_pending_refresh := drop (length done) (mq_pending_refresh s)\<rparr>,
       map (refresh_request pre transport) (filter (\<lambda>t. t \<in> eligible) done) @ refused) \<and>
    done = take (length done) (mq_pending_refresh s) \<and>
    (refused = [] \<and> length done = min n (length (mq_pending_refresh s)) \<or>
     (\<exists>j. \<not> acc j) \<and> length done < n \<and> (\<exists>topic rest. drop (length done) (mq_pending_refresh s) = topic # rest \<and>
       topic \<in> eligible \<and> refused = [refresh_request pre transport topic]))"
  using assms
proof (induction n arbitrary: k s)
  case 0
  then show ?case by (intro exI [of _ "[]"]) simp
next
  case (Suc n)
  note step = refresh_loop_live [OF Suc.prems, of acc eligible pre n k]
  show ?case
  proof (cases "mq_pending_refresh s")
    case Nil
    then show ?thesis by (intro exI [of _ "[]"]) (simp add: step del: refresh_loop.simps)
  next
    case (Cons topic rest)
    show ?thesis
    proof (cases "topic \<in> eligible \<and> \<not> acc (k + 1)")
      case True
      then show ?thesis
        using Cons by (intro exI [of _ "[]"] exI [of _ "[refresh_request pre transport topic]"])
          (auto simp: step simp del: refresh_loop.simps)
    next
      case False
      let ?s = "s\<lparr>mq_pending_refresh := rest\<rparr>"
      obtain d r where IH: "refresh_loop alone acc eligible pre transport epoch n (k + 2) ?s =
          (?s\<lparr>mq_pending_refresh := drop (length d) rest\<rparr>,
           map (refresh_request pre transport) (filter (\<lambda>t. t \<in> eligible) d) @ r)"
        "d = take (length d) rest"
        "r = [] \<and> length d = min n (length rest) \<or>
         (\<exists>j. \<not> acc j) \<and> length d < n \<and> (\<exists>topic rest'. drop (length d) rest = topic # rest' \<and>
           topic \<in> eligible \<and> r = [refresh_request pre transport topic])"
        using Suc.IH [of ?s "k + 2"] Suc.prems by auto
      show ?thesis
        using False Cons IH(3)
        by (intro exI [of _ "topic # d"] exI [of _ r])
          (auto simp: step IH(1) [simplified] IH(2) [symmetric] simp del: refresh_loop.simps)
    qed
  qed
qed

lemma refresh_batch_loses_nothing_example:
  "refresh_loop alone (\<lambda>_. True) {''N/c0ffee/vebus/1/Mode''} ''N/c0ffee'' 7 1 8 2 example_session =
     (example_session\<lparr>mq_pending_refresh := []\<rparr>, [refresh_request ''N/c0ffee'' 7 ''N/c0ffee/vebus/1/Mode''])"
proof -
  have "live_session example_session 7 1" by (simp add: live_session_def example_session_def init_client_def)
  from refresh_batch_loses_nothing [OF this, of "\<lambda>_. True" "{''N/c0ffee/vebus/1/Mode''}" "''N/c0ffee''" 8 2]
  obtain d where "refresh_loop alone (\<lambda>_. True) {''N/c0ffee/vebus/1/Mode''} ''N/c0ffee'' 7 1 8 2 example_session =
      (example_session\<lparr>mq_pending_refresh := drop (length d) (mq_pending_refresh example_session)\<rparr>,
       map (refresh_request ''N/c0ffee'' 7) (filter (\<lambda>t. t \<in> {''N/c0ffee/vebus/1/Mode''}) d))"
    "d = take (length d) (mq_pending_refresh example_session)"
    "length d = min 8 (length (mq_pending_refresh example_session))"
    by auto
  moreover from this(2,3) have "d = [''N/c0ffee/vebus/1/Mode'']" by (simp add: example_session_def)
  ultimately show ?thesis by (simp add: example_session_def)
qed

end
