(* ===== verification/Mqtt_Lifecycle.thy ===== *)
theory Mqtt_Lifecycle
  imports Mqtt_Feed
begin

section \<open>Transport lifecycle\<close>

text \<open>
  \<^verbatim>\<open>_start_worker\<close>, \<^verbatim>\<open>_start_transport\<close>, \<^verbatim>\<open>_stop_transport\<close>, \<^verbatim>\<open>connect\<close> and
  \<^verbatim>\<open>disconnect\<close>.  Creating a paho client can fail before it is stored (\<open>setup\<close>: TLS context, address),
  and \<^verbatim>\<open>loop_start\<close> can refuse (\<open>loop_ok\<close>).  Stopping awaits the two threads, so it is split where
  other code runs: \<open>begin_stop\<close> up to the joins, \<open>finish_stop\<close> after them, on the thread
  states found then; a joined thread that did not exit in time stays owned.
\<close>

definition CONNECT_WAIT_STEPS :: nat where
  "CONNECT_WAIT_STEPS = 50"

text \<open>What a new paho client is given before it connects.\<close>

record transport_setup =
  ts_client_id :: string
  ts_credentials :: "(string \<times> string) option"
  ts_tls :: bool
  ts_host :: string
  ts_port :: int
  ts_keepalive :: nat

definition MQTT_PROTOCOL_KEEPALIVE_S :: nat where
  "MQTT_PROTOCOL_KEEPALIVE_S = 30"

definition setup_of :: "mqtt_config \<Rightarrow> transport_setup" where
  "setup_of m = \<lparr>
     ts_client_id = mqtt_client_id m,
     ts_credentials =
       (if \<not> unset (mqtt_username m) \<and> \<not> unset (mqtt_password m)
        then Some (the (mqtt_username m), the (mqtt_password m)) else None),
     ts_tls = mqtt_tls m,
     ts_host = mqtt_host m,
     ts_port = mqtt_port m,
     ts_keepalive = MQTT_PROTOCOL_KEEPALIVE_S\<rparr>"

definition start_worker :: "mqtt_client \<Rightarrow> mqtt_client" where
  "start_worker s =
     (if mq_worker s \<noteq> Some Alive then s\<lparr>mq_worker_stop := False, mq_worker := Some Alive\<rparr> else s)"

definition start_transport ::
  "(transport_setup \<Rightarrow> py_exc option) \<Rightarrow> bool \<Rightarrow> mqtt_client \<Rightarrow> nat \<Rightarrow> mqtt_client \<times> py_exc option" where
  "start_transport setup loop_ok s cid =
     (case setup (setup_of (mq_config s)) of
        Some e \<Rightarrow> (s, Some e)
      | None \<Rightarrow>
          let s1 = start_worker (s\<lparr>mq_client := Some cid, mq_stopping := False, mq_connected := False\<rparr>)
          in if \<not> loop_ok then (s1\<lparr>mq_worker_stop := True\<rparr>, Some MQTTError)
             else (s1\<lparr>mq_loop_thread := Some Alive\<rparr>, None))"

definition begin_stop :: "mqtt_client \<Rightarrow> mqtt_client \<times> action list" where
  "begin_stop s =
     (s\<lparr>mq_stopping := True, mq_connected := False, mq_worker_stop := True,
        mq_inbox := (if length (mq_inbox s) < INBOX_MAXSIZE then mq_inbox s @ [Sentinel] else mq_inbox s)\<rparr>,
      case mq_client s of None \<Rightarrow> [] | Some cid \<Rightarrow> [Disconnect cid])"

definition release_exited :: "mqtt_client \<Rightarrow> mqtt_client" where
  "release_exited s = s\<lparr>
     mq_worker := (if mq_worker s = Some Alive then Some Alive else None),
     mq_loop_thread := (if mq_loop_thread s = Some Alive then Some Alive else None)\<rparr>"

definition finish_stop :: "mqtt_client \<Rightarrow> mqtt_client \<times> action list" where
  "finish_stop s =
     (let s1 = release_exited s
      in if mq_worker s1 = None \<and> mq_loop_thread s1 = None
         then (s1\<lparr>mq_client := None, mq_diagnostic_socket := None, mq_pending_pingreq_generation := None,
                  mq_inbox := [], mq_stopping := False\<rparr>,
               case mq_client s1 of None \<Rightarrow> [] | Some cid \<Rightarrow> [Reset_sockets cid])
         else (s1, []))"

text \<open>The whole stop; \<open>joined\<close> is what other threads do until the joins return.\<close>

definition stop_transport :: "(mqtt_client \<Rightarrow> mqtt_client) \<Rightarrow> mqtt_client \<Rightarrow> mqtt_client \<times> action list" where
  "stop_transport joined s =
     (let (s1, sent) = begin_stop s; (s2, more) = finish_stop (joined s1) in (s2, sent @ more))"

definition transport_dead :: "mqtt_client \<Rightarrow> bool" where
  "transport_dead s \<longleftrightarrow> mq_client s \<noteq> None \<and> mq_loop_thread s \<noteq> Some Alive"

definition connect_begin ::
  "(transport_setup \<Rightarrow> py_exc option) \<Rightarrow> bool \<Rightarrow> (mqtt_client \<Rightarrow> mqtt_client) \<Rightarrow> mqtt_client \<Rightarrow> nat \<Rightarrow>
   mqtt_client \<times> action list \<times> py_exc option" where
  "connect_begin setup loop_ok joined s cid =
     (let (s1, sent) = (if mq_stopping s \<or> transport_dead s then stop_transport joined s else (s, []))
      in if (mq_stopping s \<or> transport_dead s) \<and> mq_client s1 \<noteq> None then (s1, sent, Some NotConnectedError)
         else if mq_client s1 = None
         then let (s2, exc) = start_transport setup loop_ok s1 cid in (s2, sent, exc)
         else (s1, sent, None))"

text \<open>The bounded wait; \<open>view k\<close> is the client when the loop looks for the \<open>k\<close>-th time.\<close>

fun connect_poll :: "(nat \<Rightarrow> mqtt_client) \<Rightarrow> nat option \<Rightarrow> nat \<Rightarrow> nat \<Rightarrow> unit res" where
  "connect_poll view transport 0 k = Inl ConnectionTimeoutError"
| "connect_poll view transport (Suc n) k =
     (if mq_client (view k) \<noteq> transport \<or> mq_stopping (view k) then Inl NotConnectedError
      else if mq_connected (view k) then Inr ()
      else connect_poll view transport n (k + 1))"

definition connect ::
  "(transport_setup \<Rightarrow> py_exc option) \<Rightarrow> bool \<Rightarrow> (mqtt_client \<Rightarrow> mqtt_client) \<Rightarrow> (nat \<Rightarrow> mqtt_client \<Rightarrow> mqtt_client) \<Rightarrow>
   mqtt_client \<Rightarrow> nat \<Rightarrow> mqtt_client \<times> action list \<times> unit res" where
  "connect setup loop_ok joined later s cid =
     (let (s1, sent, exc) = connect_begin setup loop_ok joined s cid
      in (s1, sent, case exc of
            Some e \<Rightarrow> Inl e
          | None \<Rightarrow> connect_poll (\<lambda>k. later k s1) (mq_client s1) CONNECT_WAIT_STEPS 0))"

definition disconnect :: "(mqtt_client \<Rightarrow> mqtt_client) \<Rightarrow> mqtt_client \<Rightarrow> mqtt_client \<times> action list" where
  "disconnect joined s = stop_transport joined s"

subsection \<open>Facts\<close>

lemma connect_poll_Inr_iff:
  "connect_poll view transport n k = Inr () \<longleftrightarrow>
     (\<exists>j < n. mq_connected (view (k + j)) \<and>
        (\<forall>i \<le> j. mq_client (view (k + i)) = transport \<and> \<not> mq_stopping (view (k + i))))"
proof (induction n arbitrary: k)
  case (Suc n)
  have shift: "(\<forall>i \<le> Suc j. P i) \<longleftrightarrow> P 0 \<and> (\<forall>i \<le> j. P (Suc i))" for P j
    unfolding less_Suc_eq_le [symmetric] by (rule All_less_Suc2)
  show ?case
    unfolding Ex_less_Suc2 shift using Suc.IH [of "k + 1"] by auto
qed simp

lemma connect_poll_error:
  "connect_poll view transport n k = Inl e \<Longrightarrow> e = NotConnectedError \<or> e = ConnectionTimeoutError"
  by (induction n arbitrary: k) (auto split: if_splits)

lemma begin_stop_simps [simp]:
  "mq_client (fst (begin_stop s)) = mq_client s" "mq_stopping (fst (begin_stop s))"
  "\<not> mq_connected (fst (begin_stop s))" "mq_cache (fst (begin_stop s)) = mq_cache s"
  by (simp_all add: begin_stop_def)

lemma finish_stop_cases:
  obtains (released) "mq_worker s \<noteq> Some Alive" "mq_loop_thread s \<noteq> Some Alive"
    "mq_client (fst (finish_stop s)) = None" "\<not> mq_stopping (fst (finish_stop s))"
    "mq_inbox (fst (finish_stop s)) = []" "mq_worker (fst (finish_stop s)) = None"
    "mq_loop_thread (fst (finish_stop s)) = None"
  | (kept) "mq_worker s = Some Alive \<or> mq_loop_thread s = Some Alive"
    "finish_stop s = (release_exited s, [])"
  by (cases "mq_worker s = Some Alive \<or> mq_loop_thread s = Some Alive")
    (auto simp: finish_stop_def release_exited_def Let_def)

text \<open>
  A client that calls \<^verbatim>\<open>connect\<close> gets a bounded answer.  It returns exactly when, at one of
  the first 50 looks, the one transport it waits for is connected and was neither replaced nor
  being stopped up to then; otherwise it raises.
\<close>

lemma connect_returns_iff:
  "snd (snd (connect setup loop_ok joined later s cid)) = Inr () \<longleftrightarrow>
     (\<exists>s1 sent. connect_begin setup loop_ok joined s cid = (s1, sent, None) \<and>
       (\<exists>j < 50. mq_connected (later j s1) \<and>
          (\<forall>i \<le> j. mq_client (later i s1) = mq_client s1 \<and> \<not> mq_stopping (later i s1))))"
  by (cases "connect_begin setup loop_ok joined s cid")
    (auto simp: connect_def Let_def connect_poll_Inr_iff CONNECT_WAIT_STEPS_def split: option.splits)

lemma connect_returns_iff_example:
  "snd (snd (connect (\<lambda>_. None) True id (\<lambda>_ s. s\<lparr>mq_connected := True\<rparr>) (init_client default_mqtt_config []) 3)) =
   Inr ()"
proof (rule iffD2 [OF connect_returns_iff])
  have "snd (snd (connect_begin (\<lambda>_. None) True id (init_client default_mqtt_config []) 3)) = None"
    "\<not> mq_stopping (fst (connect_begin (\<lambda>_. None) True id (init_client default_mqtt_config []) 3))"
    by (simp_all add: connect_begin_def transport_dead_def start_transport_def start_worker_def init_client_def)
  then show "\<exists>s1 sent. connect_begin (\<lambda>_. None) True id (init_client default_mqtt_config []) 3 = (s1, sent, None) \<and>
    (\<exists>j < 50::nat. mq_connected (s1\<lparr>mq_connected := True\<rparr>) \<and>
       (\<forall>i \<le> j. mq_client (s1\<lparr>mq_connected := True\<rparr>) = mq_client s1 \<and> \<not> mq_stopping (s1\<lparr>mq_connected := True\<rparr>)))"
    by (cases "connect_begin (\<lambda>_. None) True id (init_client default_mqtt_config []) 3") (auto intro: exI [of _ 0])
qed

subsection \<open>A session without a portal\<close>

text \<open>The state in which maintenance leaves a session it sees for the first time.\<close>

lemma maintain_arms:
  assumes "live_session s cid (mq_connection_epoch s)" "mq_maintenance_epoch s \<noteq> int (mq_connection_epoch s)"
  shows "maintain_read_feed env acc s armed =
    (s\<lparr>mq_maintenance_epoch := int (mq_connection_epoch s), mq_pending_refresh := [],
       mq_next_keepalive := float_add armed APPLICATION_KEEPALIVE_S,
       mq_next_refresh := float_add armed REFRESH_INTERVAL_S, mq_next_refresh_batch := armed\<rparr>, [], None)"
  using assms by (simp add: live_session_def maintain_read_feed_def)

text \<open>Without a portal, nothing but the two timers that were armed together decides what a round does.\<close>

lemma maintain_without_portal:
  assumes "unset (portal_id (mq_config s))" "live_session s cid (mq_connection_epoch s)"
    and "mq_maintenance_epoch s = int (mq_connection_epoch s)" "mq_pending_refresh s = []"
    and "mq_next_keepalive s = due" "mq_next_refresh s = due" "due \<noteq> NaN" "t \<noteq> NaN"
    and "\<not> float_lt t (mq_next_refresh_batch s)"
  shows "maintain_read_feed alone acc s t =
    (if float_lt t due then (s, [], None)
     else (s\<lparr>mq_next_keepalive := float_add t (if acc 0 then APPLICATION_KEEPALIVE_S else Fin 1)\<rparr>,
           [Publish cid (''R/'' @ portal_text s @ ''/keepalive'') (VStr SUPPRESS_REPUBLISH) False],
           Some MissingPortalIdError))"
  using assms publish_read_live [of s cid "mq_connection_epoch s"]
  by (auto simp: maintain_read_feed_def live_session_def send_keepalive_def float_le_iff_not_lt refresh_candidates_def
      prefix_of_def topic_prefix_def Let_def)

text \<open>
  C35: without a portal ID a session is taken for connected although the connect callback raises
  before it subscribes to anything, and its decoder thread does not survive it.  Maintenance arms the
  keepalive and the first refresh for the same instant, 30 seconds on.  Before that instant an
  undisturbed round does nothing; the first one after it sends a keepalive for a portal named None
  and then raises where the refresh needs the prefix, which ends the thread, since the worker loop
  has no handler around maintenance.
\<close>

theorem session_without_portal_ends_decoder:
  assumes "unset (portal_id cfg)" "setup (setup_of cfg) = None" "float_le (Fin armed) (Fin t)"
  shows "let s1 = fst (start_transport setup True (init_client cfg contracts) cid);
             s2 = fst (on_connect tms s1 cid 0 connected_at);
             s3 = fst (maintain_read_feed alone acc s2 (Fin armed))
         in snd (on_connect tms s1 cid 0 connected_at) = ([], Some MissingPortalIdError) \<and> mq_connected s2 \<and>
            snd (maintain_read_feed alone acc s2 (Fin armed)) = ([], None) \<and>
            (if float_lt (Fin t) (float_add (Fin armed) (Fin 30))
             then maintain_read_feed alone acc s3 (Fin t) = (s3, [], None)
             else snd (process_turn iter_match loads alone acc s3 0 (Fin t) later) =
               ([Publish cid (''R/'' @ portal_text (init_client cfg contracts) @ ''/keepalive'') (VStr SUPPRESS_REPUBLISH) False], [],
                Crash MissingPortalIdError))"
proof -
  define s1 where "s1 = fst (start_transport setup True (init_client cfg contracts) cid)"
  define s2 where "s2 = fst (on_connect tms s1 cid 0 connected_at)"
  define s3 where "s3 = fst (maintain_read_feed alone acc s2 (Fin armed))"
  have s1: "owned s1 cid" "\<not> mq_worker_stop s1" "mq_config s1 = cfg" "mq_maintenance_epoch s1 = -1"
    "mq_connection_epoch s1 = 0"
    using assms(2) by (simp_all add: s1_def start_transport_def start_worker_def init_client_def Let_def owned_def)
  then have raised: "snd (on_connect tms s1 cid 0 connected_at) = ([], Some MissingPortalIdError)"
    using assms(1) by (simp add: on_connect_def base_subscriptions_def prefix_of_def topic_prefix_def session_started_def)
  have s2: "live_session s2 cid (mq_connection_epoch s2)" "mq_maintenance_epoch s2 \<noteq> int (mq_connection_epoch s2)"
    "mq_config s2 = cfg"
    using s1 assms(1)
    by (simp_all add: s2_def on_connect_def base_subscriptions_def prefix_of_def topic_prefix_def session_started_def
        live_session_def owned_def)
  note arms = maintain_arms [OF s2(1,2), of alone acc "Fin armed"]
  have s3: "unset (portal_id (mq_config s3))" "live_session s3 cid (mq_connection_epoch s3)"
    "mq_maintenance_epoch s3 = int (mq_connection_epoch s3)" "mq_pending_refresh s3 = []"
    "mq_next_keepalive s3 = float_add (Fin armed) (Fin 30)" "mq_next_refresh s3 = float_add (Fin armed) (Fin 30)"
    "\<not> float_lt (Fin t) (mq_next_refresh_batch s3)"
    using s2 assms(1,3)
    by (simp_all add: s3_def arms live_session_def APPLICATION_KEEPALIVE_S_def REFRESH_INTERVAL_S_def)
  note turn = maintain_without_portal [OF s3(1-6) float_add_not_NaN _ s3(7), of acc]
  have "\<not> mq_worker_stop s3" "mq_connected s2" "portal_text s3 = portal_text (init_client cfg contracts)"
    using s3(2) s2 by (simp_all add: live_session_def s3_def arms portal_text_def init_client_def)
  then show ?thesis
    unfolding s1_def [symmetric] s2_def [symmetric] s3_def [symmetric] Let_def
    using turn raised arms by (simp add: process_turn_def)
qed

theorem session_without_portal_ends_decoder_witness:
  "\<exists>s. snd (process_turn (\<lambda>_ _. []) (\<lambda>_. Inl ValueError) alone (\<lambda>_. True) s 0 (Fin 31) (Fin 32)) =
     ([Publish 7 ''R/None/keepalive'' (VStr SUPPRESS_REPUBLISH) False], [], Crash MissingPortalIdError)"
proof -
  have "unset (portal_id default_mqtt_config)" "portal_text (init_client default_mqtt_config []) = ''None''"
    by (simp_all add: default_mqtt_config_def unset_def portal_text_def init_client_def)
  moreover have "\<not> float_lt (Fin 31) (float_add (Fin 0) (Fin 30))" by code_simp
  ultimately show ?thesis
    using session_without_portal_ends_decoder [of default_mqtt_config "\<lambda>_. None" 0 31 "[]" 7 "\<lambda>_ _. True" "Fin 0"
      "\<lambda>_. True" "\<lambda>_ _. []" "\<lambda>_. Inl ValueError" "Fin 32"]
    by (auto simp: Let_def)
qed

end
