(* ===== verification/Mqtt_Registry.thy ===== *)
theory Mqtt_Registry
  imports Mqtt_Inbox "HOL-Library.Multiset"
begin

section \<open>The callback registry\<close>

text \<open>
  \<^verbatim>\<open>subscribe\<close> and \<^verbatim>\<open>unsubscribe\<close> keep the dictionary of callbacks and paho's index in step, and
  delivery through the index is delivery to every matching pattern in registration order.
  Registration order is the order of \<^verbatim>\<open>_callbacks\<close>; the index mirrors it: one entry per
  pattern, its sequence numbers increase and stay below the next one, and no pattern is left with
  an empty list.
\<close>

definition registry_ok :: "mqtt_client \<Rightarrow> bool" where
  "registry_ok s \<longleftrightarrow>
     distinct (map fst (mq_callbacks s)) \<and>
     map fst (mq_callback_index s) = map fst (mq_callbacks s) \<and>
     list_all (\<lambda>(pattern, seq, group). group = pattern) (mq_callback_index s) \<and>
     sorted (map (fst \<circ> snd) (mq_callback_index s)) \<and>
     distinct (map (fst \<circ> snd) (mq_callback_index s)) \<and>
     list_all (\<lambda>(pattern, seq, group). seq < mq_callback_sequence s) (mq_callback_index s) \<and>
     list_all (\<lambda>(pattern, cbs). cbs \<noteq> []) (mq_callbacks s)"

text \<open>The state \<open>subscribe\<close> and \<open>unsubscribe\<close> leave, whatever the transport does.\<close>

lemma subscribe_registry:
  "fst (subscribe tms s pattern cb) =
     (case map_of (mq_callbacks s) pattern of
        Some cbs \<Rightarrow> s\<lparr>mq_callbacks := dict_set pattern (cbs @ [cb]) (mq_callbacks s)\<rparr>
      | None \<Rightarrow> s\<lparr>
          mq_callbacks := dict_set pattern [cb] (mq_callbacks s),
          mq_callback_index := dict_set pattern (mq_callback_sequence s, pattern) (mq_callback_index s),
          mq_callback_sequence := mq_callback_sequence s + 1\<rparr>)"
proof -
  have set_set: "dict_set k v (dict_set k w d) = dict_set k v d" for k v w and d :: "('x \<times> 'y) list"
    by (induction d) auto
  show ?thesis
    by (auto simp: subscribe_def Let_def set_set split: option.splits sum.splits)
qed

lemma unsubscribe_registry:
  "fst (unsubscribe tms s pattern cb) =
     (case map_of (mq_callbacks s) pattern of
        Some cbs \<Rightarrow>
          if cb \<notin> set cbs then s
          else if remove1 cb cbs \<noteq> []
          then s\<lparr>mq_callbacks := dict_set pattern (remove1 cb cbs) (mq_callbacks s)\<rparr>
          else s\<lparr>mq_callbacks := dict_pop pattern (mq_callbacks s),
                 mq_callback_index := dict_pop pattern (mq_callback_index s)\<rparr>
      | None \<Rightarrow> s)"
  by (auto simp: unsubscribe_def Let_def split: option.splits sum.splits)

lemma registry_ok_init: "registry_ok (init_client config contracts)"
  by (simp add: registry_ok_def init_client_def)

lemma registry_ok_subscribe:
  assumes "registry_ok s"
  shows "registry_ok (fst (subscribe tms s pattern cb))"
proof (cases "map_of (mq_callbacks s) pattern")
  case None
  then have new: "pattern \<notin> fst ` set (mq_callbacks s)"
    by (simp add: map_of_eq_None_iff)
  moreover have "fst ` set (mq_callback_index s) = fst ` set (mq_callbacks s)"
    using assms unfolding registry_ok_def by (metis list.set_map)
  ultimately have "pattern \<notin> fst ` set (mq_callback_index s)" by simp
  with new None assms show ?thesis
    unfolding registry_ok_def subscribe_registry
    by (auto simp: dict_set_new list_all_iff sorted_append less_imp_le)
next
  case (Some cbs)
  then have "pattern \<in> fst ` set (mq_callbacks s)"
    by (force dest: map_of_SomeD)
  with Some assms show ?thesis
    unfolding registry_ok_def subscribe_registry
    by (auto simp: dict_set_keys_old intro!: list_all_dict_set)
qed

lemma registry_ok_unsubscribe:
  assumes "registry_ok s"
  shows "registry_ok (fst (unsubscribe tms s pattern cb))"
proof (cases "map_of (mq_callbacks s) pattern")
  case None
  then show ?thesis using assms by (simp add: unsubscribe_registry)
next
  case (Some cbs)
  then have "pattern \<in> fst ` set (mq_callbacks s)"
    by (force dest: map_of_SomeD)
  moreover have "distinct (map f (dict_pop k d))" if "distinct (map f d)" for f k and d :: "('x \<times> 'y) list"
    using that by (simp add: dict_pop_filter distinct_map_filter)
  moreover have "sorted (map f (dict_pop k d))" if "sorted (map f d)" for f k and d :: "('x \<times> 'y) list"
    using that by (simp add: dict_pop_filter sorted_filter)
  ultimately show ?thesis
    using Some assms unfolding registry_ok_def unsubscribe_registry
    by (auto simp: dict_set_keys_old map_fst_dict_pop intro!: list_all_dict_set list_all_dict_pop)
qed

text \<open>What paho's matcher promises: the entries whose filter matches the topic, in some order.\<close>

definition index_spec :: "matcher \<Rightarrow> match_index \<Rightarrow> bool" where
  "index_spec tms iter_match \<longleftrightarrow>
     (\<forall>index topic. distinct (map fst index) \<longrightarrow>
        mset (iter_match index topic) = mset (map snd (filter (\<lambda>(pattern, _). tms pattern topic) index)))"

text \<open>The naive delivery: every registered pattern in registration order.\<close>

definition deliver_all :: "matcher \<Rightarrow> mqtt_client \<Rightarrow> string \<Rightarrow> pyval \<Rightarrow> (nat \<times> pyval) list" where
  "deliver_all tms s topic payload =
     concat (map (\<lambda>(pattern, cbs). if tms pattern topic then map (\<lambda>cb. (cb, payload)) cbs else [])
       (mq_callbacks s))"

lemma iter_match_sorted:
  assumes "index_spec tms iter_match" "registry_ok s"
  shows "sort_key fst (iter_match (mq_callback_index s) topic) =
    map snd (filter (\<lambda>(pattern, _). tms pattern topic) (mq_callback_index s))"
proof (rule properties_for_sort_key)
  let ?ms = "map snd (filter (\<lambda>(pattern, _). tms pattern topic) (mq_callback_index s))"
  have d: "distinct (map fst (mq_callback_index s))" using assms(2) by (simp add: registry_ok_def)
  show m: "mset ?ms = mset (iter_match (mq_callback_index s) topic)"
    using assms(1) d by (simp add: index_spec_def)
  have srt: "sorted (map fst ?ms)" and dst: "distinct (map fst ?ms)"
    using assms(2) unfolding registry_ok_def map_map
    by (auto intro: sorted_filter distinct_map_filter)
  show "sorted (map fst ?ms)" by (rule srt)
  fix k assume "k \<in> set ?ms"
  have one: "filter (\<lambda>x. fst k = fst x) xs = [k]" if "k \<in> set xs" "distinct (map fst xs)" for xs
    using that by (induction xs) (auto simp: image_iff filter_empty_conv intro: prod_eqI)
  show "filter (\<lambda>x. fst k = fst x) ?ms = filter (\<lambda>x. fst k = fst x) (iter_match (mq_callback_index s) topic)"
  proof -
    have "mset (map fst (iter_match (mq_callback_index s) topic)) = mset (map fst ?ms)"
      using m by (metis mset_map)
    then have "distinct (map fst (iter_match (mq_callback_index s) topic))"
      using dst by (metis mset_eq_imp_distinct_iff)
    moreover have "k \<in> set (iter_match (mq_callback_index s) topic)"
      using m \<open>k \<in> set ?ms\<close> by (metis mset_eq_setD)
    ultimately show ?thesis using one dst \<open>k \<in> set ?ms\<close> by metis
  qed
qed

lemma notify_callbacks_deliver_all:
  assumes "index_spec tms iter_match" "registry_ok s"
  shows "notify_callbacks iter_match s topic payload = deliver_all tms s topic payload"
proof (cases "mq_callbacks s = []")
  case True
  then show ?thesis by (simp add: notify_callbacks_def deliver_all_def)
next
  case False
  define deliver where "deliver = (\<lambda>group. case map_of (mq_callbacks s) group of
    None \<Rightarrow> [] | Some cbs \<Rightarrow> map (\<lambda>cb. (cb, payload)) cbs)"
  have reg: "map fst (mq_callback_index s) = map fst (mq_callbacks s)" "distinct (map fst (mq_callbacks s))"
    and grp: "\<forall>e \<in> set (mq_callback_index s). snd (snd e) = fst e"
    using assms(2) by (auto simp: registry_ok_def list_all_iff)
  have "notify_callbacks iter_match s topic payload =
      concat (map (deliver \<circ> snd \<circ> snd) (filter (\<lambda>(pattern, _). tms pattern topic) (mq_callback_index s)))"
    using False iter_match_sorted [OF assms, of topic]
    by (simp add: notify_callbacks_def deliver_def case_prod_unfold comp_def)
  also have "\<dots> = concat (map (deliver \<circ> fst) (filter (\<lambda>(pattern, _). tms pattern topic) (mq_callback_index s)))"
    by (rule arg_cong [where f = concat], rule map_cong) (use grp in auto)
  also have "\<dots> = concat (map deliver (filter (\<lambda>pattern. tms pattern topic) (map fst (mq_callback_index s))))"
    by (simp add: filter_map comp_def case_prod_unfold)
  also have "\<dots> = concat (map (deliver \<circ> fst) (filter (\<lambda>(pattern, _). tms pattern topic) (mq_callbacks s)))"
    by (simp add: reg(1) filter_map comp_def case_prod_unfold)
  also have "\<dots> = deliver_all tms s topic payload"
  proof -
    have "concat (map (deliver \<circ> fst) (filter (\<lambda>(pattern, _). tms pattern topic) xs)) =
      concat (map (\<lambda>(pattern, cbs). if tms pattern topic then map (\<lambda>cb. (cb, payload)) cbs else []) xs)"
      if "set xs \<subseteq> set (mq_callbacks s)" for xs
      using that reg(2) by (induction xs) (auto simp: deliver_def)
    then show ?thesis unfolding deliver_all_def by blast
  qed
  finally show ?thesis .
qed
end
