(* ===== verification/Mqtt_Machine.thy ===== *)
theory Mqtt_Machine
  imports Mqtt_Lifecycle Mqtt_Registry
begin

section \<open>The client as a state machine\<close>

text \<open>
  Every interleaving of the three threads that touch an \<^verbatim>\<open>MQTTClient\<close>: the event loop (starting
  and stopping the transport under the lifecycle lock, subscribing), paho's network thread (its
  callbacks, for any transport, stale ones too) and the decoder thread (one queue entry or one round
  of maintenance at a time).  A world adds to the client the identity the next paho client will have
  and the messages that were ever received with the time of receipt, which no step reads.
\<close>

record world =
  w_client :: mqtt_client
  w_next :: nat
  w_log :: "(nat \<times> mqtt_message \<times> pyfloat) set"

abbreviation set_client :: "world \<Rightarrow> mqtt_client \<Rightarrow> world" where
  "set_client w s \<equiv> w\<lparr>w_client := s\<rparr>"

inductive mq_step :: "matcher \<Rightarrow> match_index \<Rightarrow> json_loads \<Rightarrow> sampler \<Rightarrow> world \<Rightarrow> world \<Rightarrow> bool"
  for tms iter_match loads sample where
  start: "mq_client (w_client w) = None \<Longrightarrow> \<not> mq_stopping (w_client w) \<Longrightarrow>
    mq_step tms iter_match loads sample w
      (w\<lparr>w_client := fst (start_transport setup loop_ok (w_client w) (w_next w)), w_next := w_next w + 1\<rparr>)"
| stop_begins: "mq_step tms iter_match loads sample w (set_client w (fst (begin_stop (w_client w))))"
| stop_ends: "mq_stopping (w_client w) \<Longrightarrow>
    mq_step tms iter_match loads sample w (set_client w (fst (finish_stop (w_client w))))"
| worker_exits: "mq_worker (w_client w) = Some Alive \<Longrightarrow>
    mq_step tms iter_match loads sample w (set_client w ((w_client w)\<lparr>mq_worker := Some Exited\<rparr>))"
| loop_exits: "mq_loop_thread (w_client w) = Some Alive \<Longrightarrow>
    mq_step tms iter_match loads sample w (set_client w ((w_client w)\<lparr>mq_loop_thread := Some Exited\<rparr>))"
| connected: "mq_step tms iter_match loads sample w (set_client w (fst (on_connect tms (w_client w) cid rc now)))"
| disconnected: "mq_step tms iter_match loads sample w (set_client w (fst (on_disconnect (w_client w) cid now)))"
| logged: "mq_step tms iter_match loads sample w (set_client w (on_log sample (w_client w) cid message now))"
| socket_open: "mq_step tms iter_match loads sample w (set_client w (on_socket_open sample (w_client w) cid cs sock now))"
| socket_drained: "mq_step tms iter_match loads sample w
    (set_client w (on_socket_unregister_write sample (w_client w) cid cs ww sock now))"
| socket_close: "mq_step tms iter_match loads sample w (set_client w (on_socket_close sample (w_client w) cid sock now))"
| received: "mq_step tms iter_match loads sample w
    (w\<lparr>w_client := on_message (w_client w) cid msg t now, w_log := insert (cid, msg, t) (w_log w)\<rparr>)"
| decoded: "mq_inbox (w_client w) = Entry cid msg t # rest \<Longrightarrow>
    mq_step tms iter_match loads sample w
      (set_client w (fst (handle_message iter_match loads ((w_client w)\<lparr>mq_inbox := rest\<rparr>) cid msg t)))"
| sentinel_taken: "mq_inbox (w_client w) = Sentinel # rest \<Longrightarrow>
    mq_step tms iter_match loads sample w (set_client w ((w_client w)\<lparr>mq_inbox := rest\<rparr>))"
| maintained: "mq_step tms iter_match loads sample w
    (set_client w (fst (maintain_read_feed alone acc (w_client w) now)))"
| subscribed: "mq_step tms iter_match loads sample w (set_client w (fst (subscribe tms (w_client w) pattern cb)))"
| unsubscribed: "mq_step tms iter_match loads sample w (set_client w (fst (unsubscribe tms (w_client w) pattern cb)))"

inductive reachable :: "matcher \<Rightarrow> match_index \<Rightarrow> json_loads \<Rightarrow> sampler \<Rightarrow> world \<Rightarrow> bool"
  for tms iter_match loads sample where
  initial: "reachable tms iter_match loads sample
    \<lparr>w_client = init_client config contracts, w_next = 0, w_log = {}\<rparr>"
| step: "reachable tms iter_match loads sample w \<Longrightarrow> mq_step tms iter_match loads sample w w' \<Longrightarrow>
    reachable tms iter_match loads sample w'"

subsection \<open>What each operation leaves alone\<close>

text \<open>
  The attributes grouped by who writes them: the lifecycle (\<open>core\<close>), the registry, and the
  inbox and cache.  Most callbacks only touch diagnostics.
\<close>

definition core :: "mqtt_client \<Rightarrow> nat option \<times> bool \<times> thread_state option \<times> thread_state option" where
  "core s = (mq_client s, mq_stopping s, mq_worker s, mq_loop_thread s)"

definition registry_part ::
  "mqtt_client \<Rightarrow> (string, nat list) dict \<times> (string, nat \<times> string) dict \<times> nat" where
  "registry_part s = (mq_callbacks s, mq_callback_index s, mq_callback_sequence s)"

definition data_part :: "mqtt_client \<Rightarrow> inbox_entry list \<times> (string, pyval \<times> pyfloat) dict \<times> mqtt_config" where
  "data_part s = (mq_inbox s, mq_cache s, mq_config s)"

lemmas parts = core_def registry_part_def data_part_def

lemma registry_ok_part: "registry_part s = registry_part s' \<Longrightarrow> registry_ok s = registry_ok s'"
  by (simp add: registry_part_def registry_ok_def)

lemma record_transport_event_parts [simp]:
  "core (record_transport_event sample s n t) = core s"
  "registry_part (record_transport_event sample s n t) = registry_part s"
  "data_part (record_transport_event sample s n t) = data_part s"
  "mq_connected (record_transport_event sample s n t) = mq_connected s"
  by (simp_all add: record_transport_event_def parts)

lemma update_parts [simp]:
  "core (s\<lparr>mq_pending_pingreq_generation := p\<rparr>) = core s"
  "registry_part (s\<lparr>mq_pending_pingreq_generation := p\<rparr>) = registry_part s"
  "data_part (s\<lparr>mq_pending_pingreq_generation := p\<rparr>) = data_part s"
  by (simp_all add: parts)

lemma callback_parts:
  "core (on_log sample s cid m now) = core s"
  "registry_part (on_log sample s cid m now) = registry_part s"
  "data_part (on_log sample s cid m now) = data_part s"
  "mq_connected (on_log sample s cid m now) = mq_connected s"
  "core (on_socket_open sample s cid cs sock now) = core s"
  "registry_part (on_socket_open sample s cid cs sock now) = registry_part s"
  "data_part (on_socket_open sample s cid cs sock now) = data_part s"
  "mq_connected (on_socket_open sample s cid cs sock now) = mq_connected s"
  "core (on_socket_unregister_write sample s cid cs ww sock now) = core s"
  "registry_part (on_socket_unregister_write sample s cid cs ww sock now) = registry_part s"
  "data_part (on_socket_unregister_write sample s cid cs ww sock now) = data_part s"
  "mq_connected (on_socket_unregister_write sample s cid cs ww sock now) = mq_connected s"
  "core (on_socket_close sample s cid sock now) = core s"
  "registry_part (on_socket_close sample s cid sock now) = registry_part s"
  "data_part (on_socket_close sample s cid sock now) = data_part s"
  "mq_connected (on_socket_close sample s cid sock now) = mq_connected s"
  by (simp_all add: on_log_def on_socket_open_def on_socket_unregister_write_def on_socket_close_def
      record_transport_event_def parts)

lemma session_parts:
  "core (fst (on_connect tms s cid rc now)) = core s"
  "registry_part (fst (on_connect tms s cid rc now)) = registry_part s"
  "data_part (fst (on_connect tms s cid rc now)) = data_part s"
  "mq_connected (fst (on_connect tms s cid rc now)) \<Longrightarrow> mq_connected s \<or> owned s cid"
  "core (fst (on_disconnect s cid now)) = core s"
  "registry_part (fst (on_disconnect s cid now)) = registry_part s"
  "data_part (fst (on_disconnect s cid now)) = data_part s"
  "mq_connected (fst (on_disconnect s cid now)) \<Longrightarrow> mq_connected s"
  by (auto simp: on_connect_def on_disconnect_def session_started_def parts Let_def split: sum.splits if_splits)

lemma refresh_loop_alone_parts:
  "\<exists>q. fst (refresh_loop alone acc E pre transport epoch n k s) = s\<lparr>mq_pending_refresh := q\<rparr>"
proof (induction n arbitrary: k s)
  case 0
  show ?case by (intro exI [of _ "mq_pending_refresh s"]) simp
next
  case (Suc n)
  have unchanged: "\<exists>q. s = s\<lparr>mq_pending_refresh := q\<rparr>"
    by (intro exI [of _ "mq_pending_refresh s"]) simp
  have later: "\<exists>q. fst (refresh_loop alone acc E pre transport epoch n (k + 2) (s\<lparr>mq_pending_refresh := r\<rparr>)) =
      s\<lparr>mq_pending_refresh := q\<rparr>" for r
    using Suc.IH [of "k + 2" "s\<lparr>mq_pending_refresh := r\<rparr>"] by auto
  show ?case
    using unchanged later
    by (auto simp: Let_def case_prod_unfold simp del: add_2_eq_Suc' split: list.split)
qed

lemma send_keepalive_alone:
  "\<exists>t. fst (send_keepalive alone acc s transport epoch now) = s\<lparr>mq_next_keepalive := t\<rparr>"
proof (cases "float_le (mq_next_keepalive s) now")
  case True
  then show ?thesis by (auto simp: send_keepalive_def Let_def case_prod_unfold)
next
  case False
  then show ?thesis by (intro exI [of _ "mq_next_keepalive s"]) (simp add: send_keepalive_def)
qed

lemma maintain_alone_parts:
  defines "s' s acc now \<equiv> fst (maintain_read_feed alone acc s now)"
  shows "core (s' s acc now) = core s" "registry_part (s' s acc now) = registry_part s"
    "data_part (s' s acc now) = data_part s" "mq_connected (s' s acc now) = mq_connected s"
proof -
  have "core (s' s acc now) = core s \<and> registry_part (s' s acc now) = registry_part s \<and>
    data_part (s' s acc now) = data_part s \<and> mq_connected (s' s acc now) = mq_connected s"
  proof (cases "mq_client s")
    case None
    then show ?thesis by (simp add: s'_def maintain_read_feed_def)
  next
    case (Some transport)
    define epoch where "epoch = mq_connection_epoch s"
    obtain t where ka: "fst (send_keepalive alone acc s transport epoch now) = s\<lparr>mq_next_keepalive := t\<rparr>"
      using send_keepalive_alone by blast
    have loop: "core (fst (refresh_loop alone acc E pre transport epoch n k r)) = core r"
      "registry_part (fst (refresh_loop alone acc E pre transport epoch n k r)) = registry_part r"
      "data_part (fst (refresh_loop alone acc E pre transport epoch n k r)) = data_part r"
      "mq_connected (fst (refresh_loop alone acc E pre transport epoch n k r)) = mq_connected r" for E pre n k r
      using refresh_loop_alone_parts [of acc E pre transport epoch n k r] by (auto simp: parts)
    have queue: "core (queue_round r cs now) = core r" "registry_part (queue_round r cs now) = registry_part r"
      "data_part (queue_round r cs now) = data_part r" "mq_connected (queue_round r cs now) = mq_connected r" for r cs
      by (simp_all add: queue_round_def Let_def parts case_prod_unfold)
    have eqs: "core (s\<lparr>mq_next_keepalive := t\<rparr>) = core s" "registry_part (s\<lparr>mq_next_keepalive := t\<rparr>) = registry_part s"
      "data_part (s\<lparr>mq_next_keepalive := t\<rparr>) = data_part s"
      by (simp_all add: parts)
    have reset: "core (s\<lparr>mq_maintenance_epoch := e, mq_pending_refresh := q, mq_next_keepalive := a,
        mq_next_refresh := b, mq_next_refresh_batch := c\<rparr>) = core s"
      "registry_part (s\<lparr>mq_maintenance_epoch := e, mq_pending_refresh := q, mq_next_keepalive := a,
        mq_next_refresh := b, mq_next_refresh_batch := c\<rparr>) = registry_part s"
      "data_part (s\<lparr>mq_maintenance_epoch := e, mq_pending_refresh := q, mq_next_keepalive := a,
        mq_next_refresh := b, mq_next_refresh_batch := c\<rparr>) = data_part s" for e q a b c
      by (simp_all add: parts)
    show ?thesis
      unfolding s'_def maintain_read_feed_def
      using Some
      by (simp add: Let_def case_prod_unfold ka eqs reset loop queue epoch_def [symmetric]
        del: refresh_loop.simps split: sum.split)
  qed
  then show "core (s' s acc now) = core s" "registry_part (s' s acc now) = registry_part s"
    "data_part (s' s acc now) = data_part s" "mq_connected (s' s acc now) = mq_connected s" by simp_all
qed

lemma subscribe_parts:
  "core (fst (subscribe tms s p cb)) = core s" "data_part (fst (subscribe tms s p cb)) = data_part s"
  "mq_connected (fst (subscribe tms s p cb)) = mq_connected s"
  "core (fst (unsubscribe tms s p cb)) = core s" "data_part (fst (unsubscribe tms s p cb)) = data_part s"
  "mq_connected (fst (unsubscribe tms s p cb)) = mq_connected s"
  unfolding subscribe_registry unsubscribe_registry by (simp_all add: parts split: option.split)

lemma handle_message_parts:
  "core (fst (handle_message im loads s cid msg t)) = core s"
  "registry_part (fst (handle_message im loads s cid msg t)) = registry_part s"
  "mq_connected (fst (handle_message im loads s cid msg t)) = mq_connected s"
  "mq_inbox (fst (handle_message im loads s cid msg t)) = mq_inbox s"
  "mq_config (fst (handle_message im loads s cid msg t)) = mq_config s"
  unfolding handle_message_fst
  by (simp_all add: parts forget_topic_def Let_def split: sum.split)

subsection \<open>The invariant\<close>

text \<open>A cached value stems from a live message: its topic, its payload decoded, its time of receipt.\<close>

definition cached_from ::
  "json_loads \<Rightarrow> (nat \<times> mqtt_message \<times> pyfloat) set \<Rightarrow> mqtt_client \<Rightarrow> string \<Rightarrow> pyval \<Rightarrow> pyfloat \<Rightarrow> bool" where
  "cached_from loads rcvd s topic v t \<longleftrightarrow>
     (\<exists>cid msg decoded. (cid, msg, t) \<in> rcvd \<and> msg_topic msg = topic \<and> msg_payload msg \<noteq> [] \<and>
        loads (msg_payload msg) = Inr decoded \<and> v = unwrap_payload decoded \<and>
        (\<forall>pre. prefix_of s = Inr pre \<longrightarrow> \<not> (topic = serial_topic pre \<and> msg_retain msg)))"

definition cache_ok :: "json_loads \<Rightarrow> world \<Rightarrow> bool" where
  "cache_ok loads w \<longleftrightarrow>
     (\<forall>topic v t. map_of (mq_cache (w_client w)) topic = Some (v, t) \<longrightarrow>
        cached_from loads (w_log w) (w_client w) topic v t)"

definition inbox_ok :: "world \<Rightarrow> bool" where
  "inbox_ok w \<longleftrightarrow>
     length (mq_inbox (w_client w)) \<le> INBOX_MAXSIZE \<and>
     (\<forall>cid msg t. Entry cid msg t \<in> set (mq_inbox (w_client w)) \<longrightarrow>
        (cid, msg, t) \<in> w_log w \<and> mq_client (w_client w) = Some cid)"

definition lifecycle_ok :: "world \<Rightarrow> bool" where
  "lifecycle_ok w \<longleftrightarrow>
     (let s = w_client w in
      (mq_client s = None \<longrightarrow> mq_worker s = None \<and> mq_loop_thread s = None) \<and>
      (mq_connected s \<longrightarrow> mq_client s \<noteq> None \<and> \<not> mq_stopping s) \<and>
      (\<forall>cid. mq_client s = Some cid \<longrightarrow> cid < w_next w))"

definition machine_ok :: "json_loads \<Rightarrow> world \<Rightarrow> bool" where
  "machine_ok loads w \<longleftrightarrow> lifecycle_ok w \<and> inbox_ok w \<and> cache_ok loads w \<and> registry_ok (w_client w)"

text \<open>A step that keeps the parts keeps what depends on them.\<close>

lemma machine_ok_parts:
  assumes "machine_ok loads w" "core s = core (w_client w)" "registry_part s = registry_part (w_client w)"
    "data_part s = data_part (w_client w)" "mq_connected s \<Longrightarrow> mq_connected (w_client w) \<or> (\<exists>cid. owned (w_client w) cid)"
  shows "machine_ok loads (set_client w s)"
  using assms registry_ok_part [OF assms(3)]
  unfolding machine_ok_def lifecycle_ok_def inbox_ok_def cache_ok_def cached_from_def
  by (auto simp: core_def data_part_def prefix_of_def owned_def Let_def)

lemma machine_ok_initial: "machine_ok loads \<lparr>w_client = init_client config contracts, w_next = 0, w_log = {}\<rparr>"
  by (simp add: machine_ok_def lifecycle_ok_def inbox_ok_def cache_ok_def registry_ok_init)
    (simp add: init_client_def)

lemma machine_ok_start:
  assumes "machine_ok loads w" "mq_client (w_client w) = None"
  shows "machine_ok loads (w\<lparr>w_client := fst (start_transport setup ok (w_client w) (w_next w)), w_next := Suc (w_next w)\<rparr>)"
proof -
  have "registry_part (fst (start_transport setup ok s c)) = registry_part s"
    "data_part (fst (start_transport setup ok s c)) = data_part s" for s c
    by (simp_all add: start_transport_def start_worker_def Let_def parts split: option.split)
  moreover have "Entry cid msg t \<notin> set (mq_inbox (w_client w))" for cid msg t
    using assms by (auto simp: machine_ok_def inbox_ok_def)
  ultimately show ?thesis
    using assms registry_ok_part [of "fst (start_transport setup ok (w_client w) (w_next w))" "w_client w"]
    unfolding machine_ok_def lifecycle_ok_def inbox_ok_def cache_ok_def cached_from_def
    by (auto simp: data_part_def prefix_of_def Let_def start_transport_def start_worker_def split: option.split)
qed

lemma machine_ok_begin_stop:
  assumes "machine_ok loads w"
  shows "machine_ok loads (set_client w (fst (begin_stop (w_client w))))"
  using assms
  by (auto simp: machine_ok_def lifecycle_ok_def inbox_ok_def cache_ok_def cached_from_def begin_stop_def
      registry_ok_def prefix_of_def Let_def split: if_splits)

lemma machine_ok_finish_stop:
  assumes "machine_ok loads w" "mq_stopping (w_client w)"
  shows "machine_ok loads (set_client w (fst (finish_stop (w_client w))))"
  using assms
  by (auto simp: machine_ok_def lifecycle_ok_def inbox_ok_def cache_ok_def cached_from_def finish_stop_def
      release_exited_def registry_ok_def prefix_of_def Let_def)

lemma cached_from_mono:
  "cached_from loads rcvd s topic v t \<Longrightarrow> rcvd \<subseteq> rcvd' \<Longrightarrow> mq_config s' = mq_config s \<Longrightarrow>
   cached_from loads rcvd' s' topic v t"
  unfolding cached_from_def prefix_of_def by auto

lemma machine_ok_received:
  assumes "machine_ok loads w"
  shows "machine_ok loads (w\<lparr>w_client := on_message (w_client w) cid msg t now,
    w_log := insert (cid, msg, t) (w_log w)\<rparr>)"
proof -
  define s where "s = w_client w"
  define s' where "s' = on_message s cid msg t now"
  have keep: "registry_part s' = registry_part s" "core s' = core s" "mq_connected s' = mq_connected s"
    "mq_cache s' = mq_cache s" "mq_config s' = mq_config s"
    by (simp_all add: s'_def on_message_def Let_def parts)
  have inbox: "mq_inbox s' = mq_inbox s \<or> owned s cid \<and> length (mq_inbox s) < INBOX_MAXSIZE \<and>
      mq_inbox s' = mq_inbox s @ [Entry cid msg t]"
    by (simp add: s'_def on_message_def Let_def)
  let ?w = "w\<lparr>w_client := s', w_log := insert (cid, msg, t) (w_log w)\<rparr>"
  have "lifecycle_ok ?w" "registry_ok s'"
    using assms keep registry_ok_part [OF keep(1)]
    by (simp_all add: machine_ok_def lifecycle_ok_def core_def s_def Let_def)
  moreover have "inbox_ok ?w"
    using assms inbox keep(2) unfolding machine_ok_def inbox_ok_def
    by (auto simp: core_def owned_def s_def)
  moreover have "cache_ok loads ?w"
    using assms keep(4,5) unfolding machine_ok_def cache_ok_def
    by (auto simp: s_def intro!: cached_from_mono [where s' = s'])
  ultimately show ?thesis by (simp add: machine_ok_def s'_def s_def)
qed

lemma machine_ok_sentinel:
  assumes "machine_ok loads w" "mq_inbox (w_client w) = e # rest"
  shows "machine_ok loads (set_client w ((w_client w)\<lparr>mq_inbox := rest\<rparr>))"
  using assms
  by (auto simp: machine_ok_def lifecycle_ok_def inbox_ok_def cache_ok_def cached_from_def registry_ok_def
      prefix_of_def Let_def)

lemma machine_ok_decoded:
  assumes "machine_ok loads w" "mq_inbox (w_client w) = Entry cid msg t # rest"
  shows "machine_ok loads (set_client w
    (fst (handle_message iter_match loads ((w_client w)\<lparr>mq_inbox := rest\<rparr>) cid msg t)))"
proof -
  define s where "s = (w_client w)\<lparr>mq_inbox := rest\<rparr>"
  define s' where "s' = fst (handle_message iter_match loads s cid msg t)"
  have ok: "machine_ok loads (set_client w s)" unfolding s_def using assms by (rule machine_ok_sentinel)
  have rcvd: "(cid, msg, t) \<in> w_log w" using assms by (auto simp: machine_ok_def inbox_ok_def)
  have pre: "prefix_of s' = prefix_of s" by (simp add: s'_def prefix_of_def handle_message_parts)
  have "cached_from loads (w_log w) s' topic v u" if hit: "map_of (mq_cache s') topic = Some (v, u)" for topic v u
  proof (cases "map_of (mq_cache s) topic = Some (v, u)")
    case True
    then have "cached_from loads (w_log w) s topic v u"
      using ok by (simp add: machine_ok_def cache_ok_def)
    then show ?thesis by (simp add: cached_from_def pre)
  next
    case False
    then have new: "cache_request loads s msg t = Some (Some (v, u))" "topic = msg_topic msg"
      using hit unfolding s'_def handle_message_cache by (auto split: if_splits option.splits)
    from new(1) obtain decoded p where "msg_payload msg \<noteq> []" "loads (msg_payload msg) = Inr decoded"
      "prefix_of s = Inr p" "\<not> (msg_topic msg = serial_topic p \<and> msg_retain msg)"
      "v = unwrap_payload decoded" "u = t"
      by (auto simp: cache_request_def split: if_splits sum.splits)
    with rcvd new(2) show ?thesis unfolding cached_from_def pre by auto
  qed
  then have "cache_ok loads (set_client w s')" by (simp add: cache_ok_def)
  moreover have "lifecycle_ok (set_client w s')" "inbox_ok (set_client w s')" "registry_ok s'"
    using ok handle_message_parts(1,2,3,4) [of iter_match loads s cid msg t]
      registry_ok_part [of s' s]
    by (auto simp: machine_ok_def lifecycle_ok_def inbox_ok_def core_def s'_def Let_def)
  ultimately show ?thesis by (simp add: machine_ok_def s'_def s_def)
qed

lemma machine_ok_registry:
  assumes "machine_ok loads w"
  shows "machine_ok loads (set_client w (fst (subscribe tms (w_client w) p cb)))"
    "machine_ok loads (set_client w (fst (unsubscribe tms (w_client w) p cb)))"
  using assms subscribe_parts [of tms "w_client w" p cb] registry_ok_subscribe registry_ok_unsubscribe
  unfolding machine_ok_def lifecycle_ok_def inbox_ok_def cache_ok_def cached_from_def
  by (auto simp: core_def data_part_def prefix_of_def Let_def)

lemma machine_ok_exits:
  assumes "machine_ok loads w"
  shows "mq_worker (w_client w) = Some Alive \<Longrightarrow>
      machine_ok loads (set_client w ((w_client w)\<lparr>mq_worker := Some Exited\<rparr>))"
    and "mq_loop_thread (w_client w) = Some Alive \<Longrightarrow>
      machine_ok loads (set_client w ((w_client w)\<lparr>mq_loop_thread := Some Exited\<rparr>))"
  using assms
  by (auto simp: machine_ok_def lifecycle_ok_def inbox_ok_def cache_ok_def cached_from_def registry_ok_def
      prefix_of_def Let_def)

lemma machine_ok_quiet:
  assumes "machine_ok loads w"
  shows "machine_ok loads (set_client w (on_log sample (w_client w) cid m now))"
    "machine_ok loads (set_client w (on_socket_open sample (w_client w) cid cs sock now))"
    "machine_ok loads (set_client w (on_socket_unregister_write sample (w_client w) cid cs ww sock now))"
    "machine_ok loads (set_client w (on_socket_close sample (w_client w) cid sock now))"
    "machine_ok loads (set_client w (fst (maintain_read_feed alone acc (w_client w) now)))"
  by (rule machine_ok_parts [OF assms]; simp add: callback_parts maintain_alone_parts)+

lemma machine_ok_step:
  assumes "mq_step tms iter_match loads sample w w'" "machine_ok loads w"
  shows "machine_ok loads w'"
  using assms
proof (cases rule: mq_step.cases)
  case (connected cid rc now)
  then show ?thesis
    using assms(2) session_parts(1-4) [of tms "w_client w" cid rc now] by (auto intro!: machine_ok_parts)
next
  case (disconnected cid now)
  then show ?thesis
    using assms(2) session_parts(5-8) [of "w_client w" cid now] by (auto intro!: machine_ok_parts)
qed (use assms(2) in \<open>auto intro: machine_ok_start machine_ok_begin_stop machine_ok_finish_stop machine_ok_exits
      machine_ok_received machine_ok_decoded machine_ok_sentinel machine_ok_registry machine_ok_quiet\<close>)

lemma machine_ok_reachable: "reachable tms iter_match loads sample w \<Longrightarrow> machine_ok loads w"
  by (induction rule: reachable.induct) (auto intro: machine_ok_initial machine_ok_step)

subsection \<open>A run that caches a value\<close>

definition example_config :: mqtt_config where
  "example_config = default_mqtt_config\<lparr>portal_id := Some ''c0ffee''\<rparr>"

definition example_loads :: json_loads where
  "example_loads payload = (if payload = ''3'' then Inr (VDict [(''value'', VInt 3)]) else Inl ValueError)"

definition example_message :: mqtt_message where
  "example_message = \<lparr>msg_topic = ''N/c0ffee/vebus/1/Mode'', msg_payload = ''3'', msg_retain = False\<rparr>"

definition example_started :: mqtt_client where
  "example_started = fst (start_transport (\<lambda>_. None) True (init_client example_config []) 0)"

definition example_received :: mqtt_client where
  "example_received = on_message example_started 0 example_message (Fin 12) (Fin 12)"

definition example_cached :: mqtt_client where
  "example_cached =
     fst (handle_message (\<lambda>_ _. []) example_loads (example_received\<lparr>mq_inbox := []\<rparr>) 0 example_message (Fin 12))"

definition example_world :: world where
  "example_world = \<lparr>w_client = example_cached, w_next = 1, w_log = {(0, example_message, Fin 12)}\<rparr>"

lemmas example_defs = example_config_def default_mqtt_config_def example_message_def example_started_def
  start_transport_def start_worker_def init_client_def

lemma example_received_inbox: "mq_inbox example_received = [Entry 0 example_message (Fin 12)]"
  "owned example_received 0" "prefix_of example_received = Inr ''N/c0ffee''"
  by (simp_all add: example_received_def on_message_def owned_def example_defs INBOX_MAXSIZE_def prefix_of_def
      topic_prefix_def)

lemma example_cached_eq: "map_of (mq_cache example_cached) ''N/c0ffee/vebus/1/Mode'' = Some (VInt 3, Fin 12)"
  "prefix_of example_cached = Inr ''N/c0ffee''"
proof -
  have "owned (example_received\<lparr>mq_inbox := []\<rparr>) 0" "prefix_of (example_received\<lparr>mq_inbox := []\<rparr>) = Inr ''N/c0ffee''"
    using example_received_inbox by (simp_all add: owned_def prefix_of_def)
  then show "map_of (mq_cache example_cached) ''N/c0ffee/vebus/1/Mode'' = Some (VInt 3, Fin 12)"
    by (simp add: example_cached_def handle_message_cache cache_request_def example_loads_def
        example_message_def serial_topic_def startswith_code unwrap_payload_def)
  show "prefix_of example_cached = Inr ''N/c0ffee''"
    using example_received_inbox(3) by (simp add: example_cached_def prefix_of_def handle_message_parts)
qed

lemma example_reachable: "reachable tms (\<lambda>_ _. []) example_loads sample example_world"
proof -
  let ?step = "mq_step tms (\<lambda>_ _. []) example_loads sample"
  let ?w0 = "\<lparr>w_client = init_client example_config [], w_next = 0, w_log = {}\<rparr>"
  let ?w1 = "\<lparr>w_client = example_started, w_next = 1, w_log = {}\<rparr>"
  let ?w2 = "\<lparr>w_client = example_received, w_next = 1, w_log = {(0, example_message, Fin 12)}\<rparr>"
  have "?step ?w0 ?w1"
    using start [of ?w0 tms "\<lambda>_ _. []" example_loads sample "\<lambda>_. None" True]
    by (simp add: init_client_def example_started_def)
  moreover have "?step ?w1 ?w2"
    using received [of tms "\<lambda>_ _. []" example_loads sample ?w1 0 example_message "Fin 12" "Fin 12"]
    by (simp add: example_received_def)
  moreover have "?step ?w2 example_world"
    using decoded [of ?w2 0 example_message "Fin 12" "[]" tms "\<lambda>_ _. []" example_loads sample] example_received_inbox
    by (simp add: example_world_def example_cached_def)
  ultimately show ?thesis by (metis initial step)
qed

subsection \<open>Properties of every reachable state\<close>

lemma read_since_received:
  assumes "reachable tms iter_match loads sample w"
    and "read_path_since (w_client w) now device_type inst path since = Inr (Some (v, age))"
  shows "\<exists>cid msg t decoded pre. (cid, msg, t) \<in> w_log w \<and> \<not> float_lt t since \<and> age = float_sub now t \<and>
    prefix_of (w_client w) = Inr pre \<and> msg_topic msg = item_topic pre device_type inst path \<and>
    loads (msg_payload msg) = Inr decoded \<and> v = unwrap_payload decoded \<and>
    \<not> (msg_topic msg = serial_topic pre \<and> msg_retain msg)"
proof -
  from assms(2) obtain pre t where pre: "prefix_of (w_client w) = Inr pre" "\<not> float_lt t since" "age = float_sub now t"
    and hit: "map_of (mq_cache (w_client w)) (item_topic pre device_type inst path) = Some (v, t)"
    by (auto simp: read_path_since_def split: option.splits if_splits)
  have "cached_from loads (w_log w) (w_client w) (item_topic pre device_type inst path) v t"
    using machine_ok_reachable [OF assms(1)] hit by (simp add: machine_ok_def cache_ok_def)
  then obtain cid msg decoded where "(cid, msg, t) \<in> w_log w" "msg_topic msg = item_topic pre device_type inst path"
    "loads (msg_payload msg) = Inr decoded" "v = unwrap_payload decoded"
    "\<not> (msg_topic msg = serial_topic pre \<and> msg_retain msg)"
    unfolding cached_from_def pre(1) by auto
  with pre show ?thesis by blast
qed

text \<open>
  C4: whatever the interleaving of starts, stops, network callbacks and decoding, a value read as
  fresher than a given time was carried by a message on exactly that item's topic that was received
  at or after that time, and a retained serial number is never served.
\<close>

theorem fresh_read_was_received:
  assumes "reachable tms iter_match loads sample w"
    and "read_path_since (w_client w) now device_type inst path since = Inr (Some (v, age))"
  shows "\<exists>cid msg t decoded pre. (cid, msg, t) \<in> w_log w \<and> \<not> float_lt t since \<and> age = float_sub now t \<and>
    prefix_of (w_client w) = Inr pre \<and> msg_topic msg = item_topic pre device_type inst path \<and>
    loads (msg_payload msg) = Inr decoded \<and> v = unwrap_payload decoded \<and>
    \<not> (msg_topic msg = serial_topic pre \<and> msg_retain msg)"
  using assms by (rule read_since_received)

theorem fresh_read_was_received_witness:
  "\<exists>cid msg t. (cid, msg, t) \<in> w_log example_world \<and> \<not> float_lt t (Fin 10) \<and>
     msg_topic msg = ''N/c0ffee/vebus/1/Mode''"
proof -
  have topic: "item_topic ''N/c0ffee'' ''vebus'' 1 ''Mode'' = ''N/c0ffee/vebus/1/Mode''"
    by code_simp
  have "read_path_since (w_client example_world) (Fin 13) ''vebus'' 1 ''Mode'' (Fin 10) =
    Inr (Some (VInt 3, float_sub (Fin 13) (Fin 12)))"
    by (simp add: read_path_since_def example_world_def example_cached_eq topic)
  from fresh_read_was_received [OF example_reachable this] show ?thesis
    using topic by (auto simp: example_world_def example_cached_eq)
qed

text \<open>
  C8: at most one transport is owned at any time.  When there is none, both threads are gone, so a new
  one never runs beside an old one; a connected client has a transport that is not being stopped; the
  queue holds at most 50,000 entries and only messages of the current transport.
\<close>

theorem one_transport_at_a_time:
  assumes "reachable tms iter_match loads sample w"
  shows "(mq_client (w_client w) = None \<longrightarrow>
      mq_worker (w_client w) = None \<and> mq_loop_thread (w_client w) = None \<and> \<not> mq_connected (w_client w)) \<and>
    (mq_connected (w_client w) \<longrightarrow> mq_client (w_client w) \<noteq> None \<and> \<not> mq_stopping (w_client w)) \<and>
    length (mq_inbox (w_client w)) \<le> 50000 \<and>
    (\<forall>cid msg t. Entry cid msg t \<in> set (mq_inbox (w_client w)) \<longrightarrow> mq_client (w_client w) = Some cid)"
  using machine_ok_reachable [OF assms]
  by (auto simp: machine_ok_def lifecycle_ok_def inbox_ok_def INBOX_MAXSIZE_def Let_def)

theorem one_transport_at_a_time_witness: "length (mq_inbox (w_client example_world)) \<le> 50000"
  using one_transport_at_a_time [OF example_reachable] by blast

text \<open>
  C31: in every reachable state, delivering a message through paho's index, in whatever order the
  index yields its matches, calls exactly the callbacks of the matching patterns, in the order in
  which the patterns were registered and the callbacks added.
\<close>

theorem delivery_in_registration_order:
  assumes "reachable tms' iter_match' loads sample w" "index_spec tms iter_match"
  shows "notify_callbacks iter_match (w_client w) topic payload = deliver_all tms (w_client w) topic payload"
  using machine_ok_reachable [OF assms(1)] assms(2) by (simp add: machine_ok_def notify_callbacks_deliver_all)

theorem delivery_in_registration_order_witness:
  "notify_callbacks (\<lambda>index topic. rev (map snd (filter (\<lambda>(p, _). mqtt_matches p topic) index)))
     (w_client example_world) ''N/c0ffee/vebus/1/Mode'' (VInt 3) =
   deliver_all mqtt_matches (w_client example_world) ''N/c0ffee/vebus/1/Mode'' (VInt 3)"
  by (rule delivery_in_registration_order [OF example_reachable]) (simp add: index_spec_def)

text \<open>
  C29: a transport that is not the current one, or is being stopped, cannot change the client: every
  callback of paho and every message of it still in the queue leaves the state as it is and sends
  nothing.
\<close>

theorem stale_transport_ignored:
  assumes "mq_client s \<noteq> Some cid \<or> mq_stopping s"
  shows "on_connect tms s cid rc now = (s, [], None) \<and> on_disconnect s cid now = (s, None) \<and>
    on_log sample s cid m now = s \<and> on_socket_open sample s cid cs sock now = s \<and>
    on_socket_unregister_write sample s cid cs ww sock now = s \<and> on_socket_close sample s cid sock now = s \<and>
    on_message s cid msg t now = s \<and> handle_message iter_match loads s cid msg t = (s, [])"
proof -
  have "\<not> owned s cid" using assms by (auto simp: owned_def)
  then show ?thesis
    by (simp add: on_message_def handle_message_def Let_def split: sum.split)
qed

theorem stale_transport_ignored_witness:
  "on_message example_cached 5 example_message (Fin 20) (Fin 20) = example_cached"
proof -
  have "mq_client example_cached \<noteq> Some 5"
    using handle_message_parts(1) [of "\<lambda>_ _. []" example_loads "example_received\<lparr>mq_inbox := []\<rparr>" 0 example_message "Fin 12"]
      example_received_inbox(2)
    by (simp add: example_cached_def core_def owned_def)
  then show ?thesis using stale_transport_ignored by blast
qed

end
