(* ===== verification/Server_Write.thy ===== *)
theory Server_Write
  imports Safety Mqtt_Machine
begin

section \<open>Write tools of the server\<close>

text \<open>
  The write half of \<^verbatim>\<open>src/mcp_venus_os/server.py\<close>: the confirmation gate, the publish with verified
  read-back and the three write tools.  The decoder thread keeps running while a tool does, so a
  tool sees a sequence of states: an identity probe is read from the client and at the time that
  \<open>probe_view\<close> gives for it, and \<open>we_poll k\<close> is what the \<open>k\<close>-th turn of the read-back loop sees.
  The safety configuration is read again when the write is confirmed, so it is part of the view.
  The result dictionaries are constructors that carry their variable entries; an exception that
  leaves the tool is \<open>Inl\<close>.  The loop runs on fuel; \<open>None\<close> means that it was not enough.
\<close>

definition WRITE_VERIFY_TIMEOUT_S :: pyfloat where
  "WRITE_VERIFY_TIMEOUT_S = Fin 5"

subsection \<open>Comparing a read-back\<close>

definition dict_get_value :: "pyval \<Rightarrow> pyval" where
  "dict_get_value v =
     (case v of VDict kv \<Rightarrow> (case map_of kv ''value'' of None \<Rightarrow> VNone | Some x \<Rightarrow> x) | _ \<Rightarrow> v)"

definition values_match :: "pyval \<Rightarrow> pyval \<Rightarrow> bool" where
  "values_match received target =
     (let r = dict_get_value received
      in if type_of r = TBool \<or> type_of target = TBool then False
         else case (py_float r, py_float target) of
           (Inr a, Inr t) \<Rightarrow> isfinite a \<and> isfinite t \<and> float_eq a t
         | _ \<Rightarrow> False)"

subsection \<open>Mode codes\<close>

definition MODE_CODES :: "(string, (string, int) dict) dict" where
  "MODE_CODES =
     [(''vebus'', [(''charger_only'', 1), (''inverter_only'', 2), (''on'', 3), (''off'', 4)]),
      (''inverter'', [(''charger_only'', 1), (''inverter_only'', 2), (''on'', 3), (''off'', 4), (''eco'', 5)]),
      (''solarcharger'', [(''on'', 1), (''off'', 4)])]"

definition mode_code :: "string \<Rightarrow> string \<Rightarrow> int option" where
  "mode_code device_type mode =
     map_of (case map_of MODE_CODES device_type of None \<Rightarrow> [] | Some codes \<Rightarrow> codes) mode"

subsection \<open>The confirmation gate\<close>

datatype gate_reply =
    Needs_confirmation "(string \<times> params) option"
  | Gate_error "reason option"

definition confirm_gate ::
  "safety_config \<Rightarrow> string \<Rightarrow> params \<Rightarrow> bool \<Rightarrow> string option \<Rightarrow> gate_reply option res" where
  "confirm_gate cfg operation params conf dbus_path =
     bind_res (validate_write_operation cfg operation params conf dbus_path) (\<lambda>result.
       Inr (if \<not> allowed result \<and> requires_confirmation result
            then Some (Needs_confirmation (confirmation_message result))
            else if \<not> allowed result then Some (Gate_error (reason result))
            else None))"

subsection \<open>Equality of contracts\<close>

text \<open>\<^verbatim>\<open>==\<close> on scalars compares numbers by value; on contracts it compares field by field.\<close>

definition scalar_eq :: "pyval \<Rightarrow> pyval \<Rightarrow> bool" where
  "scalar_eq v w =
     (case (num_val v, num_val w) of
        (Some x, Some y) \<Rightarrow> float_eq x y
      | (None, None) \<Rightarrow> v = w
      | _ \<Rightarrow> False)"

definition bound_eq :: "pyval option \<Rightarrow> pyval option \<Rightarrow> bool" where
  "bound_eq v w =
     (case (v, w) of (None, None) \<Rightarrow> True | (Some x, Some y) \<Rightarrow> scalar_eq x y | _ \<Rightarrow> False)"

definition probe_eq :: "identity_probe \<Rightarrow> identity_probe \<Rightarrow> bool" where
  "probe_eq p q \<longleftrightarrow> p\<lparr>expected := VNone\<rparr> = q\<lparr>expected := VNone\<rparr> \<and> scalar_eq (expected p) (expected q)"

definition codes_eq :: "(string, int) dict \<Rightarrow> (string, int) dict \<Rightarrow> bool" where
  "codes_eq d e \<longleftrightarrow>
     list_all (\<lambda>(k, _). map_of d k = map_of e k) d \<and> list_all (\<lambda>(k, _). map_of d k = map_of e k) e"

definition contract_eq :: "hardware_write_contract \<Rightarrow> hardware_write_contract \<Rightarrow> bool" where
  "contract_eq c d \<longleftrightarrow>
     contract_id c = contract_id d \<and> contract_portal_id c = contract_portal_id d \<and>
     contract_device_type c = contract_device_type d \<and> contract_instance c = contract_instance d \<and>
     contract_path c = contract_path d \<and> list_all2 probe_eq (identity c) (identity d) \<and>
     reviewed_by c = reviewed_by d \<and> evidence_sha256 c = evidence_sha256 d \<and>
     semantics c = semantics d \<and> codes_eq (mode_codes c) (mode_codes d) \<and> unit_name c = unit_name d \<and>
     bound_eq (minimum c) (minimum d) \<and> bound_eq (maximum c) (maximum d)"

subsection \<open>Publishing with a verified read-back\<close>

type_synonym probe_view = "string \<Rightarrow> int \<Rightarrow> string \<Rightarrow> mqtt_client \<times> pyfloat"

definition reader_of :: "probe_view \<Rightarrow> reader" where
  "reader_of probes device_type inst path =
     (case probes device_type inst path of (s, now) \<Rightarrow> read_path s now device_type inst path)"

record poll_view =
  pv_time :: pyfloat
  pv_client :: mqtt_client
  pv_now :: pyfloat
  pv_safety :: safety_config
  pv_probes :: probe_view
  pv_end :: pyfloat

record write_env =
  we_config :: mqtt_config
  we_safety :: safety_config
  we_probes :: probe_view
  we_client :: mqtt_client
  we_written_at :: pyfloat
  we_started :: pyfloat
  we_poll :: "nat \<Rightarrow> poll_view"

datatype write_outcome =
    Contract_refused hw_problem
  | Publish_failed py_exc
  | Qualification_changed
  | Verified pyval string pyfloat string string
  | Not_reflected pyval string

definition qualify ::
  "safety_config \<Rightarrow> mqtt_config \<Rightarrow> probe_view \<Rightarrow> string \<Rightarrow> int \<Rightarrow> string \<Rightarrow> pyval \<Rightarrow> string option \<Rightarrow>
   (hw_problem + hardware_write_contract) res" where
  "qualify scfg config probes device_type inst path v semantic_mode =
     validate_hardware_write (hardware_write_contracts scfg) (portal_id config) device_type inst path v
       semantic_mode (reader_of probes) (stale_after_seconds config)"

definition still_qualified ::
  "mqtt_config \<Rightarrow> poll_view \<Rightarrow> hardware_write_contract \<Rightarrow> string \<Rightarrow> int \<Rightarrow> string \<Rightarrow> pyval \<Rightarrow> string option \<Rightarrow> bool res"
where
  "still_qualified config pv contract device_type inst path v semantic_mode =
     bind_res (qualify (pv_safety pv) config (pv_probes pv) device_type inst path v semantic_mode) (\<lambda>r.
       Inr (enable_writes (pv_safety pv) \<and>
            (case r of Inl _ \<Rightarrow> False | Inr current \<Rightarrow> contract_eq current contract)))"

text \<open>What one look at the cache concludes; \<open>None\<close> goes on polling.\<close>

definition look_back ::
  "mqtt_config \<Rightarrow> pyfloat \<Rightarrow> pyfloat \<Rightarrow> string \<Rightarrow> hardware_write_contract \<Rightarrow> string \<Rightarrow> int \<Rightarrow> string \<Rightarrow> pyval \<Rightarrow>
   string option \<Rightarrow> poll_view \<Rightarrow> write_outcome option res" where
  "look_back config written_at deadline topic contract device_type inst path v semantic_mode pv =
     bind_res (read_path_since (pv_client pv) (pv_now pv) device_type inst path written_at) (\<lambda>result.
       case result of
         None \<Rightarrow> Inr None
       | Some (received, age) \<Rightarrow>
           if \<not> values_match received v then Inr None
           else bind_res (still_qualified config pv contract device_type inst path v semantic_mode) (\<lambda>ok.
             Inr (Some (if \<not> ok then Qualification_changed
               else Verified v topic
                 (float_round 1 (float_sub WRITE_VERIFY_TIMEOUT_S (float_sub deadline (pv_end pv))))
                 (contract_id contract) (evidence_sha256 contract)))))"

fun poll_loop ::
  "(nat \<Rightarrow> poll_view) \<Rightarrow> pyfloat \<Rightarrow> (poll_view \<Rightarrow> write_outcome option res) \<Rightarrow> write_outcome \<Rightarrow> nat \<Rightarrow> nat \<Rightarrow>
   write_outcome res option" where
  "poll_loop polls deadline look timeout 0 k = None"
| "poll_loop polls deadline look timeout (Suc fuel) k =
     (if \<not> float_lt (pv_time (polls k)) deadline then Some (Inr timeout)
      else case look (polls k) of
             Inl e \<Rightarrow> Some (Inl e)
           | Inr (Some r) \<Rightarrow> Some (Inr r)
           | Inr None \<Rightarrow> poll_loop polls deadline look timeout fuel (k + 1))"

definition mqtt_write_and_verify ::
  "write_env \<Rightarrow> nat \<Rightarrow> string \<Rightarrow> int \<Rightarrow> string \<Rightarrow> pyval \<Rightarrow> string option \<Rightarrow> action list \<times> write_outcome res option" where
  "mqtt_write_and_verify env fuel device_type inst path v semantic_mode =
     (case qualify (we_safety env) (we_config env) (we_probes env) device_type inst path v semantic_mode of
        Inl e \<Rightarrow> ([], Some (Inl e))
      | Inr (Inl problem) \<Rightarrow> ([], Some (Inr (Contract_refused problem)))
      | Inr (Inr contract) \<Rightarrow>
          (case write_prefix (we_client env) of
             Inl e \<Rightarrow> ([], Some (Inl e))
           | Inr pre \<Rightarrow>
               (let topic = item_topic pre device_type inst path
                in case publish (we_client env) topic (VDict [(''value'', v)]) False of
                     Inl e \<Rightarrow> ([], Some (Inr (Publish_failed e)))
                   | Inr sent \<Rightarrow>
                       (let deadline = float_add (we_started env) WRITE_VERIFY_TIMEOUT_S
                        in (sent, poll_loop (we_poll env) deadline
                              (look_back (we_config env) (we_written_at env) deadline topic contract
                                device_type inst path v semantic_mode)
                              (Not_reflected v topic) fuel 0)))))"

subsection \<open>The tools\<close>

datatype tool_reply =
    Gate gate_reply
  | Unknown_mode string
  | Dbus_writes_not_implemented
  | Written write_outcome

text \<open>\<open>te_ready\<close> is the outcome of \<^verbatim>\<open>_mqtt_ready\<close>: the exception it raises, if any.\<close>

record tool_env =
  te_server :: server_config
  te_ready :: "py_exc option"
  te_write :: write_env

definition use_mqtt :: "server_config \<Rightarrow> bool" where
  "use_mqtt cfg \<longleftrightarrow> transport_backend cfg \<noteq> ''dbus''"

definition after_gate ::
  "tool_env \<Rightarrow> string \<Rightarrow> params \<Rightarrow> bool \<Rightarrow> string \<Rightarrow> (unit \<Rightarrow> action list \<times> tool_reply res option) \<Rightarrow>
   action list \<times> tool_reply res option" where
  "after_gate env operation params conf dbus_path body =
     (case confirm_gate (safety (te_server env)) operation params conf (Some dbus_path) of
        Inl e \<Rightarrow> ([], Some (Inl e))
      | Inr (Some g) \<Rightarrow> ([], Some (Inr (Gate g)))
      | Inr None \<Rightarrow>
          if use_mqtt (te_server env)
          then (case te_ready env of Some e \<Rightarrow> ([], Some (Inl e)) | None \<Rightarrow> body ())
          else ([], Some (Inr Dbus_writes_not_implemented)))"

definition write_reply :: "action list \<times> write_outcome res option \<Rightarrow> action list \<times> tool_reply res option" where
  "write_reply r = (fst r, map_option (map_sum id Written) (snd r))"

definition set_inverter_mode :: "tool_env \<Rightarrow> nat \<Rightarrow> string \<Rightarrow> int \<Rightarrow> bool \<Rightarrow> action list \<times> tool_reply res option" where
  "set_inverter_mode env fuel mode inst conf =
     after_gate env ''set_inverter_mode'' [(''mode'', VStr mode), (''instance'', VInt inst)] conf ''Mode'' (\<lambda>_.
       case mode_code ''vebus'' mode of
         None \<Rightarrow> ([], Some (Inr (Unknown_mode mode)))
       | Some n \<Rightarrow>
           write_reply (mqtt_write_and_verify (te_write env) fuel ''vebus'' inst ''Mode'' (VInt n) (Some mode)))"

definition set_charge_current_limit ::
  "tool_env \<Rightarrow> nat \<Rightarrow> pyval \<Rightarrow> int \<Rightarrow> bool \<Rightarrow> action list \<times> tool_reply res option" where
  "set_charge_current_limit env fuel current inst conf =
     after_gate env ''set_charge_current_limit'' [(''charge_current'', current), (''instance'', VInt inst)] conf
       ''Dc/0/MaxChargeCurrent'' (\<lambda>_.
       write_reply (mqtt_write_and_verify (te_write env) fuel ''vebus'' inst ''Dc/0/MaxChargeCurrent'' current None))"

definition set_soc_limit :: "tool_env \<Rightarrow> nat \<Rightarrow> pyval \<Rightarrow> int \<Rightarrow> bool \<Rightarrow> action list \<times> tool_reply res option" where
  "set_soc_limit env fuel soc_limit inst conf =
     after_gate env ''set_soc_limit'' [(''soc_limit'', soc_limit), (''instance'', VInt inst)] conf ''SocLimit'' (\<lambda>_.
       write_reply (mqtt_write_and_verify (te_write env) fuel ''battery'' inst ''SocLimit'' soc_limit None))"

subsection \<open>What a write does\<close>

lemma mqtt_write_sends:
  assumes "fst (mqtt_write_and_verify env fuel dt i path v m) \<noteq> []"
  obtains contract cid portal where
    "qualify (we_safety env) (we_config env) (we_probes env) dt i path v m = Inr (Inr contract)"
    "mq_client (we_client env) = Some cid" "mq_connected (we_client env)"
    "write_prefix (we_client env) = Inr (''W/'' @ portal)"
    "portal_id (mq_config (we_client env)) = Some portal"
    "fst (mqtt_write_and_verify env fuel dt i path v m) =
       [Publish cid (item_topic (''W/'' @ portal) dt i path) (VDict [(''value'', v)]) False]"
proof (cases "qualify (we_safety env) (we_config env) (we_probes env) dt i path v m")
  case (Inl e)
  with assms show ?thesis by (simp add: mqtt_write_and_verify_def)
next
  case (Inr q)
  show ?thesis
  proof (cases "unset (portal_id (mq_config (we_client env)))")
    case True
    with Inr assms show ?thesis by (cases q) (simp_all add: mqtt_write_and_verify_def write_prefix_def)
  next
    case False
    then obtain portal where "portal_id (mq_config (we_client env)) = Some portal" by (auto simp: unset_def)
    with False Inr assms show ?thesis
      by (cases q; cases "mq_client (we_client env)"; cases "mq_connected (we_client env)")
        (auto simp: mqtt_write_and_verify_def write_prefix_def publish_def Let_def intro!: that)
  qed
qed

lemma poll_loop_Inr:
  assumes "poll_loop polls deadline look timeout fuel k = Some (Inr r)" "r \<noteq> timeout"
  shows "\<exists>j \<ge> k. look (polls j) = Inr (Some r)"
  using assms
proof (induction fuel arbitrary: k)
  case (Suc fuel)
  then show ?case
    by (auto split: if_splits sum.splits option.splits dest!: Suc.IH intro: Suc_leD)
qed simp

lemma look_back_Verified:
  assumes "look_back config written_at deadline topic contract dt i path v m pv = Inr (Some (Verified v' t' el cid sha))"
  obtains received age current where
    "read_path_since (pv_client pv) (pv_now pv) dt i path written_at = Inr (Some (received, age))"
    "values_match received v" "v' = v" "t' = topic" "cid = contract_id contract" "sha = evidence_sha256 contract"
    "enable_writes (pv_safety pv)"
    "qualify (pv_safety pv) config (pv_probes pv) dt i path v m = Inr (Inr current)" "contract_eq current contract"
proof (cases "read_path_since (pv_client pv) (pv_now pv) dt i path written_at")
  case (Inl e)
  with assms show ?thesis by (simp add: look_back_def)
next
  case (Inr result)
  show ?thesis
  proof (cases "qualify (pv_safety pv) config (pv_probes pv) dt i path v m")
    case (Inl e)
    with Inr assms show ?thesis
      by (cases result) (auto simp: look_back_def still_qualified_def split: if_splits)
  next
    case (Inr q)
    with \<open>_ = Inr result\<close> assms show ?thesis
      by (cases result; cases q) (auto simp: look_back_def still_qualified_def split: if_splits intro!: that)
  qed
qed

lemma mqtt_write_Verified:
  assumes "snd (mqtt_write_and_verify env fuel dt i path v m) = Some (Inr (Verified v' topic elapsed cid sha))"
  obtains contract current pre k received age where
    "qualify (we_safety env) (we_config env) (we_probes env) dt i path v m = Inr (Inr contract)"
    "write_prefix (we_client env) = Inr pre" "topic = item_topic pre dt i path" "v' = v"
    "cid = contract_id contract" "sha = evidence_sha256 contract"
    "read_path_since (pv_client (we_poll env k)) (pv_now (we_poll env k)) dt i path (we_written_at env) =
       Inr (Some (received, age))"
    "values_match received v" "enable_writes (pv_safety (we_poll env k))"
    "qualify (pv_safety (we_poll env k)) (we_config env) (pv_probes (we_poll env k)) dt i path v m = Inr (Inr current)"
    "contract_eq current contract"
proof -
  from assms obtain contract pre deadline where
    q: "qualify (we_safety env) (we_config env) (we_probes env) dt i path v m = Inr (Inr contract)"
    "write_prefix (we_client env) = Inr pre"
    and loop: "poll_loop (we_poll env) deadline
      (look_back (we_config env) (we_written_at env) deadline (item_topic pre dt i path) contract dt i path v m)
      (Not_reflected v (item_topic pre dt i path)) fuel 0 = Some (Inr (Verified v' topic elapsed cid sha))"
    by (auto simp: mqtt_write_and_verify_def Let_def split: sum.splits)
  from poll_loop_Inr [OF loop] obtain k where
    "look_back (we_config env) (we_written_at env) deadline (item_topic pre dt i path) contract dt i path v m
      (we_poll env k) = Inr (Some (Verified v' topic elapsed cid sha))" by auto
  then show ?thesis by (rule look_back_Verified) (use q that in blast)
qed

lemma values_match_numbers:
  assumes "values_match received v"
  shows "\<exists>x. py_float v = Inr (Fin x) \<and> py_float (dict_get_value received) = Inr (Fin x)"
  using assms
  by (auto simp: values_match_def Let_def isfinite_iff split: if_splits sum.splits)

subsection \<open>The three tools\<close>

datatype write_call = Set_mode string | Set_charge pyval | Set_soc pyval

fun run_write_tool :: "tool_env \<Rightarrow> nat \<Rightarrow> write_call \<Rightarrow> int \<Rightarrow> bool \<Rightarrow> action list \<times> tool_reply res option" where
  "run_write_tool env fuel (Set_mode mode) inst conf = set_inverter_mode env fuel mode inst conf"
| "run_write_tool env fuel (Set_charge current) inst conf = set_charge_current_limit env fuel current inst conf"
| "run_write_tool env fuel (Set_soc soc) inst conf = set_soc_limit env fuel soc inst conf"

text \<open>The operation, parameters, target and value of a call.\<close>

fun call_operation :: "write_call \<Rightarrow> string" where
  "call_operation (Set_mode _) = ''set_inverter_mode''"
| "call_operation (Set_charge _) = ''set_charge_current_limit''"
| "call_operation (Set_soc _) = ''set_soc_limit''"

fun call_params :: "write_call \<Rightarrow> int \<Rightarrow> params" where
  "call_params (Set_mode mode) inst = [(''mode'', VStr mode), (''instance'', VInt inst)]"
| "call_params (Set_charge current) inst = [(''charge_current'', current), (''instance'', VInt inst)]"
| "call_params (Set_soc soc) inst = [(''soc_limit'', soc), (''instance'', VInt inst)]"

fun call_device :: "write_call \<Rightarrow> string" where
  "call_device (Set_mode _) = ''vebus''"
| "call_device (Set_charge _) = ''vebus''"
| "call_device (Set_soc _) = ''battery''"

fun call_path :: "write_call \<Rightarrow> string" where
  "call_path (Set_mode _) = ''Mode''"
| "call_path (Set_charge _) = ''Dc/0/MaxChargeCurrent''"
| "call_path (Set_soc _) = ''SocLimit''"

fun call_value :: "write_call \<Rightarrow> pyval option" where
  "call_value (Set_mode mode) = map_option VInt (mode_code ''vebus'' mode)"
| "call_value (Set_charge current) = Some current"
| "call_value (Set_soc soc) = Some soc"

fun call_mode :: "write_call \<Rightarrow> string option" where
  "call_mode (Set_mode mode) = Some mode"
| "call_mode _ = None"

lemma run_write_tool_eq:
  "run_write_tool env fuel call inst conf =
     after_gate env (call_operation call) (call_params call inst) conf (call_path call) (\<lambda>_.
       case call_value call of
         None \<Rightarrow> ([], Some (Inr (Unknown_mode (the (call_mode call)))))
       | Some v \<Rightarrow> write_reply (mqtt_write_and_verify (te_write env) fuel (call_device call) inst (call_path call) v
           (call_mode call)))"
proof (cases call)
  case (Set_mode mode)
  then show ?thesis by (simp add: set_inverter_mode_def split: option.split)
qed (simp_all add: set_charge_current_limit_def set_soc_limit_def)

lemma confirm_gate_None_iff:
  "confirm_gate cfg operation params conf path = Inr None \<longleftrightarrow>
     enable_writes cfg \<and> parameters_ok cfg operation params path \<and> (require_confirmation cfg \<longrightarrow> conf)"
proof -
  have "confirm_gate cfg operation params conf path = Inr None \<longleftrightarrow>
      accepted (validate_write_operation cfg operation params conf path)"
    by (cases "validate_write_operation cfg operation params conf path")
      (auto simp: confirm_gate_def accepted_def)
  then show ?thesis by (simp add: validate_write_operation_accepted)
qed

lemma after_gate_cases:
  assumes "after_gate env operation params conf path body = (sent, reply)"
  obtains (refused) "sent = []" "\<And>w. reply \<noteq> Some (Inr (Written w))"
  | (passed) "confirm_gate (safety (te_server env)) operation params conf (Some path) = Inr None"
      "use_mqtt (te_server env)" "te_ready env = None" "body () = (sent, reply)"
  using assms unfolding after_gate_def
  by (auto split: sum.splits option.splits if_splits)

text \<open>
  C1: a write tool publishes only behind every gate.  Whatever the call, the states the tool sees and
  the number of polls, if the tool itself publishes anything then writes are enabled, the path is in the
  allowlist and the parameters are in range, the call is confirmed where confirmation is required,
  exactly one reviewed contract names the target and qualifies the value with fresh identity readings;
  and what it publishes is exactly one unretained message with the value on that target's control topic.
  This is about the publishes of the tool.  Waiting for a ready client (\<open>te_ready\<close>) may open a session
  before, and its connect callback then subscribes and sends one read keepalive: those are actions of
  the session, modelled by \<open>on_connect\<close>, and none of them is on a control topic.
\<close>

theorem write_tool_publishes_behind_gates:
  assumes "fst (run_write_tool env fuel call inst conf) \<noteq> []"
  shows "enable_writes (safety (te_server env)) \<and>
    parameters_ok (safety (te_server env)) (call_operation call) (call_params call inst) (Some (call_path call)) \<and>
    (require_confirmation (safety (te_server env)) \<longrightarrow> conf) \<and>
    (\<exists>v contract cid portal. call_value call = Some v \<and>
       filter (contract_matches (portal_id (we_config (te_write env))) (call_device call) inst (call_path call))
         (hardware_write_contracts (we_safety (te_write env))) = [contract] \<and>
       identity_fresh (reader_of (we_probes (te_write env))) (stale_after_seconds (we_config (te_write env))) contract \<and>
       qualified_value contract (call_path call) v (call_mode call) \<and>
       mq_client (we_client (te_write env)) = Some cid \<and> mq_connected (we_client (te_write env)) \<and>
       portal_id (mq_config (we_client (te_write env))) = Some portal \<and>
       fst (run_write_tool env fuel call inst conf) =
         [Publish cid (''W/'' @ portal @ ''/'' @ call_device call @ ''/'' @ str_of_int inst @ ''/'' @ call_path call)
            (VDict [(''value'', v)]) False])"
proof -
  obtain sent reply where run: "run_write_tool env fuel call inst conf = (sent, reply)" by fastforce
  from run [unfolded run_write_tool_eq] show ?thesis
  proof (cases rule: after_gate_cases)
    case refused
    with assms run show ?thesis by simp
  next
    case passed
    with assms run obtain v where v: "call_value call = Some v"
      and sent: "sent = fst (mqtt_write_and_verify (te_write env) fuel (call_device call) inst (call_path call) v (call_mode call))"
      by (auto simp: write_reply_def split: option.splits)
    from assms run sent obtain contract cid portal where
      q: "qualify (we_safety (te_write env)) (we_config (te_write env)) (we_probes (te_write env)) (call_device call)
        inst (call_path call) v (call_mode call) = Inr (Inr contract)"
      and c: "mq_client (we_client (te_write env)) = Some cid" "mq_connected (we_client (te_write env))"
        "portal_id (mq_config (we_client (te_write env))) = Some portal"
      and pub: "sent = [Publish cid (item_topic (''W/'' @ portal) (call_device call) inst (call_path call))
        (VDict [(''value'', v)]) False]"
      by (metis fst_conv mqtt_write_sends)
    have "identity_fresh (reader_of (we_probes (te_write env))) (stale_after_seconds (we_config (te_write env))) contract"
      "qualified_value contract (call_path call) v (call_mode call)"
      "filter (contract_matches (portal_id (we_config (te_write env))) (call_device call) inst (call_path call))
         (hardware_write_contracts (we_safety (te_write env))) = [contract]"
      using q unfolding qualify_def validate_hardware_write_accept by simp_all
    with passed(1) v c pub run show ?thesis
      by (simp add: confirm_gate_None_iff item_topic_def)
  qed
qed

subsection \<open>Success and termination\<close>

lemma run_write_tool_Written:
  assumes "snd (run_write_tool env fuel call inst conf) = Some (Inr (Written w))"
  obtains v where "call_value call = Some v"
    "snd (mqtt_write_and_verify (te_write env) fuel (call_device call) inst (call_path call) v (call_mode call)) =
       Some (Inr w)"
    "run_write_tool env fuel call inst conf =
       write_reply (mqtt_write_and_verify (te_write env) fuel (call_device call) inst (call_path call) v (call_mode call))"
proof -
  obtain sent reply where run: "run_write_tool env fuel call inst conf = (sent, reply)" by fastforce
  from run [unfolded run_write_tool_eq] show ?thesis
  proof (cases rule: after_gate_cases)
    case refused
    with assms run show ?thesis by simp
  next
    case passed
    with assms run obtain v where v: "call_value call = Some v"
      by (cases "call_value call") auto
    have eq: "run_write_tool env fuel call inst conf =
       write_reply (mqtt_write_and_verify (te_write env) fuel (call_device call) inst (call_path call) v (call_mode call))"
      using passed v run by simp
    have map_Written: "map_sum id Written r = Inr (Written w) \<longleftrightarrow> r = Inr w" for r :: "write_outcome res"
      by (cases r) auto
    show ?thesis
      using that [OF v _ eq] assms unfolding eq write_reply_def by (auto simp: map_Written)
  qed
qed

text \<open>
  C2: a write tool reports success only for a write that the device echoed.  In every run of the MQTT
  client, a verified write was published, and a message received at or after the time of the write, on
  the notification topic of exactly that target, carried a finite number equal to the value; at that
  moment writes were still enabled and the same contract still qualified the write with fresh identities.
\<close>

theorem verified_write_was_echoed:
  assumes "snd (run_write_tool env fuel call inst conf) = Some (Inr (Written (Verified v topic elapsed cid sha)))"
    and "\<And>k. reachable tms iter_match loads sample (seen k) \<and> w_client (seen k) = pv_client (we_poll (te_write env) k)"
  shows "\<exists>k from msg t decoded portal x contract current.
    call_value call = Some v \<and>
    fst (run_write_tool env fuel call inst conf) \<noteq> [] \<and>
    (from, msg, t) \<in> w_log (seen k) \<and> \<not> float_lt t (we_written_at (te_write env)) \<and>
    portal_id (mq_config (w_client (seen k))) = Some portal \<and>
    msg_topic msg = ''N/'' @ portal @ ''/'' @ call_device call @ ''/'' @ str_of_int inst @ ''/'' @ call_path call \<and>
    loads (msg_payload msg) = Inr decoded \<and>
    py_float v = Inr (Fin x) \<and> py_float (dict_get_value (unwrap_payload decoded)) = Inr (Fin x) \<and>
    qualify (we_safety (te_write env)) (we_config (te_write env)) (we_probes (te_write env)) (call_device call) inst
      (call_path call) v (call_mode call) = Inr (Inr contract) \<and>
    enable_writes (pv_safety (we_poll (te_write env) k)) \<and>
    qualify (pv_safety (we_poll (te_write env) k)) (we_config (te_write env)) (pv_probes (we_poll (te_write env) k))
      (call_device call) inst (call_path call) v (call_mode call) = Inr (Inr current) \<and>
    contract_eq current contract \<and> cid = contract_id contract \<and> sha = evidence_sha256 contract"
proof -
  let ?env = "te_write env"
  from assms(1) obtain v0 where v0: "call_value call = Some v0"
    and out: "snd (mqtt_write_and_verify ?env fuel (call_device call) inst (call_path call) v0 (call_mode call)) =
      Some (Inr (Verified v topic elapsed cid sha))"
    and run: "run_write_tool env fuel call inst conf =
      write_reply (mqtt_write_and_verify ?env fuel (call_device call) inst (call_path call) v0 (call_mode call))"
    by (rule run_write_tool_Written)
  from out obtain contract current pre k received age where
    v: "v = v0" and q: "qualify (we_safety ?env) (we_config ?env) (we_probes ?env) (call_device call) inst
      (call_path call) v0 (call_mode call) = Inr (Inr contract)"
    and rd: "read_path_since (pv_client (we_poll ?env k)) (pv_now (we_poll ?env k)) (call_device call) inst
      (call_path call) (we_written_at ?env) = Inr (Some (received, age))"
    and m: "values_match received v0" and on: "enable_writes (pv_safety (we_poll ?env k))"
    and q': "qualify (pv_safety (we_poll ?env k)) (we_config ?env) (pv_probes (we_poll ?env k)) (call_device call) inst
      (call_path call) v0 (call_mode call) = Inr (Inr current)" "contract_eq current contract"
    and ids: "cid = contract_id contract" "sha = evidence_sha256 contract"
    by (rule mqtt_write_Verified) blast
  have sent: "fst (run_write_tool env fuel call inst conf) \<noteq> []"
    using out unfolding run write_reply_def
    by (auto simp: mqtt_write_and_verify_def publish_def Let_def split: sum.splits option.splits if_splits)
  have reach: "reachable tms iter_match loads sample (seen k)" and cl: "w_client (seen k) = pv_client (we_poll ?env k)"
    using assms(2) by blast+
  from read_since_received [OF reach rd [folded cl]] obtain "from" msg t decoded p where
    msg: "(from, msg, t) \<in> w_log (seen k)" "\<not> float_lt t (we_written_at ?env)" "prefix_of (w_client (seen k)) = Inr p"
      "msg_topic msg = item_topic p (call_device call) inst (call_path call)" "loads (msg_payload msg) = Inr decoded"
      "received = unwrap_payload decoded"
    by blast
  from msg(3) obtain portal where portal: "portal_id (mq_config (w_client (seen k))) = Some portal" "p = ''N/'' @ portal"
    by (cases rule: prefix_of_cases [of "w_client (seen k)"]) auto
  from values_match_numbers [OF m] obtain x where x: "py_float v0 = Inr (Fin x)"
    "py_float (dict_get_value received) = Inr (Fin x)" by blast
  show ?thesis
    using v0 v sent msg portal x q q' on ids by (fastforce simp: item_topic_def)
qed

lemma poll_loop_returns:
  "\<not> float_lt (pv_time (polls K)) deadline \<Longrightarrow> k \<le> K \<Longrightarrow> K < k + fuel \<Longrightarrow>
   poll_loop polls deadline look timeout fuel k \<noteq> None"
proof (induction fuel arbitrary: k)
  case (Suc fuel)
  then show ?case
    by (cases "k = K") (auto split: sum.split option.split)
qed simp

text \<open>
  C27: a write tool always answers.  As soon as the monotonic clock, which every turn of the read-back
  loop reads after sleeping, has reached five seconds after the publish, the tool has returned a reply
  or raised: the loop needs no more turns than the clock takes.
\<close>

theorem write_tool_returns:
  assumes "\<not> float_lt (pv_time (we_poll (te_write env) K)) (float_add (we_started (te_write env)) (Fin 5))"
    and "K < fuel"
  shows "snd (run_write_tool env fuel call inst conf) \<noteq> None"
proof -
  have "snd (mqtt_write_and_verify (te_write env) fuel dt inst path v m) \<noteq> None" for dt path v m
    using poll_loop_returns [of "we_poll (te_write env)" K "float_add (we_started (te_write env)) (Fin 5)" 0 fuel] assms
    by (auto simp: mqtt_write_and_verify_def WRITE_VERIFY_TIMEOUT_S_def Let_def split: sum.split)
  then show ?thesis
    unfolding run_write_tool_eq after_gate_def write_reply_def
    by (auto split: sum.split option.split)
qed

subsection \<open>A write that succeeds\<close>

text \<open>
  A client whose cache holds the identity readings of a mode contract, received at 9 and read at 10; the
  mode is written at 11, and the run of \<open>example_world\<close> received the echo at 12.
\<close>

definition example_mode_contract :: hardware_write_contract where
  "example_mode_contract = example_soc_contract\<lparr>
     contract_device_type := ''vebus'', contract_instance := 1, contract_path := ''Mode'',
     identity :=
       [example_probe Venus_firmware ''system'' 0 ''FirmwareVersion'' (VStr ''v3.60''),
        example_probe Target_product ''vebus'' 1 ''ProductId'' (VInt 9744),
        example_probe Target_firmware ''vebus'' 1 ''FirmwareVersion'' (VInt 1362),
        example_probe Bms_product ''battery'' 512 ''ProductName'' (VStr ''BMS''),
        example_probe Bms_firmware ''battery'' 512 ''HardwareVersion'' (VInt 2)],
     mode_codes := [(''on'', 3)], unit_name := ''mode'', minimum := None, maximum := None\<rparr>"

definition example_writer :: mqtt_client where
  "example_writer = (init_client example_config [])\<lparr>
     mq_client := Some 0, mq_connected := True,
     mq_cache := map (\<lambda>p. (item_topic ''N/c0ffee'' (probe_device_type p) (probe_instance p) (probe_path p),
         expected p, Fin 9)) (identity example_mode_contract)\<rparr>"

definition example_probes :: probe_view where
  "example_probes _ _ _ = (example_writer, Fin 10)"

definition example_safety :: safety_config where
  "example_safety = permissive_config\<lparr>hardware_write_contracts := [example_mode_contract]\<rparr>"

definition example_poll :: poll_view where
  "example_poll = \<lparr>pv_time = Fin 13, pv_client = example_cached, pv_now = Fin 13, pv_safety = example_safety,
     pv_probes = example_probes, pv_end = Fin 13\<rparr>"

definition example_write_env :: write_env where
  "example_write_env = \<lparr>we_config = example_config, we_safety = example_safety, we_probes = example_probes,
     we_client = example_writer, we_written_at = Fin 11, we_started = Fin 11, we_poll = (\<lambda>_. example_poll)\<rparr>"

definition example_server :: server_config where
  "example_server = \<lparr>dbus = \<lparr>bus_type = ''system'', service_name = ''com.victronenergy''\<rparr>, mqtt = example_config,
     safety = example_safety,
     ssh = \<lparr>ssh_host = None, ssh_port = 22, ssh_user = ''root'', ssh_key_path = None, ssh_password = None,
       ssh_timeout_s = Fin 10, ssh_known_hosts = None\<rparr>,
     root_password = None, transport_backend = ''mqtt'', server_transport = ''stdio'', server_host = ''127.0.0.1'',
     server_port = 8000, server_auth_token = None, log_level = ''INFO''\<rparr>"

definition example_tool_env :: tool_env where
  "example_tool_env = \<lparr>te_server = example_server, te_ready = None, te_write = example_write_env\<rparr>"

lemma example_mode_contract_ok: "contract_ok example_mode_contract"
  by (simp add: contract_ok_def contract_fields_ok_def example_mode_contract_def example_soc_contract_def
    example_probe_def probe_fields_ok_def item_path_word contract_patterns validate_scope_def scope_valid_def
    expected_roles_def number_field_ok_def startswith_code list_all_iff)

lemma example_reads:
  assumes "p \<in> set (identity example_mode_contract)"
  shows "reader_of example_probes (probe_device_type p) (probe_instance p) (probe_path p) =
    Inr (Some (expected p, Fin 1))"
proof -
  have pre: "prefix_of example_writer = Inr ''N/c0ffee''"
    by (simp add: example_writer_def prefix_of_def topic_prefix_def example_config_def init_client_def)
  have one: "float_sub (Fin 10) (Fin 9) = Fin 1"
    using fl_of_int [of 1] by (simp add: float_sub_def)
  have "list_all (\<lambda>p. map_of (mq_cache example_writer)
      (item_topic ''N/c0ffee'' (probe_device_type p) (probe_instance p) (probe_path p)) = Some (expected p, Fin 9))
    (identity example_mode_contract)"
    by (simp add: example_writer_def example_mode_contract_def example_soc_contract_def example_probe_def item_topic_def)
  with assms pre one show ?thesis
    by (simp add: list_all_iff reader_of_def example_probes_def read_path_def)
qed

lemma example_qualify:
  "qualify example_safety example_config example_probes ''vebus'' 1 ''Mode'' (VInt 3) (Some ''on'') =
     Inr (Inr example_mode_contract)"
proof -
  have "filter (contract_matches (portal_id example_config) ''vebus'' 1 ''Mode'')
      (hardware_write_contracts example_safety) = [example_mode_contract]"
    by (simp add: contract_matches_def example_safety_def example_config_def example_mode_contract_def
      example_soc_contract_def)
  moreover have "stale_after_seconds example_config = Fin 60"
    by (simp add: example_config_def default_mqtt_config_def)
  moreover have "identity_fresh (reader_of example_probes) (Fin 60) example_mode_contract"
    unfolding identity_fresh_def by (auto simp: example_reads probe_fresh_def)
  moreover have "qualified_value example_mode_contract ''Mode'' (VInt 3) (Some ''on'')"
    by (simp add: qualified_value_def is_number_def finite_number_VInt example_mode_contract_def)
  ultimately show ?thesis unfolding qualify_def validate_hardware_write_accept by simp
qed

lemma example_echo:
  "read_path_since example_cached (Fin 13) ''vebus'' 1 ''Mode'' (Fin 11) = Inr (Some (VInt 3, Fin 1))"
proof -
  have "item_topic ''N/c0ffee'' ''vebus'' 1 ''Mode'' = ''N/c0ffee/vebus/1/Mode''" by code_simp
  moreover have "float_sub (Fin 13) (Fin 12) = Fin 1"
    using fl_of_int [of 1] by (simp add: float_sub_def)
  ultimately show ?thesis by (simp add: read_path_since_def example_cached_eq)
qed

lemma contract_eq_refl: "contract_eq c c" if "list_all (\<lambda>p. scalar_eq (expected p) (expected p)) (identity c)"
  "bound_eq (minimum c) (minimum c)" "bound_eq (maximum c) (maximum c)"
  using that by (auto simp: contract_eq_def codes_eq_def list_all_iff probe_eq_def intro: list.rel_refl_strong)

lemma example_run:
  "\<exists>elapsed. run_write_tool example_tool_env 1 (Set_mode ''on'') 1 True =
     ([Publish 0 ''W/c0ffee/vebus/1/Mode'' (VDict [(''value'', VInt 3)]) False],
      Some (Inr (Written (Verified (VInt 3) ''W/c0ffee/vebus/1/Mode'' elapsed ''soc-1'' (replicate 64 (CHR ''a''))))))"
proof -
  have gate: "confirm_gate example_safety ''set_inverter_mode'' [(''mode'', VStr ''on''), (''instance'', VInt 1)] True
      (Some ''Mode'') = Inr None"
    unfolding confirm_gate_None_iff
    by (simp add: example_safety_def permissive_config_def default_safety_config_def parameters_ok_def path_ok_def
      mode_ok_def operation_device_type_def OPERATION_DEVICE_TYPE_def default_write_path_allowlist_def)
  have code: "mode_code ''vebus'' ''on'' = Some 3" by code_simp
  have match: "values_match (VInt 3) (VInt 3)"
    by (simp add: values_match_def dict_get_value_def float_of_int_exact)
  have topic: "item_topic ''W/c0ffee'' ''vebus'' 1 ''Mode'' = ''W/c0ffee/vebus/1/Mode''" by code_simp
  have same: "contract_eq example_mode_contract example_mode_contract"
    by (rule contract_eq_refl)
      (simp_all add: example_mode_contract_def example_soc_contract_def example_probe_def scalar_eq_def bound_eq_def)
  have deadline: "float_add (Fin 11) WRITE_VERIFY_TIMEOUT_S = Fin 16"
    using fl_of_int [of 16] by (simp add: WRITE_VERIFY_TIMEOUT_S_def)
  have on: "enable_writes example_safety" by (simp add: example_safety_def permissive_config_def)
  have still: "still_qualified example_config example_poll example_mode_contract ''vebus'' 1 ''Mode'' (VInt 3) (Some ''on'') =
      Inr True"
    by (simp add: still_qualified_def example_poll_def example_qualify same on)
  have pub: "write_prefix example_writer = Inr ''W/c0ffee''" "mq_client example_writer = Some 0" "mq_connected example_writer"
    by (simp_all add: example_writer_def write_prefix_def example_config_def init_client_def)
  have ids: "contract_id example_mode_contract = ''soc-1''" "evidence_sha256 example_mode_contract = replicate 64 (CHR ''a'')"
    by (simp_all add: example_mode_contract_def example_soc_contract_def)
  have view: "pv_client example_poll = example_cached" "pv_now example_poll = Fin 13" "pv_time example_poll = Fin 13"
    by (simp_all add: example_poll_def)
  have look: "\<exists>elapsed. look_back example_config (Fin 11) (Fin 16) ''W/c0ffee/vebus/1/Mode'' example_mode_contract ''vebus'' 1
      ''Mode'' (VInt 3) (Some ''on'') example_poll =
    Inr (Some (Verified (VInt 3) ''W/c0ffee/vebus/1/Mode'' elapsed ''soc-1'' (replicate 64 (CHR ''a''))))"
    by (simp add: look_back_def view example_echo match still ids)
  have "\<exists>elapsed. mqtt_write_and_verify example_write_env 1 ''vebus'' 1 ''Mode'' (VInt 3) (Some ''on'') =
    ([Publish 0 ''W/c0ffee/vebus/1/Mode'' (VDict [(''value'', VInt 3)]) False],
     Some (Inr (Verified (VInt 3) ''W/c0ffee/vebus/1/Mode'' elapsed ''soc-1'' (replicate 64 (CHR ''a'')))))"
    using look
    by (auto simp: mqtt_write_and_verify_def example_write_env_def example_qualify pub publish_def topic deadline Let_def view)
  then show ?thesis
    by (auto simp: set_inverter_mode_def after_gate_def example_tool_env_def example_server_def gate use_mqtt_def code
      write_reply_def)
qed

theorem write_tool_publishes_behind_gates_witness:
  "enable_writes (safety (te_server example_tool_env)) \<and>
   fst (run_write_tool example_tool_env 1 (Set_mode ''on'') 1 True) =
     [Publish 0 ''W/c0ffee/vebus/1/Mode'' (VDict [(''value'', VInt 3)]) False]"
proof -
  have "fst (run_write_tool example_tool_env 1 (Set_mode ''on'') 1 True) \<noteq> []" using example_run by auto
  from write_tool_publishes_behind_gates [OF this] show ?thesis using example_run by auto
qed

theorem verified_write_was_echoed_witness:
  "\<exists>msg t. (0, msg, t) \<in> w_log example_world \<and> msg_topic msg = ''N/c0ffee/vebus/1/Mode'' \<and> \<not> float_lt t (Fin 11)"
proof -
  from example_run obtain elapsed where
    "snd (run_write_tool example_tool_env 1 (Set_mode ''on'') 1 True) =
      Some (Inr (Written (Verified (VInt 3) ''W/c0ffee/vebus/1/Mode'' elapsed ''soc-1'' (replicate 64 (CHR ''a'')))))"
    by auto
  moreover have "reachable mqtt_matches (\<lambda>_ _. []) example_loads (\<lambda>_. []) example_world \<and>
    w_client example_world = pv_client (we_poll (te_write example_tool_env) k)" for k
    using example_reachable by (simp add: example_world_def example_tool_env_def example_write_env_def example_poll_def)
  ultimately have "\<exists>k from msg t. (from, msg, t) \<in> w_log example_world \<and>
    \<not> float_lt t (we_written_at (te_write example_tool_env))"
    by (rule verified_write_was_echoed [of _ _ _ _ _ _ _ _ _ _ mqtt_matches "\<lambda>_ _. []" example_loads "\<lambda>_. []" "\<lambda>_. example_world",
          THEN exE]) blast
  then show ?thesis
    by (auto simp: example_world_def example_message_def example_tool_env_def example_write_env_def)
qed

definition example_late_env :: tool_env where
  "example_late_env = example_tool_env\<lparr>te_write :=
     example_write_env\<lparr>we_poll := \<lambda>_. example_poll\<lparr>pv_time := Fin 16\<rparr>\<rparr>\<rparr>"

theorem write_tool_returns_witness: "snd (run_write_tool example_late_env 1 (Set_mode ''on'') 1 True) \<noteq> None"
  by (rule write_tool_returns [of _ 0])
    (use fl_of_int [of 16] in \<open>simp_all add: example_late_env_def example_write_env_def\<close>)

end
