(* ===== verification/Ssh_Client.thy ===== *)
theory Ssh_Client
  imports Venus_Config
begin

section \<open>The SSH client for the Cerbo\<close>

text \<open>
  Model of \<^verbatim>\<open>src/mcp_venus_os/ssh_client.py\<close>.  The client keeps one connection; every operation is a
  function of its state that also records what it asked of the network (\<open>ss_trace\<close>): probing a port,
  opening a connection, executing a command, closing a connection.  What asyncssh,
  the key files and the device answer is the record \<open>ssh_env\<close>, indexed by the number of requests made
  so far.  A result is the dictionary the operation returns; \<open>Inl\<close> is an exception that leaves it.
  Non-ASCII characters of messages are their UTF-8 bytes.
\<close>

subsection \<open>Keys, exceptions, environment\<close>

datatype public_key = RSA nat | EC string | Ed25519 | Ed448 | Other_key | Unexportable

definition strong_key :: "public_key \<Rightarrow> bool" where
  "strong_key key =
     (case key of
        RSA key_size \<Rightarrow> 2048 \<le> key_size
      | EC curve \<Rightarrow> curve \<in> {''secp256r1'', ''secp384r1'', ''secp521r1''}
      | Ed25519 \<Rightarrow> True
      | Ed448 \<Rightarrow> True
      | _ \<Rightarrow> False)"

text \<open>Exceptions with their text, and the classes that the handlers name.\<close>

datatype ssh_exc =
    Permission_denied string
  | Asyncssh_error string
  | Timeout_error string
  | Os_error string
  | Other_error string

fun exc_text :: "ssh_exc \<Rightarrow> string" where
  "exc_text (Permission_denied t) = t"
| "exc_text (Asyncssh_error t) = t"
| "exc_text (Timeout_error t) = t"
| "exc_text (Os_error t) = t"
| "exc_text (Other_error t) = t"

datatype exc_class = OSError | TimeoutError | AsyncsshError | PermissionDenied

text \<open>\<^verbatim>\<open>TimeoutError\<close> is a subclass of \<^verbatim>\<open>OSError\<close>, \<^verbatim>\<open>PermissionDenied\<close> of \<^verbatim>\<open>asyncssh.Error\<close>.\<close>

fun instance_of :: "ssh_exc \<Rightarrow> exc_class \<Rightarrow> bool" where
  "instance_of (Permission_denied _) c = (c = PermissionDenied \<or> c = AsyncsshError)"
| "instance_of (Asyncssh_error _) c = (c = AsyncsshError)"
| "instance_of (Timeout_error _) c = (c = TimeoutError \<or> c = OSError)"
| "instance_of (Os_error _) c = (c = OSError)"
| "instance_of (Other_error _) c = False"

record ssh_options =
  so_host :: string
  so_port :: int
  so_username :: string
  so_kex_algs :: "string list"
  so_server_host_key_algs :: string
  so_signature_algs :: string
  so_client_keys :: "public_key list option"
  so_client_certs :: "string list"
  so_agent_path :: "string option"
  so_agent_forwarding :: bool
  so_pkcs11_provider :: "string option"
  so_gss_kex :: bool
  so_gss_auth :: bool
  so_host_based_auth :: bool
  so_x509_trusted_certs :: "string list option"
  so_mac_algs :: "string list"
  so_connect_timeout :: pyfloat
  so_login_timeout :: pyfloat
  so_password :: "string option"

record ssh_completed =
  sc_exit_status :: "int option"
  sc_stdout :: string
  sc_stderr :: string

text \<open>
  \<open>Probed\<close> is a TCP connection to a host and port under a time limit, closed without another byte.
\<close>

datatype ssh_event =
    Probed string int pyfloat
  | Opened ssh_options
  | Executed nat string "string option" "pyfloat option"
  | Closed nat

record ssh_state =
  ss_conn :: "nat option"
  ss_trace :: "ssh_event list"

record ssh_env =
  se_server :: server_config
  se_load_key :: "string \<Rightarrow> public_key option"
  se_is_closed :: "nat \<Rightarrow> nat \<Rightarrow> bool"
  se_open :: "nat \<Rightarrow> ssh_exc + nat"
  se_exec :: "nat \<Rightarrow> string \<Rightarrow> string option \<Rightarrow> ssh_exc + ssh_completed"
  se_probe :: "ssh_exc + unit"
  se_elapsed :: pyfloat
  se_latency_ms :: int

type_synonym reply = "(string, pyval) dict"
type_synonym 'a ssh_op = "ssh_state \<Rightarrow> ssh_state \<times> (ssh_exc + 'a)"

definition ssh_return :: "'a \<Rightarrow> 'a ssh_op" where
  "ssh_return x st = (st, Inr x)"

definition ssh_bind :: "'a ssh_op \<Rightarrow> ('a \<Rightarrow> 'b ssh_op) \<Rightarrow> 'b ssh_op" where
  "ssh_bind f g st = (case f st of (st', Inl e) \<Rightarrow> (st', Inl e) | (st', Inr x) \<Rightarrow> g x st')"

definition emit :: "ssh_event \<Rightarrow> ssh_state \<Rightarrow> ssh_state" where
  "emit ev st = st\<lparr>ss_trace := ss_trace st @ [ev]\<rparr>"

definition ssh_init :: ssh_state where
  "ssh_init = \<lparr>ss_conn = None, ss_trace = []\<rparr>"

subsection \<open>Helpers\<close>

definition MAX_OUTPUT :: nat where
  "MAX_OUTPUT = 4096"

definition SWUPDATE_CANDIDATES :: "string list" where
  "SWUPDATE_CANDIDATES =
     [''/opt/victronenergy/swupdate-scripts/check-updates.sh'',
      ''/opt/victronenergy/swupdate-scripts/check-swupdate.sh'']"

definition package_chars :: "citem list" where
  "package_chars = CChar (CHR ''_'') # CChar (CHR ''.'') # CChar (CHR ''-'') # alnum"

definition valid_package_name :: "string \<Rightarrow> bool" where
  "valid_package_name package = fullmatch (Seq (Cls alnum) (Star (Cls package_chars))) package"

definition repo_pattern :: re where
  "repo_pattern = Seq (Plus (Cls package_chars)) (Seq (Chr (CHR ''/'')) (Plus (Cls package_chars)))"

definition truncate :: "string \<Rightarrow> string" where
  "truncate text =
     (if length text \<le> MAX_OUTPUT then text
      else take MAX_OUTPUT text @ [CHR 0xE2, CHR 0x80, CHR 0xA6] @ '' (+'' @
        str_of_nat (length text - MAX_OUTPUT) @ ''b)'')"

definition configured :: "ssh_config \<Rightarrow> bool" where
  "configured cfg \<longleftrightarrow> \<not> unset (ssh_key_path cfg) \<or> \<not> unset (ssh_password cfg)"

text \<open>
  The host keys a connection may trust, as the callback of the options computes them: \<open>is_file\<close> tells
  whether the default file exists and \<open>matched\<close> is what asyncssh finds for the host in a file (the empty
  text is no file).  Revoked keys are passed on as they are.
\<close>

definition known_hosts ::
  "ssh_config \<Rightarrow> (string \<Rightarrow> bool) \<Rightarrow> (string \<Rightarrow> public_key list \<times> public_key list) \<Rightarrow>
   public_key list \<times> public_key list \<times> public_key list" where
  "known_hosts cfg is_file matched =
     (let path = (if unset (ssh_known_hosts cfg) then ''~/.ssh/known_hosts'' else the (ssh_known_hosts cfg));
          source = (if \<not> unset (ssh_known_hosts cfg) \<or> is_file path then path else []);
          (trusted, revoked) = matched source
      in (filter strong_key trusted, [], revoked))"

subsection \<open>Connection\<close>

definition base_options :: "server_config \<Rightarrow> ssh_options" where
  "base_options cfg = \<lparr>
     so_host = effective_host cfg,
     so_port = ssh_port (ssh cfg),
     so_username = ssh_user (ssh cfg),
     so_kex_algs =
       [''curve25519-sha256'', ''curve25519-sha256@libssh.org'', ''ecdh-sha2-nistp256'', ''ecdh-sha2-nistp384'',
        ''ecdh-sha2-nistp521'', ''diffie-hellman-group14-sha256'', ''diffie-hellman-group16-sha512''],
     so_server_host_key_algs = ''-*ssh-rsa*,*ssh-dss*,*-cert-*'',
     so_signature_algs = ''-*ssh-rsa*,*ssh-dss*'',
     so_client_keys = None,
     so_client_certs = [],
     so_agent_path = None,
     so_agent_forwarding = False,
     so_pkcs11_provider = None,
     so_gss_kex = False,
     so_gss_auth = False,
     so_host_based_auth = False,
     so_x509_trusted_certs = None,
     so_mac_algs =
       [''hmac-sha2-256-etm@openssh.com'', ''hmac-sha2-512-etm@openssh.com'', ''hmac-sha2-256'', ''hmac-sha2-512''],
     so_connect_timeout = ssh_timeout_s (ssh cfg),
     so_login_timeout = ssh_timeout_s (ssh cfg),
     so_password = None\<rparr>"

definition connect_kwargs :: "ssh_env \<Rightarrow> ssh_exc + ssh_options" where
  "connect_kwargs env =
     (let cfg = se_server env;
          finish = (\<lambda>opts. if unset (ssh_password (ssh cfg)) then opts
                          else opts\<lparr>so_password := ssh_password (ssh cfg)\<rparr>)
      in if unset (ssh_key_path (ssh cfg)) then Inr (finish (base_options cfg))
         else case se_load_key env (the (ssh_key_path (ssh cfg))) of
           None \<Rightarrow> Inl (Asyncssh_error ''Unable to load configured SSH client key'')
         | Some key \<Rightarrow>
             if \<not> strong_key key
             then Inl (Asyncssh_error ''Configured SSH client key does not meet key policy'')
             else Inr (finish ((base_options cfg)\<lparr>so_client_keys := Some [key]\<rparr>)))"

definition ensure_conn :: "ssh_env \<Rightarrow> nat ssh_op" where
  "ensure_conn env st =
     (let reconnect =
        (case connect_kwargs env of
           Inl e \<Rightarrow> (st, Inl e)
         | Inr opts \<Rightarrow>
             (let st1 = emit (Opened opts) st
              in case se_open env (length (ss_trace st)) of
                   Inl e \<Rightarrow> (st1, Inl e)
                 | Inr c \<Rightarrow> (st1\<lparr>ss_conn := Some c\<rparr>, Inr c)))
      in case ss_conn st of
           None \<Rightarrow> reconnect
         | Some c \<Rightarrow> if se_is_closed env (length (ss_trace st)) c then reconnect else (st, Inr c))"

definition close_connection :: "nat option \<Rightarrow> ssh_state \<Rightarrow> ssh_state" where
  "close_connection target st =
     (case ss_conn st of
        None \<Rightarrow> st
      | Some c \<Rightarrow> if target = None \<or> target = Some c then (emit (Closed c) st)\<lparr>ss_conn := None\<rparr> else st)"

definition close :: "ssh_state \<Rightarrow> ssh_state" where
  "close st = close_connection None st"

definition failed :: "string \<Rightarrow> reply" where
  "failed message = [(''success'', VBool False), (''error'', VStr message)]"

definition PERMISSION_DENIED :: string where
  "PERMISSION_DENIED = ''ssh permission denied '' @ [CHR 0xE2, CHR 0x80, CHR 0x94] @ '' check key/password''"

text \<open>The handler both \<^verbatim>\<open>run\<close> and \<^verbatim>\<open>enable_root_password\<close> use; \<open>conn\<close> is the connection in hand.\<close>

definition handled :: "ssh_exc \<Rightarrow> bool" where
  "handled e \<longleftrightarrow> instance_of e OSError \<or> instance_of e TimeoutError \<or> instance_of e AsyncsshError"

definition ssh_failure :: "nat option \<Rightarrow> ssh_exc \<Rightarrow> reply ssh_op" where
  "ssh_failure conn e st =
     (if handled e
      then (case conn of None \<Rightarrow> st | Some c \<Rightarrow> close_connection (Some c) st,
            Inr (failed (''ssh failed: '' @ exc_text e)))
      else (st, Inl e))"

definition execute ::
  "ssh_env \<Rightarrow> nat \<Rightarrow> string \<Rightarrow> string option \<Rightarrow> pyfloat option \<Rightarrow> ssh_completed ssh_op" where
  "execute env c command inp limit st =
     (emit (Executed c command inp limit) st, se_exec env (length (ss_trace st)) command inp)"

definition completed_reply :: "ssh_env \<Rightarrow> ssh_completed \<Rightarrow> reply" where
  "completed_reply env r =
     [(''success'', VBool (sc_exit_status r = Some 0)),
      (''exit_code'', case sc_exit_status r of None \<Rightarrow> VNone | Some n \<Rightarrow> VInt n),
      (''stdout'', VStr (truncate (sc_stdout r))),
      (''stderr'', VStr (truncate (sc_stderr r))),
      (''elapsed_s'', VFloat (float_round 2 (se_elapsed env)))]"

text \<open>\<^verbatim>\<open>timeout_s or self.config.timeout_s\<close>.\<close>

definition effective_timeout :: "ssh_env \<Rightarrow> pyfloat option \<Rightarrow> pyfloat" where
  "effective_timeout env timeout_s =
     (case timeout_s of
        Some t \<Rightarrow> if t \<noteq> Fin 0 then t else ssh_timeout_s (ssh (se_server env))
      | None \<Rightarrow> ssh_timeout_s (ssh (se_server env)))"

definition run :: "ssh_env \<Rightarrow> string \<Rightarrow> pyfloat option \<Rightarrow> reply ssh_op" where
  "run env command timeout_s st =
     (case ensure_conn env st of
        (st1, Inl e) \<Rightarrow>
          if instance_of e PermissionDenied then (st1, Inr (failed PERMISSION_DENIED)) else ssh_failure None e st1
      | (st1, Inr c) \<Rightarrow>
          (case execute env c command None (Some (effective_timeout env timeout_s)) st1 of
             (st2, Inl e) \<Rightarrow>
               if instance_of e PermissionDenied then (st2, Inr (failed PERMISSION_DENIED))
               else ssh_failure (Some c) e st2
           | (st2, Inr r) \<Rightarrow> (st2, Inr (completed_reply env r))))"

text \<open>
  The reachability probe asks the network for one TCP connection; its two handlers are tried in the
  order they are written.
\<close>

definition available :: "ssh_env \<Rightarrow> reply ssh_op" where
  "available env st =
     (let host = effective_host (se_server env);
          unreachable = (\<lambda>text. [(''success'', VBool True), (''host'', VStr host), (''reachable'', VBool False),
                                 (''error'', VStr text)])
      in (emit (Probed host (ssh_port (ssh (se_server env))) (Fin 3)) st,
          case se_probe env of
           Inr _ \<Rightarrow> Inr [(''success'', VBool True), (''host'', VStr host), (''port'', VInt (ssh_port (ssh (se_server env)))),
                         (''reachable'', VBool True), (''latency_ms'', VInt (se_latency_ms env))]
         | Inl e \<Rightarrow> if instance_of e OSError then Inr (unreachable (exc_text e))
                   else if instance_of e TimeoutError then Inr (unreachable ''timeout'')
                   else Inl e))"

subsection \<open>Curated operations\<close>

definition succeeded :: "reply \<Rightarrow> bool" where
  "succeeded r = (case map_of r ''success'' of None \<Rightarrow> False | Some v \<Rightarrow> truthy v)"

definition stdout_of :: "reply \<Rightarrow> string" where
  "stdout_of r = (case map_of r ''stdout'' of Some (VStr s) \<Rightarrow> s | _ \<Rightarrow> [])"

definition is_line_break :: "char \<Rightarrow> bool" where
  "is_line_break c \<longleftrightarrow> code c \<in> {10, 11, 12, 13, 28, 29, 30, 133}"

text \<open>\<^verbatim>\<open>str.splitlines\<close>: a carriage return followed by a line feed is one break, no empty last line.\<close>

fun splitlines_aux :: "string \<Rightarrow> string \<Rightarrow> string list" where
  "splitlines_aux acc [] = (if acc = [] then [] else [rev acc])"
| "splitlines_aux acc [c] = (if is_line_break c then [rev acc] else [rev (c # acc)])"
| "splitlines_aux acc (c # d # cs) =
     (if is_line_break c
      then rev acc # (if code c = 13 \<and> code d = 10 then splitlines_aux [] cs else splitlines_aux [] (d # cs))
      else splitlines_aux (c # acc) (d # cs))"

definition splitlines :: "string \<Rightarrow> string list" where
  "splitlines s = splitlines_aux [] s"

definition firmware_version :: "ssh_env \<Rightarrow> reply ssh_op" where
  "firmware_version env =
     ssh_bind (run env ''cat /opt/victronenergy/version'' None) (\<lambda>out.
       if \<not> succeeded out then ssh_return out
       else let lines = filter (\<lambda>row. strip row \<noteq> []) (splitlines (stdout_of out))
            in ssh_return [(''success'', VBool True),
                 (''version'', case lines of [] \<Rightarrow> VNone | row # _ \<Rightarrow> VStr row), (''raw'', VStr (stdout_of out))])"

fun swupdate_probe :: "ssh_env \<Rightarrow> string list \<Rightarrow> string option ssh_op" where
  "swupdate_probe env [] = ssh_return None"
| "swupdate_probe env (candidate # candidates) =
     ssh_bind (run env (''[ -f '' @ candidate @ '' ] && echo y'') None) (\<lambda>probe.
       if succeeded probe then ssh_return (Some candidate) else swupdate_probe env candidates)"

definition swupdate_script :: "ssh_env \<Rightarrow> string option ssh_op" where
  "swupdate_script env = swupdate_probe env SWUPDATE_CANDIDATES"

definition check_updates :: "ssh_env \<Rightarrow> reply ssh_op" where
  "check_updates env =
     ssh_bind (swupdate_script env) (\<lambda>script.
       case script of
         None \<Rightarrow> ssh_return (failed ''no swupdate check script found on device'')
       | Some s \<Rightarrow> run env s None)"

definition apply_updates :: "ssh_env \<Rightarrow> reply ssh_op" where
  "apply_updates env =
     ssh_bind (swupdate_script env) (\<lambda>script.
       case script of
         None \<Rightarrow> ssh_return (failed ''no swupdate check script found on device'')
       | Some s \<Rightarrow> run env (s @ '' -force -update'') (Some (Fin 900)))"

definition setuphelper_status :: "ssh_env \<Rightarrow> reply ssh_op" where
  "setuphelper_status env =
     ssh_bind (run env ''[ -d /data/SetupHelper ] && echo y'' None) (\<lambda>installed.
       if \<not> succeeded installed
       then ssh_return [(''success'', VBool True), (''installed'', VBool False),
         (''hint'', VStr ''install via wget of SetupHelper archive + /data/SetupHelper/setup'')]
       else ssh_bind (run env (''grep -m1 '' @ [CHR 0x27] @ ''^version'' @ [CHR 0x27] @
           '' /data/SetupHelper/PackageManager.py 2>/dev/null'') None) (\<lambda>version.
         ssh_bind (run env ''ls /data/packageManager 2>/dev/null'' None) (\<lambda>packages.
           ssh_return [(''success'', VBool True), (''installed'', VBool True),
             (''version_line'', if strip (stdout_of version) = [] then VNone else VStr (strip (stdout_of version))),
             (''packages'', VList (map VStr (filter (\<lambda>row. row \<noteq> []) (map strip (splitlines (stdout_of packages))))))])))"

definition Q :: string where
  "Q = [CHR 0x22]"

definition install_script :: "string \<Rightarrow> string \<Rightarrow> string" where
  "install_script package repo =
     (let repo_name = split_on (CHR ''/'') repo ! 1;
          url = ''https://github.com/'' @ repo @ ''/archive/refs/heads/main.tar.gz''
      in ''set -eu; stage=$(mktemp -d /data/.mcp-package.XXXXXX); '' @
         ''trap '' @ [CHR 0x27] @ ''rm -rf '' @ Q @ ''$stage'' @ Q @ [CHR 0x27] @ '' EXIT HUP INT TERM; '' @
         ''wget -qO '' @ Q @ ''$stage/release.tar.gz'' @ Q @ '' '' @ url @ ''; '' @
         ''tar -xzf '' @ Q @ ''$stage/release.tar.gz'' @ Q @ '' -C '' @ Q @ ''$stage'' @ Q @ ''; '' @
         ''test -f '' @ Q @ ''$stage/'' @ repo_name @ ''-main/setup'' @ Q @ ''; '' @
         ''mkdir -p /data/'' @ package @ ''; '' @
         ''cp -a '' @ Q @ ''$stage/'' @ repo_name @ ''-main/.'' @ Q @ '' /data/'' @ package @ ''/; '' @
         ''cd /data/'' @ package @ ''; '' @
         ''scriptAction=INSTALL packageName='' @ package @ '' scriptDir=/data/'' @ package @ '' '' @
         ''bash /data/'' @ package @ ''/setup install </dev/null'')"

definition ssh_install_package :: "ssh_env \<Rightarrow> string \<Rightarrow> string \<Rightarrow> reply ssh_op" where
  "ssh_install_package env package repo =
     (if \<not> valid_package_name package then ssh_return (failed ''invalid SetupHelper package name'')
      else if \<not> fullmatch repo_pattern repo then ssh_return (failed ''repo must be owner/repository'')
      else run env (install_script package repo) (Some (Fin 300)))"

definition remove_script :: "string \<Rightarrow> string" where
  "remove_script package =
     ''test -f /data/'' @ package @ ''/setup && bash /data/'' @ package @ ''/setup uninstall </dev/null''"

definition ssh_remove_package :: "ssh_env \<Rightarrow> string \<Rightarrow> reply ssh_op" where
  "ssh_remove_package env package =
     (if \<not> valid_package_name package then ssh_return (failed ''invalid SetupHelper package name'')
      else run env (remove_script package) (Some (Fin 300)))"

text \<open>\<^verbatim>\<open>needle in haystack\<close> on strings.\<close>

fun contains :: "string \<Rightarrow> string \<Rightarrow> bool" where
  "contains needle [] = (needle = [])"
| "contains needle (c # cs) = (startswith (c # cs) needle \<or> contains needle cs)"

definition root_password_input :: "string \<Rightarrow> string" where
  "root_password_input password = ''root:'' @ password @ [CHR 0x0A]"

definition enable_root_password :: "ssh_env \<Rightarrow> string \<Rightarrow> reply ssh_op" where
  "enable_root_password env password st =
     (case ensure_conn env st of
        (st1, Inl e) \<Rightarrow> ssh_failure None e st1
      | (st1, Inr c) \<Rightarrow>
          (case execute env c ''chpasswd 2>&1'' (Some (root_password_input password)) None st1 of
             (st2, Inl e) \<Rightarrow> ssh_failure (Some c) e st2
           | (st2, Inr r) \<Rightarrow>
               (let ok = (sc_exit_status r = Some 0 \<and> \<not> contains ''password'' (lower (sc_stderr r)))
                in (st2, Inr [(''success'', VBool ok), (''password_set'', VBool ok),
                     (''stderr'', VStr (truncate (if sc_stderr r \<noteq> [] then sc_stderr r else sc_stdout r)))]))))"

subsection \<open>What an operation may ask of the network\<close>

text \<open>
  \<open>emits ok op\<close>: whatever the state, the operation only appends requests to the trace that satisfy
  \<open>ok\<close>.  A policy says which requests are fine; it holds of every operation once it holds of opening
  the connection, of closing it and of the commands the operation executes.
\<close>

definition emits :: "(ssh_event \<Rightarrow> bool) \<Rightarrow> 'a ssh_op \<Rightarrow> bool" where
  "emits ok op \<longleftrightarrow> (\<forall>st. \<exists>new. ss_trace (fst (op st)) = ss_trace st @ new \<and> list_all ok new)"

lemma emits_return [simp]: "emits ok (ssh_return x)"
  by (simp add: emits_def ssh_return_def)

lemma emits_bind:
  assumes "emits ok f" "\<And>x. emits ok (g x)"
  shows "emits ok (ssh_bind f g)"
  unfolding emits_def
proof
  fix st
  obtain st' r where f: "f st = (st', r)" by fastforce
  from assms(1) f obtain new where new: "ss_trace st' = ss_trace st @ new" "list_all ok new"
    unfolding emits_def by (metis fst_conv)
  show "\<exists>new. ss_trace (fst (ssh_bind f g st)) = ss_trace st @ new \<and> list_all ok new"
  proof (cases r)
    case (Inl e)
    with f new show ?thesis by (simp add: ssh_bind_def)
  next
    case (Inr x)
    from assms(2) obtain more where "ss_trace (fst (g x st')) = ss_trace st' @ more" "list_all ok more"
      unfolding emits_def by blast
    with f new Inr show ?thesis by (auto simp: ssh_bind_def)
  qed
qed

lemma emits_trace:
  assumes "emits ok op" "list_all ok (ss_trace st)"
  shows "list_all ok (ss_trace (fst (op st)))"
  using assms unfolding emits_def by (metis list_all_append)

locale ssh_policy =
  fixes env :: ssh_env and ok :: "ssh_event \<Rightarrow> bool"
  assumes open_ok: "connect_kwargs env = Inr opts \<Longrightarrow> ok (Opened opts)"
    and close_ok: "ok (Closed c)"
    and probe_ok: "ok (Probed (effective_host (se_server env)) (ssh_port (ssh (se_server env))) (Fin 3))"
begin

lemma emits_available: "emits ok (available env)"
  by (simp add: emits_def available_def emit_def Let_def probe_ok)

lemma close_connection_trace:
  "\<exists>new. ss_trace (close_connection target st) = ss_trace st @ new \<and> list_all ok new"
  by (auto simp: close_connection_def emit_def close_ok split: option.split)

lemma emits_ensure_conn: "emits ok (ensure_conn env)"
  unfolding emits_def ensure_conn_def
  using open_ok by (auto simp: Let_def emit_def split: option.split sum.split)

lemma ssh_failure_trace: "\<exists>new. ss_trace (fst (ssh_failure conn e st)) = ss_trace st @ new \<and> list_all ok new"
  using close_connection_trace by (auto simp: ssh_failure_def split: option.split)

lemma emits_execute: "ok (Executed c command inp limit) \<Longrightarrow> emits ok (execute env c command inp limit)"
  by (simp add: emits_def execute_def emit_def)

lemma emits_run:
  assumes "\<And>c. ok (Executed c command None (Some (effective_timeout env timeout_s)))"
  shows "emits ok (run env command timeout_s)"
  unfolding emits_def
proof
  fix st
  obtain st1 r where e: "ensure_conn env st = (st1, r)" by fastforce
  then obtain new where new: "ss_trace st1 = ss_trace st @ new" "list_all ok new"
    using emits_ensure_conn unfolding emits_def by (metis fst_conv)
  show "\<exists>new. ss_trace (fst (run env command timeout_s st)) = ss_trace st @ new \<and> list_all ok new"
  proof (cases r)
    case (Inl x)
    with e new ssh_failure_trace [of None x st1] show ?thesis by (auto simp: run_def)
  next
    case (Inr c)
    define st2 where "st2 = emit (Executed c command None (Some (effective_timeout env timeout_s))) st1"
    have st2: "\<exists>new. ss_trace st2 = ss_trace st @ new \<and> list_all ok new"
      using new assms by (auto simp: st2_def emit_def)
    show ?thesis
      using e Inr st2 ssh_failure_trace [of "Some c" _ st2]
      by (auto simp: run_def execute_def st2_def [symmetric] split: sum.split) (metis append_assoc list_all_append)+
  qed
qed

end

text \<open>
  No connection is opened with a client key below the key policy or with an identity that was not
  configured: no agent, no certificates, no other kind of authentication.
\<close>

fun key_ok :: "ssh_event \<Rightarrow> bool" where
  "key_ok (Opened opts) =
     ((case so_client_keys opts of None \<Rightarrow> True | Some ks \<Rightarrow> list_all strong_key ks) \<and>
      so_client_certs opts = [] \<and> so_agent_path opts = None \<and> \<not> so_agent_forwarding opts \<and>
      so_pkcs11_provider opts = None \<and> \<not> so_gss_kex opts \<and> \<not> so_gss_auth opts \<and> \<not> so_host_based_auth opts \<and>
      so_x509_trusted_certs opts = None)"
| "key_ok _ = True"

lemma connect_kwargs_keys:
  assumes "connect_kwargs env = Inr opts"
  shows "key_ok (Opened opts)"
proof -
  have "key_ok (Opened (base_options cfg))" "so_client_keys (base_options cfg) = None" for cfg
    by (simp_all add: base_options_def)
  then show ?thesis
    using assms by (auto simp: connect_kwargs_def Let_def split: if_splits option.splits)
qed

interpretation keys: ssh_policy env key_ok for env
  by unfold_locales (simp_all add: connect_kwargs_keys del: key_ok.simps(1))

text \<open>Nothing is probed or opened but the SSH port of the configured device.\<close>

fun addressed :: "server_config \<Rightarrow> ssh_event \<Rightarrow> bool" where
  "addressed cfg (Probed host port limit) = (host = effective_host cfg \<and> port = ssh_port (ssh cfg))"
| "addressed cfg (Opened opts) = (so_host opts = effective_host cfg \<and> so_port opts = ssh_port (ssh cfg))"
| "addressed cfg _ = True"

lemma connect_kwargs_address:
  "connect_kwargs env = Inr opts \<Longrightarrow> addressed (se_server env) (Opened opts)"
  by (auto simp: connect_kwargs_def base_options_def Let_def split: if_splits option.splits)

interpretation address: ssh_policy env "addressed (se_server env)" for env
  by unfold_locales (simp_all add: connect_kwargs_address del: addressed.simps(2))

text \<open>Only the given commands are executed.\<close>

definition commands_in :: "string set \<Rightarrow> ssh_event \<Rightarrow> bool" where
  "commands_in cmds ev = (case ev of Executed c command inp limit \<Rightarrow> command \<in> cmds | _ \<Rightarrow> True)"

interpretation cmds: ssh_policy env "commands_in cmds" for env cmds
  by unfold_locales (simp_all add: commands_in_def)

subsection \<open>Names that reach a shell\<close>

definition shell_safe :: "char \<Rightarrow> bool" where
  "shell_safe c \<longleftrightarrow>
     (48 \<le> code c \<and> code c \<le> 57) \<or> (65 \<le> code c \<and> code c \<le> 90) \<or> (97 \<le> code c \<and> code c \<le> 122) \<or>
     c = CHR ''_'' \<or> c = CHR ''.'' \<or> c = CHR ''-''"

lemma package_char_iff: "class_has False package_chars c \<longleftrightarrow> shell_safe c"
  by (auto simp: class_has_def package_chars_def alnum_def shell_safe_def)

lemma valid_package_name_iff:
  "valid_package_name package \<longleftrightarrow>
     (case package of [] \<Rightarrow> False | c # cs \<Rightarrow> shell_safe c \<and> c \<notin> {CHR ''_'', CHR ''.'', CHR ''-''} \<and> list_all shell_safe cs)"
proof -
  have "class_has False alnum c \<longleftrightarrow> shell_safe c \<and> c \<notin> {CHR ''_'', CHR ''.'', CHR ''-''}" for c
    by (auto simp: class_has_def alnum_def shell_safe_def)
  then show ?thesis
    unfolding valid_package_name_def fullmatch_head_tail by (simp add: package_char_iff [abs_def] split: list.split)
qed

lemma repo_pattern_iff:
  "fullmatch repo_pattern repo \<longleftrightarrow>
     (\<exists>owner name. repo = owner @ CHR ''/'' # name \<and> owner \<noteq> [] \<and> name \<noteq> [] \<and>
        list_all shell_safe owner \<and> list_all shell_safe name)"
  (is "?m \<longleftrightarrow> ?s")
proof -
  have slash: "class_has False [CChar (CHR ''/'')] c \<longleftrightarrow> c = CHR ''/''" for c by (simp add: class_has_def)
  have "?m \<longleftrightarrow> (\<exists>i. rmatch False repo (Plus (Cls package_chars)) 0 i \<and> i < length repo \<and> repo ! i = CHR ''/'' \<and>
      rmatch False repo (Plus (Cls package_chars)) (Suc i) (length repo))"
    by (auto simp: fullmatch_iff repo_pattern_def Chr_def slash rmatch_simps(2,7))
  also have "\<dots> \<longleftrightarrow> (\<exists>i. 0 < i \<and> Suc i < length repo \<and> repo ! i = CHR ''/'' \<and>
      list_all shell_safe (take i repo) \<and> list_all shell_safe (drop (Suc i) repo))"
    by (auto simp: rmatch_Plus_Cls class_run_slice package_char_iff [abs_def] cong: conj_cong)
  also have "\<dots> \<longleftrightarrow> ?s" (is "?a \<longleftrightarrow> _")
  proof
    assume ?a
    then obtain i where i: "0 < i" "Suc i < length repo" "repo ! i = CHR ''/''"
      "list_all shell_safe (take i repo)" "list_all shell_safe (drop (Suc i) repo)" by blast
    then have "repo = take i repo @ CHR ''/'' # drop (Suc i) repo"
      using id_take_nth_drop [of i repo] by simp
    with i show ?s by (intro exI [of _ "take i repo"] exI [of _ "drop (Suc i) repo"]) auto
  next
    assume ?s
    then obtain owner name where "repo = owner @ CHR ''/'' # name" "owner \<noteq> []" "name \<noteq> []"
      "list_all shell_safe owner" "list_all shell_safe name" by blast
    then show ?a by (intro exI [of _ "length owner"]) auto
  qed
  finally show ?thesis .
qed

end
