(* ===== verification/Server_Ssh.thy ===== *)
theory Server_Ssh
  imports Server_Write Ssh_Client
begin

section \<open>Management tools of the server\<close>

text \<open>
  The SSH half of \<^verbatim>\<open>src/mcp_venus_os/server.py\<close>: the tools that run commands on the Cerbo.  A tool is a
  function of the state of the SSH client; it answers with the reply of the safety gate or with a
  dictionary, or it lets an exception through.  The tools that change the device go through the same
  confirmation gate as the MQTT writes.  The shared client is an optional state: it is made on first
  use and dropped when it is closed.
\<close>

subsection \<open>Shared steps\<close>

datatype ssh_tool_exc = Gate_raised py_exc | Ssh_raised ssh_exc

datatype ssh_tool_reply = Ssh_gate gate_reply | Ssh_reply reply

type_synonym ssh_tool = "ssh_state \<Rightarrow> ssh_state \<times> (ssh_tool_exc + ssh_tool_reply)"

definition get_ssh_client :: "ssh_state option \<Rightarrow> ssh_state" where
  "get_ssh_client shared = (case shared of None \<Rightarrow> ssh_init | Some st \<Rightarrow> st)"

text \<open>The closed client's requests remain as the second component.\<close>

definition close_ssh_client :: "ssh_state option \<Rightarrow> ssh_state option \<times> ssh_event list" where
  "close_ssh_client shared = (None, case shared of None \<Rightarrow> [] | Some st \<Rightarrow> ss_trace (close st))"

definition ssh_client_or_error :: "server_config \<Rightarrow> reply option" where
  "ssh_client_or_error cfg =
     (if \<not> configured (ssh cfg)
      then Some (failed (''SSH not configured '' @ [CHR 0xE2, CHR 0x80, CHR 0x94] @ '' set SSH_PASSWORD or SSH_KEY_PATH''))
      else None)"

definition with_client :: "ssh_env \<Rightarrow> reply ssh_op \<Rightarrow> ssh_tool" where
  "with_client env op st =
     (case ssh_client_or_error (se_server env) of
        Some err \<Rightarrow> (st, Inr (Ssh_reply err))
      | None \<Rightarrow> (case op st of (st', r) \<Rightarrow> (st', map_sum Ssh_raised Ssh_reply r)))"

definition gated :: "ssh_env \<Rightarrow> string \<Rightarrow> params \<Rightarrow> bool \<Rightarrow> reply ssh_op \<Rightarrow> ssh_tool" where
  "gated env operation params conf op st =
     (case confirm_gate (safety (se_server env)) operation params conf None of
        Inl e \<Rightarrow> (st, Inl (Gate_raised e))
      | Inr (Some g) \<Rightarrow> (st, Inr (Ssh_gate g))
      | Inr None \<Rightarrow> with_client env op st)"

subsection \<open>The tools\<close>

definition cerbo_ssh_available :: "ssh_env \<Rightarrow> ssh_tool" where
  "cerbo_ssh_available env = with_client env (available env)"

definition cerbo_version :: "ssh_env \<Rightarrow> ssh_tool" where
  "cerbo_version env = with_client env (firmware_version env)"

definition ADDRESS_COMMAND :: string where
  "ADDRESS_COMMAND =
     ''ip -4 -o addr show scope global 2>/dev/null | awk '' @ [CHR 0x27] @ ''{print $4}'' @ [CHR 0x27]"

definition reachable_of :: "reply \<Rightarrow> bool" where
  "reachable_of probe = (case map_of probe ''reachable'' of None \<Rightarrow> False | Some v \<Rightarrow> truthy v)"

definition ip_op :: "ssh_env \<Rightarrow> reply ssh_op" where
  "ip_op env =
     ssh_bind (available env) (\<lambda>probe.
        let out = [(''success'', VBool True), (''mqtt_host'', VStr (mqtt_host (mqtt (se_server env)))),
                   (''ssh_reachable'', case map_of probe ''reachable'' of None \<Rightarrow> VBool False | Some v \<Rightarrow> v)]
        in if reachable_of probe
           then ssh_bind (run env ADDRESS_COMMAND None) (\<lambda>addrs.
             let ips = filter (\<lambda>row. row \<noteq> []) (map strip (splitlines (stdout_of addrs)))
             in ssh_return (if ips \<noteq> [] then dict_set ''addresses'' (VList (map VStr ips)) out else out))
           else ssh_return out)"

definition cerbo_ip :: "ssh_env \<Rightarrow> ssh_tool" where
  "cerbo_ip env = with_client env (ip_op env)"

definition cerbo_check_updates :: "ssh_env \<Rightarrow> ssh_tool" where
  "cerbo_check_updates env = with_client env (check_updates env)"

definition cerbo_firmware_update :: "ssh_env \<Rightarrow> bool \<Rightarrow> ssh_tool" where
  "cerbo_firmware_update env conf = gated env ''cerbo_firmware_update'' [] conf (apply_updates env)"

text \<open>\<open>token\<close> is what \<^verbatim>\<open>secrets.token_urlsafe(12)\<close> returns.\<close>

definition chosen_password :: "server_config \<Rightarrow> string \<Rightarrow> string option \<Rightarrow> string" where
  "chosen_password cfg token password =
     (if \<not> unset password then the password
      else if \<not> unset (root_password cfg) then the (root_password cfg)
      else token)"

definition enable_ssh_op :: "ssh_env \<Rightarrow> string \<Rightarrow> string option \<Rightarrow> reply ssh_op" where
  "enable_ssh_op env token password =
     (let cfg = se_server env; pwd = chosen_password cfg token password
      in ssh_bind (enable_root_password env pwd) (\<lambda>result.
           let result = (if succeeded result \<and> unset password \<and> unset (root_password cfg)
                         then dict_set ''generated_password'' (VStr pwd) result else result);
               result = dict_set ''host'' (VStr (effective_host cfg)) result
           in ssh_return (dict_set ''user'' (VStr (ssh_user (ssh cfg))) result)))"

definition cerbo_enable_ssh :: "ssh_env \<Rightarrow> string \<Rightarrow> string option \<Rightarrow> bool \<Rightarrow> ssh_tool" where
  "cerbo_enable_ssh env token password conf =
     gated env ''cerbo_enable_ssh'' [(''set_root_password'', VBool True)] conf (enable_ssh_op env token password)"

definition setuphelper_status_tool :: "ssh_env \<Rightarrow> ssh_tool" where
  "setuphelper_status_tool env = with_client env (setuphelper_status env)"

definition setuphelper_install_package :: "ssh_env \<Rightarrow> string \<Rightarrow> string \<Rightarrow> bool \<Rightarrow> ssh_tool" where
  "setuphelper_install_package env package repo conf =
     gated env ''setuphelper_install_package'' [(''package'', VStr package), (''repo'', VStr repo)] conf
       (ssh_install_package env package repo)"

definition setuphelper_remove_package :: "ssh_env \<Rightarrow> string \<Rightarrow> bool \<Rightarrow> ssh_tool" where
  "setuphelper_remove_package env package conf =
     gated env ''setuphelper_remove_package'' [(''package'', VStr package)] conf (ssh_remove_package env package)"

definition cerbo_ssh_exec :: "ssh_env \<Rightarrow> string \<Rightarrow> pyfloat \<Rightarrow> bool \<Rightarrow> ssh_tool" where
  "cerbo_ssh_exec env command timeout_s conf =
     gated env ''cerbo_ssh_exec'' [(''command'', VStr command)] conf (run env command (Some timeout_s))"

datatype ssh_call =
    Available
  | Version
  | Ip
  | Check_updates
  | Firmware_update
  | Enable_ssh "string option"
  | Status
  | Install string string
  | Remove string
  | Exec string pyfloat

fun run_ssh_tool :: "ssh_env \<Rightarrow> string \<Rightarrow> ssh_call \<Rightarrow> bool \<Rightarrow> ssh_tool" where
  "run_ssh_tool env token Available conf = cerbo_ssh_available env"
| "run_ssh_tool env token Version conf = cerbo_version env"
| "run_ssh_tool env token Ip conf = cerbo_ip env"
| "run_ssh_tool env token Check_updates conf = cerbo_check_updates env"
| "run_ssh_tool env token Firmware_update conf = cerbo_firmware_update env conf"
| "run_ssh_tool env token (Enable_ssh password) conf = cerbo_enable_ssh env token password conf"
| "run_ssh_tool env token Status conf = setuphelper_status_tool env"
| "run_ssh_tool env token (Install package repo) conf = setuphelper_install_package env package repo conf"
| "run_ssh_tool env token (Remove package) conf = setuphelper_remove_package env package conf"
| "run_ssh_tool env token (Exec command timeout_s) conf = cerbo_ssh_exec env command timeout_s conf"

subsection \<open>Which requests the tools make\<close>

lemma emits_with_client:
  assumes "emits ok op" "with_client env op st = (st', r)"
  shows "\<exists>new. ss_trace st' = ss_trace st @ new \<and> list_all ok new \<and> (new \<noteq> [] \<longrightarrow> configured (ssh (se_server env)))"
proof (cases "configured (ssh (se_server env))")
  case True
  with assms(2) have "st' = fst (op st)"
    by (auto simp: with_client_def ssh_client_or_error_def split: prod.splits)
  with assms(1) True show ?thesis unfolding emits_def by blast
next
  case False
  with assms(2) show ?thesis by (simp add: with_client_def ssh_client_or_error_def)
qed

lemma emits_gated:
  assumes "emits ok op" "gated env operation params conf op st = (st', r)"
  shows "\<exists>new. ss_trace st' = ss_trace st @ new \<and> list_all ok new \<and>
    (new \<noteq> [] \<longrightarrow> configured (ssh (se_server env)) \<and>
       confirm_gate (safety (se_server env)) operation params conf None = Inr None)"
proof (cases "confirm_gate (safety (se_server env)) operation params conf None = Inr None")
  case True
  with assms(2) have "with_client env op st = (st', r)" by (simp add: gated_def)
  from emits_with_client [OF assms(1) this] True show ?thesis by simp
next
  case False
  with assms(2) have "st' = st" by (auto simp: gated_def split: sum.splits option.splits)
  then show ?thesis by simp
qed

lemma emits_mono: "emits ok op \<Longrightarrow> (\<And>ev. ok ev \<Longrightarrow> ok' ev) \<Longrightarrow> emits ok' op"
  unfolding emits_def by (metis list.pred_mono_strong)

context ssh_policy
begin

definition runs :: "string \<Rightarrow> bool" where
  "runs command \<longleftrightarrow> (\<forall>c inp limit. ok (Executed c command inp limit))"

lemma emits_runs: "runs command \<Longrightarrow> emits ok (run env command timeout_s)"
  by (rule emits_run) (simp add: runs_def)

lemma emits_swupdate_probe:
  "(\<forall>s \<in> set candidates. runs (''[ -f '' @ s @ '' ] && echo y'')) \<Longrightarrow> emits ok (swupdate_probe env candidates)"
  by (induction candidates) (auto intro!: emits_bind emits_runs)

lemma emits_enable_root_password:
  assumes "runs ''chpasswd 2>&1''"
  shows "emits ok (enable_root_password env password)"
  unfolding emits_def
proof
  fix st
  obtain st1 r where e: "ensure_conn env st = (st1, r)" by fastforce
  then obtain new where new: "ss_trace st1 = ss_trace st @ new" "list_all ok new"
    using emits_ensure_conn unfolding emits_def by (metis fst_conv)
  show "\<exists>new. ss_trace (fst (enable_root_password env password st)) = ss_trace st @ new \<and> list_all ok new"
  proof (cases r)
    case (Inl x)
    with e new ssh_failure_trace [of None x st1] show ?thesis by (auto simp: enable_root_password_def)
  next
    case (Inr c)
    define st2 where "st2 = emit (Executed c ''chpasswd 2>&1'' (Some (root_password_input password)) None) st1"
    have st2: "\<exists>new. ss_trace st2 = ss_trace st @ new \<and> list_all ok new"
      using new assms by (auto simp: st2_def emit_def runs_def)
    show ?thesis
      using e Inr st2 ssh_failure_trace [of "Some c" _ st2]
      by (auto simp: enable_root_password_def execute_def st2_def [symmetric] Let_def split: sum.split)
        (metis append_assoc list_all_append)+
  qed
qed

end

subsection \<open>Gates, keys and commands of every tool\<close>

text \<open>The gate a tool passes: its operation and the parameters it shows to the safety validator.\<close>

fun ssh_gate :: "ssh_call \<Rightarrow> (string \<times> params) option" where
  "ssh_gate Firmware_update = Some (''cerbo_firmware_update'', [])"
| "ssh_gate (Enable_ssh password) = Some (''cerbo_enable_ssh'', [(''set_root_password'', VBool True)])"
| "ssh_gate (Install package repo) =
     Some (''setuphelper_install_package'', [(''package'', VStr package), (''repo'', VStr repo)])"
| "ssh_gate (Remove package) = Some (''setuphelper_remove_package'', [(''package'', VStr package)])"
| "ssh_gate (Exec command timeout_s) = Some (''cerbo_ssh_exec'', [(''command'', VStr command)])"
| "ssh_gate _ = None"

definition probe_commands :: "string set" where
  "probe_commands = (\<lambda>s. ''[ -f '' @ s @ '' ] && echo y'') ` set SWUPDATE_CANDIDATES"

text \<open>
  The fixed commands of a call: nothing of its arguments is in them but checked names.  The tool for
  free commands has none; it runs the text that its caller supplies.
\<close>

fun fixed_commands :: "ssh_call \<Rightarrow> string set" where
  "fixed_commands Available = {}"
| "fixed_commands Version = {''cat /opt/victronenergy/version''}"
| "fixed_commands Ip = {ADDRESS_COMMAND}"
| "fixed_commands Check_updates = probe_commands \<union> set SWUPDATE_CANDIDATES"
| "fixed_commands Firmware_update = probe_commands \<union> (\<lambda>s. s @ '' -force -update'') ` set SWUPDATE_CANDIDATES"
| "fixed_commands (Enable_ssh password) = {''chpasswd 2>&1''}"
| "fixed_commands Status = {''[ -d /data/SetupHelper ] && echo y'',
     ''grep -m1 '' @ [CHR 0x27] @ ''^version'' @ [CHR 0x27] @ '' /data/SetupHelper/PackageManager.py 2>/dev/null'',
     ''ls /data/packageManager 2>/dev/null''}"
| "fixed_commands (Install package repo) =
     (if valid_package_name package \<and> fullmatch repo_pattern repo then {install_script package repo} else {})"
| "fixed_commands (Remove package) = (if valid_package_name package then {remove_script package} else {})"
| "fixed_commands (Exec command timeout_s) = {}"

definition ssh_commands :: "ssh_call \<Rightarrow> string set" where
  "ssh_commands call = (case call of Exec command timeout_s \<Rightarrow> {command} | _ \<Rightarrow> fixed_commands call)"

lemma ssh_commands_fixed [simp]:
  "ssh_commands Available = fixed_commands Available"
  "ssh_commands Version = fixed_commands Version"
  "ssh_commands Ip = fixed_commands Ip"
  "ssh_commands Check_updates = fixed_commands Check_updates"
  "ssh_commands Firmware_update = fixed_commands Firmware_update"
  "ssh_commands (Enable_ssh password) = fixed_commands (Enable_ssh password)"
  "ssh_commands Status = fixed_commands Status"
  "ssh_commands (Install package repo) = fixed_commands (Install package repo)"
  "ssh_commands (Remove package) = fixed_commands (Remove package)"
  "ssh_commands (Exec command timeout_s) = {command}"
  by (simp_all add: ssh_commands_def)

definition request_ok :: "server_config \<Rightarrow> string set \<Rightarrow> ssh_event \<Rightarrow> bool" where
  "request_ok cfg cmds ev \<longleftrightarrow> key_ok ev \<and> addressed cfg ev \<and> commands_in cmds ev"

interpretation requests: ssh_policy env "request_ok (se_server env) cmds" for env cmds
  by unfold_locales (simp_all add: request_ok_def keys.open_ok address.open_ok address.probe_ok cmds.open_ok
    cmds.close_ok cmds.probe_ok del: key_ok.simps(1) addressed.simps(1,2))

lemma requests_runs: "command \<in> cmds \<Longrightarrow> requests.runs env cmds command"
  by (simp add: requests.runs_def request_ok_def commands_in_def)

lemma swupdate_script_emits:
  assumes "probe_commands \<subseteq> cmds"
  shows "emits (request_ok (se_server env) cmds) (swupdate_script env)"
  unfolding swupdate_script_def
  using assms by (intro requests.emits_swupdate_probe) (auto intro!: requests_runs simp: probe_commands_def)

lemma swupdate_probe_found:
  "swupdate_probe env candidates st = (st', Inr (Some s)) \<Longrightarrow> s \<in> set candidates"
proof (induction candidates arbitrary: st)
  case (Cons a candidates)
  then show ?case
    by (auto simp: ssh_bind_def ssh_return_def split: prod.splits sum.splits if_splits)
qed (simp add: ssh_return_def)

lemma emits_bind_result:
  assumes "emits ok f" "\<And>st st' x. f st = (st', Inr x) \<Longrightarrow> emits ok (g x)"
  shows "emits ok (ssh_bind f g)"
proof -
  define g' where "g' x = (if emits ok (g x) then g x else ssh_return undefined)" for x
  have "ssh_bind f g = ssh_bind f g'"
    by (rule ext) (auto simp: ssh_bind_def g'_def assms(2) split: prod.split sum.split)
  moreover have "emits ok (ssh_bind f g')" by (rule emits_bind [OF assms(1)]) (simp add: g'_def)
  ultimately show ?thesis by simp
qed

lemma updates_emit:
  "emits (request_ok (se_server env) (ssh_commands Check_updates)) (check_updates env)"
  "emits (request_ok (se_server env) (ssh_commands Firmware_update)) (apply_updates env)"
  unfolding check_updates_def apply_updates_def
  by (rule emits_bind_result [OF swupdate_script_emits];
      auto simp: swupdate_script_def intro!: requests.emits_runs requests_runs split: option.split
        dest!: swupdate_probe_found)+

lemma packages_emit:
  "emits (request_ok (se_server env) (ssh_commands (Install package repo))) (ssh_install_package env package repo)"
  "emits (request_ok (se_server env) (ssh_commands (Remove package))) (ssh_remove_package env package)"
  by (auto simp: ssh_install_package_def ssh_remove_package_def intro!: requests.emits_runs requests_runs)

lemma status_emits: "emits (request_ok (se_server env) (ssh_commands Status)) (setuphelper_status env)"
  unfolding setuphelper_status_def
  by (intro emits_bind) (auto simp only: ssh_commands_fixed fixed_commands.simps insert_iff simp_thms if_True if_False
      intro!: requests.emits_runs requests_runs emits_return emits_bind split: if_split)

lemma firmware_version_emits: "emits (request_ok (se_server env) (ssh_commands Version)) (firmware_version env)"
  unfolding firmware_version_def
  by (intro emits_bind) (auto simp: Let_def intro!: requests.emits_runs requests_runs)

lemma ip_emits: "emits (request_ok (se_server env) (ssh_commands Ip)) (ip_op env)"
  unfolding ip_op_def
  by (intro emits_bind requests.emits_available) (auto simp: Let_def intro!: emits_bind requests.emits_runs requests_runs)

lemma enable_ssh_emits:
  "emits (request_ok (se_server env) (ssh_commands (Enable_ssh password))) (enable_ssh_op env token password)"
  unfolding enable_ssh_op_def Let_def
  by (intro emits_bind requests.emits_enable_root_password requests_runs emits_return) simp

lemma ssh_tool_requests:
  assumes "run_ssh_tool env token call conf st = (st', r)"
  shows "\<exists>new. ss_trace st' = ss_trace st @ new \<and> list_all (request_ok (se_server env) (ssh_commands call)) new \<and>
    (new \<noteq> [] \<longrightarrow> configured (ssh (se_server env)) \<and>
      (case ssh_gate call of None \<Rightarrow> True
       | Some (operation, params) \<Rightarrow>
           confirm_gate (safety (se_server env)) operation params conf None = Inr None))"
proof (cases call)
  case Available
  then show ?thesis using assms emits_with_client [OF requests.emits_available]
    by (simp add: cerbo_ssh_available_def)
next
  case Version
  then show ?thesis using assms emits_with_client [OF firmware_version_emits]
    by (simp add: cerbo_version_def)
next
  case Ip
  then show ?thesis using assms emits_with_client [OF ip_emits] by (simp add: cerbo_ip_def)
next
  case Check_updates
  then show ?thesis using assms emits_with_client [OF updates_emit(1)] by (simp add: cerbo_check_updates_def)
next
  case Firmware_update
  then show ?thesis using assms emits_gated [OF updates_emit(2)] by (simp add: cerbo_firmware_update_def)
next
  case (Enable_ssh password)
  then show ?thesis using assms emits_gated [OF enable_ssh_emits] by (simp add: cerbo_enable_ssh_def)
next
  case Status
  then show ?thesis using assms emits_with_client [OF status_emits] by (simp add: setuphelper_status_tool_def)
next
  case (Install package repo)
  then show ?thesis using assms emits_gated [OF packages_emit(1)] by (simp add: setuphelper_install_package_def)
next
  case (Remove package)
  then show ?thesis using assms emits_gated [OF packages_emit(2)] by (simp add: setuphelper_remove_package_def)
next
  case (Exec command timeout_s)
  have "emits (request_ok (se_server env) {command}) (run env command (Some timeout_s))"
    by (auto intro!: requests.emits_runs requests_runs)
  with Exec assms show ?thesis using emits_gated by (simp add: cerbo_ssh_exec_def)
qed

subsection \<open>Properties\<close>

fun read_only :: "ssh_call \<Rightarrow> bool" where
  "read_only Available = True"
| "read_only Version = True"
| "read_only Ip = True"
| "read_only Check_updates = True"
| "read_only Status = True"
| "read_only _ = False"

lemma ssh_gate_None_iff: "ssh_gate call = None \<longleftrightarrow> read_only call"
  by (cases call) simp_all

text \<open>
  C5: a management tool asks something of the network, be it the reachability probe alone, only when
  credentials are configured, and a tool that changes the device only when moreover writes are
  enabled, the call is confirmed where confirmation is required and, for a free command, no deny
  pattern matches it.  It probes and opens nothing but the SSH port of the configured device, and no
  connection it opens offers a client key below the key policy or an identity that was not configured.
\<close>

theorem ssh_tool_behind_gates:
  assumes "ss_trace (fst (run_ssh_tool env token call conf st)) \<noteq> ss_trace st"
  shows "configured (ssh (se_server env)) \<and>
    (read_only call \<or>
       enable_writes (safety (se_server env)) \<and> (if require_confirmation (safety (se_server env)) then conf else True) \<and>
       (case call of Exec command t \<Rightarrow> command_ok (safety (se_server env)) (VStr command) | _ \<Rightarrow> True)) \<and>
    list_all (\<lambda>ev. key_ok ev \<and> addressed (se_server env) ev)
      (drop (length (ss_trace st)) (ss_trace (fst (run_ssh_tool env token call conf st))))"
proof -
  obtain st' r where run: "run_ssh_tool env token call conf st = (st', r)" by fastforce
  from ssh_tool_requests [OF run] obtain new where new: "ss_trace st' = ss_trace st @ new"
    "list_all (request_ok (se_server env) (ssh_commands call)) new"
    and g: "new \<noteq> [] \<Longrightarrow> configured (ssh (se_server env)) \<and>
      (case ssh_gate call of None \<Rightarrow> True
       | Some (operation, params) \<Rightarrow>
           confirm_gate (safety (se_server env)) operation params conf None = Inr None)"
    by blast
  have "new \<noteq> []" using assms run new(1) by auto
  note g = g [OF this]
  have keys: "list_all (\<lambda>ev. key_ok ev \<and> addressed (se_server env) ev) new"
    using new(2) by (auto simp: request_ok_def list_all_iff)
  show ?thesis
  proof (cases "read_only call")
    case True
    with g keys run new(1) show ?thesis by simp
  next
    case False
    with g keys run new(1) show ?thesis
      by (cases call) (auto simp: confirm_gate_None_iff parameters_ok_def)
  qed
qed

text \<open>
  C6: every management tool but \<^verbatim>\<open>cerbo_ssh_exec\<close> runs only its own fixed commands on the device.  What a
  caller supplies gets into such a command only as a package name or an owner and a repository, and
  then consists of letters, digits, underscores, dots and hyphens alone, so that the shell reads each
  as one word; a password is in no command.  \<^verbatim>\<open>cerbo_ssh_exec\<close> is the exception: it runs exactly the
  text its caller supplies, whatever that is, but only with writes enabled, with the call confirmed
  where confirmation is required, and when no configured deny pattern matches the text.
\<close>

theorem ssh_commands_checked:
  assumes "Executed c command inp limit \<in>
    set (drop (length (ss_trace st)) (ss_trace (fst (run_ssh_tool env token call conf st))))"
  shows "case call of
       Exec free timeout_s \<Rightarrow>
         command = free \<and> enable_writes (safety (se_server env)) \<and>
         (if require_confirmation (safety (se_server env)) then conf else True) \<and>
         list_all (\<lambda>pattern. \<not> search True pattern free) (ssh_command_deny_patterns (safety (se_server env)))
     | Install package repo \<Rightarrow>
         command = install_script package repo \<and> package \<noteq> [] \<and> list_all shell_safe package \<and>
         (\<exists>owner name. repo = owner @ CHR ''/'' # name \<and> list_all shell_safe owner \<and> list_all shell_safe name)
     | Remove package \<Rightarrow> command = remove_script package \<and> package \<noteq> [] \<and> list_all shell_safe package
     | _ \<Rightarrow> command \<in> fixed_commands call"
proof -
  obtain st' r where run: "run_ssh_tool env token call conf st = (st', r)" by fastforce
  from ssh_tool_requests [OF run] obtain new where new: "ss_trace st' = ss_trace st @ new"
    "list_all (request_ok (se_server env) (ssh_commands call)) new"
    and g: "new \<noteq> [] \<Longrightarrow> configured (ssh (se_server env)) \<and>
      (case ssh_gate call of None \<Rightarrow> True
       | Some (operation, params) \<Rightarrow>
           confirm_gate (safety (se_server env)) operation params conf None = Inr None)"
    by blast
  from assms run new(1) have e: "Executed c command inp limit \<in> set new" by simp
  have "new \<noteq> []" using e by auto
  note g = g [OF this]
  have c: "command \<in> ssh_commands call"
    using e new(2)
    by (auto simp: request_ok_def commands_in_def list_all_iff)
  have names: "package \<noteq> [] \<and> list_all shell_safe package" if "valid_package_name package" for package
    using that by (auto simp: valid_package_name_iff split: list.splits)
  show ?thesis
  proof (cases call)
    case (Exec free timeout_s)
    with g have "confirm_gate (safety (se_server env)) ''cerbo_ssh_exec'' [(''command'', VStr free)] conf None = Inr None"
      by simp
    with c Exec show ?thesis
      by (auto simp: confirm_gate_None_iff parameters_ok_def command_ok_def list_all_iff)
  qed (use c names in \<open>auto simp: repo_pattern_iff split: if_splits\<close>)
qed

subsection \<open>Failures\<close>

lemma ensure_conn_keeps: "ensure_conn env st = (st1, Inr c) \<Longrightarrow> ss_conn st1 = Some c"
  by (auto simp: ensure_conn_def Let_def emit_def split: option.splits sum.splits if_splits)

text \<open>
  C32: when a command fails on an open connection with an error of the network or of asyncssh, the answer
  is a failure with its text and the client has dropped that connection, so the next command opens a
  new one; only a denied permission leaves the connection in place.
\<close>

theorem ssh_failed_command_drops_connection:
  assumes "ensure_conn env st = (st1, Inr c)"
    and "se_exec env (length (ss_trace st1)) command None = Inl e" and "handled e"
  shows "run env command t st =
    (let st2 = emit (Executed c command None (Some (effective_timeout env t))) st1
     in if instance_of e PermissionDenied then (st2, Inr (failed PERMISSION_DENIED))
        else ((emit (Closed c) st2)\<lparr>ss_conn := None\<rparr>, Inr (failed (''ssh failed: '' @ exc_text e))))"
  using assms ensure_conn_keeps [OF assms(1)]
  by (simp add: run_def execute_def ssh_failure_def close_connection_def emit_def)

text \<open>
  The probe's second handler is never reached: a timeout is an \<^verbatim>\<open>OSError\<close>, so the first one answers with the
  text of the exception, which is empty for the timeout of \<^verbatim>\<open>asyncio.wait_for\<close>.
\<close>

lemma available_timeout_text:
  "se_probe env = Inl (Timeout_error t) \<Longrightarrow>
   snd (available env st) = Inr [(''success'', VBool True), (''host'', VStr (effective_host (se_server env))),
     (''reachable'', VBool False), (''error'', VStr t)]"
  by (simp add: available_def Let_def)

subsection \<open>An example\<close>

definition example_ssh_env :: ssh_env where
  "example_ssh_env = \<lparr>
     se_server = example_server\<lparr>ssh := (ssh example_server)\<lparr>ssh_password := Some ''pw''\<rparr>\<rparr>,
     se_load_key = (\<lambda>_. None),
     se_is_closed = (\<lambda>_ _. False),
     se_open = (\<lambda>_. Inr 0),
     se_exec = (\<lambda>_ _ _. Inl (Os_error ''broken pipe'')),
     se_probe = Inr (),
     se_elapsed = Fin 0,
     se_latency_ms = 1\<rparr>"

lemma example_ssh_gate:
  "confirm_gate (safety (se_server example_ssh_env)) ''setuphelper_remove_package'' [(''package'', VStr ''GuiMods'')] True
     None = Inr None"
  unfolding confirm_gate_None_iff
  by (simp add: example_ssh_env_def example_server_def example_safety_def permissive_config_def
    default_safety_config_def parameters_ok_def path_ok_def)

lemma example_ssh_options:
  "\<exists>opts. connect_kwargs example_ssh_env = Inr opts"
  by (simp add: connect_kwargs_def example_ssh_env_def example_server_def unset_def Let_def)

lemma example_ssh_conn:
  obtains opts where "ensure_conn example_ssh_env ssh_init = (\<lparr>ss_conn = Some 0, ss_trace = [Opened opts]\<rparr>, Inr 0)"
  using example_ssh_options
  by (auto simp: ensure_conn_def ssh_init_def emit_def example_ssh_env_def Let_def)

lemma example_ssh_run:
  obtains opts where "ss_trace (fst (run_ssh_tool example_ssh_env [] (Remove ''GuiMods'') True ssh_init)) =
    [Opened opts, Executed 0 (remove_script ''GuiMods'') None (Some (Fin 300)), Closed 0]"
proof -
  obtain opts where e: "ensure_conn example_ssh_env ssh_init =
    (\<lparr>ss_conn = Some 0, ss_trace = [Opened opts]\<rparr>, Inr 0)" by (rule example_ssh_conn)
  have v: "valid_package_name ''GuiMods''" by (simp add: valid_package_name_iff shell_safe_def)
  have c: "ssh_client_or_error (se_server example_ssh_env) = None"
    by (simp add: ssh_client_or_error_def configured_def example_ssh_env_def unset_def)
  have x: "se_exec example_ssh_env n cmd inp = Inl (Os_error ''broken pipe'')" for n cmd inp
    by (simp add: example_ssh_env_def)
  have t: "effective_timeout example_ssh_env (Some (Fin 300)) = Fin 300" by (simp add: effective_timeout_def)
  show ?thesis
    by (rule that [of opts]) (simp add: setuphelper_remove_package_def gated_def example_ssh_gate with_client_def c
      ssh_remove_package_def v run_def e execute_def x ssh_failure_def handled_def close_connection_def emit_def t
      split: prod.split)
qed

theorem ssh_tool_behind_gates_witness:
  "configured (ssh (se_server example_ssh_env)) \<and> enable_writes (safety (se_server example_ssh_env))"
proof -
  have "ss_trace (fst (run_ssh_tool example_ssh_env [] (Remove ''GuiMods'') True ssh_init)) \<noteq> ss_trace ssh_init"
    by (rule example_ssh_run) (simp add: ssh_init_def)
  from ssh_tool_behind_gates [OF this] show ?thesis by simp
qed

theorem ssh_commands_checked_witness:
  "remove_script ''GuiMods'' \<in> fixed_commands (Remove ''GuiMods'') \<and> list_all shell_safe ''GuiMods''"
proof -
  have "Executed 0 (remove_script ''GuiMods'') None (Some (Fin 300)) \<in> set (drop (length (ss_trace ssh_init))
    (ss_trace (fst (run_ssh_tool example_ssh_env [] (Remove ''GuiMods'') True ssh_init))))"
    by (rule example_ssh_run) (simp add: ssh_init_def)
  from ssh_commands_checked [OF this] show ?thesis by (simp add: valid_package_name_iff shell_safe_def)
qed

theorem ssh_failed_command_drops_connection_witness:
  "ss_conn (fst (run example_ssh_env ''uptime'' None ssh_init)) = None"
proof -
  obtain opts where e: "ensure_conn example_ssh_env ssh_init =
    (\<lparr>ss_conn = Some 0, ss_trace = [Opened opts]\<rparr>, Inr 0)" by (rule example_ssh_conn)
  have "run example_ssh_env ''uptime'' None ssh_init = (let st2 = emit (Executed 0 ''uptime'' None
      (Some (effective_timeout example_ssh_env None))) \<lparr>ss_conn = Some 0, ss_trace = [Opened opts]\<rparr>
     in if instance_of (Os_error ''broken pipe'') PermissionDenied then (st2, Inr (failed PERMISSION_DENIED))
        else ((emit (Closed 0) st2)\<lparr>ss_conn := None\<rparr>, Inr (failed (''ssh failed: '' @ exc_text (Os_error ''broken pipe'')))))"
    by (rule ssh_failed_command_drops_connection [OF e]) (simp_all add: example_ssh_env_def handled_def)
  then show ?thesis by (simp add: Let_def)
qed

end
