(* ===== verification/Dbus_Client.thy ===== *)
theory Dbus_Client
  imports Venus_Config
begin

section \<open>The on-device D-Bus client\<close>

text \<open>
  Model of \<^verbatim>\<open>src/mcp_venus_os/dbus_client.py\<close>.  The message bus is third-party: what it answers
  to a call is an argument (\<open>properties\<close> for \<^verbatim>\<open>Properties.Get\<close>, \<open>names\<close> for \<^verbatim>\<open>ListNames\<close>), an
  error reply or a value.  Connecting either raises or yields a bus.  \<open>to_str\<close> is Python's
  \<^verbatim>\<open>str\<close> on the values of D-Bus variants.
\<close>

subsection \<open>Data\<close>

record battery_data =
  bd_soc :: pyfloat
  bd_voltage :: pyfloat
  bd_current :: pyfloat
  bd_power :: pyfloat
  bd_temperature :: pyfloat
  bd_status :: string
  bd_time_to_go :: "int option"

record pv_data =
  pd_power :: pyfloat
  pd_voltage :: pyfloat
  pd_current :: pyfloat
  pd_yield_today :: pyfloat
  pd_yield_total :: pyfloat

record grid_data =
  gd_power :: pyfloat
  gd_voltage :: pyfloat
  gd_current :: pyfloat
  gd_frequency :: pyfloat
  gd_status :: string

record inverter_data =
  id_mode :: string
  id_state :: string
  id_ac_power_out :: pyfloat
  id_ac_power_in :: pyfloat
  id_dc_power :: pyfloat
  id_temperature :: pyfloat

record dbus_client =
  db_config :: dbus_config
  db_bus :: "nat option"
  db_connected :: bool

datatype 'a dbus_reply = Error_reply | Reply 'a

type_synonym properties = "string \<Rightarrow> string \<Rightarrow> string \<Rightarrow> string \<Rightarrow> pyval dbus_reply"

subsection \<open>Connection\<close>

definition init_dbus :: "dbus_config \<Rightarrow> dbus_client" where
  "init_dbus cfg = \<lparr>db_config = cfg, db_bus = None, db_connected = False\<rparr>"

definition dbus_connect :: "(bool \<Rightarrow> nat res) \<Rightarrow> dbus_client \<Rightarrow> dbus_client res" where
  "dbus_connect open_bus c =
     (if db_connected c then Inr c
      else bind_res (open_bus (bus_type (db_config c) = ''system'')) (\<lambda>bus.
        Inr (c\<lparr>db_bus := Some bus, db_connected := True\<rparr>)))"

definition dbus_disconnect :: "dbus_client \<Rightarrow> dbus_client" where
  "dbus_disconnect c = (if db_bus c \<noteq> None \<and> db_connected c then c\<lparr>db_connected := False\<rparr> else c)"

subsection \<open>Properties\<close>

definition upper_char :: "char \<Rightarrow> char" where
  "upper_char c = (if 97 \<le> code c \<and> code c \<le> 122 then char_of (code c - 32) else c)"

text \<open>\<^verbatim>\<open>str.capitalize\<close> on the ASCII device types it is used for.\<close>

fun capitalize :: "string \<Rightarrow> string" where
  "capitalize [] = []"
| "capitalize (c # cs) = upper_char c # lower cs"

definition service_path :: "dbus_config \<Rightarrow> int \<Rightarrow> string \<Rightarrow> string \<times> string" where
  "service_path cfg device_instance device_type =
     (service_name cfg @ ''.'' @ device_type @ ''.'' @ str_of_int device_instance, ''/'' @ capitalize device_type)"

definition get_property ::
  "properties \<Rightarrow> dbus_client \<Rightarrow> string \<Rightarrow> string \<Rightarrow> string \<Rightarrow> string \<Rightarrow> pyval res" where
  "get_property props c service path interface property_name =
     (case db_bus c of
        None \<Rightarrow> Inl DBusNotConnectedError
      | Some _ \<Rightarrow>
          (case props service path interface property_name of
             Error_reply \<Rightarrow> Inl DBusCallError
           | Reply v \<Rightarrow> Inr v))"

text \<open>The property reads of one device, in order, on the service of that instance.\<close>

definition read_device ::
  "properties \<Rightarrow> dbus_client \<Rightarrow> string \<Rightarrow> string \<Rightarrow> int \<Rightarrow> string list \<Rightarrow> pyval list res" where
  "read_device props c device_type interface inst names =
     (let (service, path) = service_path (db_config c) inst device_type
      in map_res (get_property props c service path interface) names)"

text \<open>The values in the order read; a raise of any conversion leaves the operation.\<close>

definition battery_of :: "(pyval \<Rightarrow> string) \<Rightarrow> pyval list \<Rightarrow> battery_data res" where
  "battery_of to_str vs =
     bind_res (map_res py_float (take 5 vs)) (\<lambda>fs.
       bind_res (if truthy (vs ! 6) then map_sum id Some (py_int (vs ! 6)) else Inr None) (\<lambda>ttg.
         Inr \<lparr>bd_soc = fs ! 0, bd_voltage = fs ! 1, bd_current = fs ! 2, bd_power = fs ! 3,
              bd_temperature = fs ! 4, bd_status = to_str (vs ! 5), bd_time_to_go = ttg\<rparr>))"

definition get_battery_data ::
  "(bool \<Rightarrow> nat res) \<Rightarrow> properties \<Rightarrow> (pyval \<Rightarrow> string) \<Rightarrow> dbus_client \<Rightarrow> int \<Rightarrow> battery_data res" where
  "get_battery_data open_bus props to_str c inst =
     bind_res (dbus_connect open_bus c) (\<lambda>c.
       bind_res (read_device props c ''battery'' ''com.victronenergy.Battery'' inst
           [''Soc'', ''Voltage'', ''Current'', ''Power'', ''Temperature'', ''Status'', ''TimeToGo''])
         (battery_of to_str))"

definition pv_of :: "pyval list \<Rightarrow> pv_data res" where
  "pv_of vs =
     bind_res (map_res py_float vs) (\<lambda>fs.
       Inr \<lparr>pd_power = fs ! 0, pd_voltage = fs ! 1, pd_current = fs ! 2, pd_yield_today = fs ! 3,
            pd_yield_total = fs ! 4\<rparr>)"

definition get_pv_data :: "(bool \<Rightarrow> nat res) \<Rightarrow> properties \<Rightarrow> dbus_client \<Rightarrow> int \<Rightarrow> pv_data res" where
  "get_pv_data open_bus props c inst =
     bind_res (dbus_connect open_bus c) (\<lambda>c.
       bind_res (read_device props c ''solarcharger'' ''com.victronenergy.Solarcharger'' inst
           [''PvPower'', ''PvVoltage'', ''PvCurrent'', ''YieldToday'', ''YieldTotal'']) pv_of)"

definition grid_of :: "(pyval \<Rightarrow> string) \<Rightarrow> pyval list \<Rightarrow> grid_data res" where
  "grid_of to_str vs =
     bind_res (map_res py_float (take 4 vs)) (\<lambda>fs.
       Inr \<lparr>gd_power = fs ! 0, gd_voltage = fs ! 1, gd_current = fs ! 2, gd_frequency = fs ! 3,
            gd_status = to_str (vs ! 4)\<rparr>)"

definition get_grid_data ::
  "(bool \<Rightarrow> nat res) \<Rightarrow> properties \<Rightarrow> (pyval \<Rightarrow> string) \<Rightarrow> dbus_client \<Rightarrow> int \<Rightarrow> grid_data res" where
  "get_grid_data open_bus props to_str c inst =
     bind_res (dbus_connect open_bus c) (\<lambda>c.
       bind_res (read_device props c ''vebus'' ''com.victronenergy.Vebus'' inst
           [''AcPowerOut'', ''AcVoltageOut'', ''AcCurrentOut'', ''AcFrequencyOut'', ''AcActiveInState''])
         (grid_of to_str))"

definition inverter_of :: "(pyval \<Rightarrow> string) \<Rightarrow> pyval list \<Rightarrow> inverter_data res" where
  "inverter_of to_str vs =
     bind_res (map_res py_float (drop 2 vs)) (\<lambda>fs.
       Inr \<lparr>id_mode = to_str (vs ! 0), id_state = to_str (vs ! 1), id_ac_power_out = fs ! 0,
            id_ac_power_in = fs ! 1, id_dc_power = fs ! 2, id_temperature = fs ! 3\<rparr>)"

definition get_inverter_data ::
  "(bool \<Rightarrow> nat res) \<Rightarrow> properties \<Rightarrow> (pyval \<Rightarrow> string) \<Rightarrow> dbus_client \<Rightarrow> int \<Rightarrow> inverter_data res" where
  "get_inverter_data open_bus props to_str c inst =
     bind_res (dbus_connect open_bus c) (\<lambda>c.
       bind_res (read_device props c ''vebus'' ''com.victronenergy.Vebus'' inst
           [''Mode'', ''State'', ''AcPowerOut'', ''AcPowerIn'', ''DcPower'', ''Temperature''])
         (inverter_of to_str))"

subsection \<open>Listing devices\<close>

record dbus_device =
  dd_service :: string
  dd_device_type :: string
  dd_instance :: int

definition device_of_name :: "string \<Rightarrow> string \<Rightarrow> dbus_device option" where
  "device_of_name service name =
     (if \<not> startswith name (service @ ''.'') then None
      else let parts = split_on (CHR ''.'') name
           in if length parts < 3 then None
              else map_option (\<lambda>i. \<lparr>dd_service = name, dd_device_type = parts ! (length parts - 2), dd_instance = i\<rparr>)
                (int_of_str (last parts)))"

definition dbus_list_devices ::
  "(bool \<Rightarrow> nat res) \<Rightarrow> string list dbus_reply \<Rightarrow> dbus_client \<Rightarrow> dbus_device list res" where
  "dbus_list_devices open_bus names c =
     bind_res (dbus_connect open_bus c) (\<lambda>c.
       if db_bus c = None then Inl DBusNotConnectedError
       else case names of
         Error_reply \<Rightarrow> Inl DBusCallError
       | Reply ns \<Rightarrow> Inr (List.map_filter (device_of_name (service_name (db_config c))) ns))"

subsection \<open>Facts\<close>

lemma dbus_connect_ok:
  "dbus_connect open_bus c = Inr c' \<Longrightarrow> db_connected c' \<and> db_config c' = db_config c \<and>
     (db_connected c \<longrightarrow> c' = c) \<and> (\<not> db_connected c \<longrightarrow> db_bus c' \<noteq> None)"
  by (auto simp: dbus_connect_def split: if_splits)

lemma split_on_snoc_sep:
  "sep \<notin> set v \<Longrightarrow> split_on sep (u @ sep # v) = split_on sep u @ [v]"
proof (induction u)
  case (Cons x u)
  then show ?case by (cases "split_on sep u") auto
qed (simp add: split_on_word)

text \<open>
  The D-Bus service name that the client builds for a device is listed, from the names on the bus,
  as that very service with the same device type and instance; so whatever \<^verbatim>\<open>list_devices\<close> shows can
  be read.
\<close>

lemma dbus_service_roundtrip:
  assumes "CHR ''.'' \<notin> set device_type" "length (str_of_int inst) \<le> max_str_digits"
  shows "device_of_name (service_name cfg) (fst (service_path cfg inst device_type)) =
    Some \<lparr>dd_service = fst (service_path cfg inst device_type), dd_device_type = device_type, dd_instance = inst\<rparr>"
proof -
  let ?name = "service_name cfg @ ''.'' @ device_type @ ''.'' @ str_of_int inst"
  have "split_on (CHR ''.'') ?name = split_on (CHR ''.'') (service_name cfg) @ [device_type, str_of_int inst]"
    using split_on_snoc_sep [of "CHR ''.''" "str_of_int inst" "service_name cfg @ ''.'' @ device_type"]
      split_on_snoc_sep [of "CHR ''.''" device_type "service_name cfg"] assms str_of_int_no_dot
    by simp
  moreover have "startswith ?name (service_name cfg @ ''.'')" by (simp add: startswith_iff)
  ultimately show ?thesis
    using split_on_nonempty [of "CHR ''.''" "service_name cfg"]
    by (simp add: device_of_name_def service_path_def Let_def int_of_str_of_int assms(2) nth_append Suc_diff_le
        del: split_on_nonempty)
qed

lemma dbus_service_roundtrip_example:
  "device_of_name ''com.victronenergy'' ''com.victronenergy.battery.512'' =
     Some \<lparr>dd_service = ''com.victronenergy.battery.512'', dd_device_type = ''battery'', dd_instance = 512\<rparr>"
proof -
  let ?cfg = "\<lparr>bus_type = ''system'', service_name = ''com.victronenergy''\<rparr>"
  have "fst (service_path ?cfg 512 ''battery'') = ''com.victronenergy.battery.512''" by code_simp
  moreover have code512: "length (str_of_int 512) = 3" by code_simp
  ultimately show ?thesis using dbus_service_roundtrip [of "''battery''" 512 ?cfg] code512
    by (simp add: max_str_digits_def)
qed

end
