(* ===== verification/Server_Read.thy ===== *)
theory Server_Read
  imports Server_Write Dbus_Client
begin

section \<open>Read tools of the server\<close>

text \<open>
  The read half of \<^verbatim>\<open>src/mcp_venus_os/server.py\<close>: collecting fields from the cache with the stale
  guard, fanning out over instances, the companion-service tools, the registration of conditional
  tools and the warm-up.  A reading is a dictionary from field names to values.  \<open>rd\<close> is
  \<^verbatim>\<open>client.read_first\<close> as it answers while the tool runs, \<open>devices\<close> is \<^verbatim>\<open>client.list_devices()\<close>
  and \<open>to_str\<close> formats a value in an f-string.
\<close>

type_synonym reading = "(string, pyval) dict"
type_synonym first_reader = "string \<Rightarrow> int \<Rightarrow> string list \<Rightarrow> (pyval \<times> pyfloat) option res"

subsection \<open>Collecting one device\<close>

fun collect_fields ::
  "first_reader \<Rightarrow> string \<Rightarrow> int \<Rightarrow> field_paths \<Rightarrow> reading \<Rightarrow> pyfloat \<Rightarrow> bool \<Rightarrow> (reading \<times> pyfloat \<times> bool) res" where
  "collect_fields rd device_type inst [] out max_age seen_any = Inr (out, max_age, seen_any)"
| "collect_fields rd device_type inst ((field, candidates) # others) out max_age seen_any =
     bind_res (rd device_type inst candidates) (\<lambda>result.
       case result of
         None \<Rightarrow> collect_fields rd device_type inst others (dict_set field VNone out) max_age seen_any
       | Some (v, age) \<Rightarrow>
           collect_fields rd device_type inst others (dict_set field v out) (float_max max_age age) True)"

definition collect_mqtt :: "pyfloat \<Rightarrow> first_reader \<Rightarrow> field_paths \<Rightarrow> string \<Rightarrow> int \<Rightarrow> reading res" where
  "collect_mqtt stale_after rd flds device_type inst =
     bind_res (collect_fields rd device_type inst flds [] (Fin 0) False) (\<lambda>(out, max_age, seen_any).
       Inr (dict_set ''age_seconds'' (if seen_any then VFloat (float_round 1 max_age) else VNone)
         (dict_set ''stale'' (VBool ((seen_any \<and> float_lt stale_after max_age) \<or> \<not> seen_any)) out)))"

definition instance_device_type :: "(string \<times> int) list \<Rightarrow> string list \<Rightarrow> int \<Rightarrow> string" where
  "instance_device_type devices device_types inst =
     (case find (\<lambda>dt. (dt, inst) \<in> set devices) device_types of
        Some dt \<Rightarrow> dt | None \<Rightarrow> hd device_types)"

definition pv_vxi_fallback :: "reading \<Rightarrow> reading res" where
  "pv_vxi_fallback reading =
     (case (map_of reading ''voltage'', map_of reading ''current'', map_of reading ''power'') of
        (Some v, Some i, Some p) \<Rightarrow>
          if p = VNone \<and> v \<noteq> VNone \<and> i \<noteq> VNone
          then (case bind_res (py_float v) (\<lambda>x. bind_res (py_float i) (\<lambda>y. Inr (float_round 1 (float_mul x y)))) of
                  Inr z \<Rightarrow> Inr (dict_set ''power'' (VFloat z) reading)
                | Inl e \<Rightarrow> if e = TypeError \<or> e = ValueError then Inr reading else Inl e)
          else Inr reading
      | _ \<Rightarrow> Inl KeyError)"

definition VEBUS_STATES :: "(int, string) dict" where
  "VEBUS_STATES =
     [(0, ''off''), (1, ''low_power''), (2, ''fault''), (3, ''bulk''), (4, ''absorption''), (5, ''float''),
      (6, ''storage''), (7, ''equalize''), (8, ''passthru''), (9, ''inverting''), (10, ''power_assist''),
      (11, ''power_supply''), (252, ''external_control'')]"

text \<open>\<^verbatim>\<open>d.get(v)\<close> on integer keys: numbers are looked up by value, containers are unhashable.\<close>

definition int_key_get :: "(int, string) dict \<Rightarrow> pyval \<Rightarrow> string option res" where
  "int_key_get d v =
     (case v of
        VList _ \<Rightarrow> Inl TypeError
      | VDict _ \<Rightarrow> Inl TypeError
      | _ \<Rightarrow> Inr (case num_val v of
                   Some (Fin x) \<Rightarrow> map_option snd (find (\<lambda>(k, _). of_int k = x) d)
                 | _ \<Rightarrow> None))"

definition enum_name :: "(pyval \<Rightarrow> string) \<Rightarrow> (int, string) dict \<Rightarrow> pyval \<Rightarrow> pyval res" where
  "enum_name to_str d v =
     bind_res (int_key_get d v) (\<lambda>r. Inr (VStr (case r of Some name \<Rightarrow> name | None \<Rightarrow> ''code '' @ to_str v)))"

definition add_name ::
  "(pyval \<Rightarrow> string) \<Rightarrow> (int, string) dict \<Rightarrow> string \<Rightarrow> string \<Rightarrow> reading \<Rightarrow> reading res" where
  "add_name to_str d field name reading =
     (case map_of reading field of
        Some v \<Rightarrow> if v = VNone then Inr reading
                 else bind_res (enum_name to_str d v) (\<lambda>n. Inr (dict_set name n reading))
      | None \<Rightarrow> Inr reading)"

definition vebus_mode_names :: "(int, string) dict" where
  "vebus_mode_names = map (\<lambda>(k, v). (v, k)) (the (map_of MODE_CODES ''vebus''))"

definition decode_vebus_enums :: "(pyval \<Rightarrow> string) \<Rightarrow> reading \<Rightarrow> reading res" where
  "decode_vebus_enums to_str reading =
     bind_res (add_name to_str vebus_mode_names ''mode'' ''mode_name'' reading)
       (add_name to_str VEBUS_STATES ''state'' ''state_name'')"

subsection \<open>Every instance of some device types\<close>

definition add_power :: "pyfloat \<Rightarrow> bool \<Rightarrow> pyval option \<Rightarrow> (pyfloat \<times> bool) res" where
  "add_power tot has_power watts =
     (case watts of
        Some v \<Rightarrow>
          if type_of v \<in> {TInt, TFloat, TBool}
          then bind_res (py_float v) (\<lambda>x. Inr (float_add tot x, True)) else Inr (tot, has_power)
      | None \<Rightarrow> Inr (tot, has_power))"

fun read_instances ::
  "(string \<Rightarrow> int \<Rightarrow> reading res) \<Rightarrow> (reading \<Rightarrow> reading res) \<Rightarrow> (string \<times> int) list \<Rightarrow>
   reading list \<Rightarrow> pyfloat \<Rightarrow> bool \<Rightarrow> (reading list \<times> pyfloat \<times> bool) res" where
  "read_instances collect post [] readings tot has_power = Inr (readings, tot, has_power)"
| "read_instances collect post ((device_type, inst) # targets) readings tot has_power =
     bind_res (collect device_type inst) (\<lambda>fields0.
       bind_res (post (dict_merge [(''device_type'', VStr device_type), (''instance'', VInt inst)] fields0)) (\<lambda>reading.
         bind_res (add_power tot has_power (map_of reading ''power'')) (\<lambda>(tot', has_power').
           read_instances collect post targets (readings @ [reading]) tot' has_power')))"

definition instance_targets :: "(string \<times> int) list \<Rightarrow> string list \<Rightarrow> (string \<times> int) list" where
  "instance_targets devices device_types =
     concat (map (\<lambda>dt. map (\<lambda>i. (dt, i)) (sort (map snd (filter (\<lambda>d. fst d = dt) devices)))) device_types)"

definition read_all_instances ::
  "pyfloat \<Rightarrow> first_reader \<Rightarrow> (string \<times> int) list \<Rightarrow> field_paths \<Rightarrow> string list \<Rightarrow> (reading \<Rightarrow> reading res) \<Rightarrow>
   reading res" where
  "read_all_instances stale_after rd devices flds device_types post =
     bind_res (read_instances (collect_mqtt stale_after rd flds) post (instance_targets devices device_types)
         [] (Fin 0) False) (\<lambda>(readings, tot, has_power).
       Inr ((''readings'', VList (map VDict readings)) #
         (if has_power then [(''total_power'', VFloat (float_round 1 tot))] else [])))"

subsection \<open>The tools\<close>

text \<open>What a tool sees: the client once it is ready, its readers, and the D-Bus data otherwise.\<close>

record read_env =
  re_server :: server_config
  re_stale_after :: pyfloat
  re_read :: first_reader
  re_devices :: "(string \<times> int) list res"
  re_ready :: "py_exc option"

definition read_tool ::
  "read_env \<Rightarrow> field_paths \<Rightarrow> string list \<Rightarrow> (reading \<Rightarrow> reading res) \<Rightarrow> reading res \<Rightarrow> int \<Rightarrow> reading res" where
  "read_tool env flds device_types post dbus_reading inst =
     (if use_mqtt (re_server env)
      then case re_ready env of
        Some e \<Rightarrow> Inl e
      | None \<Rightarrow>
          bind_res (re_devices env) (\<lambda>devices.
            if inst \<le> 0 then read_all_instances (re_stale_after env) (re_read env) devices flds device_types post
            else bind_res (collect_mqtt (re_stale_after env) (re_read env) flds
                (instance_device_type devices device_types inst) inst) (\<lambda>fields0.
              post (dict_merge [(''instance'', VInt inst)] fields0)))
      else dbus_reading)"

definition battery_reading :: "int \<Rightarrow> battery_data \<Rightarrow> reading" where
  "battery_reading inst d =
     [(''instance'', VInt inst), (''soc'', VFloat (bd_soc d)), (''voltage'', VFloat (bd_voltage d)),
      (''current'', VFloat (bd_current d)), (''power'', VFloat (bd_power d)),
      (''temperature'', VFloat (bd_temperature d)), (''status'', VStr (bd_status d)),
      (''time_to_go'', case bd_time_to_go d of None \<Rightarrow> VNone | Some t \<Rightarrow> VInt t)]"

definition get_battery_soc :: "read_env \<Rightarrow> battery_data res \<Rightarrow> int \<Rightarrow> reading res" where
  "get_battery_soc env data inst =
     read_tool env BATTERY_PATHS [''battery''] Inr (bind_res data (\<lambda>d. Inr (battery_reading inst d))) inst"

definition pv_reading :: "int \<Rightarrow> pv_data \<Rightarrow> reading" where
  "pv_reading inst d =
     [(''instance'', VInt inst), (''power'', VFloat (pd_power d)), (''voltage'', VFloat (pd_voltage d)),
      (''current'', VFloat (pd_current d)), (''yield_today'', VFloat (pd_yield_today d)),
      (''yield_total'', VFloat (pd_yield_total d))]"

definition get_pv_power :: "read_env \<Rightarrow> pv_data res \<Rightarrow> int \<Rightarrow> reading res" where
  "get_pv_power env data inst =
     read_tool env PV_PATHS [''solarcharger'', ''pvinverter''] pv_vxi_fallback
       (bind_res data (\<lambda>d. Inr (pv_reading inst d))) inst"

definition grid_reading :: "int \<Rightarrow> grid_data \<Rightarrow> reading" where
  "grid_reading inst d =
     [(''instance'', VInt inst), (''power'', VFloat (gd_power d)), (''voltage'', VFloat (gd_voltage d)),
      (''current'', VFloat (gd_current d)), (''frequency'', VFloat (gd_frequency d)),
      (''status'', VStr (gd_status d))]"

definition get_grid_status :: "read_env \<Rightarrow> grid_data res \<Rightarrow> int \<Rightarrow> reading res" where
  "get_grid_status env data inst =
     read_tool env GRID_PATHS [''grid''] Inr (bind_res data (\<lambda>d. Inr (grid_reading inst d))) inst"

definition inverter_reading :: "int \<Rightarrow> inverter_data \<Rightarrow> reading" where
  "inverter_reading inst d =
     [(''instance'', VInt inst), (''mode'', VStr (id_mode d)), (''state'', VStr (id_state d)),
      (''ac_power_out'', VFloat (id_ac_power_out d)), (''ac_power_in'', VFloat (id_ac_power_in d)),
      (''dc_power'', VFloat (id_dc_power d)), (''temperature'', VFloat (id_temperature d))]"

definition get_inverter_status ::
  "(pyval \<Rightarrow> string) \<Rightarrow> read_env \<Rightarrow> inverter_data res \<Rightarrow> int \<Rightarrow> reading res" where
  "get_inverter_status to_str env data inst =
     read_tool env INVERTER_PATHS [''vebus''] (decode_vebus_enums to_str)
       (bind_res data (\<lambda>d. Inr (inverter_reading inst d))) inst"

subsection \<open>Companion services\<close>

definition get_control_state :: "mqtt_client \<Rightarrow> pyfloat \<Rightarrow> reading" where
  "get_control_state s now =
     (case map_of (mq_cache s) ''inverter/state'' of
        None \<Rightarrow> [(''success'', VBool False), (''error'', VStr ''inverter/state not received'')]
      | Some (payload, received_at) \<Rightarrow>
          (let age = float_sub now received_at
           in [(''success'', VBool True), (''state'', payload),
               (''stale'', VBool (float_lt (stale_after_seconds (mq_config s)) age)),
               (''age_seconds'', VFloat (float_round 1 age))]))"

text \<open>The instance a tank topic names; only the canonical spelling is the key that is read back.\<close>

definition tank_instance :: "string \<Rightarrow> int option" where
  "tank_instance topic =
     (case split_on (CHR ''/'') topic of
        [a, identifier, b] \<Rightarrow>
          if a \<noteq> ''tank'' \<or> b \<noteq> ''Level'' \<or> \<not> isascii identifier \<or> \<not> isdecimal identifier then None
          else (case int_of_str identifier of
                  None \<Rightarrow> None
                | Some n \<Rightarrow> if str_of_int n = identifier then Some n else None)
      | _ \<Rightarrow> None)"

definition tank_targets :: "mqtt_client \<Rightarrow> int \<Rightarrow> int list" where
  "tank_targets s inst =
     (if 0 < inst then [inst]
      else sorted_list_of_set (set (List.map_filter tank_instance (map fst (mq_cache s)))))"

definition tank_topic :: "int \<Rightarrow> string" where
  "tank_topic inst = ''tank/'' @ str_of_int inst @ ''/Level''"

definition tank_reading :: "mqtt_client \<Rightarrow> pyfloat \<Rightarrow> int \<Rightarrow> reading" where
  "tank_reading s now inst =
     (case map_of (mq_cache s) (tank_topic inst) of
        None \<Rightarrow> [(''instance'', VInt inst), (''level'', VNone), (''stale'', VBool True)]
      | Some (v, received_at) \<Rightarrow>
          (let age = float_sub now received_at
           in [(''instance'', VInt inst), (''level'', v),
               (''stale'', VBool (float_lt (stale_after_seconds (mq_config s)) age)),
               (''age_seconds'', VFloat (float_round 1 age))]))"

definition get_tank_level :: "mqtt_client \<Rightarrow> pyfloat \<Rightarrow> int \<Rightarrow> reading" where
  "get_tank_level s now inst =
     (case map (tank_reading s now) (tank_targets s inst) of
        [r] \<Rightarrow> (''success'', VBool True) # r
      | rs \<Rightarrow> [(''success'', VBool True), (''readings'', VList (map VDict rs))])"

subsection \<open>Conditional tools\<close>

definition CAPABILITY_TOOLS :: "(string, string list) dict" where
  "CAPABILITY_TOOLS = [(''control'', [''get_control_state'']), (''pump'', [''get_tank_level''])]"

definition SSH_TOOLS :: "string list" where
  "SSH_TOOLS =
     [''cerbo_ssh_available'', ''cerbo_version'', ''cerbo_ip'', ''cerbo_check_updates'', ''cerbo_firmware_update'',
      ''cerbo_enable_ssh'', ''setuphelper_status'', ''setuphelper_install_package'', ''setuphelper_remove_package'',
      ''cerbo_ssh_exec'']"

text \<open>The tools added, the registered capabilities afterwards and the new ones.\<close>

definition apply_capability_tools ::
  "string list \<Rightarrow> bool \<Rightarrow> string set \<Rightarrow> string list \<times> string set \<times> string list" where
  "apply_capability_tools topics ssh_configured registered =
     (let new = detect_capabilities topics - registered;
          tools = concat (map (\<lambda>cap. case map_of CAPABILITY_TOOLS cap of None \<Rightarrow> [] | Some fns \<Rightarrow> fns)
            (sorted_list_of_set new));
          registered' = registered \<union> new
      in if ssh_configured \<and> ''ssh'' \<notin> registered'
         then (tools @ SSH_TOOLS, insert ''ssh'' registered', sorted_list_of_set new)
         else (tools, registered', sorted_list_of_set new))"

definition group_note :: "string set \<Rightarrow> string" where
  "group_note registered =
     (let groups = sorted_list_of_set registered
      in if groups \<noteq> [] then join '', '' groups else ''none beyond core reads yet'')"

subsection \<open>Waiting for the first full publish\<close>

definition MQTT_WARMUP_TIMEOUT_S :: pyfloat where
  "MQTT_WARMUP_TIMEOUT_S = Fin 20"

fun await_topic :: "(nat \<Rightarrow> mqtt_client \<times> pyfloat) \<Rightarrow> string \<Rightarrow> pyfloat \<Rightarrow> nat \<Rightarrow> nat \<Rightarrow> (mqtt_client \<times> bool) option" where
  "await_topic view topic deadline 0 k = None"
| "await_topic view topic deadline (Suc fuel) k =
     (if topic \<in> set (map fst (mq_cache (fst (view k)))) then Some (fst (view k), True)
      else if float_lt deadline (snd (view k)) then Some (fst (view k), False)
      else await_topic view topic deadline fuel (k + 1))"

text \<open>
  \<^verbatim>\<open>_mqtt_ready\<close> after \<^verbatim>\<open>connect\<close>: \<open>connected\<close> is what \<^verbatim>\<open>connect\<close> returned, \<open>started\<close> the time
  the wait begins and \<open>view k\<close> the cache and clock at its \<open>k\<close>-th look.
\<close>

definition mqtt_ready ::
  "unit res \<Rightarrow> mqtt_client \<Rightarrow> pyfloat \<Rightarrow> (nat \<Rightarrow> mqtt_client \<times> pyfloat) \<Rightarrow> nat \<Rightarrow> bool \<Rightarrow> string set \<Rightarrow>
   (string list \<times> string set \<times> string list) res option" where
  "mqtt_ready connection s started view fuel ssh_configured registered =
     (case bind_res connection (\<lambda>_. prefix_of s) of
        Inl e \<Rightarrow> Some (Inl e)
      | Inr pre \<Rightarrow>
          map_option (\<lambda>(s', _). Inr (apply_capability_tools (map fst (mq_cache s')) ssh_configured registered))
            (await_topic view (pre @ ''/full_publish_completed'')
              (float_add started MQTT_WARMUP_TIMEOUT_S) fuel 0))"

definition http_auth :: "server_config \<Rightarrow> (string \<times> string) option" where
  "http_auth cfg =
     (if unset (server_auth_token cfg) then None else Some (the (server_auth_token cfg), ''claude-code''))"

subsection \<open>The stale guard\<close>

text \<open>The ages of the fields that were found, in order, and the value reported for a field.\<close>

definition ages_of :: "first_reader \<Rightarrow> string \<Rightarrow> int \<Rightarrow> field_paths \<Rightarrow> pyfloat list" where
  "ages_of rd device_type inst flds =
     List.map_filter (\<lambda>(field, candidates).
       case rd device_type inst candidates of Inr (Some (v, age)) \<Rightarrow> Some age | _ \<Rightarrow> None) flds"

definition reported :: "(pyval \<times> pyfloat) option res \<Rightarrow> pyval" where
  "reported r = (case r of Inr (Some (v, _)) \<Rightarrow> v | _ \<Rightarrow> VNone)"

lemma collect_fields_eq:
  assumes "collect_fields rd dt i flds out m seen = Inr (out', m', seen')"
  shows "out' = foldl (\<lambda>d (field, candidates). dict_set field (reported (rd dt i candidates)) d) out flds \<and>
    m' = foldl float_max m (ages_of rd dt i flds) \<and> (seen' \<longleftrightarrow> seen \<or> ages_of rd dt i flds \<noteq> [])"
  using assms
proof (induction flds arbitrary: out m seen)
  case Nil
  then show ?case by (simp add: ages_of_def map_filter_simps)
next
  case (Cons f flds)
  obtain field candidates where f: "f = (field, candidates)" by fastforce
  from Cons.prems f obtain r where r: "rd dt i candidates = Inr r" by auto
  show ?case
  proof (cases r)
    case None
    with Cons f r show ?thesis by (simp add: ages_of_def map_filter_simps reported_def)
  next
    case (Some va)
    then have rec: "collect_fields rd dt i flds (dict_set field (fst va) out) (float_max m (snd va)) True = Inr (out', m', seen')"
      using Cons.prems f r by (simp add: case_prod_unfold)
    show ?thesis
      using Cons.IH [OF rec] f r Some by (simp add: ages_of_def map_filter_simps reported_def case_prod_unfold)
  qed
qed

lemma map_of_foldl_set:
  "distinct (map fst kvs) \<Longrightarrow> map_of (foldl (\<lambda>d (k, c). dict_set k (f c) d) out kvs) k =
     (case map_of kvs k of Some c \<Rightarrow> Some (f c) | None \<Rightarrow> map_of out k)"
proof (induction kvs arbitrary: out)
  case (Cons kv kvs)
  obtain a c where kv: "kv = (a, c)" by fastforce
  have "map_of kvs a = None" using Cons.prems kv by (simp add: map_of_eq_None_iff)
  with Cons kv show ?case by (cases "k = a") (simp_all split: option.split)
qed simp

lemma foldl_float_max:
  assumes "list_all isfinite ages"
  shows "\<exists>m'. foldl float_max (Fin m) ages = Fin m' \<and> (\<forall>x. x < m' \<longleftrightarrow> x < m \<or> (\<exists>a. Fin a \<in> set ages \<and> x < a))"
  using assms
proof (induction ages arbitrary: m)
  case (Cons age ages)
  then obtain a where a: "age = Fin a" by (auto simp: isfinite_iff)
  have "float_max (Fin m) (Fin a) = Fin (max m a)" by (simp add: float_max_def max_def)
  with Cons a show ?case by (fastforce simp: less_max_iff_disj)
qed simp

text \<open>
  a reading is marked stale exactly when none of its fields was ever received or the oldest of the
  values it reports is older than the configured limit; a field that was not received is reported as
  null, every other field as the value read for it.
\<close>

lemma reading_stale_iff:
  assumes "collect_mqtt (Fin limit) rd flds device_type inst = Inr reading" "0 \<le> limit"
    and "list_all isfinite (ages_of rd device_type inst flds)"
    and "distinct (map fst flds)" "''stale'' \<notin> fst ` set flds" "''age_seconds'' \<notin> fst ` set flds"
  shows "map_of reading ''stale'' =
      Some (VBool (ages_of rd device_type inst flds = [] \<or> (\<exists>a. Fin a \<in> set (ages_of rd device_type inst flds) \<and> limit < a))) \<and>
    (\<forall>field candidates. map_of flds field = Some candidates \<longrightarrow>
       map_of reading field = Some (reported (rd device_type inst candidates)))"
proof -
  let ?ages = "ages_of rd device_type inst flds"
  from assms(1) obtain out m seen where col: "collect_fields rd device_type inst flds [] (Fin 0) False = Inr (out, m, seen)"
    and rdg: "reading = dict_set ''age_seconds'' (if seen then VFloat (float_round 1 m) else VNone)
       (dict_set ''stale'' (VBool ((seen \<and> float_lt (Fin limit) m) \<or> \<not> seen)) out)"
    by (auto simp: collect_mqtt_def)
  note spec = collect_fields_eq [OF col]
  obtain m' where m': "m = Fin m'" "\<And>x. x < m' \<longleftrightarrow> x < 0 \<or> (\<exists>a. Fin a \<in> set ?ages \<and> x < a)"
    using foldl_float_max [OF assms(3), of 0] spec by auto
  have "map_of reading field = Some (reported (rd device_type inst candidates))"
    if "map_of flds field = Some candidates" for field candidates
  proof -
    have "field \<in> fst ` set flds" using that by (force dest: map_of_SomeD)
    then have "field \<noteq> ''stale''" "field \<noteq> ''age_seconds''" using assms(5,6) by metis+
    then show ?thesis
      using that spec map_of_foldl_set [OF assms(4), of "\<lambda>c. reported (rd device_type inst c)" "[]" field]
      by (simp add: rdg)
  qed
  moreover have "map_of reading ''stale'' = Some (VBool ((seen \<and> float_lt (Fin limit) m) \<or> \<not> seen))"
    by (simp add: rdg)
  moreover have "(seen \<and> float_lt (Fin limit) m) \<or> \<not> seen \<longleftrightarrow> ?ages = [] \<or> (\<exists>a. Fin a \<in> set ?ages \<and> limit < a)"
  proof -
    have "seen \<longleftrightarrow> ?ages \<noteq> []" using spec by simp
    moreover have "float_lt (Fin limit) m \<longleftrightarrow> (\<exists>a. Fin a \<in> set ?ages \<and> limit < a)"
      using assms(2) by (auto simp: m')
    ultimately show ?thesis by auto
  qed
  ultimately show ?thesis by simp
qed

definition example_first_reader :: first_reader where
  "example_first_reader device_type inst candidates =
     (if device_type = ''battery'' \<and> inst = 512 \<and> ''Soc'' \<in> set candidates then Inr (Some (VInt 50, Fin 90)) else Inr None)"

lemma reading_stale_iff_example:
  "\<exists>reading. collect_mqtt (Fin 60) example_first_reader BATTERY_PATHS ''battery'' 512 = Inr reading \<and>
     map_of reading ''stale'' = Some (VBool True) \<and> map_of reading ''soc'' = Some (VInt 50)"
proof -
  have col: "\<exists>reading. collect_mqtt (Fin 60) example_first_reader BATTERY_PATHS ''battery'' 512 = Inr reading"
    by (simp add: collect_mqtt_def BATTERY_PATHS_def example_first_reader_def)
  then obtain reading where r: "collect_mqtt (Fin 60) example_first_reader BATTERY_PATHS ''battery'' 512 = Inr reading" by blast
  have ages: "ages_of example_first_reader ''battery'' 512 BATTERY_PATHS = [Fin 90]"
    by (simp add: ages_of_def map_filter_simps BATTERY_PATHS_def example_first_reader_def)
  have soc: "map_of BATTERY_PATHS ''soc'' = Some [''Soc'']" by (simp add: BATTERY_PATHS_def)
  have names: "distinct (map fst BATTERY_PATHS)" "''stale'' \<notin> fst ` set BATTERY_PATHS" "''age_seconds'' \<notin> fst ` set BATTERY_PATHS"
    by (simp_all add: BATTERY_PATHS_def)
  have "map_of reading ''stale'' = Some (VBool True) \<and> map_of reading ''soc'' = Some (VInt 50)"
    using reading_stale_iff [OF r _ _ names] soc by (simp add: ages reported_def example_first_reader_def)
  with r show ?thesis by blast
qed

subsection \<open>Fanning out\<close>

text \<open>The device a reading is tagged with.\<close>

definition tag_of :: "reading \<Rightarrow> pyval option \<times> pyval option" where
  "tag_of reading = (map_of reading ''device_type'', map_of reading ''instance'')"

definition keeps_tags :: "(reading \<Rightarrow> reading res) \<Rightarrow> bool" where
  "keeps_tags post \<longleftrightarrow> (\<forall>r r'. post r = Inr r' \<longrightarrow> tag_of r' = tag_of r)"

lemma keeps_tags_Inr: "keeps_tags Inr"
  by (simp add: keeps_tags_def)

lemma keeps_tags_pv: "keeps_tags pv_vxi_fallback"
proof -
  have "tag_of r' = tag_of r" if "pv_vxi_fallback r = Inr r'" for r r'
    using that unfolding pv_vxi_fallback_def
    by (auto simp: tag_of_def split: option.splits if_splits sum.splits)
  then show ?thesis by (simp add: keeps_tags_def)
qed

lemma add_name_tags:
  assumes "add_name to_str d field name r = Inr r'" "name \<noteq> ''device_type''" "name \<noteq> ''instance''"
  shows "tag_of r' = tag_of r"
  using assms by (auto simp: add_name_def tag_of_def split: option.splits if_splits)

lemma keeps_tags_enums: "keeps_tags (decode_vebus_enums to_str)"
proof -
  have "tag_of r' = tag_of r" if d: "decode_vebus_enums to_str r = Inr r'" for r r'
  proof -
    from d obtain r1 where r1: "add_name to_str vebus_mode_names ''mode'' ''mode_name'' r = Inr r1"
      "add_name to_str VEBUS_STATES ''state'' ''state_name'' r1 = Inr r'"
      by (auto simp: decode_vebus_enums_def)
    show ?thesis using add_name_tags [OF r1(1)] add_name_tags [OF r1(2)] by simp
  qed
  then show ?thesis by (simp add: keeps_tags_def)
qed

lemma map_of_dict_merge_distinct: "distinct (map fst b) \<Longrightarrow> map_of (dict_merge a b) k =
    (case map_of b k of Some v \<Rightarrow> Some v | None \<Rightarrow> map_of a k)"
  using map_of_foldl_set [of b "\<lambda>v. v" a k] by (simp add: dict_merge_def)

text \<open>A collector whose readings do not use the two tag names.\<close>

definition untagged :: "reading \<Rightarrow> bool" where
  "untagged r \<longleftrightarrow> distinct (map fst r) \<and> ''device_type'' \<notin> fst ` set r \<and> ''instance'' \<notin> fst ` set r"

lemma tag_of_merge:
  "untagged r \<Longrightarrow> tag_of (dict_merge [(''device_type'', VStr dt), (''instance'', VInt i)] r) = (Some (VStr dt), Some (VInt i))"
proof -
  assume r: "untagged r"
  then have "map_of r ''device_type'' = None" "map_of r ''instance'' = None"
    by (simp_all add: untagged_def map_of_eq_None_iff)
  with r show ?thesis by (simp add: tag_of_def untagged_def map_of_dict_merge_distinct)
qed

lemma collect_mqtt_untagged:
  assumes "collect_mqtt limit rd flds dt i = Inr r" "''device_type'' \<notin> fst ` set flds" "''instance'' \<notin> fst ` set flds"
  shows "untagged r"
proof -
  have keys: "distinct (map fst (foldl (\<lambda>d (k, c). dict_set k (f c) d) out kvs)) \<and>
      fst ` set (foldl (\<lambda>d (k, c). dict_set k (f c) d) out kvs) = fst ` set out \<union> fst ` set kvs"
    if "distinct (map fst out)" for f :: "string list \<Rightarrow> pyval" and out kvs
    using that
  proof (induction kvs arbitrary: out)
    case (Cons kv kvs)
    then show ?case using Cons.IH [of "dict_set (fst kv) (f (snd kv)) out"]
      by (simp add: distinct_keys_dict_set case_prod_unfold)
  qed simp
  from assms(1) obtain out m seen x y where col: "collect_fields rd dt i flds [] (Fin 0) False = Inr (out, m, seen)"
    and r: "r = dict_set ''age_seconds'' x (dict_set ''stale'' y out)"
    by (auto simp: collect_mqtt_def)
  from collect_fields_eq [OF col] keys [of "[]" "\<lambda>c. reported (rd dt i c)" flds]
  have "distinct (map fst out)" "fst ` set out = fst ` set flds" by simp_all
  with assms(2,3) show ?thesis
    unfolding untagged_def r by (auto simp: distinct_keys_dict_set)
qed

lemma read_instances_tags:
  assumes "read_instances collect post targets readings tot has = Inr (readings', tot', has')" "keeps_tags post"
    "\<And>dt i r. collect dt i = Inr r \<Longrightarrow> untagged r"
  shows "map tag_of readings' = map tag_of readings @ map (\<lambda>(dt, i). (Some (VStr dt), Some (VInt i))) targets"
  using assms
proof (induction targets arbitrary: readings tot has)
  case (Cons t targets)
  obtain dt i where t: "t = (dt, i)" by fastforce
  from Cons.prems(1) t obtain fields0 reading tot1 has1 where
    c: "collect dt i = Inr fields0"
    and p: "post (dict_merge [(''device_type'', VStr dt), (''instance'', VInt i)] fields0) = Inr reading"
    and rec: "read_instances collect post targets (readings @ [reading]) tot1 has1 = Inr (readings', tot', has')"
    by auto
  have "tag_of reading = (Some (VStr dt), Some (VInt i))"
    using p Cons.prems(2) tag_of_merge [OF Cons.prems(3) [OF c]] by (simp add: keeps_tags_def)
  then show ?case using Cons.IH [OF rec Cons.prems(2,3)] t by simp
qed simp

lemma instance_targets_set:
  "(dt, i) \<in> set (instance_targets devices device_types) \<longleftrightarrow> dt \<in> set device_types \<and> (dt, i) \<in> set devices"
  by (auto simp: instance_targets_def image_iff)

lemma read_all_instances_tags:
  assumes "read_all_instances limit rd devices flds device_types post = Inr out" "keeps_tags post"
    "''device_type'' \<notin> fst ` set flds" "''instance'' \<notin> fst ` set flds"
  shows "\<exists>readings. map_of out ''readings'' = Some (VList (map VDict readings)) \<and>
    map tag_of readings = map (\<lambda>(dt, i). (Some (VStr dt), Some (VInt i))) (instance_targets devices device_types)"
proof -
  from assms(1) obtain readings tot has where
    r: "read_instances (collect_mqtt limit rd flds) post (instance_targets devices device_types) [] (Fin 0) False =
      Inr (readings, tot, has)"
    and out: "map_of out ''readings'' = Some (VList (map VDict readings))"
    by (auto simp: read_all_instances_def)
  show ?thesis
    using read_instances_tags [OF r assms(2)] collect_mqtt_untagged [OF _ assms(3,4)] out by auto
qed

text \<open>
  asked for instance 0, every read tool returns one reading for each discovered device of its
  types, tagged with that device's type and instance, in the order of the types and, within a type,
  of the instances: no device is hidden and none is invented.
\<close>

lemma read_tool_fans_out:
  assumes "use_mqtt (re_server env)" "re_ready env = None" "re_devices env = Inr devices" "inst \<le> 0"
    and "(out, types) \<in> {(get_battery_soc env battery inst, [''battery'']),
      (get_pv_power env pv inst, [''solarcharger'', ''pvinverter'']),
      (get_grid_status env grid inst, [''grid'']),
      (get_inverter_status to_str env inverter inst, [''vebus''])}"
    and "out = Inr reply"
  shows "\<exists>readings targets. map_of reply ''readings'' = Some (VList (map VDict readings)) \<and>
    map tag_of readings = map (\<lambda>(dt, i). (Some (VStr dt), Some (VInt i))) targets \<and>
    targets = concat (map (\<lambda>dt. map (Pair dt) (sort (map snd (filter (\<lambda>d. fst d = dt) devices)))) types) \<and>
    set targets = {d \<in> set devices. fst d \<in> set types}"
proof -
  have names: "''device_type'' \<notin> fst ` set flds \<and> ''instance'' \<notin> fst ` set flds"
    if "flds \<in> {BATTERY_PATHS, PV_PATHS, GRID_PATHS, INVERTER_PATHS}" for flds
    using that by (auto simp: BATTERY_PATHS_def PV_PATHS_def GRID_PATHS_def INVERTER_PATHS_def)
  have fan: "\<exists>readings. map_of reply ''readings'' = Some (VList (map VDict readings)) \<and>
      map tag_of readings = map (\<lambda>(dt, i). (Some (VStr dt), Some (VInt i))) (instance_targets devices types)"
    if "out = read_tool env flds types post dbus inst" "keeps_tags post"
      "flds \<in> {BATTERY_PATHS, PV_PATHS, GRID_PATHS, INVERTER_PATHS}" for flds post dbus
    using read_all_instances_tags [of "re_stale_after env" "re_read env" devices flds types post reply]
      names [OF that(3)] that(1,2) assms(1-4,6) by (simp add: read_tool_def)
  have "\<exists>readings. map_of reply ''readings'' = Some (VList (map VDict readings)) \<and>
      map tag_of readings = map (\<lambda>(dt, i). (Some (VStr dt), Some (VInt i))) (instance_targets devices types)"
  proof -
    have "\<exists>flds post dbus. out = read_tool env flds types post dbus inst \<and> keeps_tags post \<and>
        flds \<in> {BATTERY_PATHS, PV_PATHS, GRID_PATHS, INVERTER_PATHS}"
      using assms(5) keeps_tags_Inr keeps_tags_pv keeps_tags_enums
      unfolding insert_iff prod.inject empty_iff
        get_battery_soc_def get_pv_power_def get_grid_status_def get_inverter_status_def by metis
    then show ?thesis using fan by blast
  qed
  moreover have "instance_targets devices types =
      concat (map (\<lambda>dt. map (Pair dt) (sort (map snd (filter (\<lambda>d. fst d = dt) devices)))) types)"
    by (simp add: instance_targets_def)
  moreover have "set (instance_targets devices types) = {d \<in> set devices. fst d \<in> set types}"
    using instance_targets_set [of _ _ devices types] by auto
  ultimately show ?thesis by metis
qed

definition example_read_env :: read_env where
  "example_read_env = \<lparr>re_server = example_server, re_stale_after = Fin 60, re_read = example_first_reader,
     re_devices = Inr [(''battery'', 512), (''battery'', 7), (''vebus'', 1)], re_ready = None\<rparr>"

lemma read_tool_fans_out_example:
  "\<exists>reply readings. get_battery_soc example_read_env (Inl KeyError) 0 = Inr reply \<and>
     map_of reply ''readings'' = Some (VList (map VDict readings)) \<and>
     map tag_of readings = [(Some (VStr ''battery''), Some (VInt 7)), (Some (VStr ''battery''), Some (VInt 512))]"
proof -
  have "\<exists>reply. get_battery_soc example_read_env (Inl KeyError) 0 = Inr reply"
    by (simp add: get_battery_soc_def read_tool_def example_read_env_def use_mqtt_def example_server_def
      read_all_instances_def instance_targets_def collect_mqtt_def BATTERY_PATHS_def example_first_reader_def
      dict_merge_def add_power_def)
  then obtain reply where r: "get_battery_soc example_read_env (Inl KeyError) 0 = Inr reply" by blast
  have env: "use_mqtt (re_server example_read_env)" "re_ready example_read_env = None"
    "re_devices example_read_env = Inr [(''battery'', 512), (''battery'', 7), (''vebus'', 1)]"
    by (simp_all add: example_read_env_def use_mqtt_def example_server_def)
  from read_tool_fans_out [OF env, of 0 "get_battery_soc example_read_env (Inl KeyError) 0" "[''battery'']" "Inl KeyError"
      "Inl KeyError" "Inl KeyError" "\<lambda>_. []" "Inl KeyError" reply] r
  show ?thesis by auto
qed

subsection \<open>Conditional tools\<close>

lemma apply_capability_tools_registered:
  "fst (snd (apply_capability_tools topics ssh_configured registered)) =
     registered \<union> detect_capabilities topics \<union> (if ssh_configured then {''ssh''} else {})"
  by (auto simp: apply_capability_tools_def Let_def)

text \<open>
  Scanning for companion services is idempotent: a second scan of the same cache registers nothing
  and adds no tool, however often the warm-up runs; and after a scan exactly the services seen so far,
  and the SSH group when credentials are configured, are registered.
\<close>

lemma capability_scan_idempotent:
  "apply_capability_tools topics ssh_configured (fst (snd (apply_capability_tools topics ssh_configured registered))) =
     ([], registered \<union> detect_capabilities topics \<union> (if ssh_configured then {''ssh''} else {}), [])"
proof -
  let ?all = "registered \<union> detect_capabilities topics \<union> (if ssh_configured then {''ssh''} else {})"
  have none: "detect_capabilities topics - ?all = {}" by auto
  have "apply_capability_tools topics ssh_configured ?all = ([], ?all, [])"
    unfolding apply_capability_tools_def none Let_def by auto
  then show ?thesis unfolding apply_capability_tools_registered .
qed

lemma await_topic_returns:
  "float_lt deadline (snd (view K)) \<Longrightarrow> k \<le> K \<Longrightarrow> K < k + fuel \<Longrightarrow> await_topic view topic deadline fuel k \<noteq> None"
proof (induction fuel arbitrary: k)
  case (Suc fuel)
  then show ?case by (cases "k = K") auto
qed simp

text \<open>
  the warm-up never hangs: once the monotonic clock has passed the twenty-second deadline, the wait
  for the gateway's full publish has ended, and the tools that can be offered have been registered.
\<close>

lemma warm_up_ends:
  assumes "float_lt (float_add started (Fin 20)) (snd (view K))" "K < fuel"
  shows "mqtt_ready connection s started view fuel ssh_configured registered \<noteq> None"
  using await_topic_returns [of "float_add started (Fin 20)" view K 0 fuel] assms
  by (auto simp: mqtt_ready_def MQTT_WARMUP_TIMEOUT_S_def split: sum.split)

lemma warm_up_ends_example:
  "mqtt_ready (Inr ()) example_cached (Fin 1) (\<lambda>_. (example_cached, Fin 22)) 1 False {} \<noteq> None"
  by (rule warm_up_ends [of _ _ 0]) (use fl_of_int [of 21] in simp_all)

subsection \<open>Tanks\<close>

lemma tank_instance_topic: "tank_instance topic = Some n \<Longrightarrow> topic = tank_topic n"
proof -
  assume "tank_instance topic = Some n"
  then obtain ident where "split_on (CHR ''/'') topic = [''tank'', ident, ''Level'']" "str_of_int n = ident"
    by (auto simp: tank_instance_def split: list.splits if_splits option.splits)
  then show ?thesis using join_split_on [of "CHR ''/''" topic] by (simp add: tank_topic_def join_Cons)
qed

text \<open>
  every tank that discovery selects is read back under its own cache key: the level reported for
  it is the cached one, never a null placeholder.
\<close>

lemma discovered_tanks_have_levels:
  assumes "inst \<le> 0" "n \<in> set (tank_targets s inst)"
  shows "\<exists>v t. map_of (mq_cache s) (tank_topic n) = Some (v, t) \<and>
    map_of (tank_reading s now n) ''level'' = Some v"
proof -
  from assms have "n \<in> set (List.map_filter tank_instance (map fst (mq_cache s)))"
    by (simp add: tank_targets_def)
  then obtain topic where "topic \<in> fst ` set (mq_cache s)" "tank_instance topic = Some n"
    by (force simp: map_filter_def)
  then have "tank_topic n \<in> fst ` set (mq_cache s)" using tank_instance_topic by simp
  then obtain v t where "map_of (mq_cache s) (tank_topic n) = Some (v, t)"
    by (metis map_of_eq_None_iff option.exhaust surj_pair)
  then show ?thesis by (simp add: tank_reading_def Let_def)
qed

lemma discovered_tanks_have_levels_example:
  "\<exists>v t. map_of (mq_cache (example_cached\<lparr>mq_cache := [(''tank/20/Level'', VInt 80, Fin 1)]\<rparr>)) (tank_topic 20) = Some (v, t)"
proof -
  have "tank_instance ''tank/20/Level'' = Some 20" by code_simp
  then have "20 \<in> set (tank_targets (example_cached\<lparr>mq_cache := [(''tank/20/Level'', VInt 80, Fin 1)]\<rparr>) 0)"
    by (simp add: tank_targets_def map_filter_simps)
  from discovered_tanks_have_levels [OF order_refl this, of "Fin 0"] show ?thesis by blast
qed

end
