(* ===== verification/Server_App.thy ===== *)
theory Server_App
  imports Server_Ssh Server_Read
begin

section \<open>The server process\<close>

text \<open>
  What is left of \<^verbatim>\<open>src/mcp_venus_os/server.py\<close> and \<^verbatim>\<open>__main__.py\<close>: the clients the process shares, its
  start and shutdown, the tools that list devices and connect to the broker, and the choice of the
  transport.  The shared clients are the record \<open>globals\<close>; each is made on first use.
\<close>

subsection \<open>Shared clients\<close>

record globals =
  gl_dbus :: "dbus_client option"
  gl_mqtt :: "mqtt_client option"
  gl_ssh :: "ssh_state option"

definition no_clients :: globals where
  "no_clients = \<lparr>gl_dbus = None, gl_mqtt = None, gl_ssh = None\<rparr>"

definition get_dbus_client :: "server_config \<Rightarrow> globals \<Rightarrow> globals \<times> dbus_client" where
  "get_dbus_client cfg g =
     (case gl_dbus g of
        None \<Rightarrow> let c = init_dbus (dbus cfg) in (g\<lparr>gl_dbus := Some c\<rparr>, c)
      | Some c \<Rightarrow> (g, c))"

definition get_mqtt_client :: "server_config \<Rightarrow> globals \<Rightarrow> globals \<times> mqtt_client" where
  "get_mqtt_client cfg g =
     (case gl_mqtt g of
        None \<Rightarrow> let c = init_client (mqtt cfg) (hardware_write_contracts (safety cfg)) in (g\<lparr>gl_mqtt := Some c\<rparr>, c)
      | Some c \<Rightarrow> (g, c))"

subsection \<open>Start and shutdown\<close>

text \<open>
  How the bounded warm-up ends: it is ready, an exception leaves it (the timeout is one), or the task
  is cancelled.  A cancellation goes through both handlers, everything else is swallowed.
\<close>

datatype warmup = Warm | Warmup_raised py_exc | Warmup_timeout | Warmup_cancelled

datatype startup = Serving | Cancelled

definition startup_warmup :: "warmup \<Rightarrow> startup" where
  "startup_warmup w = (case w of Warmup_cancelled \<Rightarrow> Cancelled | _ \<Rightarrow> Serving)"

definition lifespan_start :: "server_config \<Rightarrow> warmup \<Rightarrow> startup" where
  "lifespan_start cfg w = (if transport_backend cfg \<noteq> ''dbus'' then startup_warmup w else Serving)"

text \<open>\<open>joined\<close> is what the other threads do until the joins return, as for \<^verbatim>\<open>disconnect\<close>.\<close>

definition lifespan_stop :: "(mqtt_client \<Rightarrow> mqtt_client) \<Rightarrow> globals \<Rightarrow> globals \<times> action list \<times> ssh_event list" where
  "lifespan_stop joined g =
     (let g1 = g\<lparr>gl_dbus := map_option dbus_disconnect (gl_dbus g)\<rparr>;
          (g2, sent) = (case gl_mqtt g1 of
                          None \<Rightarrow> (g1, [])
                        | Some c \<Rightarrow> (case disconnect joined c of (c', acts) \<Rightarrow> (g1\<lparr>gl_mqtt := Some c'\<rparr>, acts)));
          (shared, closed) = close_ssh_client (gl_ssh g2)
      in (g2\<lparr>gl_ssh := shared\<rparr>, sent, closed))"

subsection \<open>Tools\<close>

text \<open>
  \<open>ready\<close> is the outcome of \<^verbatim>\<open>_mqtt_ready\<close> with the client it returns; the two clients list the
  devices with different entries.
\<close>

datatype device_list = Mqtt_devices "(string \<times> int) list" | Dbus_devices "dbus_device list"

definition list_devices_tool ::
  "server_config \<Rightarrow> mqtt_client res \<Rightarrow> (bool \<Rightarrow> nat res) \<Rightarrow> string list dbus_reply \<Rightarrow> globals \<Rightarrow> device_list res" where
  "list_devices_tool cfg ready open_bus names g =
     (if use_mqtt cfg then bind_res ready (\<lambda>c. map_sum id Mqtt_devices (list_devices c))
      else map_sum id Dbus_devices (dbus_list_devices open_bus names (snd (get_dbus_client cfg g))))"

definition mqtt_connect_tool :: "(py_exc \<Rightarrow> string) \<Rightarrow> unit res \<Rightarrow> reply" where
  "mqtt_connect_tool text outcome =
     (case outcome of
        Inl e \<Rightarrow> [(''success'', VBool False), (''error'', VStr (text e))]
      | Inr _ \<Rightarrow> [(''success'', VBool True), (''connected'', VBool True)])"

definition mqtt_disconnect_tool :: "(mqtt_client \<Rightarrow> mqtt_client) \<Rightarrow> mqtt_client \<Rightarrow> mqtt_client \<times> action list \<times> reply" where
  "mqtt_disconnect_tool joined c =
     (case disconnect joined c of (c', acts) \<Rightarrow> (c', acts, [(''success'', VBool True), (''connected'', VBool False)]))"

definition mqtt_subscribe_tool :: "string \<Rightarrow> reply" where
  "mqtt_subscribe_tool topic_pattern =
     [(''success'', VBool False), (''error'', VStr ''unsupported''),
      (''message'', VStr ''MQTT subscribe not yet implemented'')]"

subsection \<open>The entry point\<close>

datatype serve = Http string int | Stdio

definition run_server :: "server_config \<Rightarrow> string option \<Rightarrow> serve" where
  "run_server cfg arg =
     (let chosen = (if unset arg then server_transport cfg else the arg)
      in if chosen = ''http'' then Http (server_host cfg) (server_port cfg) else Stdio)"

subsection \<open>Shutdown leaves nothing connected\<close>

lemma stop_transport_closed:
  assumes "disconnect joined c = (c', acts)"
    and "\<And>s. mq_connected (joined s) = mq_connected s"
  shows "\<not> mq_connected c'"
  using assms
  by (auto simp: disconnect_def stop_transport_def begin_stop_def finish_stop_def release_exited_def Let_def
    split: if_splits)

end
