(* ===== verification/Tls_Policy.thy ===== *)
theory Tls_Policy
  imports Py_Str
begin

section \<open>Key policy of the MQTT transport\<close>

text \<open>
  Model of \<^verbatim>\<open>src/mcp_venus_os/tls_policy.py\<close>: the check of the verified certificate chain that a TLS
  socket makes at the end of its handshake, and the context that makes such sockets.  Byte strings are
  strings of 8-bit characters.  How a certificate is parsed, what the negotiation of the runtime ends
  with and which chain it exposes are parameters (\<open>load_cert\<close>, \<open>tls_socket\<close>); decoding a PEM text is
  the standard library's and is modelled.
\<close>

subsection \<open>Exceptions and certificates\<close>

datatype tls_exc = SSLError string | WantRead | WantWrite | TlsValueError string | OtherError string

datatype cert_key = RSA_key nat | EC_key nat | DSA_key nat nat | Ed25519_key | Ed448_key | Unknown_key

fun bit_length :: "nat \<Rightarrow> nat" where
  "bit_length n = (if n = 0 then 0 else Suc (bit_length (n div 2)))"

declare bit_length.simps [simp del]

definition certificate_key_ok :: "(string \<Rightarrow> cert_key option) \<Rightarrow> string \<Rightarrow> tls_exc + bool" where
  "certificate_key_ok load_cert der =
     (case load_cert der of
        None \<Rightarrow> Inl (SSLError ''TLS certificate uses an unsupported public key'')
      | Some (RSA_key n) \<Rightarrow> Inr (2048 \<le> bit_length n)
      | Some (EC_key key_size) \<Rightarrow> Inr (224 \<le> key_size)
      | Some (DSA_key p q) \<Rightarrow> Inr (2048 \<le> bit_length p \<and> 224 \<le> bit_length q)
      | Some Ed25519_key \<Rightarrow> Inr True
      | Some Ed448_key \<Rightarrow> Inr True
      | Some Unknown_key \<Rightarrow> Inr False)"

subsection \<open>PEM texts\<close>

definition base64_value :: "char \<Rightarrow> nat option" where
  "base64_value c =
     (let n = code c
      in if 65 \<le> n \<and> n \<le> 90 then Some (n - 65)
         else if 97 \<le> n \<and> n \<le> 122 then Some (n - 71)
         else if 48 \<le> n \<and> n \<le> 57 then Some (n + 4)
         else if n = 43 then Some 62
         else if n = 47 then Some 63
         else None)"

text \<open>
  \<^verbatim>\<open>binascii.a2b_base64\<close> without strict mode: characters outside the alphabet are skipped, and padding
  that completes a group ends the input.  \<open>quad\<close> is the position in the group, \<open>left\<close> the bits kept.
\<close>

fun a2b_base64 :: "nat \<Rightarrow> nat \<Rightarrow> nat \<Rightarrow> string \<Rightarrow> tls_exc + string" where
  "a2b_base64 quad pads left [] =
     (if quad = 0 then Inr []
      else if quad = 1 then Inl (TlsValueError ''number of data characters cannot be 1 more than a multiple of 4'')
      else Inl (TlsValueError ''Incorrect padding''))"
| "a2b_base64 quad pads left (c # cs) =
     (if c = CHR ''='' then
        (if 2 \<le> quad \<and> 4 \<le> quad + Suc pads then Inr []
         else a2b_base64 quad (if 2 \<le> quad then Suc pads else pads) left cs)
      else case base64_value c of
        None \<Rightarrow> a2b_base64 quad pads left cs
      | Some v \<Rightarrow>
          if quad = 0 then a2b_base64 1 0 v cs
          else if quad = 1 then map_sum id (Cons (char_of (left * 4 + v div 16))) (a2b_base64 2 0 (v mod 16) cs)
          else if quad = 2 then map_sum id (Cons (char_of (left * 16 + v div 4))) (a2b_base64 3 0 (v mod 4) cs)
          else map_sum id (Cons (char_of (left * 64 + v))) (a2b_base64 0 0 0 cs))"

definition PEM_HEADER :: string where
  "PEM_HEADER = ''-----BEGIN CERTIFICATE-----''"

definition PEM_FOOTER :: string where
  "PEM_FOOTER = ''-----END CERTIFICATE-----''"

definition PEM_cert_to_DER_cert :: "string \<Rightarrow> tls_exc + string" where
  "PEM_cert_to_DER_cert pem =
     (if \<not> startswith pem PEM_HEADER then Inl (TlsValueError ''Invalid PEM encoding; must start with header'')
      else if \<not> endswith (strip pem) PEM_FOOTER then Inl (TlsValueError ''Invalid PEM encoding; must end with footer'')
      else let body = take (length (strip pem) - length PEM_FOOTER - length PEM_HEADER) (drop (length PEM_HEADER) (strip pem))
           in if \<not> isascii body then Inl (TlsValueError ''ordinal not in range(128)'')
              else a2b_base64 0 0 0 body)"

subsection \<open>The verified chain\<close>

text \<open>
  An item of the chain is a byte string or an object; \<open>Cert_object\<close> carries what its \<^verbatim>\<open>public_bytes\<close>
  returns, \<open>None\<close> when there is no such method or it does not return a text.  The accessor of the chain
  is missing (\<open>None\<close>), raises, or returns a list or something else (\<open>Inr None\<close>).
\<close>

datatype chain_item = Der string | Cert_object "string option"

type_synonym chain_accessor = "(tls_exc + chain_item list option) option"

record tls_socket =
  ts_handshake :: "tls_exc + unit"
  ts_get_verified_chain :: chain_accessor
  ts_sslobj_chain :: chain_accessor
  ts_closed :: bool

definition certificate_der :: "chain_item \<Rightarrow> tls_exc + string" where
  "certificate_der item =
     (case item of
        Der bytes \<Rightarrow> Inr bytes
      | Cert_object None \<Rightarrow> Inl (SSLError ''TLS runtime returned an unsupported certificate format'')
      | Cert_object (Some pem) \<Rightarrow> PEM_cert_to_DER_cert pem)"

fun check_items :: "(string \<Rightarrow> cert_key option) \<Rightarrow> chain_item list \<Rightarrow> tls_exc + unit" where
  "check_items load_cert [] = Inr ()"
| "check_items load_cert (item # items) =
     (case certificate_der item of
        Inl e \<Rightarrow> Inl e
      | Inr der \<Rightarrow>
          (case certificate_key_ok load_cert der of
             Inl e \<Rightarrow> Inl e
           | Inr ok \<Rightarrow>
               if \<not> ok then Inl (SSLError ''TLS certificate key is below the supported security minimum'')
               else check_items load_cert items))"

definition check_verified_keys :: "(string \<Rightarrow> cert_key option) \<Rightarrow> tls_socket \<Rightarrow> tls_exc + unit" where
  "check_verified_keys load_cert sock =
     (case (case ts_get_verified_chain sock of None \<Rightarrow> ts_sslobj_chain sock | Some g \<Rightarrow> Some g) of
        None \<Rightarrow> Inl (SSLError ''TLS runtime does not expose its verified certificate chain'')
      | Some (Inl e) \<Rightarrow> Inl e
      | Some (Inr chain) \<Rightarrow>
          if chain = None \<or> chain = Some [] then Inl (SSLError ''TLS peer has no verified certificate chain'')
          else check_items load_cert (the chain))"

definition do_handshake :: "(string \<Rightarrow> cert_key option) \<Rightarrow> tls_socket \<Rightarrow> tls_socket \<times> (tls_exc + unit)" where
  "do_handshake load_cert sock =
     (case (case ts_handshake sock of Inl e \<Rightarrow> Inl e | Inr _ \<Rightarrow> check_verified_keys load_cert sock) of
        Inr u \<Rightarrow> (sock, Inr u)
      | Inl WantRead \<Rightarrow> (sock, Inl WantRead)
      | Inl WantWrite \<Rightarrow> (sock, Inl WantWrite)
      | Inl e \<Rightarrow> (sock\<lparr>ts_closed := True\<rparr>, Inl e))"

subsection \<open>The context\<close>

record tls_context =
  cx_cert_required :: bool
  cx_check_hostname :: bool
  cx_minimum_version :: int
  cx_security_level :: int
  cx_ciphers :: "(string \<times> string) list"
  cx_set_ciphers :: "string option"
  cx_verified_sockets :: bool

definition TLSv1_2 :: int where
  "TLSv1_2 = 771"

definition enforce_peer_key_policy :: "tls_context \<Rightarrow> tls_exc + tls_context" where
  "enforce_peer_key_policy ctx =
     (if \<not> cx_cert_required ctx \<or> \<not> cx_check_hostname ctx
      then Inl (TlsValueError ''TLS context must verify certificates and hostnames'')
      else let ctx = ctx\<lparr>cx_minimum_version := max (cx_minimum_version ctx) TLSv1_2\<rparr>;
               ctx = (if cx_security_level ctx < 2
                      then ctx\<lparr>cx_set_ciphers := Some (join '':''
                        (map fst (filter (\<lambda>cipher. snd cipher \<noteq> ''TLSv1.3'') (cx_ciphers ctx)) @ [''@SECLEVEL=2'']))\<rparr>
                      else ctx)
           in Inr (ctx\<lparr>cx_verified_sockets := True\<rparr>))"

text \<open>\<open>fresh\<close> is a new context; one for TLS clients verifies certificates and host names.\<close>

definition mqtt_context :: "tls_context \<Rightarrow> tls_exc + tls_context" where
  "mqtt_context fresh = enforce_peer_key_policy (fresh\<lparr>cx_cert_required := True, cx_check_hostname := True\<rparr>)"

subsection \<open>Properties\<close>

lemma bit_length_le_iff: "Suc k \<le> bit_length n \<longleftrightarrow> 2 ^ k \<le> n"
proof (induction n arbitrary: k rule: bit_length.induct)
  case (1 n)
  show ?case
  proof (cases k)
    case 0
    then show ?thesis by (simp add: bit_length.simps [of n])
  next
    case (Suc j)
    then show ?thesis
      using 1 [of j] by (cases "n = 0")
        (simp_all add: bit_length.simps [of n] bit_length.simps [of 0] less_eq_div_iff_mult_less_eq mult.commute)
  qed
qed

text \<open>A key that is strong enough, in terms of its numbers.\<close>

fun cert_key_strong :: "cert_key \<Rightarrow> bool" where
  "cert_key_strong (RSA_key n) = (2 ^ 2047 \<le> n)"
| "cert_key_strong (EC_key key_size) = (224 \<le> key_size)"
| "cert_key_strong (DSA_key p q) = (2 ^ 2047 \<le> p \<and> 2 ^ 223 \<le> q)"
| "cert_key_strong Ed25519_key = True"
| "cert_key_strong Ed448_key = True"
| "cert_key_strong Unknown_key = False"

definition item_strong :: "(string \<Rightarrow> cert_key option) \<Rightarrow> chain_item \<Rightarrow> bool" where
  "item_strong load_cert item \<longleftrightarrow>
     (\<exists>der key. certificate_der item = Inr der \<and> load_cert der = Some key \<and> cert_key_strong key)"

lemma certificate_key_ok_iff:
  "certificate_key_ok load_cert der = Inr True \<longleftrightarrow> (\<exists>key. load_cert der = Some key \<and> cert_key_strong key)"
proof -
  have "2048 \<le> bit_length n \<longleftrightarrow> 2 ^ 2047 \<le> n" "224 \<le> bit_length n \<longleftrightarrow> 2 ^ 223 \<le> n" for n
    using bit_length_le_iff [of 2047 n] bit_length_le_iff [of 223 n] by simp_all
  then show ?thesis
    by (auto simp: certificate_key_ok_def split: option.split cert_key.split)
qed

lemma check_items_iff: "check_items load_cert items = Inr () \<longleftrightarrow> list_all (item_strong load_cert) items"
proof (induction items)
  case (Cons item items)
  have "item_strong load_cert item \<longleftrightarrow>
      (\<exists>der. certificate_der item = Inr der \<and> certificate_key_ok load_cert der = Inr True)"
    by (auto simp: item_strong_def certificate_key_ok_iff)
  then show ?case using Cons by (auto split: sum.splits)
qed simp

text \<open>
  C33: the handshake of an MQTT socket returns exactly when the negotiation has finished and the runtime
  exposes a nonempty verified chain, every certificate of which parses to a key of at least the
  required strength (an RSA modulus of 2048 bits, a curve of 224 bits, DSA parameters of 2048 and 224
  bits, or an Edwards key); otherwise it raises, and unless the negotiation is still waiting for the
  network the socket is closed.
\<close>

theorem handshake_accepts_iff:
  "(let (sock', r) = do_handshake load_cert sock in
     (r = Inr () \<longleftrightarrow>
        ts_handshake sock = Inr () \<and>
        (\<exists>chain. (case ts_get_verified_chain sock of None \<Rightarrow> ts_sslobj_chain sock | Some g \<Rightarrow> Some g) =
             Some (Inr (Some chain)) \<and> chain \<noteq> [] \<and> list_all (item_strong load_cert) chain)) \<and>
     (if r \<in> {Inr (), Inl WantRead, Inl WantWrite} then sock' = sock else ts_closed sock'))"
proof -
  define acc where "acc = (case ts_get_verified_chain sock of None \<Rightarrow> ts_sslobj_chain sock | Some g \<Rightarrow> Some g)"
  have chk: "check_verified_keys load_cert sock = Inr () \<longleftrightarrow>
      (\<exists>chain. acc = Some (Inr (Some chain)) \<and> chain \<noteq> [] \<and> list_all (item_strong load_cert) chain)"
    unfolding check_verified_keys_def acc_def [symmetric]
    by (auto simp: check_items_iff split: option.split sum.split)
  show ?thesis
    unfolding acc_def [symmetric] chk [symmetric] do_handshake_def
    by (cases "ts_handshake sock"; cases "check_verified_keys load_cert sock")
      (auto simp: Let_def split: tls_exc.split)
qed

lemma mqtt_context_policy:
  assumes "mqtt_context fresh = Inr ctx"
  shows "cx_cert_required ctx" "cx_check_hostname ctx" "TLSv1_2 \<le> cx_minimum_version ctx" "cx_verified_sockets ctx"
    "cx_security_level fresh < 2 \<Longrightarrow>
       (\<exists>s. cx_set_ciphers ctx = Some s \<and> endswith s ''@SECLEVEL=2'')"
proof -
  have "endswith (join '':'' (xs @ [x])) x" for xs x
  proof (induction xs)
    case (Cons a xs)
    then show ?case by (cases "xs @ [x]") (auto simp: endswith_iff)
  qed (simp add: endswith_iff)
  with assms show "cx_cert_required ctx" "cx_check_hostname ctx" "TLSv1_2 \<le> cx_minimum_version ctx" "cx_verified_sockets ctx"
    "cx_security_level fresh < 2 \<Longrightarrow> (\<exists>s. cx_set_ciphers ctx = Some s \<and> endswith s ''@SECLEVEL=2'')"
    by (auto simp: mqtt_context_def enforce_peer_key_policy_def Let_def split: if_splits)
qed

end
