(* ===== verification/Socket_Diagnostics.thy ===== *)
theory Socket_Diagnostics
  imports Py_Value "HOL-Library.Word"
begin

unbundle bit_operations_syntax

section \<open>Socket diagnostics\<close>

text \<open>
  Model of \<^verbatim>\<open>src/mcp_venus_os/socket_diagnostics.py\<close>: a snapshot of the kernel's view of the MQTT socket.
  Bytes are 8-bit words and the fields of \<^verbatim>\<open>struct tcp_info\<close> 32-bit words in the byte order of the machine.
  What the socket and the kernel answer is the record \<open>sock_env\<close>: a call raises (\<open>Inl\<close>), or returns a
  byte string or another object (\<open>Inr None\<close>).
\<close>

type_synonym bytes = "8 word list"
type_synonym sample = "(string, pyval) dict"

record sock_env =
  sk_linux :: bool
  sk_little_endian :: bool
  sk_has_tcp_info :: bool
  sk_has_fcntl :: bool
  sk_FIONREAD :: "nat option"
  sk_TIOCOUTQ :: "nat option"
  sk_fileno :: "unit + pyval"
  sk_getsockopt :: "nat \<Rightarrow> unit + bytes option"
  sk_ioctl :: "nat \<Rightarrow> bytes \<Rightarrow> unit + bytes option"

definition TCP_INFO_SIZE :: nat where
  "TCP_INFO_SIZE = 104"

definition BYTE_FIELDS :: "string list" where
  "BYTE_FIELDS = [''state'', ''ca_state'', ''retransmits'', ''probes'', ''backoff'']"

definition U32_FIELDS :: "(string, nat) dict" where
  "U32_FIELDS =
     [(''rto_us'', 8), (''unacked'', 24), (''lost'', 32), (''retrans'', 36), (''last_data_sent_ms'', 44),
      (''last_data_recv_ms'', 52), (''last_ack_recv_ms'', 56), (''rtt_us'', 68), (''rttvar_us'', 72),
      (''snd_cwnd'', 80), (''total_retrans'', 100)]"

text \<open>Four bytes as one 32-bit word, and \<^verbatim>\<open>struct.pack\<close> of the zero argument of the ioctl.\<close>

definition unpack32 :: "bool \<Rightarrow> bytes \<Rightarrow> 32 word" where
  "unpack32 little raw = foldl (\<lambda>acc b. push_bit 8 acc OR ucast b) 0 (if little then rev raw else raw)"

definition unpack_from :: "bool \<Rightarrow> bytes \<Rightarrow> nat \<Rightarrow> 32 word" where
  "unpack_from little raw offset = unpack32 little (take 4 (drop offset raw))"

definition tcp_info :: "sock_env \<Rightarrow> sample" where
  "tcp_info env =
     (if \<not> sk_has_tcp_info env then [(''tcp_info_status'', VStr ''unsupported'')]
      else case sk_getsockopt env TCP_INFO_SIZE of
        Inl _ \<Rightarrow> [(''tcp_info_status'', VStr ''unavailable'')]
      | Inr None \<Rightarrow> [(''tcp_info_status'', VStr ''unavailable'')]
      | Inr (Some raw) \<Rightarrow>
          if length raw < TCP_INFO_SIZE then [(''tcp_info_status'', VStr ''short'')]
          else dict_merge
            (dict_merge [(''tcp_info_status'', VStr ''ok'')]
              (map (\<lambda>(offset, name). (name, VInt (uint (raw ! offset)))) (enumerate 0 BYTE_FIELDS)))
            (map (\<lambda>(name, offset). (name, VInt (uint (unpack_from (sk_little_endian env) raw offset)))) U32_FIELDS))"

definition queue :: "sock_env \<Rightarrow> nat option \<Rightarrow> string \<Rightarrow> sample" where
  "queue env request name =
     (let status = name @ ''_status''
      in if \<not> sk_has_fcntl env then [(status, VStr ''unsupported'')]
         else case request of
           None \<Rightarrow> [(status, VStr ''unsupported'')]
         | Some req \<Rightarrow>
             (case sk_ioctl env req [0, 0, 0, 0] of
                Inl _ \<Rightarrow> [(status, VStr ''unavailable'')]
              | Inr None \<Rightarrow> [(status, VStr ''unavailable'')]
              | Inr (Some raw) \<Rightarrow>
                  if length raw \<noteq> 4 then [(status, VStr ''unavailable'')]
                  else let n = sint (unpack32 (sk_little_endian env) raw)
                       in if n < 0 then [(status, VStr ''unavailable'')]
                          else [(status, VStr ''ok''), (name @ ''_bytes'', VInt n)]))"

definition sample_socket :: "sock_env option \<Rightarrow> sample" where
  "sample_socket sock =
     (case sock of
        None \<Rightarrow> [(''status'', VStr ''no_socket'')]
      | Some env \<Rightarrow>
          if \<not> sk_linux env then [(''status'', VStr ''unsupported'')]
          else case sk_fileno env of
            Inl _ \<Rightarrow> [(''status'', VStr ''unavailable'')]
          | Inr (VInt descriptor) \<Rightarrow>
              if descriptor < 0 then [(''status'', VStr ''closed'')]
              else
                (let result = tcp_info env;
                     result = dict_merge result (queue env (sk_FIONREAD env) ''recv_queue'');
                     result = dict_merge result (queue env (sk_TIOCOUTQ env) ''send_queue'');
                     statuses = map (map_of result) [''tcp_info_status'', ''recv_queue_status'', ''send_queue_status'']
                 in dict_set ''status''
                      (VStr (if list_all (\<lambda>s. s = Some (VStr ''ok'')) statuses then ''ok'' else ''partial'')) result)
          | Inr _ \<Rightarrow> [(''status'', VStr ''unavailable'')])"

subsection \<open>Properties\<close>

definition STATUS_KEYS :: "string list" where
  "STATUS_KEYS = [''tcp_info_status'', ''recv_queue_status'', ''send_queue_status'', ''status'']"

definition MEASUREMENTS :: "string list" where
  "MEASUREMENTS = BYTE_FIELDS @ map fst U32_FIELDS @ [''recv_queue_bytes'', ''send_queue_bytes'']"

definition entry_ok :: "string \<times> pyval \<Rightarrow> bool" where
  "entry_ok e \<longleftrightarrow>
     (case snd e of
        VStr s \<Rightarrow> fst e \<in> set STATUS_KEYS \<and>
          s \<in> {''ok'', ''partial'', ''short'', ''no_socket'', ''closed'', ''unsupported'', ''unavailable''}
      | VInt n \<Rightarrow> fst e \<in> set MEASUREMENTS \<and> 0 \<le> n \<and> n < 2 ^ 32
      | _ \<Rightarrow> False)"

lemma uint_byte_bounds: "0 \<le> uint (b :: 8 word)" "uint (b :: 8 word) < 4294967296"
  using uint_lt2p [of b] by simp_all

lemma uint_word32_bounds: "0 \<le> uint (w :: 32 word)" "uint (w :: 32 word) < 4294967296"
  using uint_lt2p [of w] by simp_all

lemma sint_word32_bound: "sint (w :: 32 word) < 4294967296"
  using sint_lt [of w] by simp

lemmas word_bounds = uint_byte_bounds uint_word32_bounds sint_word32_bound

lemma tcp_info_ok: "list_all entry_ok (tcp_info env)"
proof -
  have "list_all entry_ok (map (\<lambda>(offset, name). (name, VInt (uint ((raw :: bytes) ! offset)))) (enumerate 0 BYTE_FIELDS))"
    "list_all entry_ok (map (\<lambda>(name, offset). (name, VInt (uint (unpack_from little raw offset)))) U32_FIELDS)"
    for raw little
    by (simp_all add: entry_ok_def MEASUREMENTS_def BYTE_FIELDS_def U32_FIELDS_def word_bounds)
  moreover have "list_all entry_ok [(''tcp_info_status'', VStr s)]"
    if "s \<in> {''ok'', ''short'', ''unsupported'', ''unavailable''}" for s
    using that by (auto simp: entry_ok_def STATUS_KEYS_def)
  ultimately show ?thesis
    unfolding tcp_info_def by (auto intro!: list_all_dict_merge split: sum.split option.split)
qed

lemma queue_ok:
  assumes "name \<in> {''recv_queue'', ''send_queue''}"
  shows "list_all entry_ok (queue env request name)"
proof -
  have "list_all entry_ok [(name @ ''_status'', VStr s)]" if "s \<in> {''ok'', ''unsupported'', ''unavailable''}" for s
    using that assms by (auto simp: entry_ok_def STATUS_KEYS_def)
  moreover have "entry_ok (name @ ''_bytes'', VInt (sint (w :: 32 word)))" if "0 \<le> sint w" for w
    using that assms by (auto simp: entry_ok_def MEASUREMENTS_def word_bounds)
  ultimately show ?thesis
    unfolding queue_def by (auto simp: Let_def not_less split: sum.split option.split)
qed

lemma tcp_info_measured:
  assumes "map_of (tcp_info env) ''tcp_info_status'' = Some (VStr ''ok'')"
  shows "set BYTE_FIELDS \<union> fst ` set U32_FIELDS \<subseteq> dom (map_of (tcp_info env))"
proof -
  from assms obtain raw where "tcp_info env = dict_merge
      (dict_merge [(''tcp_info_status'', VStr ''ok'')]
        (map (\<lambda>(offset, name). (name, VInt (uint (raw ! offset)))) (enumerate 0 BYTE_FIELDS)))
      (map (\<lambda>(name, offset). (name, VInt (uint (unpack_from (sk_little_endian env) raw offset)))) U32_FIELDS)"
    unfolding tcp_info_def by (simp split: if_splits sum.splits option.splits)
  then show ?thesis
    by (simp only: dom_dict_merge) (simp add: BYTE_FIELDS_def U32_FIELDS_def)
qed

lemma queue_measured:
  assumes "map_of (queue env request name) (name @ ''_status'') = Some (VStr ''ok'')"
  shows "name @ ''_bytes'' \<in> dom (map_of (queue env request name))"
  using assms unfolding queue_def Let_def by (auto split: if_splits option.splits sum.splits)

text \<open>The order in which the kernel of a machine stores a 32-bit counter.\<close>

definition pack32 :: "bool \<Rightarrow> 32 word \<Rightarrow> bytes" where
  "pack32 little w = (let be = map (\<lambda>i. ucast (drop_bit (8 * i) w)) [3, 2, 1, 0] in if little then rev be else be)"

lemma unpack_pack32: "unpack32 little (pack32 little w) = w"
proof -
  have "unpack32 False (pack32 False w) = w"
  proof (rule bit_word_eqI)
    fix n
    assume "n < LENGTH(32)"
    then consider "n < 8" | "8 \<le> n" "n < 16" | "16 \<le> n" "n < 24" | "24 \<le> n" "n < 32" by fastforce
    then show "bit (unpack32 False (pack32 False w)) n \<longleftrightarrow> bit w n"
      by cases (auto simp: unpack32_def pack32_def bit_simps less_diff_conv2)
  qed
  moreover have "unpack32 True (pack32 True w) = unpack32 False (pack32 False w)"
    by (simp add: unpack32_def pack32_def Let_def)
  ultimately show ?thesis by (cases little) simp_all
qed

lemma queue_keys:
  "fst ` set (queue env request name) \<subseteq> {name @ ''_status'', name @ ''_bytes''}"
  "distinct (map fst (queue env request name))"
  unfolding queue_def Let_def by (auto split: option.split sum.split)

lemma map_of_update_queue:
  "map_of (dict_merge d (queue env request name)) = map_of d ++ map_of (queue env request name)"
proof -
  have "map_of (rev (queue env request name)) = map_of (queue env request name)"
    using queue_keys(2) [of env request name] by (subst map_of_inject_set) (simp_all add: rev_map [symmetric])
  then show ?thesis by (simp add: map_of_dict_merge)
qed

lemma queue_other: "k \<notin> {name @ ''_status'', name @ ''_bytes''} \<Longrightarrow> map_of (queue env request name) k = None"
  using queue_keys(1) [of env request name] by (auto simp: map_of_eq_None_iff)

lemma queue_status_known: "map_of (queue env request name) (name @ ''_status'') \<noteq> None"
  unfolding queue_def Let_def by (auto split: option.split sum.split)

definition gathered :: "sock_env \<Rightarrow> sample" where
  "gathered env = dict_merge (dict_merge (tcp_info env) (queue env (sk_FIONREAD env) ''recv_queue''))
     (queue env (sk_TIOCOUTQ env) ''send_queue'')"

lemma gathered_status:
  "map_of (gathered env) ''tcp_info_status'' = map_of (tcp_info env) ''tcp_info_status''"
  "map_of (gathered env) ''recv_queue_status'' = map_of (queue env (sk_FIONREAD env) ''recv_queue'') ''recv_queue_status''"
  "map_of (gathered env) ''send_queue_status'' = map_of (queue env (sk_TIOCOUTQ env) ''send_queue'') ''send_queue_status''"
  using queue_status_known [of env "sk_FIONREAD env" "''recv_queue''"]
    queue_status_known [of env "sk_TIOCOUTQ env" "''send_queue''"]
  by (auto simp: gathered_def map_of_update_queue map_add_def queue_other)

lemma gathered_measured:
  assumes "map_of (gathered env) ''tcp_info_status'' = Some (VStr ''ok'')"
    "map_of (gathered env) ''recv_queue_status'' = Some (VStr ''ok'')"
    "map_of (gathered env) ''send_queue_status'' = Some (VStr ''ok'')"
  shows "set MEASUREMENTS \<subseteq> dom (map_of (gathered env))"
proof -
  have "set BYTE_FIELDS \<union> fst ` set U32_FIELDS \<subseteq> dom (map_of (tcp_info env))"
    using assms(1) by (intro tcp_info_measured) (simp add: gathered_status)
  moreover have "''recv_queue_bytes'' \<in> dom (map_of (queue env (sk_FIONREAD env) ''recv_queue''))"
    "''send_queue_bytes'' \<in> dom (map_of (queue env (sk_TIOCOUTQ env) ''send_queue''))"
    using queue_measured [of env _ "''recv_queue''"] queue_measured [of env _ "''send_queue''"] assms(2,3)
    by (simp_all add: gathered_status)
  ultimately show ?thesis unfolding gathered_def map_of_update_queue MEASUREMENTS_def by (simp only: dom_map_add) auto
qed

lemma sample_socket_gathered:
  "sample_socket sock = dict_set ''status'' (VStr (if map_of (gathered env) ''tcp_info_status'' = Some (VStr ''ok'') \<and>
     map_of (gathered env) ''recv_queue_status'' = Some (VStr ''ok'') \<and>
     map_of (gathered env) ''send_queue_status'' = Some (VStr ''ok'') then ''ok'' else ''partial'')) (gathered env)"
  if "sock = Some env" "sk_linux env" "sk_fileno env = Inr (VInt d)" "0 \<le> d"
  using that by (simp add: sample_socket_def gathered_def [symmetric] Let_def)

lemma sample_socket_cases:
  obtains s where "sample_socket sock = [(''status'', VStr s)]" "s \<in> {''no_socket'', ''unsupported'', ''unavailable'', ''closed''}"
  | env d where "sock = Some env" "sk_linux env" "sk_fileno env = Inr (VInt d)" "0 \<le> d"
proof (cases sock)
  case None
  then show ?thesis using that(1) [of "''no_socket''"] by (simp add: sample_socket_def)
next
  case (Some env)
  show ?thesis
  proof (cases "\<exists>d. sk_linux env \<and> sk_fileno env = Inr (VInt d) \<and> 0 \<le> d")
    case True
    with Some that(2) show ?thesis by blast
  next
    case False
    with Some have "\<exists>s. sample_socket sock = [(''status'', VStr s)] \<and> s \<in> {''unsupported'', ''unavailable'', ''closed''}"
      by (auto simp: sample_socket_def not_le split: sum.split pyval.split)
    then show ?thesis using that(1) by blast
  qed
qed

text \<open>
  a socket sample contains nothing but the allowlisted names, each a fixed status word or a number that
  fits 32 bits without sign; and when its status is \<open>ok\<close>, every measurement is present.
\<close>

lemma sample_socket_bounded:
  "list_all entry_ok (sample_socket sock) \<and>
   (if map_of (sample_socket sock) ''status'' = Some (VStr ''ok'')
    then list_all (\<lambda>k. map_of (sample_socket sock) k \<noteq> None) MEASUREMENTS else True)"
proof (cases sock rule: sample_socket_cases)
  case (1 s)
  then show ?thesis by (auto simp: entry_ok_def STATUS_KEYS_def)
next
  case (2 env d)
  have "list_all entry_ok (gathered env)"
    unfolding gathered_def by (intro list_all_dict_merge tcp_info_ok queue_ok) simp_all
  then have "list_all entry_ok (dict_set ''status'' (VStr s) (gathered env))" if "s \<in> {''ok'', ''partial''}" for s
    using that by (intro list_all_dict_set) (auto simp: entry_ok_def STATUS_KEYS_def)
  with gathered_measured [of env] show ?thesis
    unfolding sample_socket_gathered [OF 2] by (auto simp: list_all_iff)
qed

text \<open>A counter that the kernel stores at the offset of a field is reported under the name of that field.\<close>

lemma tcp_info_reports_counter:
  assumes "sk_has_tcp_info env" "sk_getsockopt env TCP_INFO_SIZE = Inr (Some raw)" "TCP_INFO_SIZE \<le> length raw"
    and "(name, offset) \<in> set U32_FIELDS" "take 4 (drop offset raw) = pack32 (sk_little_endian env) w"
  shows "map_of (tcp_info env) name = Some (VInt (uint w))"
proof -
  let ?e = "map (\<lambda>(name, offset). (name, VInt (uint (unpack_from (sk_little_endian env) raw offset)))) U32_FIELDS"
  have "distinct (map fst (rev ?e))" by (simp add: U32_FIELDS_def)
  moreover have "(name, VInt (uint w)) \<in> set (rev ?e)"
    using assms(4,5) by (force simp: unpack_from_def unpack_pack32)
  ultimately have "map_of (rev ?e) name = Some (VInt (uint w))" by (rule map_of_is_SomeI)
  with assms(1-3) show ?thesis by (simp add: tcp_info_def map_of_dict_merge map_add_def del: rev_map)
qed

end
