(* ===== verification/Version_Plan.thy ===== *)
theory Version_Plan
  imports Py_Value Py_Regex Py_Sha256
begin

section \<open>Release identities\<close>

text \<open>
  Model of the identity half of \<^verbatim>\<open>scripts/version_plan.py\<close>: the versioning policy, the immutable release
  plan and its projections.  A policy is the JSON value that was read; strings hold code points below
  256.  A plan is a record with the fields of the dictionary; \<open>plan_dict\<close> is the dictionary itself.
  Interpolated parts of messages are left out, and \<open>float_repr\<close> is the text of a float in JSON.
\<close>

datatype release_exc = VersionError string | ReleaseError string | GitHubError string bool | AmbiguousCreate string
  | Raised py_exc

type_synonym 'a rel = "release_exc + 'a"

definition require :: "bool \<Rightarrow> string \<Rightarrow> unit rel" where
  "require condition message = (if condition then Inr () else Inl (VersionError message))"

lemma require_Inr_iff [simp]: "require b msg = Inr u \<longleftrightarrow> b"
  by (simp add: require_def)

definition rel_seq :: "unit rel \<Rightarrow> 'a rel \<Rightarrow> 'a rel" where
  "rel_seq r k = bind_res r (\<lambda>_. k)"

lemma rel_seq_Inr_iff [simp]: "rel_seq r k = Inr x \<longleftrightarrow> r = Inr () \<and> k = Inr x"
  by (simp add: rel_seq_def)

lemma rel_seq_Inr [simp]: "rel_seq (Inr u) k = k"
  by (simp add: rel_seq_def)

lemma require_True [simp]: "require True msg = Inr ()"
  by (simp add: require_def)

subsection \<open>Canonical JSON\<close>

definition json_escape :: "char \<Rightarrow> string" where
  "json_escape c =
     (if c = CHR 0x22 then [CHR 0x5C, CHR 0x22]
      else if c = CHR 0x5C then [CHR 0x5C, CHR 0x5C]
      else if c = CHR 0x0A then [CHR 0x5C, CHR ''n'']
      else if c = CHR 0x0D then [CHR 0x5C, CHR ''r'']
      else if c = CHR 0x09 then [CHR 0x5C, CHR ''t'']
      else if c = CHR 0x0C then [CHR 0x5C, CHR ''f'']
      else if c = CHR 0x08 then [CHR 0x5C, CHR ''b'']
      else if 32 \<le> code c \<and> code c \<le> 126 then [c]
      else [CHR 0x5C, CHR ''u'', CHR ''0'', CHR ''0'', hex_digit (code c div 16), hex_digit (code c mod 16)])"

definition json_string :: "string \<Rightarrow> string" where
  "json_string s = CHR 0x22 # concat (map json_escape s) @ [CHR 0x22]"

text \<open>\<^verbatim>\<open>json.dumps\<close> with sorted keys, no spaces, ASCII only and no infinities.\<close>

fun json_text :: "(pyfloat \<Rightarrow> string) \<Rightarrow> pyval \<Rightarrow> string rel" where
  "json_text float_repr VNone = Inr ''null''"
| "json_text float_repr (VBool b) = Inr (if b then ''true'' else ''false'')"
| "json_text float_repr (VInt i) = Inr (str_of_int i)"
| "json_text float_repr (VFloat f) = (if isfinite f then Inr (float_repr f) else Inl (Raised ValueError))"
| "json_text float_repr (VStr s) = Inr (json_string s)"
| "json_text float_repr (VList xs) =
     bind_res (map_res (json_text float_repr) xs) (\<lambda>ts. Inr (CHR ''['' # join '','' ts @ '']''))"
| "json_text float_repr (VDict kv) =
     bind_res (map_res (\<lambda>(k, v). bind_res (json_text float_repr v) (\<lambda>t. Inr (k, t))) kv) (\<lambda>rows.
       Inr (CHR ''{'' # join '','' (map (\<lambda>(k, t). json_string k @ '':'' @ t) (sort_key fst rows)) @ ''}''))"

definition json_bytes :: "(pyfloat \<Rightarrow> string) \<Rightarrow> pyval \<Rightarrow> string rel" where
  "json_bytes float_repr v = json_text float_repr v"

definition policy_digest :: "(pyfloat \<Rightarrow> string) \<Rightarrow> pyval \<Rightarrow> string rel" where
  "policy_digest float_repr policy = map_sum id sha256 (json_bytes float_repr policy)"

subsection \<open>Fields and paths\<close>

text \<open>\<^verbatim>\<open>v in {...}\<close> on a set of strings hashes \<open>v\<close>; a list or a dictionary raises.\<close>

definition in_names :: "pyval \<Rightarrow> string list \<Rightarrow> bool rel" where
  "in_names v names =
     (case v of
        VStr s \<Rightarrow> Inr (s \<in> set names)
      | VList _ \<Rightarrow> Inl (Raised TypeError)
      | VDict _ \<Rightarrow> Inl (Raised TypeError)
      | _ \<Rightarrow> Inr False)"

definition require_in :: "pyval \<Rightarrow> string list \<Rightarrow> string \<Rightarrow> unit rel" where
  "require_in v names message = bind_res (in_names v names) (\<lambda>b. require b message)"

definition get_or :: "(string, pyval) dict \<Rightarrow> string \<Rightarrow> pyval \<Rightarrow> pyval" where
  "get_or d k dflt = (case map_of d k of None \<Rightarrow> dflt | Some v \<Rightarrow> v)"

definition has_key :: "(string, pyval) dict \<Rightarrow> string \<Rightarrow> bool" where
  "has_key d k \<longleftrightarrow> k \<in> set (dict_keys d)"

fun as_strings :: "pyval list \<Rightarrow> string list option" where
  "as_strings [] = Some []"
| "as_strings (VStr s # vs) = map_option (Cons s) (as_strings vs)"
| "as_strings (_ # vs) = None"

definition field :: "pyval \<Rightarrow> string list rel" where
  "field v =
     (case v of
        VStr s \<Rightarrow>
          (let result = split_on (CHR ''.'') s
           in rel_seq (require (list_all (\<lambda>part. part \<noteq> []) result)
                ''Dotted fields cannot contain empty segments; use a string array'') (Inr result))
      | VList items \<Rightarrow>
          (case as_strings items of
             Some names \<Rightarrow>
               rel_seq (require (items \<noteq> []) ''Field must be a dotted string or a nonempty string array'') (Inr names)
           | None \<Rightarrow> Inl (VersionError ''Field must be a dotted string or a nonempty string array''))
      | _ \<Rightarrow> Inl (VersionError ''Field must be a dotted string or a nonempty string array''))"

definition relative :: "pyval \<Rightarrow> string list rel" where
  "relative v =
     (case v of
        VStr s \<Rightarrow>
          rel_seq (require (s \<noteq> [] \<and> CHR 0x5C \<notin> set s \<and> CHR 0x00 \<notin> set s) ''Path must be a relative POSIX path'')
            (rel_seq (require (\<not> startswith s ''/'' \<and>
                list_all (\<lambda>part. part \<notin> {[], ''.'', ''..'', ''.git''}) (split_on (CHR ''/'') s))
                ''Unsafe version path'')
              (Inr (split_on (CHR ''/'') s)))
      | _ \<Rightarrow> Inl (VersionError ''Path must be a relative POSIX path''))"

definition no_breaks :: "string \<Rightarrow> bool" where
  "no_breaks s \<longleftrightarrow> CHR 0x0D \<notin> set s \<and> CHR 0x0A \<notin> set s \<and> CHR 0x00 \<notin> set s"

subsection \<open>Declarations\<close>

definition FORMATS :: "string list" where
  "FORMATS = [''json'', ''toml'', ''cargo-lock'', ''uv-lock'', ''npm-lock'', ''text'', ''python'', ''plist'', ''pbxproj'']"

definition VALUES :: "string list" where
  "VALUES = [''base'', ''full'', ''package'', ''build'', ''apple-build'']"

definition ARTIFACT_FORMATS :: "string list" where
  "ARTIFACT_FORMATS =
     [''oci'', ''json'', ''wheel'', ''sdist'', ''npm-tar'', ''ipa'', ''plist'', ''tar-text'', ''tar-toml'', ''tar-json'', ''zip-json'']"

definition artifact_declaration :: "(string, pyval) dict \<Rightarrow> string \<Rightarrow> unit rel" where
  "artifact_declaration item kind =
     rel_seq
       (if kind = ''oci''
        then require (has_key item ''field'' \<and> \<not> has_key item ''package'')
          ''OCI artifact requires an exact config field and no package selector''
        else Inr ())
       (rel_seq
         (if kind \<in> set [''tar-text'', ''tar-toml'', ''tar-json'', ''zip-json'']
          then rel_seq (require (has_key item ''member'') ''Archive field verification requires an exact member'')
            (map_sum id (\<lambda>_. ()) (relative (get_or item ''member'' VNone)))
          else require (\<not> has_key item ''member'') ''format does not accept member'')
         (if kind = ''tar-text''
          then require (\<not> has_key item ''field'' \<and> \<not> has_key item ''package'')
            ''Text artifact has no field or package selector''
          else Inr ()))"

definition input_declaration :: "(string, pyval) dict \<Rightarrow> string \<Rightarrow> unit rel" where
  "input_declaration item kind =
     rel_seq
       (if kind \<in> set [''json'', ''toml'', ''python'', ''plist'', ''pbxproj'']
        then require (has_key item ''field'') ''format requires an explicit field'' else Inr ())
       (rel_seq
         (if kind \<in> set [''cargo-lock'', ''uv-lock'', ''npm-lock'', ''pbxproj'']
          then require (has_key item ''package'') ''format requires an explicit owned package selector'' else Inr ())
         (rel_seq
           (if kind \<in> set [''text'', ''cargo-lock'', ''uv-lock'', ''npm-lock'']
            then require (\<not> has_key item ''field'') ''format does not accept field'' else Inr ())
           (if kind \<in> set [''text'', ''python'', ''plist'']
            then require (\<not> has_key item ''package'') ''format does not accept package'' else Inr ())))"

definition is_str_ok :: "(string \<Rightarrow> bool) \<Rightarrow> pyval \<Rightarrow> bool" where
  "is_str_ok P v = (case v of VStr s \<Rightarrow> P s | _ \<Rightarrow> False)"

definition version_declaration :: "bool \<Rightarrow> pyval \<Rightarrow> (string, pyval) dict rel" where
  "version_declaration artifact v =
     (case v of
        VDict item \<Rightarrow>
          (let known = [''path'', ''format'', ''field'', ''package'', ''value'', ''prefix'', ''ecosystem''] @
                 (if artifact then [''member''] else [])
           in rel_seq (require (set (dict_keys item) \<subseteq> set known) ''Unsupported version declaration fields'')
             (rel_seq (require_in (get_or item ''format'' VNone) (if artifact then ARTIFACT_FORMATS else FORMATS)
                 ''Unsupported version format'')
             (rel_seq
               (if has_key item ''path'' then map_sum id (\<lambda>_. ()) (relative (get_or item ''path'' VNone))
                else require artifact ''Version input requires path'')
             (rel_seq (require_in (get_or item ''value'' (VStr ''package'')) VALUES ''Unsupported version projection'')
             (rel_seq (require_in (get_or item ''ecosystem'' (VStr ''semver'')) [''semver'', ''pep440'']
                 ''Unsupported package version ecosystem'')
             (rel_seq (require (is_str_ok no_breaks (get_or item ''prefix'' (VStr []))) ''Invalid version prefix'')
             (rel_seq
               (if has_key item ''field'' then map_sum id (\<lambda>_. ()) (field (get_or item ''field'' VNone)) else Inr ())
             (rel_seq
               (if has_key item ''package''
                then require (is_str_ok (\<lambda>s. s \<noteq> [] \<and> no_breaks s) (get_or item ''package'' VNone))
                  ''Invalid owned package selector''
                else Inr ())
             (rel_seq
               (case get_or item ''format'' VNone of
                  VStr kind \<Rightarrow> if artifact then artifact_declaration item kind else input_declaration item kind
                | _ \<Rightarrow> Inr ())
             (Inr item))))))))))
      | _ \<Rightarrow> Inl (VersionError ''Version declarations must be objects''))"

definition receipt_pattern :: re where
  "receipt_pattern =
     Seq (Lit ''release-inputs-'')
       (Seq (Plus (Cls [CRange (CHR ''A'') (CHR ''Z''), CRange (CHR ''a'') (CHR ''z''), CRange (CHR ''0'') (CHR ''9''),
                        CChar (CHR ''.''), CChar (CHR ''_''), CChar (CHR ''-'')]))
         (Lit ''.json''))"

definition required_build_receipts :: "(string, pyval) dict \<Rightarrow> string list option rel" where
  "required_build_receipts config =
     (if \<not> has_key config ''required_build_receipts'' then Inr None
      else case get_or config ''required_build_receipts'' VNone of
        VList vs \<Rightarrow>
          (case as_strings vs of
             Some names \<Rightarrow>
               rel_seq (require (names \<noteq> [] \<and>
                   list_all (\<lambda>name. fullmatch receipt_pattern name \<and> name \<noteq> ''release-inputs-fuzz.json'') names)
                   ''required_build_receipts must be nonempty ASCII package receipt filenames'')
                 (rel_seq (require (distinct names) ''required_build_receipts contains duplicate filenames'')
                   (Inr (Some names)))
           | None \<Rightarrow> Inl (VersionError ''required_build_receipts must be nonempty ASCII package receipt filenames''))
      | _ \<Rightarrow> Inl (VersionError ''required_build_receipts must be nonempty ASCII package receipt filenames''))"

subsection \<open>The policy\<close>

type_synonym selector = "string \<times> string \<times> string list \<times> pyval"

definition text_of :: "pyval \<Rightarrow> string" where
  "text_of v = (case v of VStr s \<Rightarrow> s | _ \<Rightarrow> [])"

definition selector_of :: "(string, pyval) dict \<Rightarrow> selector rel" where
  "selector_of item =
     bind_res (if has_key item ''field'' then field (get_or item ''field'' VNone) else Inr []) (\<lambda>names.
       Inr (text_of (get_or item ''path'' VNone), text_of (get_or item ''format'' VNone), names,
            get_or item ''package'' VNone))"

fun check_files :: "selector list \<Rightarrow> pyval list \<Rightarrow> unit rel" where
  "check_files selectors [] = Inr ()"
| "check_files selectors (v # vs) =
     bind_res (version_declaration False v) (\<lambda>item.
     bind_res (selector_of item) (\<lambda>selector.
       rel_seq (require (selector \<notin> set selectors) ''Duplicate version selector'')
         (check_files (selector # selectors) vs)))"

definition sha_pattern :: re where
  "sha_pattern = Rep 40 (Cls [CRange (CHR ''0'') (CHR ''9''), CRange (CHR ''a'') (CHR ''f'')])"

definition digest_pattern :: re where
  "digest_pattern = Rep 64 (Cls [CRange (CHR ''0'') (CHR ''9''), CRange (CHR ''a'') (CHR ''f'')])"

definition int_field_ok :: "(int \<Rightarrow> bool) \<Rightarrow> pyval \<Rightarrow> bool" where
  "int_field_ok P v = (case v of VInt n \<Rightarrow> P n | _ \<Rightarrow> False)"

definition is_list :: "pyval \<Rightarrow> bool" where
  "is_list v \<longleftrightarrow> type_of v = TList"

definition is_dict :: "pyval \<Rightarrow> bool" where
  "is_dict v \<longleftrightarrow> type_of v = TDict"

definition items_of :: "pyval \<Rightarrow> pyval list" where
  "items_of v = (case v of VList vs \<Rightarrow> vs | _ \<Rightarrow> [])"

definition VERSIONING_FIELDS :: "string list" where
  "VERSIONING_FIELDS =
     [''schema'', ''promotion'', ''files'', ''artifacts'', ''required_build_receipts'', ''build_number_floor'', ''toolkit_revision'']"

definition PROMOTIONS :: "string list" where
  "PROMOTIONS = [''promote-bytes'', ''final-build'']"

definition validate_versioning :: "(string, pyval) dict \<Rightarrow> unit rel" where
  "validate_versioning config =
     rel_seq (require (set (dict_keys config) \<subseteq> set VERSIONING_FIELDS) ''Unsupported versioning fields'')
     (rel_seq (require (int_field_ok (\<lambda>n. n = 1) (get_or config ''schema'' VNone)) ''Unsupported versioning schema'')
     (rel_seq (require_in (get_or config ''promotion'' VNone) PROMOTIONS ''Unsupported promotion profile'')
     (rel_seq
       (if has_key config ''build_number_floor''
        then require (int_field_ok (\<lambda>n. 0 \<le> n \<and> n < 2100000000) (get_or config ''build_number_floor'' VNone))
          ''Native build number floor must be an integer in 0..2099999999''
        else Inr ())
     (rel_seq (require (is_list (get_or config ''files'' VNone) \<and> items_of (get_or config ''files'' VNone) \<noteq> [])
         ''Policy requires explicit version files'')
     (rel_seq (map_sum id (\<lambda>_. ()) (required_build_receipts config))
     (rel_seq (check_files [] (items_of (get_or config ''files'' VNone)))
     (rel_seq (require (is_list (get_or config ''artifacts'' (VList []))) ''Artifact declarations must be an array'')
     (rel_seq (map_sum id (\<lambda>_. ()) (map_res (version_declaration True) (items_of (get_or config ''artifacts'' (VList [])))))
       (if has_key config ''toolkit_revision''
        then require (is_str_ok (fullmatch sha_pattern) (get_or config ''toolkit_revision'' VNone))
          ''Toolkit revision must be a pinned SHA''
        else Inr ())))))))))"

definition validate_policy :: "pyval \<Rightarrow> (string, pyval) dict rel" where
  "validate_policy policy =
     (case policy of
        VDict kv \<Rightarrow>
          (case get_or kv ''versioning'' VNone of
             VDict config \<Rightarrow> rel_seq (validate_versioning config) (Inr config)
           | _ \<Rightarrow> Inl (VersionError ''Policy requires versioning''))
      | _ \<Rightarrow> Inl (VersionError ''Policy must be an object''))"

definition policy_floor :: "(string, pyval) dict \<Rightarrow> int" where
  "policy_floor config = (case get_or config ''build_number_floor'' (VInt 0) of VInt n \<Rightarrow> n | _ \<Rightarrow> 0)"

definition policy_promotion :: "(string, pyval) dict \<Rightarrow> string" where
  "policy_promotion config = text_of (get_or config ''promotion'' VNone)"

definition entries_of :: "pyval \<Rightarrow> (string, pyval) dict" where
  "entries_of v = (case v of VDict kv \<Rightarrow> kv | _ \<Rightarrow> [])"

definition policy_files :: "(string, pyval) dict \<Rightarrow> (string, pyval) dict list" where
  "policy_files config = map entries_of (items_of (get_or config ''files'' VNone))"

subsection \<open>The identity\<close>

definition digit_class :: re where
  "digit_class = Cls [CRange (CHR ''0'') (CHR ''9'')]"

definition positive_pattern :: re where
  "positive_pattern = Seq (Cls [CRange (CHR ''1'') (CHR ''9'')]) (Star digit_class)"

definition number_pattern :: re where
  "number_pattern = Alt (Chr (CHR ''0'')) positive_pattern"

definition base_pattern :: re where
  "base_pattern =
     Seq number_pattern (Seq (Chr (CHR ''.'')) (Seq number_pattern (Seq (Chr (CHR ''.'')) number_pattern)))"

definition nightly_pattern :: re where
  "nightly_pattern =
     Seq (Rep 14 digit_class)
       (Seq (Chr (CHR ''.'')) (Seq positive_pattern (Seq (Chr (CHR ''.'')) positive_pattern)))"

text \<open>\<^verbatim>\<open>datetime.strptime(s, '%Y%m%d%H%M%S')\<close> on fourteen digits.\<close>

definition leap_year :: "nat \<Rightarrow> bool" where
  "leap_year y \<longleftrightarrow> y mod 4 = 0 \<and> (y mod 100 \<noteq> 0 \<or> y mod 400 = 0)"

definition days_in_month :: "nat \<Rightarrow> nat \<Rightarrow> nat" where
  "days_in_month y m = (if m = 2 then (if leap_year y then 29 else 28) else if m \<in> {4, 6, 9, 11} then 30 else 31)"

definition digits_at :: "string \<Rightarrow> nat \<Rightarrow> nat \<Rightarrow> nat" where
  "digits_at s i n = digits_val (map digit_val (take n (drop i s)))"

definition valid_timestamp :: "string \<Rightarrow> bool" where
  "valid_timestamp s =
     (let y = digits_at s 0 4; m = digits_at s 4 2; d = digits_at s 6 2
      in 1 \<le> y \<and> 1 \<le> m \<and> m \<le> 12 \<and> 1 \<le> d \<and> d \<le> days_in_month y m \<and>
         digits_at s 8 2 < 24 \<and> digits_at s 10 2 < 60 \<and> digits_at s 12 2 < 60)"

definition CHANNELS :: "string list" where
  "CHANNELS = [''nightly'', ''beta'', ''rc'', ''stable'']"

definition identity_of :: "pyval \<Rightarrow> pyval \<Rightarrow> pyval \<Rightarrow> string rel" where
  "identity_of base channel sequence =
     rel_seq (require (is_str_ok (fullmatch base_pattern) base)
       ''Base version must be strict X.Y.Z without prefix or suffix'')
     (rel_seq (require_in channel CHANNELS ''Unsupported release channel'')
     (if channel = VStr ''stable''
      then rel_seq (require (sequence = VNone) ''Stable must not have a sequence'') (Inr (text_of base))
      else if channel = VStr ''nightly''
      then
        rel_seq (require (is_str_ok (fullmatch nightly_pattern) sequence)
          ''Nightly requires frozen UTCtimestamp.run.attempt suffix'')
        (rel_seq (require (valid_timestamp (hd (split_on (CHR ''.'') (text_of sequence)))) ''Invalid nightly UTC timestamp'')
          (Inr (text_of base @ ''-nightly.'' @ text_of sequence)))
      else
        (case sequence of
           VInt n \<Rightarrow>
             rel_seq (require (0 < n) ''Beta/RC sequence must be a positive integer'')
               (Inr (text_of base @ ''-'' @ text_of channel @ ''.'' @ str_of_int n))
         | _ \<Rightarrow> Inl (VersionError ''Beta/RC sequence must be a positive integer''))))"

subsection \<open>Plans and their projections\<close>

record release_plan =
  rp_base_version :: string
  rp_version :: string
  rp_channel :: string
  rp_sequence :: pyval
  rp_tag :: string
  rp_source_sha :: string
  rp_build_number :: "int option"
  rp_policy_sha256 :: string
  rp_promotion :: string

definition int_or_none :: "int option \<Rightarrow> pyval" where
  "int_or_none n = (case n of None \<Rightarrow> VNone | Some i \<Rightarrow> VInt i)"

definition plan_dict :: "release_plan \<Rightarrow> (string, pyval) dict" where
  "plan_dict p =
     [(''schema_version'', VInt 1), (''base_version'', VStr (rp_base_version p)), (''version'', VStr (rp_version p)),
      (''channel'', VStr (rp_channel p)), (''sequence'', rp_sequence p), (''tag'', VStr (rp_tag p)),
      (''source_sha'', VStr (rp_source_sha p)), (''build_number'', int_or_none (rp_build_number p)),
      (''policy_sha256'', VStr (rp_policy_sha256 p)), (''promotion'', VStr (rp_promotion p))]"

text \<open>\<open>sequence\<close> in an f-string: it is an integer for betas and candidates, a text for nightlies.\<close>

definition seq_text :: "pyval \<Rightarrow> string" where
  "seq_text v = (case v of VInt n \<Rightarrow> str_of_int n | VStr s \<Rightarrow> s | _ \<Rightarrow> [])"

definition nightly_number :: "string \<Rightarrow> int rel" where
  "nightly_number sequence =
     (case split_on (CHR ''.'') sequence of
        [_, run, attempt] \<Rightarrow>
          (case (int_of_str run, int_of_str attempt) of
             (Some r, Some a) \<Rightarrow>
               rel_seq (require (a < 1000000 \<and> r * 1000000 + a \<le> 2 ^ 64 - 2)
                 ''Nightly run or attempt is too large for PEP 440 projection'')
                 (Inr (r * 1000000 + a))
           | _ \<Rightarrow> Inl (Raised ValueError))
      | _ \<Rightarrow> Inl (Raised ValueError))"

definition package_version :: "release_plan \<Rightarrow> string \<Rightarrow> string rel" where
  "package_version p ecosystem =
     (if rp_channel p = ''rc'' \<and> rp_promotion p = ''promote-bytes'' then Inr (rp_base_version p)
      else if ecosystem = ''pep440'' then
        (if rp_channel p = ''beta'' then Inr (rp_base_version p @ ''b'' @ seq_text (rp_sequence p))
         else if rp_channel p = ''rc'' then Inr (rp_base_version p @ ''rc'' @ seq_text (rp_sequence p))
         else if rp_channel p = ''nightly''
         then bind_res (nightly_number (text_of (rp_sequence p))) (\<lambda>n. Inr (rp_base_version p @ ''.dev'' @ str_of_int n))
         else Inr (rp_version p))
      else Inr (rp_version p))"

definition apple_build :: "int \<Rightarrow> string option" where
  "apple_build build =
     (if 0 < build \<and> build \<le> 99990000
      then let n = build - 1
           in Some (str_of_int (n div 10000 + 1) @ ''.'' @ str_of_int (n div 100 mod 100) @ ''.'' @ str_of_int (n mod 100))
      else None)"

definition projections :: "release_plan \<Rightarrow> pyval \<Rightarrow> (string, pyval) dict rel" where
  "projections p ecosystem =
     rel_seq (require_in ecosystem [''semver'', ''pep440''] ''Unsupported package ecosystem'')
     (bind_res (package_version p (text_of ecosystem)) (\<lambda>package.
       Inr [(''base'', VStr (rp_base_version p)), (''full'', VStr (rp_version p)), (''package'', VStr package),
            (''build'', int_or_none (rp_build_number p)),
            (''apple-build'',
               case Option.bind (rp_build_number p) apple_build of None \<Rightarrow> VNone | Some s \<Rightarrow> VStr s)]))"

definition projected_value :: "release_plan \<Rightarrow> (string, pyval) dict \<Rightarrow> pyval rel" where
  "projected_value p item =
     bind_res (projections p (get_or item ''ecosystem'' (VStr ''semver''))) (\<lambda>values.
       case map_of values (text_of (get_or item ''value'' (VStr ''package''))) of
         None \<Rightarrow> Inl (Raised KeyError)
       | Some result \<Rightarrow>
           rel_seq (require (result \<noteq> VNone) ''Projection requires a valid allocated native build number'')
             (let prefix = text_of (get_or item ''prefix'' (VStr []))
              in Inr (if prefix \<noteq> [] then VStr (prefix @ seq_text result) else result)))"

definition build_ok :: "int option \<Rightarrow> bool" where
  "build_ok build = (case build of None \<Rightarrow> True | Some n \<Rightarrow> 0 < n \<and> n \<le> 2100000000)"

definition above_floor :: "(string, pyval) dict \<Rightarrow> int option \<Rightarrow> bool" where
  "above_floor config build = (case build of None \<Rightarrow> True | Some n \<Rightarrow> policy_floor config < n)"

definition create_plan ::
  "(pyfloat \<Rightarrow> string) \<Rightarrow> string \<Rightarrow> string \<Rightarrow> pyval \<Rightarrow> string \<Rightarrow> pyval \<Rightarrow> int option \<Rightarrow> release_plan rel" where
  "create_plan float_repr base channel sequence source_sha policy build_number =
     bind_res (validate_policy policy) (\<lambda>config.
     bind_res (identity_of (VStr base) (VStr channel) sequence) (\<lambda>version.
     rel_seq (require (fullmatch sha_pattern source_sha) ''Source SHA must be a full lowercase commit SHA'')
     (rel_seq (require (build_ok build_number) ''Build number must be a positive integer no greater than 2100000000'')
     (rel_seq (require (above_floor config build_number) ''Build number must exceed the declared migration floor'')
     (bind_res (policy_digest float_repr policy) (\<lambda>pd.
       (let p = \<lparr>rp_base_version = base, rp_version = version, rp_channel = channel, rp_sequence = sequence,
                 rp_tag = ''v'' @ version, rp_source_sha = source_sha, rp_build_number = build_number,
                 rp_policy_sha256 = pd, rp_promotion = policy_promotion config\<rparr>
        in bind_res (map_res (projected_value p) (policy_files config)) (\<lambda>_. Inr p))))))))"

definition PLAN_KEYS :: "string list" where
  "PLAN_KEYS =
     [''schema_version'', ''base_version'', ''version'', ''channel'', ''sequence'', ''tag'', ''source_sha'',
      ''build_number'', ''policy_sha256'', ''promotion'']"

definition none_or_int :: "pyval \<Rightarrow> int option option" where
  "none_or_int v = (case v of VNone \<Rightarrow> Some None | VInt n \<Rightarrow> Some (Some n) | _ \<Rightarrow> None)"

text \<open>The checks of the plan alone; the record holds the same fields as the dictionary.\<close>

definition check_plan :: "pyval \<Rightarrow> release_plan rel" where
  "check_plan v =
     (case v of
        VDict d \<Rightarrow>
          rel_seq (require (set (dict_keys d) = set PLAN_KEYS) ''Unexpected or missing release-plan fields'')
          (rel_seq (require (int_field_ok (\<lambda>n. n = 1) (get_or d ''schema_version'' VNone)) ''Unsupported release-plan schema'')
          (bind_res (identity_of (get_or d ''base_version'' VNone) (get_or d ''channel'' VNone) (get_or d ''sequence'' VNone))
            (\<lambda>version.
          rel_seq (require (get_or d ''version'' VNone = VStr version \<and> get_or d ''tag'' VNone = VStr (''v'' @ version))
            ''Release version/tag/sequence disagree'')
          (rel_seq (require (is_str_ok (fullmatch sha_pattern) (get_or d ''source_sha'' VNone)) ''Invalid plan source SHA'')
          (rel_seq (require (is_str_ok (fullmatch digest_pattern) (get_or d ''policy_sha256'' VNone)) ''Invalid policy digest'')
          (rel_seq (require_in (get_or d ''promotion'' VNone) PROMOTIONS ''Invalid plan promotion profile'')
          (rel_seq (require (case none_or_int (get_or d ''build_number'' VNone) of None \<Rightarrow> False | Some b \<Rightarrow> build_ok b)
            ''Invalid native build number'')
          (Inr \<lparr>rp_base_version = text_of (get_or d ''base_version'' VNone), rp_version = version,
                rp_channel = text_of (get_or d ''channel'' VNone), rp_sequence = get_or d ''sequence'' VNone,
                rp_tag = ''v'' @ version, rp_source_sha = text_of (get_or d ''source_sha'' VNone),
                rp_build_number = the (none_or_int (get_or d ''build_number'' VNone)),
                rp_policy_sha256 = text_of (get_or d ''policy_sha256'' VNone),
                rp_promotion = text_of (get_or d ''promotion'' VNone)\<rparr>))))))))
      | _ \<Rightarrow> Inl (VersionError ''Release plan must be an object''))"

definition check_binding :: "(pyfloat \<Rightarrow> string) \<Rightarrow> release_plan \<Rightarrow> pyval \<Rightarrow> unit rel" where
  "check_binding float_repr p policy =
     bind_res (validate_policy policy) (\<lambda>config.
     bind_res (policy_digest float_repr policy) (\<lambda>pd.
     rel_seq (require (rp_policy_sha256 p = pd) ''Release plan policy digest mismatch'')
     (rel_seq (require (rp_promotion p = policy_promotion config) ''Release plan promotion policy mismatch'')
     (rel_seq (require (above_floor config (rp_build_number p))
       ''Plan build number does not exceed the declared migration floor'')
     (bind_res (map_res (projected_value p) (policy_files config)) (\<lambda>_. Inr ()))))))"

definition validate_plan ::
  "(pyfloat \<Rightarrow> string) \<Rightarrow> pyval \<Rightarrow> pyval option \<Rightarrow> string option \<Rightarrow> release_plan rel" where
  "validate_plan float_repr v policy source_sha =
     bind_res (check_plan v) (\<lambda>p.
     rel_seq (case policy of None \<Rightarrow> Inr () | Some pol \<Rightarrow> check_binding float_repr p pol)
     (rel_seq (case source_sha of None \<Rightarrow> Inr ()
               | Some sha \<Rightarrow> require (rp_source_sha p = sha) ''Release plan source SHA mismatch'')
     (Inr p)))"

definition plan_digest :: "(pyfloat \<Rightarrow> string) \<Rightarrow> pyval \<Rightarrow> string rel" where
  "plan_digest float_repr v =
     bind_res (validate_plan float_repr v None None) (\<lambda>_. map_sum id sha256 (json_bytes float_repr v))"

fun check_evidence :: "(string, pyval) dict list \<Rightarrow> string list \<Rightarrow> (string \<times> string) list rel" where
  "check_evidence [] seen = Inr []"
| "check_evidence (item # items) seen =
     (case (map_of item ''path'', map_of item ''after_sha256'') of
        (Some path, after) \<Rightarrow>
          bind_res (relative path) (\<lambda>_.
          rel_seq (require (text_of path \<notin> set seen) ''Duplicate effective input path'')
          (case after of
             None \<Rightarrow> Inl (Raised KeyError)
           | Some (VStr sha) \<Rightarrow>
               rel_seq (require (fullmatch digest_pattern sha) ''Invalid effective input digest'')
               (bind_res (check_evidence items (text_of path # seen)) (\<lambda>entries.
                 Inr ((text_of path, sha) # entries)))
           | Some _ \<Rightarrow> Inl (Raised TypeError)))
      | (None, _) \<Rightarrow> Inl (Raised KeyError))"

definition effective_inputs_digest :: "(pyfloat \<Rightarrow> string) \<Rightarrow> (string, pyval) dict list \<Rightarrow> string rel" where
  "effective_inputs_digest float_repr evidence =
     bind_res (check_evidence evidence []) (\<lambda>entries.
       map_sum id sha256 (json_bytes float_repr (VList (map (\<lambda>(path, sha).
         VDict [(''path'', VStr path), (''sha256'', VStr sha)]) (sort_key fst entries)))))"

subsection \<open>A created plan validates\<close>

lemma require_in_Inr_iff [simp]: "require_in v names msg = Inr u \<longleftrightarrow> (\<exists>s. v = VStr s \<and> s \<in> set names)"
  by (cases v) (auto simp: require_in_def in_names_def)

lemma validate_policy_promotion:
  assumes "validate_policy policy = Inr config"
  shows "get_or config ''promotion'' VNone = VStr (policy_promotion config)" "policy_promotion config \<in> set PROMOTIONS"
proof -
  from assms have "validate_versioning config = Inr ()"
    by (auto simp: validate_policy_def split: pyval.splits)
  then obtain s where "get_or config ''promotion'' VNone = VStr s" "s \<in> set PROMOTIONS"
    by (auto simp: validate_versioning_def)
  then show "get_or config ''promotion'' VNone = VStr (policy_promotion config)" "policy_promotion config \<in> set PROMOTIONS"
    by (simp_all add: policy_promotion_def text_of_def)
qed

lemma digest_pattern_sha256: "fullmatch digest_pattern (sha256 data)"
proof -
  have "class_has False [CRange (CHR ''0'') (CHR ''9''), CRange (CHR ''a'') (CHR ''f'')] = is_hex"
    by (auto simp: fun_eq_iff class_has_def is_hex_def)
  then show ?thesis by (simp add: digest_pattern_def fullmatch_Rep_Cls sha256_shape)
qed

lemma policy_digest_shape: "policy_digest fr policy = Inr pd \<Longrightarrow> fullmatch digest_pattern pd"
  by (cases "json_bytes fr policy") (auto simp: policy_digest_def digest_pattern_sha256)

lemma map_of_plan_dict:
  "get_or (plan_dict p) ''schema_version'' x = VInt 1"
  "get_or (plan_dict p) ''base_version'' x = VStr (rp_base_version p)"
  "get_or (plan_dict p) ''version'' x = VStr (rp_version p)"
  "get_or (plan_dict p) ''channel'' x = VStr (rp_channel p)"
  "get_or (plan_dict p) ''sequence'' x = rp_sequence p"
  "get_or (plan_dict p) ''tag'' x = VStr (rp_tag p)"
  "get_or (plan_dict p) ''source_sha'' x = VStr (rp_source_sha p)"
  "get_or (plan_dict p) ''build_number'' x = int_or_none (rp_build_number p)"
  "get_or (plan_dict p) ''policy_sha256'' x = VStr (rp_policy_sha256 p)"
  "get_or (plan_dict p) ''promotion'' x = VStr (rp_promotion p)"
  by (simp_all add: get_or_def plan_dict_def)

lemma plan_dict_keys: "fst ` set (plan_dict p) = set PLAN_KEYS"
  by (simp add: plan_dict_def PLAN_KEYS_def)

lemma none_or_int_or_none [simp]: "none_or_int (int_or_none n) = Some n"
  by (cases n) (simp_all add: none_or_int_def int_or_none_def)

text \<open>What a well-formed plan is, field by field.\<close>

definition plan_ok :: "release_plan \<Rightarrow> bool" where
  "plan_ok p \<longleftrightarrow>
     identity_of (VStr (rp_base_version p)) (VStr (rp_channel p)) (rp_sequence p) = Inr (rp_version p) \<and>
     rp_tag p = ''v'' @ rp_version p \<and> fullmatch sha_pattern (rp_source_sha p) \<and>
     fullmatch digest_pattern (rp_policy_sha256 p) \<and> rp_promotion p \<in> set PROMOTIONS \<and> build_ok (rp_build_number p)"

lemma check_plan_dict: "check_plan (VDict (plan_dict p)) = Inr q \<longleftrightarrow> plan_ok p \<and> q = p"
  unfolding check_plan_def plan_ok_def
  by (auto simp: map_of_plan_dict plan_dict_keys int_field_ok_def is_str_ok_def text_of_def)

lemma is_str_okE: "is_str_ok P v \<Longrightarrow> \<exists>s. v = VStr s \<and> P s"
  by (cases v) (auto simp: is_str_ok_def)

lemma check_plan_ok:
  assumes "check_plan v = Inr p"
  shows "plan_ok p"
proof -
  obtain d where v: "v = VDict d" using assms by (cases v) (auto simp: check_plan_def)
  from assms v obtain version b s c where
    id: "identity_of (get_or d ''base_version'' VNone) (get_or d ''channel'' VNone) (get_or d ''sequence'' VNone) = Inr version"
    and sha: "is_str_ok (fullmatch sha_pattern) (get_or d ''source_sha'' VNone)"
    and pd: "is_str_ok (fullmatch digest_pattern) (get_or d ''policy_sha256'' VNone)"
    and pr: "get_or d ''promotion'' VNone = VStr s" "s \<in> set PROMOTIONS"
    and bn: "none_or_int (get_or d ''build_number'' VNone) = Some b" "build_ok b"
    and p: "p = \<lparr>rp_base_version = text_of (get_or d ''base_version'' VNone), rp_version = version,
                rp_channel = text_of (get_or d ''channel'' VNone), rp_sequence = get_or d ''sequence'' VNone,
                rp_tag = ''v'' @ version, rp_source_sha = text_of (get_or d ''source_sha'' VNone),
                rp_build_number = b, rp_policy_sha256 = text_of (get_or d ''policy_sha256'' VNone),
                rp_promotion = s\<rparr>"
    by (auto simp: check_plan_def text_of_def split: option.splits)
  from id obtain base channel where "get_or d ''base_version'' VNone = VStr base" "get_or d ''channel'' VNone = VStr channel"
    by (auto simp: identity_of_def dest!: is_str_okE)
  with id is_str_okE [OF sha] is_str_okE [OF pd] pr bn show ?thesis
    by (auto simp: plan_ok_def p text_of_def)
qed

lemma create_plan_ok:
  assumes "create_plan fr base channel sequence sha policy build = Inr p"
  shows "plan_ok p" "check_binding fr p policy = Inr ()" "rp_source_sha p = sha" "rp_build_number p = build"
    "rp_base_version p = base" "rp_channel p = channel" "rp_sequence p = sequence"
  using assms policy_digest_shape validate_policy_promotion(2)
  by (auto simp: create_plan_def plan_ok_def check_binding_def Let_def)

text \<open>
  C20: a plan that was created is accepted again, unchanged, by the validation against the same policy and
  commit: what a run freezes before the build is what every later step reads back.
\<close>

theorem created_plan_validates:
  assumes "create_plan fr base channel sequence sha policy build = Inr p"
  shows "validate_plan fr (VDict (plan_dict p)) (Some policy) (Some sha) = Inr p \<and>
    rp_base_version p = base \<and> rp_channel p = channel \<and> rp_sequence p = sequence \<and> rp_build_number p = build"
  using create_plan_ok [OF assms] by (simp add: validate_plan_def check_plan_dict)

subsection \<open>Tags identify releases\<close>

lemma base_no_dash:
  assumes "fullmatch base_pattern s"
  shows "CHR ''-'' \<notin> set s"
proof -
  have "\<not> re_chars False base_pattern (CHR ''-'')"
    by (simp add: base_pattern_def number_pattern_def positive_pattern_def digit_class_def Chr_def class_has_def)
  with fullmatch_chars [OF assms] show ?thesis by (auto simp: list_all_iff)
qed

text \<open>The two shapes of a version.\<close>

lemma identity_of_cases:
  assumes "identity_of (VStr base) (VStr channel) sequence = Inr version"
  obtains (stable) "channel = ''stable''" "sequence = VNone" "version = base" "CHR ''-'' \<notin> set base"
  | (pre) t where "channel \<in> {''nightly'', ''beta'', ''rc''}" "version = base @ CHR ''-'' # channel @ CHR ''.'' # t"
      "CHR ''-'' \<notin> set base"
      "if channel = ''nightly'' then sequence = VStr t else \<exists>n. sequence = VInt n \<and> 0 < n \<and> t = str_of_int n"
proof (cases "channel = ''stable''")
  case True
  with assms that(1) show ?thesis by (auto simp: identity_of_def is_str_ok_def text_of_def base_no_dash)
next
  case False
  then have c: "channel \<in> {''nightly'', ''beta'', ''rc''}" "CHR ''-'' \<notin> set base"
    using assms by (auto simp: identity_of_def is_str_ok_def base_no_dash CHANNELS_def)
  show ?thesis
  proof (cases "channel = ''nightly''")
    case True
    with assms c that(2) [of "text_of sequence"] show ?thesis
      by (auto simp: identity_of_def text_of_def dest!: is_str_okE)
  next
    case False
    with assms c that(2) \<open>channel \<noteq> ''stable''\<close> show ?thesis
      by (auto simp: identity_of_def text_of_def split: pyval.splits)
  qed
qed

lemma identity_of_inject:
  assumes "identity_of (VStr b) (VStr c) s = Inr v" "identity_of (VStr b') (VStr c') s' = Inr v"
  shows "b = b' \<and> c = c' \<and> s = s'"
  using assms(1)
proof (cases rule: identity_of_cases)
  case stable
  from assms(2) show ?thesis by (cases rule: identity_of_cases) (use stable in auto)
next
  case (pre t)
  from assms(2) show ?thesis
  proof (cases rule: identity_of_cases)
    case stable
    with pre show ?thesis by auto
  next
    case (pre t')
    have dots: "CHR ''.'' \<notin> set c" "CHR ''.'' \<notin> set c'" using pre(1) \<open>c \<in> _\<close> by auto
    have "b = b' \<and> c @ CHR ''.'' # t = c' @ CHR ''.'' # t'"
      using pre(2,3) \<open>v = b @ _\<close> \<open>CHR ''-'' \<notin> set b\<close> by (simp add: split_first)
    then have "b = b'" "c = c'" "t = t'" using dots by (auto simp: split_first)
    with pre(4) \<open>if c = _ then _ else _\<close> show ?thesis
      by (auto split: if_splits intro: str_of_int_inj_nonneg)
  qed
qed

text \<open>
  C21: a tag identifies its release: two well-formed plans with the same tag have the same base version,
  channel and sequence.
\<close>

theorem tag_identifies_release:
  assumes "validate_plan fr v policy sha = Inr p" "validate_plan fr w policy' sha' = Inr q" "rp_tag p = rp_tag q"
  shows "rp_base_version p = rp_base_version q \<and> rp_channel p = rp_channel q \<and> rp_sequence p = rp_sequence q"
proof -
  have "plan_ok p" "plan_ok q" using assms(1,2) by (auto simp: validate_plan_def intro: check_plan_ok)
  with assms(3) have "identity_of (VStr (rp_base_version p)) (VStr (rp_channel p)) (rp_sequence p) = Inr (rp_version p)"
    "identity_of (VStr (rp_base_version q)) (VStr (rp_channel q)) (rp_sequence q) = Inr (rp_version p)"
    by (auto simp: plan_ok_def)
  then show ?thesis by (rule identity_of_inject)
qed

subsection \<open>Native numbers\<close>

text \<open>Different build numbers have different Apple texts, and different nightly runs different package numbers.\<close>

lemma apple_build_inject:
  assumes "apple_build m = Some s" "apple_build n = Some s"
  shows "m = n"
proof -
  have mn: "0 < m" "0 < n" using assms by (auto simp: apple_build_def Let_def split: if_splits)
  then have nonneg: "0 \<le> (m - 1) div 10000 + 1" "0 \<le> (n - 1) div 10000 + 1" by (simp_all add: pos_imp_zdiv_nonneg_iff)
  have "str_of_int ((m - 1) div 10000 + 1) @ CHR ''.'' # str_of_int ((m - 1) div 100 mod 100) @ CHR ''.'' # str_of_int ((m - 1) mod 100) =
      str_of_int ((n - 1) div 10000 + 1) @ CHR ''.'' # str_of_int ((n - 1) div 100 mod 100) @ CHR ''.'' # str_of_int ((n - 1) mod 100)"
    using assms by (auto simp: apple_build_def Let_def split: if_splits)
  then have eqs: "str_of_int ((m - 1) div 10000 + 1) = str_of_int ((n - 1) div 10000 + 1)"
    "str_of_int ((m - 1) div 100 mod 100) = str_of_int ((n - 1) div 100 mod 100)"
    "str_of_int ((m - 1) mod 100) = str_of_int ((n - 1) mod 100)"
    by (simp_all only: split_first [OF str_of_int_no_dot str_of_int_no_dot])
  have "(m - 1) div 10000 = (n - 1) div 10000" using str_of_int_inj_nonneg [OF nonneg eqs(1)] by simp
  moreover have "(m - 1) div 100 mod 100 = (n - 1) div 100 mod 100" by (rule str_of_int_inj_nonneg [OF _ _ eqs(2)]) simp_all
  moreover have "(m - 1) mod 100 = (n - 1) mod 100" by (rule str_of_int_inj_nonneg [OF _ _ eqs(3)]) simp_all
  moreover have "x div 10000 = x div 100 div 100" for x :: int
    by (simp add: zdiv_zmult2_eq [symmetric])
  ultimately have "(m - 1) div 100 = (n - 1) div 100" by (metis div_mult_mod_eq)
  with \<open>(m - 1) mod 100 = (n - 1) mod 100\<close> have "m - 1 = n - 1" by (metis div_mult_mod_eq)
  then show ?thesis by simp
qed

lemma nightly_number_inject:
  fixes r a r' a' :: int
  assumes "0 \<le> a" "a < 1000000" "0 \<le> a'" "a' < 1000000" "r * 1000000 + a = r' * 1000000 + a'"
  shows "r = r' \<and> a = a'"
proof -
  have "(r * 1000000 + a) div 1000000 = r" "(r' * 1000000 + a') div 1000000 = r'" using assms(1-4) by simp_all
  with assms(5) show ?thesis by simp
qed

subsection \<open>An example\<close>

definition example_policy :: pyval where
  "example_policy = VDict [(''versioning'', VDict [(''schema'', VInt 1), (''promotion'', VStr ''promote-bytes''),
     (''files'', VList [VDict [(''path'', VStr ''VERSION''), (''format'', VStr ''text'')]])])]"

definition example_sha :: string where
  "example_sha = replicate 40 (CHR ''a'')"

lemma example_policy_ok: "\<exists>config. validate_policy example_policy = Inr config \<and> policy_floor config = 0 \<and>
   policy_files config = [[(''path'', VStr ''VERSION''), (''format'', VStr ''text'')]]"
  by (simp add: validate_policy_def example_policy_def get_or_def validate_versioning_def VERSIONING_FIELDS_def
    int_field_ok_def PROMOTIONS_def has_key_def is_list_def items_of_def required_build_receipts_def
    version_declaration_def Let_def FORMATS_def relative_def startswith_def VALUES_def is_str_ok_def no_breaks_def
    input_declaration_def selector_of_def policy_floor_def policy_files_def entries_of_def require_in_def in_names_def)

lemma example_plan_created:
  assumes "0 < n" "n \<le> 2100000000"
  obtains p where "create_plan fr ''1.2.3'' ''rc'' (VInt 1) example_sha example_policy (Some n) = Inr p"
proof -
  obtain config where config: "validate_policy example_policy = Inr config" "policy_floor config = 0"
    "policy_files config = [[(''path'', VStr ''VERSION''), (''format'', VStr ''text'')]]"
    using example_policy_ok by blast
  have base: "fullmatch base_pattern ''1.2.3''" by code_simp
  have sha: "fullmatch sha_pattern example_sha"
    by (simp add: sha_pattern_def fullmatch_Rep_Cls example_sha_def class_has_def list_all_iff)
  obtain js where js: "json_bytes fr example_policy = Inr js"
    by (simp add: json_bytes_def example_policy_def)
  have "\<exists>p. create_plan fr ''1.2.3'' ''rc'' (VInt 1) example_sha example_policy (Some n) = Inr p"
    using assms
    by (cases "policy_promotion config = ''promote-bytes''")
      (simp_all add: create_plan_def config identity_of_def base sha is_str_ok_def CHANNELS_def build_ok_def above_floor_def
        policy_digest_def js Let_def projected_value_def projections_def package_version_def get_or_def text_of_def)
  then show ?thesis using that by blast
qed

theorem created_plan_validates_witness:
  "\<exists>p. validate_plan (\<lambda>_. []) (VDict (plan_dict p)) (Some example_policy) (Some example_sha) = Inr p \<and>
     rp_base_version p = ''1.2.3'' \<and> rp_build_number p = Some 7"
proof -
  obtain p where "create_plan (\<lambda>_. []) ''1.2.3'' ''rc'' (VInt 1) example_sha example_policy (Some 7) = Inr p"
    by (rule example_plan_created [of 7 "\<lambda>_. []"]) simp_all
  from created_plan_validates [OF this] show ?thesis by blast
qed

theorem tag_identifies_release_witness:
  "\<exists>(p :: release_plan) (q :: release_plan). rp_build_number p \<noteq> rp_build_number q \<and> rp_tag p = ''v1.2.3-rc.1'' \<and>
     rp_tag q = ''v1.2.3-rc.1'' \<and> rp_sequence p = rp_sequence q"
proof -
  have one: "str_of_int 1 = ''1''" by code_simp
  have plan: "\<exists>p. validate_plan (\<lambda>_. []) (VDict (plan_dict p)) None None = Inr p \<and> rp_tag p = ''v1.2.3-rc.1'' \<and>
      rp_build_number p = Some n" if n: "0 < n" "n \<le> 2100000000" for n
  proof -
    obtain p where p: "create_plan (\<lambda>_. []) ''1.2.3'' ''rc'' (VInt 1) example_sha example_policy (Some n) = Inr p"
      by (rule example_plan_created [OF n])
    note ok = create_plan_ok [OF p]
    have "rp_tag p = ''v1.2.3-rc.1''" using ok(1,5,6,7) one by (auto simp: plan_ok_def identity_of_def text_of_def)
    with ok(1,4) show ?thesis by (auto simp: validate_plan_def check_plan_dict)
  qed
  obtain p where p: "validate_plan (\<lambda>_. []) (VDict (plan_dict p)) None None = Inr p" "rp_tag p = ''v1.2.3-rc.1''"
    "rp_build_number p = Some 7" using plan [of 7] by auto
  obtain q where q: "validate_plan (\<lambda>_. []) (VDict (plan_dict q)) None None = Inr q" "rp_tag q = ''v1.2.3-rc.1''"
    "rp_build_number q = Some 8" using plan [of 8] by auto
  have "rp_tag p = rp_tag q" using p(2) q(2) by simp
  from tag_identifies_release [OF p(1) q(1) this] p q show ?thesis
    by (intro exI [of _ p] exI [of _ q]) simp
qed

end
