(* ===== verification/Release_Ledger.thy ===== *)
theory Release_Ledger
  imports Version_Plan
begin

section \<open>The ledger of release versions\<close>

text \<open>
  Model of \<^verbatim>\<open>scripts/release_state.py\<close> with the helpers it takes from \<^verbatim>\<open>scripts/release_control.py\<close>: the
  ledger of reserved version plans, kept in one file of a GitHub branch and written by compare-and-swap
  on the blob hash.  A ledger is a record with the entries of its JSON object, a reservation likewise;
  entries that the code does not name are kept in \<open>lg_other\<close> and \<open>rv_other\<close>.  What GitHub answers to
  the reads of one operation is a record of results, each of which may be an error; a file is seen
  after base64 and JSON decoding.  An operation yields the write it asks for; the compare-and-swap
  itself is the business of the machine in the second half of the theory.
\<close>

subsection \<open>Data\<close>

record reservation =
  rv_plan :: release_plan
  rv_parent :: "pyval option"
  rv_other :: "(string, pyval) dict"

record ledger =
  lg_counter :: int
  lg_publication_floor :: int
  lg_plans :: "(string, reservation) dict"
  lg_other :: "(string, pyval) dict"

record ledger_file =
  lf_type :: pyval
  lf_encoding :: pyval
  lf_size :: "nat rel"
  lf_json :: "pyval rel"
  lf_sha :: string

record github_view =
  gv_file :: "ledger_file option rel"
  gv_ref :: "bool rel"
  gv_tags :: "string list rel"
  gv_releases :: "(string \<times> pyval) list rel"
  gv_tag_ref :: "string \<Rightarrow> bool rel"
  gv_release_by_tag :: "string \<Rightarrow> bool rel"
  gv_ref_later :: "bool rel"

definition rc_require :: "bool \<Rightarrow> string \<Rightarrow> unit rel" where
  "rc_require condition message = (if condition then Inr () else Inl (ReleaseError message))"

lemma rc_require_Inr_iff [simp]: "rc_require b msg = Inr u \<longleftrightarrow> b"
  by (simp add: rc_require_def)

subsection \<open>Helpers of the release control\<close>

definition positive :: "pyval \<Rightarrow> string \<Rightarrow> int rel" where
  "positive v name =
     (case v of
        VStr s \<Rightarrow>
          rel_seq (rc_require (fullmatch positive_pattern s) name)
            (case int_of_str s of None \<Rightarrow> Inl (Raised ValueError) | Some n \<Rightarrow> Inr n)
      | VInt n \<Rightarrow>
          if max_str_digits < length (str_of_nat (nat \<bar>n\<bar>)) then Inl (Raised ValueError)
          else rel_seq (rc_require (fullmatch positive_pattern (str_of_int n)) name) (Inr n)
      | _ \<Rightarrow> Inl (ReleaseError name))"

definition rc_version :: "string \<Rightarrow> string rel" where
  "rc_version v =
     rel_seq (rc_require (fullmatch base_pattern v) ''Version must be strict X.Y.Z without leading zeros'') (Inr v)"

fun sequence_numbers :: "string \<Rightarrow> string list \<Rightarrow> int list rel" where
  "sequence_numbers prefix [] = Inr []"
| "sequence_numbers prefix (tag # tags) =
     (if startswith tag prefix \<and> fullmatch positive_pattern (drop (length prefix) tag)
      then (case int_of_str (drop (length prefix) tag) of
              None \<Rightarrow> Inl (Raised ValueError)
            | Some n \<Rightarrow> bind_res (sequence_numbers prefix tags) (\<lambda>ns. Inr (n # ns)))
      else sequence_numbers prefix tags)"

definition max_default :: "int list \<Rightarrow> int" where
  "max_default ns = fold max ns 0"

definition next_sequence :: "github_view \<Rightarrow> string \<Rightarrow> string \<Rightarrow> int rel" where
  "next_sequence gh base_version channel =
     rel_seq (rc_require (channel \<in> {''beta'', ''rc''}) ''Sequence only applies to beta and rc'')
     (bind_res (rc_version base_version) (\<lambda>base.
      bind_res (gv_tags gh) (\<lambda>tags.
      bind_res (gv_releases gh) (\<lambda>releases.
      bind_res (sequence_numbers (''v'' @ base @ ''-'' @ channel @ ''.'') (tags @ map fst releases)) (\<lambda>ns.
        Inr (max_default ns + 1))))))"

definition ensure_absent :: "github_view \<Rightarrow> string \<Rightarrow> unit rel" where
  "ensure_absent gh tag =
     bind_res (gv_tag_ref gh tag) (\<lambda>b. rel_seq (rc_require (\<not> b) ''Tag already exists'')
     (bind_res (gv_release_by_tag gh tag) (\<lambda>r. rel_seq (rc_require (\<not> r) ''Release already exists'')
     (bind_res (gv_releases gh) (\<lambda>releases.
       rc_require (tag \<notin> set (map fst releases)) ''Draft release already exists'')))))"

subsection \<open>Equality of JSON values\<close>

text \<open>Python's \<^verbatim>\<open>==\<close>: numbers by value, dictionaries without regard to order.\<close>

fun py_eq :: "pyval \<Rightarrow> pyval \<Rightarrow> bool" where
  "py_eq (VList xs) w = (case w of VList ys \<Rightarrow> list_all2 py_eq xs ys | _ \<Rightarrow> False)"
| "py_eq (VDict d) w =
     (case w of
        VDict e \<Rightarrow>
          set (dict_keys d) = set (dict_keys e) \<and>
          list_all (\<lambda>(k, x). case map_of e k of Some y \<Rightarrow> py_eq x y | None \<Rightarrow> False) d
      | _ \<Rightarrow> False)"
| "py_eq v w =
     (case (num_val v, num_val w) of
        (Some x, Some y) \<Rightarrow> float_eq x y
      | (None, None) \<Rightarrow> v = w
      | _ \<Rightarrow> False)"

subsection \<open>Reading and writing the ledger\<close>

definition empty_ledger :: ledger where
  "empty_ledger = \<lparr>lg_counter = 0, lg_publication_floor = 0, lg_plans = [], lg_other = []\<rparr>"

definition without :: "string list \<Rightarrow> (string, pyval) dict \<Rightarrow> (string, pyval) dict" where
  "without names d = filter (\<lambda>(k, _). k \<notin> set names) d"

definition read_reservation ::
  "(pyfloat \<Rightarrow> string) \<Rightarrow> int \<Rightarrow> string \<times> pyval \<Rightarrow> (string \<times> reservation) rel" where
  "read_reservation fr counter entry =
     (case entry of (key, v) \<Rightarrow>
        bind_res (positive (VStr key) ''Invalid ledger run ID'') (\<lambda>_.
        case v of
          VDict r \<Rightarrow>
            bind_res (validate_plan fr (get_or r ''plan'' VNone) None None) (\<lambda>p.
              case rp_build_number p of
                None \<Rightarrow> Inl (Raised TypeError)
              | Some n \<Rightarrow>
                  rel_seq (rc_require (n \<le> counter) ''Ledger counter moved backwards'')
                    (Inr (key, \<lparr>rv_plan = p, rv_parent = map_of r ''parent'', rv_other = without [''plan'', ''parent''] r\<rparr>)))
        | _ \<Rightarrow> Inl (ReleaseError ''Invalid version reservation'')))"

definition ledger_of_json :: "(pyfloat \<Rightarrow> string) \<Rightarrow> pyval \<Rightarrow> ledger rel" where
  "ledger_of_json fr v =
     (case v of
        VDict d \<Rightarrow>
          rel_seq (rc_require (int_field_ok (\<lambda>n. n = 1) (get_or d ''schema'' VNone)) ''Unsupported version ledger schema'')
          (case get_or d ''counter'' VNone of
             VInt counter \<Rightarrow>
               rel_seq (rc_require (0 \<le> counter) ''Invalid ledger counter'')
               (case get_or d ''publication_floor'' VNone of
                  VInt pub \<Rightarrow>
                    rel_seq (rc_require (0 \<le> pub \<and> pub \<le> counter) ''Invalid ledger publication floor'')
                    (case get_or d ''plans'' VNone of
                       VDict plans \<Rightarrow>
                         bind_res (map_res (read_reservation fr counter) plans) (\<lambda>rs.
                           Inr \<lparr>lg_counter = counter, lg_publication_floor = pub, lg_plans = rs,
                                lg_other = without [''schema'', ''counter'', ''publication_floor'', ''plans''] d\<rparr>)
                     | _ \<Rightarrow> Inl (ReleaseError ''Invalid ledger plans''))
                | _ \<Rightarrow> Inl (ReleaseError ''Invalid ledger publication floor''))
           | _ \<Rightarrow> Inl (ReleaseError ''Invalid ledger counter''))
      | _ \<Rightarrow> Inl (ReleaseError ''Unsupported version ledger schema''))"

definition read_state :: "(pyfloat \<Rightarrow> string) \<Rightarrow> github_view \<Rightarrow> (ledger \<times> string option) rel" where
  "read_state fr gh =
     bind_res (gv_file gh) (\<lambda>content.
       case content of
         None \<Rightarrow>
           bind_res (gv_ref gh) (\<lambda>exists.
           rel_seq (rc_require (\<not> exists)
             ''Version ledger is missing from its existing branch; restore it from history'')
             (Inr (empty_ledger, None)))
       | Some f \<Rightarrow>
           rel_seq (rc_require (lf_type f = VStr ''file'' \<and> lf_encoding f = VStr ''base64'')
             ''Ledger must be a regular JSON file'')
           (bind_res (lf_size f) (\<lambda>size.
           rel_seq (rc_require (size \<le> 4000000) ''Ledger requires compaction before another allocation'')
           (bind_res (lf_json f) (\<lambda>v.
           bind_res (ledger_of_json fr v) (\<lambda>state.
           rel_seq (rc_require (fullmatch sha_pattern (lf_sha f)) ''Invalid ledger blob SHA'')
             (Inr (state, Some (lf_sha f)))))))))"

text \<open>
  The encoder sorts the keys of every object, so this is the order in which they are read back.
\<close>

fun canon :: "pyval \<Rightarrow> pyval" where
  "canon (VList xs) = VList (map canon xs)"
| "canon (VDict d) = VDict (sort_key fst (map (\<lambda>(k, v). (k, canon v)) d))"
| "canon v = v"

definition reservation_value :: "reservation \<Rightarrow> pyval" where
  "reservation_value r = VDict ((''plan'', VDict (plan_dict (rv_plan r))) #
     (case rv_parent r of None \<Rightarrow> [] | Some v \<Rightarrow> [(''parent'', v)]) @ rv_other r)"

definition ledger_value :: "ledger \<Rightarrow> pyval" where
  "ledger_value l = VDict ([(''schema'', VInt 1), (''counter'', VInt (lg_counter l)),
     (''publication_floor'', VInt (lg_publication_floor l)),
     (''plans'', VDict (map (\<lambda>(k, r). (k, reservation_value r)) (lg_plans l)))] @ lg_other l)"

text \<open>The JSON value that a write sends.\<close>

definition ledger_json :: "ledger \<Rightarrow> pyval" where
  "ledger_json l = canon (ledger_value l)"

record ledger_write =
  lw_state :: ledger
  lw_previous :: "string option"

definition write_state :: "ledger \<Rightarrow> string option \<Rightarrow> ledger_write" where
  "write_state state previous = \<lparr>lw_state = state, lw_previous = (if previous = Some [] then None else previous)\<rparr>"

subsection \<open>Reserving a plan\<close>

datatype reserve_result = Reserved release_plan | Reserve bool release_plan ledger_write

definition reserved_sequences :: "ledger \<Rightarrow> string \<Rightarrow> string \<Rightarrow> int list" where
  "reserved_sequences state base channel =
     List.map_filter (\<lambda>(_, r).
       if rp_base_version (rv_plan r) = base \<and> rp_channel (rv_plan r) = channel
       then (case rp_sequence (rv_plan r) of VInt n \<Rightarrow> Some n | _ \<Rightarrow> None) else None) (lg_plans state)"

definition choose_sequence ::
  "github_view \<Rightarrow> ledger \<Rightarrow> string \<Rightarrow> string \<Rightarrow> int \<Rightarrow> int \<Rightarrow> string \<Rightarrow> pyval rel" where
  "choose_sequence gh state base channel run_id attempt stamp =
     (if channel \<in> {''beta'', ''rc''}
      then bind_res (next_sequence gh base channel) (\<lambda>n.
        Inr (VInt (max n (max_default (reserved_sequences state base channel) + 1))))
      else if channel = ''nightly''
      then Inr (VStr (stamp @ ''.'' @ str_of_int run_id @ ''.'' @ str_of_int attempt))
      else Inr VNone)"

definition versioning_of :: "pyval \<Rightarrow> (string, pyval) dict rel" where
  "versioning_of policy =
     (case policy of
        VDict kv \<Rightarrow> (case map_of kv ''versioning'' of
                       Some (VDict config) \<Rightarrow> Inr config
                     | None \<Rightarrow> Inl (Raised KeyError)
                     | Some _ \<Rightarrow> Inl (Raised TypeError))
      | _ \<Rightarrow> Inl (Raised TypeError))"

definition reserve_plan ::
  "(pyfloat \<Rightarrow> string) \<Rightarrow> github_view \<Rightarrow> pyval \<Rightarrow> string \<Rightarrow> string \<Rightarrow> string \<Rightarrow> int \<Rightarrow> int \<Rightarrow> string \<Rightarrow> pyval \<Rightarrow>
   reserve_result rel" where
  "reserve_plan fr gh policy base channel source_sha run_id attempt stamp parent =
     bind_res (positive (VInt run_id) ''Invalid run ID'') (\<lambda>run.
     bind_res (read_state fr gh) (\<lambda>(state, previous).
       let run_key = str_of_int run
       in case map_of (lg_plans state) run_key of
            Some r \<Rightarrow>
              bind_res (validate_plan fr (VDict (plan_dict (rv_plan r))) (Some policy) (Some source_sha)) (\<lambda>p.
              rel_seq (rc_require (rp_base_version p = base \<and> rp_channel p = channel)
                ''Run already reserved a different release identity'')
              (rel_seq (rc_require (py_eq (case rv_parent r of None \<Rightarrow> VNone | Some v \<Rightarrow> v) parent)
                ''Run already reserved a different RC'')
              (Inr (Reserved p))))
          | None \<Rightarrow>
              bind_res (choose_sequence gh state base channel run_id attempt stamp) (\<lambda>sequence.
              bind_res (versioning_of policy) (\<lambda>config.
              rel_seq (rc_require (int_field_ok (\<lambda>n. 0 \<le> n) (get_or config ''build_number_floor'' (VInt 0)))
                ''Invalid native build counter floor'')
              (let number = max (lg_counter state) (policy_floor config) + 1
               in bind_res (create_plan fr base channel sequence source_sha policy (Some number)) (\<lambda>p.
                  rel_seq (ensure_absent gh (rp_tag p))
                  (bind_res (gv_ref_later gh) (\<lambda>exists.
                    Inr (Reserve (\<not> exists) p (write_state
                      (state\<lparr>lg_counter := number,
                             lg_plans := dict_set run_key \<lparr>rv_plan = p, rv_parent = Some parent, rv_other = []\<rparr>
                               (lg_plans state)\<rparr>)
                      previous))))))))))"

subsection \<open>Publication\<close>

definition published_tags :: "(string \<times> pyval) list \<Rightarrow> string list" where
  "published_tags releases = map fst (filter (\<lambda>(_, draft). draft = VBool False) releases)"

definition build_of :: "reservation \<Rightarrow> int" where
  "build_of r = (case rp_build_number (rv_plan r) of Some n \<Rightarrow> n | None \<Rightarrow> 0)"

text \<open>\<open>None\<close> is the comparison of a missing build number, which raises.\<close>

definition plan_build :: "release_plan \<Rightarrow> int rel" where
  "plan_build p = (case rp_build_number p of None \<Rightarrow> Inl (Raised TypeError) | Some n \<Rightarrow> Inr n)"

definition verify_reservation_in ::
  "(pyfloat \<Rightarrow> string) \<Rightarrow> github_view \<Rightarrow> ledger \<Rightarrow> pyval \<Rightarrow> int \<Rightarrow> pyval \<Rightarrow> release_plan rel" where
  "verify_reservation_in fr gh state plan run_id parent =
     bind_res (validate_plan fr plan None None) (\<lambda>p.
     bind_res (positive (VInt run_id) ''Invalid run ID'') (\<lambda>run.
     rel_seq (rc_require
       (case map_of (lg_plans state) (str_of_int run) of
          None \<Rightarrow> False
        | Some r \<Rightarrow> rv_plan r = p \<and> (case rv_parent r of None \<Rightarrow> False | Some v \<Rightarrow> py_eq v parent) \<and> rv_other r = [])
       ''Version reservation differs from build plan'')
     (bind_res (plan_build p) (\<lambda>n.
     rel_seq (rc_require (lg_publication_floor state < n)
       ''Build number has already reached or fallen below the publication floor'')
     (bind_res (gv_releases gh) (\<lambda>releases.
     rel_seq (rc_require
       (list_all (\<lambda>(_, r). \<not> (rp_tag (rv_plan r) \<in> set (published_tags releases) \<and> n \<le> build_of r)) (lg_plans state))
       ''A package with this or a newer build number was already published'')
     (Inr p)))))))"

definition verify_reservation ::
  "(pyfloat \<Rightarrow> string) \<Rightarrow> github_view \<Rightarrow> pyval \<Rightarrow> int \<Rightarrow> pyval \<Rightarrow> release_plan rel" where
  "verify_reservation fr gh plan run_id parent =
     bind_res (read_state fr gh) (\<lambda>(state, _). verify_reservation_in fr gh state plan run_id parent)"

definition verify_promotion_order_in ::
  "(pyfloat \<Rightarrow> string) \<Rightarrow> github_view \<Rightarrow> ledger \<Rightarrow> pyval \<Rightarrow> release_plan rel" where
  "verify_promotion_order_in fr gh state plan =
     bind_res (validate_plan fr plan None None) (\<lambda>p.
     rel_seq (rc_require (rp_channel p = ''rc'' \<and> rp_promotion p = ''promote-bytes'')
       ''Byte promotion requires a promote-bytes RC plan'')
     (rel_seq (rc_require (length (filter (\<lambda>(_, r). rv_plan r = p) (lg_plans state)) = 1)
       ''Accepted RC has no unique durable version reservation'')
     (bind_res (plan_build p) (\<lambda>n.
     rel_seq (rc_require (lg_publication_floor state \<le> n) ''Accepted RC build number is below the publication floor'')
     (bind_res (gv_releases gh) (\<lambda>releases.
     rel_seq (rc_require (rp_tag p \<in> set (published_tags releases)) ''Accepted RC is no longer published'')
     (rel_seq (rc_require
       (list_all (\<lambda>(_, r). \<not> (rp_tag (rv_plan r) \<noteq> rp_tag p \<and> rp_tag (rv_plan r) \<in> set (published_tags releases) \<and>
          n < build_of r)) (lg_plans state))
       ''A newer native build was published after the accepted RC'')
     (Inr p))))))))"

definition verify_promotion_order :: "(pyfloat \<Rightarrow> string) \<Rightarrow> github_view \<Rightarrow> pyval \<Rightarrow> release_plan rel" where
  "verify_promotion_order fr gh plan =
     bind_res (read_state fr gh) (\<lambda>(state, _). verify_promotion_order_in fr gh state plan)"

definition begin_publication ::
  "(pyfloat \<Rightarrow> string) \<Rightarrow> github_view \<Rightarrow> pyval \<Rightarrow> int \<Rightarrow> pyval \<Rightarrow> bool \<Rightarrow> (release_plan \<times> ledger_write) rel" where
  "begin_publication fr gh plan run_id parent promotion =
     bind_res (positive (VInt run_id) ''Invalid run ID'') (\<lambda>_.
     bind_res (read_state fr gh) (\<lambda>(state, previous).
     bind_res (if promotion then verify_promotion_order_in fr gh state plan
               else verify_reservation_in fr gh state plan run_id parent) (\<lambda>p.
     bind_res (plan_build p) (\<lambda>n.
       Inr (p, write_state (state\<lparr>lg_publication_floor := n\<rparr>) previous)))))"

subsection \<open>Well-formed ledgers\<close>

definition reservation_ok :: "int \<Rightarrow> string \<times> reservation \<Rightarrow> bool" where
  "reservation_ok counter e \<longleftrightarrow>
     plan_ok (rv_plan (snd e)) \<and> (\<exists>n. rp_build_number (rv_plan (snd e)) = Some n \<and> 0 < n \<and> n \<le> counter)"

definition ledger_ok :: "ledger \<Rightarrow> bool" where
  "ledger_ok l \<longleftrightarrow>
     0 \<le> lg_publication_floor l \<and> lg_publication_floor l \<le> lg_counter l \<and>
     list_all (reservation_ok (lg_counter l)) (lg_plans l)"

lemma validate_plan_ok: "validate_plan fr v policy sha = Inr p \<Longrightarrow> plan_ok p"
  by (auto simp: validate_plan_def intro: check_plan_ok)

lemma plan_ok_build: "plan_ok p \<Longrightarrow> rp_build_number p = Some n \<Longrightarrow> 0 < n \<and> n \<le> 2100000000"
  by (simp add: plan_ok_def build_ok_def)

lemma read_reservation_ok:
  assumes "read_reservation fr counter e = Inr e'"
  shows "reservation_ok counter e'" "fst e' = fst e"
proof -
  obtain key v where e: "e = (key, v)" by fastforce
  from assms e obtain r p n where "v = VDict r" "validate_plan fr (get_or r ''plan'' VNone) None None = Inr p"
    "rp_build_number p = Some n" "n \<le> counter" "fst e' = key" "rv_plan (snd e') = p"
    by (auto simp: read_reservation_def split: pyval.splits option.splits)
  moreover from this have "plan_ok p" by (intro validate_plan_ok)
  ultimately show "reservation_ok counter e'" "fst e' = fst e"
    using e plan_ok_build [of p n] by (auto simp: reservation_ok_def)
qed

lemma map_res_list_all:
  "map_res f xs = Inr ys \<Longrightarrow> (\<And>x y. f x = Inr y \<Longrightarrow> P y) \<Longrightarrow> list_all P ys"
  by (induction xs arbitrary: ys) auto

lemma ledger_of_json_ok:
  assumes "ledger_of_json fr v = Inr l"
  shows "ledger_ok l"
proof -
  from assms obtain plans where l: "0 \<le> lg_publication_floor l" "lg_publication_floor l \<le> lg_counter l"
    "map_res (read_reservation fr (lg_counter l)) plans = Inr (lg_plans l)"
    by (auto simp: ledger_of_json_def split: pyval.splits)
  have "list_all (reservation_ok (lg_counter l)) (lg_plans l)"
    using l(3) by (rule map_res_list_all) (rule read_reservation_ok)
  with l show ?thesis by (simp add: ledger_ok_def)
qed

lemma empty_ledger_ok: "ledger_ok empty_ledger"
  by (simp add: ledger_ok_def empty_ledger_def)

lemma read_state_ok: "read_state fr gh = Inr (l, previous) \<Longrightarrow> ledger_ok l"
  by (auto simp: read_state_def empty_ledger_ok intro: ledger_of_json_ok split: option.splits)

subsection \<open>What is written can be read back\<close>

lemma sort_key_map: "sort_key f (map g xs) = map g (sort_key (\<lambda>x. f (g x)) xs)"
proof (induction xs)
  case (Cons x xs)
  have "insort_key f (g x) (map g ys) = map g (insort_key (\<lambda>x. f (g x)) x ys)" for ys
    by (induction ys) auto
  with Cons show ?case by simp
qed simp

lemma map_of_sort_key:
  assumes "distinct (dict_keys d)"
  shows "map_of (sort_key fst d) = map_of d"
proof -
  have "distinct (map fst (sort_key fst d))"
    using assms by (metis distinct_map distinct_sort inj_on_cong set_sort)
  with assms show ?thesis by (simp add: map_of_inject_set)
qed

definition canon_dict :: "(string, pyval) dict \<Rightarrow> (string, pyval) dict" where
  "canon_dict d = map (\<lambda>(k, v). (k, canon v)) d"

lemma canon_dict_simps [simp]:
  "canon_dict [] = []"
  "canon_dict ((k, v) # d) = (k, canon v) # canon_dict d"
  "canon_dict (d @ e) = canon_dict d @ canon_dict e"
  by (simp_all add: canon_dict_def)

lemma dict_keys_canon_dict [simp]: "dict_keys (canon_dict d) = dict_keys d"
  by (induction d) auto

lemma canon_VDict: "canon (VDict d) = VDict (sort_key fst (canon_dict d))"
  by (simp add: canon_dict_def)

lemma get_or_sort_key: "distinct (dict_keys d) \<Longrightarrow> get_or (sort_key fst d) k x = get_or d k x"
  by (simp add: get_or_def map_of_sort_key)

lemma check_plan_cong:
  assumes "map_of d = map_of e"
  shows "check_plan (VDict d) = check_plan (VDict e)"
proof -
  have "set (dict_keys d) = set (dict_keys e)"
    using assms by (metis dom_map_of_conv_image_fst set_map)
  with assms show ?thesis by (simp add: check_plan_def get_or_def)
qed

lemma plan_ok_sequence:
  assumes "plan_ok p"
  shows "canon (rp_sequence p) = rp_sequence p"
proof -
  from assms have "identity_of (VStr (rp_base_version p)) (VStr (rp_channel p)) (rp_sequence p) = Inr (rp_version p)"
    by (simp add: plan_ok_def)
  then show ?thesis by (cases rule: identity_of_cases) (auto split: if_splits)
qed

lemma check_plan_canon:
  assumes "plan_ok p"
  shows "check_plan (canon (VDict (plan_dict p))) = Inr p"
proof -
  have "canon_dict (plan_dict p) = plan_dict p"
    using plan_ok_sequence [OF assms] by (cases "rp_build_number p") (simp_all add: plan_dict_def int_or_none_def)
  moreover have "distinct (dict_keys (plan_dict p))" by (simp add: plan_dict_def)
  ultimately have "check_plan (canon (VDict (plan_dict p))) = check_plan (VDict (plan_dict p))"
    unfolding canon_VDict by (intro check_plan_cong) (simp add: map_of_sort_key)
  then show ?thesis using assms by (simp add: check_plan_dict)
qed

text \<open>The shape of a ledger that a write sends.\<close>

definition entry_wf :: "string \<times> reservation \<Rightarrow> bool" where
  "entry_wf e \<longleftrightarrow>
     (\<exists>n. positive (VStr (fst e)) ''Invalid ledger run ID'' = Inr n) \<and>
     distinct (''plan'' # ''parent'' # dict_keys (rv_other (snd e)))"

definition ledger_wf :: "ledger \<Rightarrow> bool" where
  "ledger_wf l \<longleftrightarrow> ledger_ok l \<and> list_all entry_wf (lg_plans l) \<and> distinct (dict_keys (lg_plans l)) \<and>
     distinct (''schema'' # ''counter'' # ''publication_floor'' # ''plans'' # dict_keys (lg_other l))"

definition norm_reservation :: "reservation \<Rightarrow> reservation" where
  "norm_reservation r = \<lparr>rv_plan = rv_plan r, rv_parent = map_option canon (rv_parent r),
     rv_other = sort_key fst (canon_dict (rv_other r))\<rparr>"

definition norm_plans :: "(string, reservation) dict \<Rightarrow> (string, reservation) dict" where
  "norm_plans d = map (\<lambda>(k, r). (k, norm_reservation r)) d"

definition norm_ledger :: "ledger \<Rightarrow> ledger" where
  "norm_ledger l = l\<lparr>lg_plans := sort_key fst (norm_plans (lg_plans l)),
     lg_other := sort_key fst (canon_dict (lg_other l))\<rparr>"

lemma without_sort_key: "without names (sort_key fst d) = sort_key fst (without names d)"
  by (simp add: without_def filter_sort)

lemma without_id: "set (dict_keys d) \<inter> set names = {} \<Longrightarrow> without names d = d"
  by (auto simp: without_def filter_id_conv)

lemma without_append: "without names (d @ e) = without names d @ without names e"
  by (simp add: without_def)

lemma read_reservation_json:
  assumes "reservation_ok counter (k, r)" "entry_wf (k, r)"
  shows "read_reservation fr counter (k, canon (reservation_value r)) = Inr (k, norm_reservation r)"
proof -
  define d where "d = (''plan'', canon (VDict (plan_dict (rv_plan r)))) #
    (case rv_parent r of None \<Rightarrow> [] | Some v \<Rightarrow> [(''parent'', canon v)]) @ canon_dict (rv_other r)"
  have cd: "canon (reservation_value r) = VDict (sort_key fst d)"
    unfolding reservation_value_def d_def by (cases "rv_parent r") (simp_all add: canon_VDict del: canon.simps(2))
  from assms obtain n m where n: "rp_build_number (rv_plan r) = Some n" "n \<le> counter" "plan_ok (rv_plan r)"
    "positive (VStr k) ''Invalid ledger run ID'' = Inr m"
    and other: "distinct (''plan'' # ''parent'' # dict_keys (rv_other r))"
    by (auto simp: reservation_ok_def entry_wf_def)
  have dist: "distinct (dict_keys d)" using other by (cases "rv_parent r") (auto simp: d_def)
  have "without [''plan'', ''parent''] (canon_dict (rv_other r)) = canon_dict (rv_other r)"
    using other by (intro without_id) (auto simp del: set_map)
  then have "without [''plan'', ''parent''] d = canon_dict (rv_other r)"
    by (cases "rv_parent r") (simp_all add: d_def without_def)
  moreover have "map_of (canon_dict (rv_other r)) ''parent'' = None"
    using other by (auto simp: map_of_eq_None_iff simp del: set_map simp flip: set_map)
  then have "map_of d ''parent'' = map_option canon (rv_parent r)" by (cases "rv_parent r") (simp_all add: d_def)
  moreover have "get_or d ''plan'' VNone = canon (VDict (plan_dict (rv_plan r)))" by (simp add: get_or_def d_def)
  ultimately show ?thesis
    using n check_plan_canon [OF n(3)]
    by (simp add: cd read_reservation_def get_or_sort_key [OF dist] map_of_sort_key [OF dist] without_sort_key
      validate_plan_def norm_reservation_def del: canon.simps(2))
qed

lemma map_res_map_id: "(\<And>x. x \<in> set xs \<Longrightarrow> f (g x) = Inr (h x)) \<Longrightarrow> map_res f (map g xs) = Inr (map h xs)"
  by (induction xs) auto

text \<open>
  The file that a write leaves is read back as the same ledger, up to the order of its keys.
\<close>

lemma ledger_of_json_ledger_json:
  assumes "ledger_wf l"
  shows "ledger_of_json fr (ledger_json l) = Inr (norm_ledger l)"
proof -
  define plans where "plans = sort_key fst (map (\<lambda>(k, r). (k, canon (reservation_value r))) (lg_plans l))"
  define d where "d = [(''schema'', VInt 1), (''counter'', VInt (lg_counter l)),
     (''publication_floor'', VInt (lg_publication_floor l)), (''plans'', VDict plans)] @ canon_dict (lg_other l)"
  have j: "ledger_json l = VDict (sort_key fst d)"
    unfolding ledger_json_def ledger_value_def d_def plans_def
    by (simp add: canon_VDict canon_dict_def case_prod_unfold comp_def del: canon.simps(2))
  have dist: "distinct (dict_keys d)" using assms by (auto simp: d_def ledger_wf_def)
  have ok: "0 \<le> lg_publication_floor l" "lg_publication_floor l \<le> lg_counter l"
    using assms by (auto simp: ledger_wf_def ledger_ok_def)
  have "plans = map (\<lambda>e. (fst e, canon (reservation_value (snd e)))) (sort_key fst (lg_plans l))"
    by (simp add: plans_def case_prod_unfold sort_key_map)
  moreover have "map_res (read_reservation fr (lg_counter l))
      (map (\<lambda>e. (fst e, canon (reservation_value (snd e)))) (sort_key fst (lg_plans l))) =
      Inr (map (\<lambda>e. (fst e, norm_reservation (snd e))) (sort_key fst (lg_plans l)))"
    using assms by (intro map_res_map_id read_reservation_json)
      (auto simp: ledger_wf_def ledger_ok_def list_all_iff)
  ultimately have rs: "map_res (read_reservation fr (lg_counter l)) plans = Inr (lg_plans (norm_ledger l))"
    by (simp add: norm_ledger_def norm_plans_def case_prod_unfold sort_key_map)
  have "without [''schema'', ''counter'', ''publication_floor'', ''plans''] (canon_dict (lg_other l)) = canon_dict (lg_other l)"
    using assms by (intro without_id) (auto simp: ledger_wf_def simp del: set_map)
  then have other: "without [''schema'', ''counter'', ''publication_floor'', ''plans''] d = canon_dict (lg_other l)"
    by (simp add: d_def without_def)
  have get: "get_or d ''schema'' VNone = VInt 1" "get_or d ''counter'' VNone = VInt (lg_counter l)"
    "get_or d ''publication_floor'' VNone = VInt (lg_publication_floor l)" "get_or d ''plans'' VNone = VDict plans"
    by (simp_all add: d_def get_or_def)
  show ?thesis
    using ok by (simp add: j ledger_of_json_def get_or_sort_key [OF dist] get int_field_ok_def rs without_sort_key other)
      (simp add: norm_ledger_def)
qed

end
