(* ===== verification/Release_Checks.thy ===== *)
theory Release_Checks
  imports Release_Ledger
begin

section \<open>Which checks a release must have passed\<close>

text \<open>
  Model of \<^verbatim>\<open>scripts/release_validation.py\<close> and of \<^verbatim>\<open>scripts/validate_scorecard_json.py\<close>: the job
  results a release channel requires, the CI runs it is bound to, and the completeness of a
  Scorecard report.  Policies, results, jobs and reports are JSON values; raised exceptions keep
  their class and lose their message.
\<close>

subsection \<open>Access to JSON values\<close>

definition raise_if :: "bool \<Rightarrow> py_exc \<Rightarrow> unit rel" where
  "raise_if bad e = (if bad then Inl (Raised e) else Inr ())"

lemma raise_if_Inr [simp]: "raise_if b e = Inr u \<longleftrightarrow> \<not> b"
  by (simp add: raise_if_def)

text \<open>\<^verbatim>\<open>d[k]\<close> of a dictionary, and \<^verbatim>\<open>v[k]\<close> and \<^verbatim>\<open>v.get(k, ...)\<close> of any value, for a string \<open>k\<close>.\<close>

definition at_key :: "(string, pyval) dict \<Rightarrow> string \<Rightarrow> pyval rel" where
  "at_key d k = (case map_of d k of None \<Rightarrow> Inl (Raised KeyError) | Some v \<Rightarrow> Inr v)"

definition subscript :: "pyval \<Rightarrow> string \<Rightarrow> pyval rel" where
  "subscript v k = (case v of VDict d \<Rightarrow> at_key d k | _ \<Rightarrow> Inl (Raised TypeError))"

definition get_of :: "pyval \<Rightarrow> string \<Rightarrow> pyval \<Rightarrow> pyval rel" where
  "get_of v k dflt = (case v of VDict d \<Rightarrow> Inr (get_or d k dflt) | _ \<Rightarrow> Inl (Raised AttributeError))"

text \<open>What \<^verbatim>\<open>for x in v\<close> yields.\<close>

definition iterate :: "pyval \<Rightarrow> pyval list rel" where
  "iterate v =
     (case v of
        VList xs \<Rightarrow> Inr xs
      | VStr s \<Rightarrow> Inr (map (\<lambda>c. VStr [c]) s)
      | VDict d \<Rightarrow> Inr (map (VStr \<circ> fst) d)
      | _ \<Rightarrow> Inl (Raised TypeError))"

subsection \<open>The channel profile\<close>

definition WORKFLOW :: string where
  "WORKFLOW = ''release-quality-gate.yml''"

definition RELEASE_CHANNELS :: "string list" where
  "RELEASE_CHANNELS = [''nightly'', ''beta'', ''rc'', ''stable'']"

definition validator_pattern :: re where
  "validator_pattern =
     Seq (Plus (Cls [CRange (CHR ''A'') (CHR ''Z''), CRange (CHR ''a'') (CHR ''z''), CRange (CHR ''0'') (CHR ''9''),
                     CChar (CHR ''_''), CChar (CHR ''-'')]))
       (Seq (Lit ''.y'') (Seq (Opt (Chr (CHR ''a''))) (Lit ''ml'')))"

definition reserved_workflows :: "string list" where
  "reserved_workflows = [WORKFLOW, ''quality-gate.yml'', ''release-pipeline.yml'', ''release-build.yml'']"

definition channel_workflows :: "(string, pyval) dict \<Rightarrow> string list option rel" where
  "channel_workflows policy =
     (if \<not> has_key policy ''channel_validation_workflows'' then Inr None
      else
        case get_or policy ''channel_validation_workflows'' VNone of
          VDict config \<Rightarrow>
            rel_seq (raise_if
              (set (dict_keys config) \<noteq> {''beta''} \<or>
               get_or policy ''mode'' (VStr ''release'') \<noteq> VStr ''release'' \<or>
               get_or policy ''ci_execution'' (VStr ''github'') \<noteq> VStr ''github'' \<or>
               get_or policy ''single_entry_ci'' VNone \<noteq> VBool True \<or>
               type_of (get_or policy ''versioning'' VNone) \<noteq> TDict) ValueError)
            (case get_or config ''beta'' VNone of
               VList vs \<Rightarrow>
                 (case as_strings vs of
                    None \<Rightarrow> Inl (Raised ValueError)
                  | Some names \<Rightarrow>
                      rel_seq (raise_if
                        (names = [] \<or>
                         list_ex (\<lambda>name. \<not> fullmatch validator_pattern name \<or> name \<in> set reserved_workflows) names \<or>
                         \<not> distinct names) ValueError)
                      (Inr (Some names)))
             | _ \<Rightarrow> Inl (Raised ValueError))
        | _ \<Rightarrow> Inl (Raised ValueError))"

definition profile :: "(string, pyval) dict \<Rightarrow> string \<Rightarrow> pyval option rel" where
  "profile policy channel =
     bind_res (channel_workflows policy) (\<lambda>beta.
       case beta of
         None \<Rightarrow> Inr None
       | Some names \<Rightarrow>
           rel_seq (raise_if (channel \<notin> set RELEASE_CHANNELS) ValueError)
           (bind_res (if channel = ''beta'' then Inr (VList (map VStr names)) else at_key policy ''validation_workflows'')
             (\<lambda>workflows. Inr (Some (VDict [(''schema'', VInt 1), (''channel'', VStr channel), (''workflows'', workflows)])))))"

subsection \<open>The results of the gate\<close>

definition set_results :: "string list \<Rightarrow> string \<Rightarrow> (string, string) dict \<Rightarrow> (string, string) dict" where
  "set_results names verdict d = fold (\<lambda>name. dict_set name verdict) names d"

definition indexed :: "string \<Rightarrow> nat \<Rightarrow> string list" where
  "indexed prefix n = map (\<lambda>i. prefix @ str_of_nat i) [0..<n]"

definition report_name :: "pyval \<Rightarrow> string rel" where
  "report_name report =
     bind_res (subscript report ''name'') (\<lambda>v.
       case v of VStr s \<Rightarrow> Inr (''coverage-'' @ s) | _ \<Rightarrow> Inl (Raised TypeError))"

definition expected_results :: "(string, pyval) dict \<Rightarrow> string \<Rightarrow> (string, string) dict rel" where
  "expected_results policy channel =
     bind_res (channel_workflows policy) (\<lambda>beta.
       case beta of
         None \<Rightarrow> Inl (Raised ValueError)
       | Some names \<Rightarrow>
           rel_seq (raise_if (channel \<notin> set RELEASE_CHANNELS) ValueError)
           (bind_res (bind_res (at_key policy ''validation_workflows'') iterate) (\<lambda>workflows.
            bind_res (get_of (get_or policy ''coverage'' (VDict [])) ''reports'' (VList [])) (\<lambda>reports.
            bind_res (bind_res (iterate reports) (map_res report_name)) (\<lambda>coverage.
              let main = (if channel = ''beta'' then ''skipped'' else ''success'')
              in Inr (set_results coverage main
                   (set_results (indexed ''beta-check-'' (length names)) (if channel = ''beta'' then ''success'' else ''skipped'')
                     (set_results (indexed ''check-'' (length workflows)) main
                       (set_results [''scope'', ''workflow-contracts'', ''release-contracts''] ''success'' [])))))))))"

definition verdict_of :: "pyval \<Rightarrow> pyval rel" where
  "verdict_of result = get_of result ''result'' VNone"

definition check_results :: "(string, pyval) dict \<Rightarrow> string \<Rightarrow> (string, pyval) dict \<Rightarrow> unit rel" where
  "check_results policy channel results =
     bind_res (expected_results policy channel) (\<lambda>expected.
     rel_seq (raise_if (set (dict_keys results) \<noteq> set (dict_keys expected)) ValueError)
     (bind_res (at_key results ''scope'') (\<lambda>scope.
      bind_res (get_of scope ''outputs'' (VDict [])) (\<lambda>outputs.
      bind_res (get_of outputs ''run'' VNone) (\<lambda>run.
      rel_seq (raise_if (run \<noteq> VStr ''true'') ValueError)
      (bind_res (map_res (\<lambda>(name, result). bind_res (verdict_of result) (\<lambda>v.
         Inr (map_option VStr (map_of expected name) \<noteq> Some v))) results) (\<lambda>failed.
       raise_if (list_ex id failed) ValueError)))))))"

subsection \<open>The event and the runs\<close>

definition check_event :: "string option \<Rightarrow> pyval rel \<Rightarrow> string \<Rightarrow> unit rel" where
  "check_event trigger payload channel =
     bind_res
       (if trigger = Some ''workflow_dispatch''
        then bind_res payload (\<lambda>p. bind_res (get_of p ''inputs'' (VDict [])) (\<lambda>inputs. get_of inputs ''channel'' VNone))
        else Inr (if trigger = Some ''push'' then VStr ''beta''
                  else if trigger = Some ''schedule'' then VStr ''nightly'' else VNone)) (\<lambda>frozen.
       raise_if (channel \<notin> set RELEASE_CHANNELS \<or> frozen \<noteq> VStr channel) ValueError)"

definition job_passed :: "string \<Rightarrow> (string, pyval) dict \<Rightarrow> bool" where
  "job_passed sha job \<longleftrightarrow>
     get_or job ''head_sha'' VNone = VStr sha \<and> get_or job ''status'' VNone = VStr ''completed'' \<and>
     get_or job ''conclusion'' VNone = VStr ''success''"

definition jobs_named :: "(string, pyval) dict list \<Rightarrow> string \<Rightarrow> (string, pyval) dict list" where
  "jobs_named jobs name = filter (\<lambda>job. get_or job ''name'' VNone = VStr name) jobs"

definition job_succeeded :: "(string, pyval) dict list \<Rightarrow> string \<Rightarrow> string \<Rightarrow> bool" where
  "job_succeeded jobs sha name =
     (case jobs_named jobs name of [job] \<Rightarrow> job_passed sha job | _ \<Rightarrow> False)"

definition profile_marker :: "string \<Rightarrow> string" where
  "profile_marker channel = ''checks / Validation profile ('' @ channel @ '')''"

definition check_run_jobs :: "(string, pyval) dict list \<Rightarrow> string \<Rightarrow> string \<Rightarrow> unit rel" where
  "check_run_jobs jobs channel sha =
     (let markers = filter (\<lambda>job. is_str_ok (\<lambda>s. startswith s ''checks / Validation profile ('')
                               (get_or job ''name'' (VStr []))) jobs
      in rel_seq (raise_if (length markers \<noteq> 1) ValueError)
           (raise_if (list_ex (\<lambda>name. \<not> job_succeeded jobs sha name) [''checks / CI gate'', profile_marker channel])
             ValueError))"

subsection \<open>Scorecard reports\<close>

definition SCORECARD_CHECKS :: "string list" where
  "SCORECARD_CHECKS =
     [''Token-Permissions'', ''Branch-Protection'', ''Code-Review'', ''Dangerous-Workflow'', ''License'',
      ''Pinned-Dependencies'', ''Security-Policy'', ''SAST'', ''Contributors'', ''Packaging'', ''Binary-Artifacts'',
      ''Signed-Releases'', ''Dependency-Update-Tool'', ''Fuzzing'', ''CII-Best-Practices'', ''Vulnerabilities'',
      ''CI-Tests'', ''Maintained'']"

definition SCORECARD_VERSION :: pyval where
  "SCORECARD_VERSION =
     VDict [(''version'', VStr ''v5.6.0''), (''commit'', VStr ''61e84743356275f6ffca23b1b2f2cb945e19eb96'')]"

definition NOT_APPLICABLE :: "(string, string) dict" where
  "NOT_APPLICABLE =
     [(''Packaging'', ''packaging workflow not detected''), (''Signed-Releases'', ''no releases found'')]"

definition not_applicable :: "string \<Rightarrow> (string, pyval) dict \<Rightarrow> bool" where
  "not_applicable name check \<longleftrightarrow>
     (case map_of NOT_APPLICABLE name of
        None \<Rightarrow> False
      | Some text \<Rightarrow>
          get_or check ''score'' VNone = VInt (-1) \<and> get_or check ''reason'' VNone = VStr text \<and>
          get_or check ''error'' VNone = VNone)"

definition complete_check :: "string \<Rightarrow> (string, pyval) dict \<Rightarrow> bool" where
  "complete_check name check \<longleftrightarrow>
     not_applicable name check \<or>
     (int_field_ok (\<lambda>n. 0 \<le> n \<and> n \<le> 10) (get_or check ''score'' VNone) \<and> get_or check ''error'' VNone = VNone)"

fun validate_checks :: "string list \<Rightarrow> pyval list \<Rightarrow> string list rel" where
  "validate_checks seen [] = Inr seen"
| "validate_checks seen (v # vs) =
     (case v of
        VDict check \<Rightarrow>
          (case get_or check ''name'' VNone of
             VStr name \<Rightarrow>
               if name \<notin> set SCORECARD_CHECKS \<or> name \<in> set seen then Inl (Raised ValueError)
               else if \<not> complete_check name check then Inl (Raised ValueError)
               else validate_checks (name # seen) vs
           | _ \<Rightarrow> Inl (Raised ValueError))
      | _ \<Rightarrow> Inl (Raised TypeError))"

definition scorecard_repo :: "string \<Rightarrow> string \<Rightarrow> pyval" where
  "scorecard_repo repository commit =
     VDict [(''name'', VStr (''github.com/'' @ repository)), (''commit'', VStr commit)]"

definition validate_scorecard :: "pyval \<Rightarrow> string \<Rightarrow> string \<Rightarrow> unit rel" where
  "validate_scorecard result repository commit =
     rel_seq (raise_if (repository = [] \<or> \<not> fullmatch sha_pattern commit) ValueError)
     (case result of
        VDict d \<Rightarrow>
          rel_seq (raise_if (\<not> py_eq (get_or d ''repo'' VNone) (scorecard_repo repository commit)) ValueError)
          (rel_seq (raise_if (\<not> py_eq (get_or d ''scorecard'' VNone) SCORECARD_VERSION) ValueError)
          (case get_or d ''checks'' VNone of
             VList checks \<Rightarrow>
               bind_res (validate_checks [] checks) (\<lambda>seen.
                 raise_if (set seen \<noteq> set SCORECARD_CHECKS) ValueError)
           | _ \<Rightarrow> Inl (Raised TypeError)))
      | _ \<Rightarrow> Inl (Raised TypeError))"

subsection \<open>The gate\<close>

lemma map_of_set_results:
  "map_of (set_results names verdict d) k = (if k \<in> set names then Some verdict else map_of d k)"
  unfolding set_results_def by (induction names arbitrary: d) auto

lemma keys_set_results: "fst ` set (set_results names verdict d) = set names \<union> fst ` set d"
  unfolding set_results_def by (induction names arbitrary: d) auto

lemma indexed_apart:
  "name \<in> set (indexed ''check-'' n) \<Longrightarrow> name \<notin> set (indexed ''beta-check-'' m)"
  by (auto simp: indexed_def)

lemma coverage_names:
  assumes "map_res report_name reports = Inr names" "name \<in> set names"
  shows "\<exists>s. name = ''coverage-'' @ s"
proof -
  from assms(1) have "list_all2 (\<lambda>r name. report_name r = Inr name) reports names" by (simp add: map_res_Inr_iff)
  then have "\<exists>r. report_name r = Inr name" using assms(2) by (induction rule: list_all2_induct) (simp_all, blast)
  then obtain r where "report_name r = Inr name" by blast
  then obtain v where "(case v of VStr s \<Rightarrow> Inr (''coverage-'' @ s) | _ \<Rightarrow> Inl (Raised TypeError)) = Inr name"
    unfolding report_name_def bind_res_eq_Inr_iff by blast
  then show ?thesis by (cases v) (simp_all only: pyval.case sum.inject sum.distinct, blast)
qed

definition job_verdict :: "(string, pyval) dict \<Rightarrow> string \<Rightarrow> pyval option" where
  "job_verdict results name =
     (case map_of results name of Some (VDict d) \<Rightarrow> Some (get_or d ''result'' VNone) | _ \<Rightarrow> None)"

definition main_verdict :: "string \<Rightarrow> string" where
  "main_verdict channel = (if channel = ''beta'' then ''skipped'' else ''success'')"

definition beta_verdict :: "string \<Rightarrow> string" where
  "beta_verdict channel = (if channel = ''beta'' then ''success'' else ''skipped'')"

text \<open>
  What the policy declares as coverage reports, and the jobs of them: one for each report, named after
  it.  A policy without a coverage entry, or with none listed there, declares no report.
\<close>

definition declared_reports :: "(string, pyval) dict \<Rightarrow> pyval list rel" where
  "declared_reports policy =
     bind_res (get_of (get_or policy ''coverage'' (VDict [])) ''reports'' (VList [])) iterate"

definition coverage_job :: "pyval \<Rightarrow> string \<Rightarrow> bool" where
  "coverage_job report name \<longleftrightarrow>
     (\<exists>d s. report = VDict d \<and> map_of d ''name'' = Some (VStr s) \<and> name = ''coverage-'' @ s)"

lemma report_name_iff: "report_name report = Inr name \<longleftrightarrow> coverage_job report name"
proof -
  have named: "(case v of VStr s \<Rightarrow> Inr (''coverage-'' @ s) | _ \<Rightarrow> Inl (Raised TypeError)) = Inr name \<longleftrightarrow>
      (\<exists>s. v = VStr s \<and> name = ''coverage-'' @ s)" for v
    by (cases v) (simp_all only: pyval.case pyval.inject pyval.distinct sum.inject sum.distinct simp_thms eq_commute)
  have "subscript report ''name'' = Inr v \<longleftrightarrow> (\<exists>d. report = VDict d \<and> map_of d ''name'' = Some v)" for v
    by (cases report) (auto simp: subscript_def at_key_def split: option.split)
  then show ?thesis
    unfolding report_name_def coverage_job_def bind_res_eq_Inr_iff named by blast
qed

text \<open>The scope job says that the real checks ran.\<close>

definition scope_runs :: "(string, pyval) dict \<Rightarrow> bool" where
  "scope_runs results \<longleftrightarrow>
     (\<exists>scope outputs. map_of results ''scope'' = Some (VDict scope) \<and>
        get_or scope ''outputs'' (VDict []) = VDict outputs \<and> get_or outputs ''run'' VNone = VStr ''true'')"

lemma get_of_Inr_iff: "get_of v k dflt = Inr x \<longleftrightarrow> (\<exists>d. v = VDict d \<and> x = get_or d k dflt)"
  by (cases v) (auto simp: get_of_def)

lemma check_results_scope: "check_results policy channel results = Inr () \<Longrightarrow> scope_runs results"
  by (auto simp: check_results_def scope_runs_def at_key_def get_of_Inr_iff split: option.splits)

lemma expected_results_of:
  assumes "expected_results policy channel = Inr expected"
  obtains names workflows reports coverage where
    "channel_workflows policy = Inr (Some names)" "channel \<in> set RELEASE_CHANNELS"
    "bind_res (at_key policy ''validation_workflows'') iterate = Inr workflows"
    "\<And>k. k \<in> set (indexed ''check-'' (length workflows)) \<Longrightarrow> map_of expected k = Some (main_verdict channel)"
    "\<And>k. k \<in> set (indexed ''beta-check-'' (length names)) \<Longrightarrow> map_of expected k = Some (beta_verdict channel)"
    "\<And>k. k \<in> set coverage \<Longrightarrow> map_of expected k = Some (main_verdict channel)"
    "\<And>k. k \<in> set [''scope'', ''workflow-contracts'', ''release-contracts''] \<Longrightarrow> map_of expected k = Some ''success''"
    "fst ` set expected = set coverage \<union> set (indexed ''beta-check-'' (length names)) \<union>
       set (indexed ''check-'' (length workflows)) \<union> {''scope'', ''workflow-contracts'', ''release-contracts''}"
    "declared_reports policy = Inr reports" "list_all2 coverage_job reports coverage"
proof -
  from assms obtain names workflows reports coverage where r:
    "channel_workflows policy = Inr (Some names)" "channel \<in> set RELEASE_CHANNELS"
    "bind_res (at_key policy ''validation_workflows'') iterate = Inr workflows"
    "map_res report_name reports = Inr coverage"
    "expected = set_results coverage (main_verdict channel)
       (set_results (indexed ''beta-check-'' (length names)) (beta_verdict channel)
         (set_results (indexed ''check-'' (length workflows)) (main_verdict channel)
           (set_results [''scope'', ''workflow-contracts'', ''release-contracts''] ''success'' [])))"
    "declared_reports policy = Inr reports"
    unfolding expected_results_def main_verdict_def beta_verdict_def declared_reports_def Let_def
    by (auto split: option.splits)
  note cov = coverage_names [OF r(4)]
  show thesis
  proof (rule that [OF r(1-3)])
    fix k
    show "k \<in> set (indexed ''check-'' (length workflows)) \<Longrightarrow> map_of expected k = Some (main_verdict channel)"
      using cov [of k] indexed_apart [of k] unfolding r(5) map_of_set_results by simp
    show "k \<in> set (indexed ''beta-check-'' (length names)) \<Longrightarrow> map_of expected k = Some (beta_verdict channel)"
      using cov [of k] unfolding r(5) map_of_set_results by (auto simp: indexed_def)
    show "k \<in> set [''scope'', ''workflow-contracts'', ''release-contracts''] \<Longrightarrow> map_of expected k = Some ''success''"
      using cov [of k] unfolding r(5) map_of_set_results by (auto simp: indexed_def)
    show "k \<in> set coverage \<Longrightarrow> map_of expected k = Some (main_verdict channel)"
      unfolding r(5) map_of_set_results by simp
    show "declared_reports policy = Inr reports" by (rule r(6))
    show "list_all2 coverage_job reports coverage"
      using r(4) unfolding map_res_Inr_iff report_name_iff .
    show "fst ` set expected = set coverage \<union> set (indexed ''beta-check-'' (length names)) \<union>
       set (indexed ''check-'' (length workflows)) \<union> {''scope'', ''workflow-contracts'', ''release-contracts''}"
      unfolding r(5) keys_set_results by auto
  qed
qed

lemma check_results_verdicts:
  assumes "check_results policy channel results = Inr ()"
  obtains expected where "expected_results policy channel = Inr expected"
    "fst ` set results = fst ` set expected"
    "\<And>k v. map_of expected k = Some v \<Longrightarrow> job_verdict results k = Some (VStr v)"
proof -
  from assms obtain expected failed where e: "expected_results policy channel = Inr expected"
    "fst ` set results = fst ` set expected"
    "map_res (\<lambda>(name, result). bind_res (verdict_of result) (\<lambda>v.
         Inr (map_option VStr (map_of expected name) \<noteq> Some v))) results = Inr failed" "\<not> list_ex id failed"
    unfolding check_results_def by auto
  show thesis
  proof (rule that [OF e(1,2)])
    fix k v
    assume k: "map_of expected k = Some v"
    then have "k \<in> fst ` set results" using e(2) by (metis map_of_eq_None_iff option.distinct(1))
    then obtain r where r: "map_of results k = Some r" by (metis map_of_eq_None_iff not_None_eq)
    then have "(k, r) \<in> set results" by (rule map_of_SomeD)
    with e(3) obtain b where "b \<in> set failed" "bind_res (verdict_of r) (\<lambda>w. Inr (Some (VStr v) \<noteq> Some w)) = Inr b"
      unfolding map_res_Inr_iff list_all2_conv_all_nth in_set_conv_nth using k by fastforce
    moreover have "\<not> b" using e(4) calculation(1) by (auto simp: list_ex_iff)
    ultimately have "verdict_of r = Inr (VStr v)" by auto
    then show "job_verdict results k = Some (VStr v)"
      using r by (cases r) (auto simp: job_verdict_def verdict_of_def get_of_def)
  qed
qed

text \<open>
  C26: when the release gate passes, the policy opts in to channel validation and the channel is
  known, the prepared workflows succeeded, every main validation workflow and every coverage report
  that the policy declares has the verdict of the channel (skipped for beta, success otherwise),
  every beta workflow the opposite, the scope job succeeded with the real checks run, and no job but
  these took part: a coverage job exists exactly for each declared report.
\<close>

theorem release_gate_needs_every_check:
  assumes "check_results policy channel results = Inr ()"
  shows "\<exists>names workflows reports coverage.
    channel_workflows policy = Inr (Some names) \<and> channel \<in> set RELEASE_CHANNELS \<and>
    bind_res (at_key policy ''validation_workflows'') iterate = Inr workflows \<and>
    declared_reports policy = Inr reports \<and> list_all2 coverage_job reports coverage \<and>
    scope_runs results \<and>
    list_all (\<lambda>name. job_verdict results name = Some (VStr ''success''))
      [''scope'', ''workflow-contracts'', ''release-contracts''] \<and>
    list_all (\<lambda>name. job_verdict results name = Some (VStr (if channel = ''beta'' then ''skipped'' else ''success'')))
      (indexed ''check-'' (length workflows)) \<and>
    list_all (\<lambda>name. job_verdict results name = Some (VStr (if channel = ''beta'' then ''success'' else ''skipped'')))
      (indexed ''beta-check-'' (length names)) \<and>
    list_all (\<lambda>name. job_verdict results name = Some (VStr (if channel = ''beta'' then ''skipped'' else ''success'')))
      coverage \<and>
    fst ` set results = set coverage \<union> set (indexed ''beta-check-'' (length names)) \<union>
      set (indexed ''check-'' (length workflows)) \<union> {''scope'', ''workflow-contracts'', ''release-contracts''}"
proof -
  obtain expected where e: "expected_results policy channel = Inr expected" "fst ` set results = fst ` set expected"
    "\<And>k v. map_of expected k = Some v \<Longrightarrow> job_verdict results k = Some (VStr v)"
    using assms by (rule check_results_verdicts) blast
  have verdicts: "list_all (\<lambda>name. job_verdict results name = Some (VStr v)) ks"
    if "\<And>k. k \<in> set ks \<Longrightarrow> map_of expected k = Some v" for ks v
    unfolding list_all_iff using that e(3) by blast
  show ?thesis
    using e(1)
  proof (rule expected_results_of)
    fix names workflows reports coverage
    assume x: "channel_workflows policy = Inr (Some names)" "channel \<in> set RELEASE_CHANNELS"
      "bind_res (at_key policy ''validation_workflows'') iterate = Inr workflows"
      "\<And>k. k \<in> set (indexed ''check-'' (length workflows)) \<Longrightarrow> map_of expected k = Some (main_verdict channel)"
      "\<And>k. k \<in> set (indexed ''beta-check-'' (length names)) \<Longrightarrow> map_of expected k = Some (beta_verdict channel)"
      "\<And>k. k \<in> set coverage \<Longrightarrow> map_of expected k = Some (main_verdict channel)"
      "\<And>k. k \<in> set [''scope'', ''workflow-contracts'', ''release-contracts''] \<Longrightarrow> map_of expected k = Some ''success''"
      "fst ` set expected = set coverage \<union> set (indexed ''beta-check-'' (length names)) \<union>
         set (indexed ''check-'' (length workflows)) \<union> {''scope'', ''workflow-contracts'', ''release-contracts''}"
      "declared_reports policy = Inr reports" "list_all2 coverage_job reports coverage"
    show ?thesis
      using x(1-3,9,10) x(8) [folded e(2)] check_results_scope [OF assms]
        verdicts [OF x(4)] verdicts [OF x(5)] verdicts [OF x(6)] verdicts [OF x(7)]
      unfolding main_verdict_def beta_verdict_def by (intro exI conjI)
  qed
qed

definition example_channel_policy :: "(string, pyval) dict" where
  "example_channel_policy =
     [(''single_entry_ci'', VBool True), (''versioning'', VDict []), (''validation_workflows'', VList [VStr ''ci.yml'']),
      (''channel_validation_workflows'', VDict [(''beta'', VList [VStr ''beta.yaml''])]),
      (''coverage'', VDict [(''reports'', VList [VDict [(''name'', VStr ''unit'')]])])]"

definition example_results :: "(string, pyval) dict" where
  "example_results =
     [(''scope'', VDict [(''result'', VStr ''success''), (''outputs'', VDict [(''run'', VStr ''true'')])]),
      (''workflow-contracts'', VDict [(''result'', VStr ''success'')]),
      (''release-contracts'', VDict [(''result'', VStr ''success'')]),
      (''check-0'', VDict [(''result'', VStr ''success'')]),
      (''beta-check-0'', VDict [(''result'', VStr ''skipped'')]),
      (''coverage-unit'', VDict [(''result'', VStr ''success'')])]"

lemma example_gate_passes: "check_results example_channel_policy ''rc'' example_results = Inr ()"
  by code_simp

theorem release_gate_needs_every_check_witness:
  "\<exists>names workflows reports coverage. channel_workflows example_channel_policy = Inr (Some names) \<and>
     declared_reports example_channel_policy = Inr reports \<and> list_all2 coverage_job reports coverage \<and>
     list_all (\<lambda>name. job_verdict example_results name = Some (VStr ''success'')) coverage \<and>
     list_all (\<lambda>name. job_verdict example_results name = Some (VStr ''success'')) (indexed ''check-'' (length workflows)) \<and>
     bind_res (at_key example_channel_policy ''validation_workflows'') iterate = Inr (workflows :: pyval list)"
proof -
  have b: "(''rc'' = ''beta'') = False" by simp
  show ?thesis
    using release_gate_needs_every_check [OF example_gate_passes] unfolding b if_False
    by (elim exE conjE) (intro exI conjI; assumption)
qed

subsection \<open>Scorecard reports are complete\<close>

definition check_entry :: "pyval \<Rightarrow> string \<Rightarrow> bool" where
  "check_entry v name \<longleftrightarrow>
     (case v of VDict check \<Rightarrow> get_or check ''name'' VNone = VStr name \<and> complete_check name check | _ \<Rightarrow> False)"

lemma validate_checks_iff:
  "validate_checks seen vs = Inr out \<longleftrightarrow>
     (\<exists>names. out = rev names @ seen \<and> list_all2 check_entry vs names \<and> distinct names \<and>
        set names \<subseteq> set SCORECARD_CHECKS \<and> set names \<inter> set seen = {})"
proof (induction seen vs rule: validate_checks.induct)
  case (1 seen)
  then show ?case by auto
next
  case (2 seen v vs)
  show ?case
  proof (cases "\<exists>check name. v = VDict check \<and> get_or check ''name'' VNone = VStr name")
    case False
    then have "\<not> check_entry v name" for name by (cases v) (auto simp: check_entry_def)
    moreover have "validate_checks seen (v # vs) \<noteq> Inr out"
      using False by (cases v) (auto split: pyval.splits)
    ultimately show ?thesis by (auto simp: list_all2_Cons1)
  next
    case True
    then obtain check name where v: "v = VDict check" and n: "get_or check ''name'' VNone = VStr name" by blast
    have entry: "check_entry v m \<longleftrightarrow> m = name \<and> complete_check name check" for m
      unfolding check_entry_def v pyval.case n by auto
    have step: "validate_checks seen (v # vs) = Inr out \<longleftrightarrow>
        name \<in> set SCORECARD_CHECKS \<and> name \<notin> set seen \<and> complete_check name check \<and>
        validate_checks (name # seen) vs = Inr out"
      unfolding v validate_checks.simps pyval.case n by auto
    have IH: "name \<in> set SCORECARD_CHECKS \<and> name \<notin> set seen \<and> complete_check name check \<Longrightarrow>
        validate_checks (name # seen) vs = Inr out \<longleftrightarrow>
        (\<exists>names. out = rev names @ name # seen \<and> list_all2 check_entry vs names \<and> distinct names \<and>
          set names \<subseteq> set SCORECARD_CHECKS \<and> set names \<inter> set (name # seen) = {})"
      using 2 v n by auto
    show ?thesis
      unfolding step list_all2_Cons1 entry using IH
      by (auto 4 4 intro: exI [of _ "name # _"])
  qed
qed

text \<open>
  a Scorecard report is accepted exactly when it is about this repository and commit, comes from
  the reviewed version, and lists each of the eighteen known checks once, every one with a score
  from 0 to 10 and no error, or with the exact not-applicable result of the two checks that have one.
\<close>

lemma scorecard_accepted_iff_complete:
  "validate_scorecard (VDict report) repository commit = Inr () \<longleftrightarrow>
     repository \<noteq> [] \<and> fullmatch sha_pattern commit \<and>
     py_eq (get_or report ''repo'' VNone) (scorecard_repo repository commit) \<and>
     py_eq (get_or report ''scorecard'' VNone) SCORECARD_VERSION \<and>
     (\<exists>checks names. get_or report ''checks'' VNone = VList checks \<and> distinct names \<and>
        set names = set SCORECARD_CHECKS \<and> list_all2 check_entry checks names)"
proof -
  have checks: "(case v of
         VList checks \<Rightarrow> bind_res (validate_checks [] checks) (\<lambda>seen. raise_if (set seen \<noteq> set SCORECARD_CHECKS) ValueError)
       | _ \<Rightarrow> Inl (Raised TypeError)) = Inr () \<longleftrightarrow>
     (\<exists>checks names. v = VList checks \<and> distinct names \<and> set names = set SCORECARD_CHECKS \<and>
        list_all2 check_entry checks names)" for v
  proof (cases v)
    case (VList checks)
    have rev_ex: "(\<exists>out. (\<exists>names. out = rev names \<and> P names) \<and> Q (set out)) \<longleftrightarrow> (\<exists>names. P names \<and> Q (set names))"
      for P and Q :: "string set \<Rightarrow> bool" by (metis set_rev)
    have "bind_res (validate_checks [] checks) (\<lambda>seen. raise_if (set seen \<noteq> set SCORECARD_CHECKS) ValueError) = Inr () \<longleftrightarrow>
        (\<exists>names. (list_all2 check_entry checks names \<and> distinct names \<and> set names \<subseteq> set SCORECARD_CHECKS) \<and>
           set names = set SCORECARD_CHECKS)"
      unfolding bind_res_eq_Inr_iff raise_if_Inr validate_checks_iff
      by (simp only: append_Nil2 set_simps Int_empty_right simp_thms not_not) (rule rev_ex)
    also have "\<dots> \<longleftrightarrow> (\<exists>names. distinct names \<and> set names = set SCORECARD_CHECKS \<and> list_all2 check_entry checks names)"
      by blast
    finally show ?thesis using VList by simp
  qed simp_all
  show ?thesis
    unfolding validate_scorecard_def pyval.case rel_seq_Inr_iff raise_if_Inr checks by (simp only: simp_thms de_Morgan_disj not_not conj_assoc)
qed

end
