(* ===== verification/Version_Receipt.thy ===== *)
theory Version_Receipt
  imports Release_Checks "HOL-Library.Multiset"
begin

section \<open>Build receipts\<close>

text \<open>
  Model of \<^verbatim>\<open>scripts/version_receipt.py\<close>: a receipt binds the version inputs of a platform build to
  the exact packages it produced, and a release is accepted only when its receipts cover every
  payload once.  The directory of packages is a list of entries, the parsed JSON and the digests of
  files are given; \<open>fr\<close> is the text of a float in JSON.
\<close>

subsection \<open>The producer\<close>

definition repository_pattern :: re where
  "repository_pattern =
     (let name = Plus (Cls [CRange (CHR ''A'') (CHR ''Z''), CRange (CHR ''a'') (CHR ''z''), CRange (CHR ''0'') (CHR ''9''),
                            CChar (CHR ''_''), CChar (CHR ''.''), CChar (CHR ''-'')])
      in Seq name (Seq (Chr (CHR ''/'')) name))"

definition repository_ok :: "string \<Rightarrow> bool" where
  "repository_ok s \<longleftrightarrow>
     fullmatch repository_pattern s \<and> list_all (\<lambda>part. part \<noteq> ''.'' \<and> part \<noteq> ''..'') (split_on (CHR ''/'') s)"

definition producer_identity :: "pyval \<Rightarrow> pyval \<Rightarrow> pyval \<Rightarrow> pyval \<Rightarrow> pyval rel" where
  "producer_identity repository run_id run_attempt source_sha =
     rel_seq (raise_if
       (\<not> (is_str_ok repository_ok repository \<and> int_field_ok (\<lambda>n. 0 < n) run_id \<and>
           int_field_ok (\<lambda>n. 0 < n) run_attempt \<and> is_str_ok (fullmatch sha_pattern) source_sha)) ValueError)
     (Inr (VDict [(''repository'', repository), (''run_id'', run_id), (''run_attempt'', run_attempt),
                  (''source_sha'', source_sha)]))"

text \<open>\<open>environ\<close> is the process environment; \<^verbatim>\<open>int\<close> of a text of ASCII digits.\<close>

definition env_or :: "(string, string) dict \<Rightarrow> string \<Rightarrow> string" where
  "env_or environ name = (case map_of environ name of None \<Rightarrow> [] | Some v \<Rightarrow> v)"

definition current_producer :: "(string, string) dict \<Rightarrow> pyval \<Rightarrow> pyval option rel" where
  "current_producer environ source_sha =
     (if map_of environ ''GITHUB_ACTIONS'' \<noteq> Some ''true'' then Inr None
      else
        (let run = env_or environ ''GITHUB_RUN_ID''; attempt = env_or environ ''GITHUB_RUN_ATTEMPT''
         in rel_seq (raise_if (\<not> fullmatch positive_pattern run \<or> \<not> fullmatch positive_pattern attempt) ValueError)
            (case (int_of_str run, int_of_str attempt) of
               (Some r, Some a) \<Rightarrow>
                 map_sum id Some
                   (producer_identity (VStr (env_or environ ''GITHUB_REPOSITORY'')) (VInt r) (VInt a) source_sha)
             | _ \<Rightarrow> Inl (Raised ValueError))))"

definition verify_producer_identity :: "pyval \<Rightarrow> (string, pyval) dict \<Rightarrow> unit rel" where
  "verify_producer_identity receipt wanted =
     bind_res (get_of receipt ''producer'' VNone) (\<lambda>v.
       case v of
         VDict producer \<Rightarrow>
           rel_seq (raise_if (set (dict_keys producer) \<noteq> set (dict_keys wanted)) ValueError)
           (bind_res (at_key producer ''repository'') (\<lambda>repository.
            bind_res (at_key producer ''run_id'') (\<lambda>run_id.
            bind_res (at_key producer ''run_attempt'') (\<lambda>run_attempt.
            bind_res (at_key producer ''source_sha'') (\<lambda>source_sha.
            bind_res (producer_identity repository run_id run_attempt source_sha) (\<lambda>checked.
              raise_if (\<not> py_eq checked (VDict wanted)) ValueError))))))
       | _ \<Rightarrow> Inl (Raised ValueError))"

subsection \<open>Indented JSON\<close>

definition new_line :: "nat \<Rightarrow> string" where
  "new_line level = CHR 0x0A # replicate (2 * level) (CHR '' '')"

definition float_text :: "(pyfloat \<Rightarrow> string) \<Rightarrow> pyfloat \<Rightarrow> string" where
  "float_text fr f =
     (case f of Fin _ \<Rightarrow> fr f | PInf \<Rightarrow> ''Infinity'' | NInf \<Rightarrow> ''-Infinity'' | NaN \<Rightarrow> ''NaN'')"

definition block :: "nat \<Rightarrow> char \<Rightarrow> char \<Rightarrow> string list \<Rightarrow> string" where
  "block level op cl rows =
     (if rows = [] then [op, cl]
      else op # new_line (level + 1) @ join ('','' @ new_line (level + 1)) rows @ new_line level @ [cl])"

fun json_indent :: "(pyfloat \<Rightarrow> string) \<Rightarrow> nat \<Rightarrow> pyval \<Rightarrow> string" where
  "json_indent fr level VNone = ''null''"
| "json_indent fr level (VBool b) = (if b then ''true'' else ''false'')"
| "json_indent fr level (VInt i) = str_of_int i"
| "json_indent fr level (VFloat f) = float_text fr f"
| "json_indent fr level (VStr s) = json_string s"
| "json_indent fr level (VList xs) = block level (CHR ''['') (CHR '']'') (map (json_indent fr (level + 1)) xs)"
| "json_indent fr level (VDict kv) =
     block level (CHR ''{'') (CHR ''}'')
       (map (\<lambda>(k, t). json_string k @ '': '' @ t)
         (sort_key fst (map (\<lambda>(k, v). (k, json_indent fr (level + 1) v)) kv)))"

definition canonical :: "(pyfloat \<Rightarrow> string) \<Rightarrow> pyval \<Rightarrow> string" where
  "canonical fr v = json_indent fr 0 v @ [CHR 0x0A]"

subsection \<open>Creating a receipt\<close>

definition IMAGE_VARIABLES :: "string list" where
  "IMAGE_VARIABLES = [''ImageOS'', ''ImageVersion'', ''RUNNER_OS'', ''RUNNER_ARCH'']"

definition TOOLS :: "string list" where
  "TOOLS = [''node'', ''rustc'', ''cargo'', ''go'', ''xcodebuild'']"

text \<open>\<open>probe\<close> runs the version command of a tool, if it is installed.\<close>

fun add_tools :: "(string \<Rightarrow> string rel option) \<Rightarrow> string list \<Rightarrow> (string, pyval) dict \<Rightarrow> (string, pyval) dict rel" where
  "add_tools probe [] result = Inr result"
| "add_tools probe (name # names) result =
     (case probe name of
        None \<Rightarrow> add_tools probe names result
      | Some r \<Rightarrow> bind_res r (\<lambda>out.
          rel_seq (raise_if (strip out = [] \<or> 4096 < length (strip out)) ValueError)
          (add_tools probe names (dict_set name (VStr (strip out)) result))))"

definition capture_toolchain ::
  "string \<Rightarrow> string \<Rightarrow> (string, string) dict \<Rightarrow> (string \<Rightarrow> string rel option) \<Rightarrow> (string, pyval) dict rel" where
  "capture_toolchain platform python environ probe =
     add_tools probe TOOLS
       ([(''platform'', VStr platform), (''python'', VStr python)] @
        map (\<lambda>name. (name, VStr (env_or environ name))) (filter (\<lambda>name. env_or environ name \<noteq> []) IMAGE_VARIABLES))"

record package_entry =
  pe_name :: string
  pe_symlink :: bool
  pe_file :: bool
  pe_identity :: "(string, pyval) dict"

definition package_pattern :: re where
  "package_pattern =
     Seq (Cls [CRange (CHR ''A'') (CHR ''Z''), CRange (CHR ''a'') (CHR ''z''), CRange (CHR ''0'') (CHR ''9'')])
       (RepUpTo 199 (Cls [CRange (CHR ''A'') (CHR ''Z''), CRange (CHR ''a'') (CHR ''z''), CRange (CHR ''0'') (CHR ''9''),
                          CChar (CHR ''.''), CChar (CHR ''_''), CChar (CHR ''+''), CChar (CHR ''-'')]))"

text \<open>\<^verbatim>\<open>casefold\<close> matters on names that pass the pattern, which are ASCII.\<close>

definition is_receipt_name :: "string \<Rightarrow> bool" where
  "is_receipt_name name \<longleftrightarrow> fullmatch receipt_pattern name"

fun package_rows :: "string list \<Rightarrow> package_entry list \<Rightarrow> pyval list rel" where
  "package_rows seen [] = Inr []"
| "package_rows seen (e # es) =
     rel_seq (raise_if (startswith (pe_name e) ''release-inputs-'' \<and> endswith (pe_name e) ''.json'') ValueError)
     (rel_seq (raise_if (pe_symlink e \<or> \<not> pe_file e) ValueError)
     (rel_seq (raise_if (lower (pe_name e) \<in> set seen \<or> \<not> fullmatch package_pattern (pe_name e)) ValueError)
     (bind_res (package_rows (lower (pe_name e) # seen) es) (\<lambda>rows.
       Inr (VDict (dict_merge [(''name'', VStr (pe_name e))] (pe_identity e)) # rows)))))"

definition receipt_packages :: "package_entry list \<Rightarrow> pyval list rel" where
  "receipt_packages entries =
     bind_res (package_rows [] (sort_key pe_name entries)) (\<lambda>rows.
       rel_seq (raise_if (rows = []) ValueError) (Inr rows))"

text \<open>The digest of evidence read from JSON; a row that is no object raises when it is reached.\<close>

definition evidence_digest :: "(pyfloat \<Rightarrow> string) \<Rightarrow> pyval \<Rightarrow> string rel" where
  "evidence_digest fr v =
     bind_res (iterate v) (\<lambda>rows.
       if list_all is_dict rows then effective_inputs_digest fr (map entries_of rows)
       else bind_res (check_evidence (map entries_of (takeWhile is_dict rows)) []) (\<lambda>_. Inl (Raised TypeError)))"

record build_site =
  bs_assets_ok :: bool
  bs_output_ok :: bool
  bs_output_name :: string
  bs_entries :: "package_entry list"
  bs_platform :: string
  bs_python :: string
  bs_environ :: "(string, string) dict"
  bs_probe :: "string \<Rightarrow> string rel option"
  bs_inputs_unchanged :: "unit rel"
  bs_open :: "unit rel"

definition create_receipt ::
  "(pyfloat \<Rightarrow> string) \<Rightarrow> build_site \<Rightarrow> pyval \<Rightarrow> pyval \<Rightarrow> (pyval \<times> string) rel" where
  "create_receipt fr site plan evidence =
     bind_res (validate_plan fr plan None None) (\<lambda>p.
     bind_res (get_of evidence ''plan_sha256'' VNone) (\<lambda>stated.
     bind_res (plan_digest fr plan) (\<lambda>pd.
     rel_seq (raise_if (stated \<noteq> VStr pd) ValueError)
     (bind_res (get_of evidence ''source_sha'' VNone) (\<lambda>sha.
      bind_res (get_of evidence ''files'' VNone) (\<lambda>files.
      rel_seq (raise_if (sha \<noteq> VStr (rp_source_sha p) \<or> \<not> truthy files) ValueError)
      (bind_res (get_of evidence ''effective_inputs_sha256'' VNone) (\<lambda>effective.
       bind_res (evidence_digest fr files) (\<lambda>ed.
       rel_seq (raise_if (effective \<noteq> VStr ed) ValueError)
       (rel_seq (raise_if (\<not> bs_assets_ok site) ValueError)
       (rel_seq (raise_if (\<not> bs_output_ok site \<or> \<not> is_receipt_name (bs_output_name site)) ValueError)
       (bind_res (receipt_packages (bs_entries site)) (\<lambda>packages.
        bind_res (capture_toolchain (bs_platform site) (bs_python site) (bs_environ site) (bs_probe site)) (\<lambda>toolchain.
        bind_res (current_producer (bs_environ site) (VStr (rp_source_sha p))) (\<lambda>producer.
        rel_seq (bs_inputs_unchanged site)
        (rel_seq (bs_open site)
          (let result = VDict (dict_merge (entries_of evidence)
             ([(''artifacts'', VList packages), (''toolchain'', VDict toolchain)] @
              (case producer of None \<Rightarrow> [] | Some who \<Rightarrow> [(''producer'', who)])))
           in Inr (result, canonical fr result))))))))))))))))))"

subsection \<open>Verifying receipts\<close>

definition path_of :: "pyval \<Rightarrow> pyval rel" where
  "path_of row =
     bind_res (subscript row ''path'') (\<lambda>v. if is_list v \<or> is_dict v then Inl (Raised TypeError) else Inr v)"

definition paths_of :: "pyval \<Rightarrow> pyval list rel" where
  "paths_of files = bind_res (iterate files) (map_res path_of)"

definition same_set :: "pyval list \<Rightarrow> pyval list \<Rightarrow> bool" where
  "same_set xs ys \<longleftrightarrow> list_all (\<lambda>x. list_ex (py_eq x) ys) xs \<and> list_all (\<lambda>y. list_ex (py_eq y) xs) ys"

definition declared_files :: "pyval \<Rightarrow> pyval rel" where
  "declared_files policy = bind_res (subscript policy ''versioning'') (\<lambda>versioning. subscript versioning ''files'')"

definition PROJECTION_KEYS :: "string list" where
  "PROJECTION_KEYS = [''format'', ''field'', ''package'', ''projection'', ''value'']"

definition declared_row :: "release_plan \<Rightarrow> pyval \<Rightarrow> (pyval \<times> pyval) rel" where
  "declared_row p declaration =
     bind_res (subscript declaration ''format'') (\<lambda>fmt.
     bind_res (projected_value p (entries_of declaration)) (\<lambda>v.
     bind_res (path_of declaration) (\<lambda>path.
       Inr (path, VDict [(''format'', fmt), (''field'', get_or (entries_of declaration) ''field'' VNone),
                         (''package'', get_or (entries_of declaration) ''package'' VNone),
                         (''projection'', get_or (entries_of declaration) ''value'' (VStr ''package'')),
                         (''value'', v)]))))"

definition actual_row :: "pyval \<Rightarrow> pyval rel" where
  "actual_row row =
     (if is_dict row then Inr (VDict (map (\<lambda>k. (k, get_or (entries_of row) k VNone)) PROJECTION_KEYS))
      else Inl (Raised AttributeError))"

definition check_file_fields :: "(pyfloat \<Rightarrow> string) \<Rightarrow> (pyval \<times> pyval) list \<Rightarrow> pyval \<Rightarrow> unit rel" where
  "check_file_fields fr declared row =
     bind_res (get_of row ''fields'' VNone) (\<lambda>v.
       case v of
         VList items \<Rightarrow>
           bind_res (map_res actual_row items) (\<lambda>actual.
           bind_res (path_of row) (\<lambda>path.
             let wanted = filter (\<lambda>(q, _). py_eq q path) declared
             in if wanted = [] then Inl (Raised KeyError)
                else raise_if (sort (map (canonical fr) actual) \<noteq> sort (map (canonical fr \<circ> snd) wanted)) ValueError))
       | _ \<Rightarrow> Inl (Raised TypeError))"

definition validate_input_fields :: "(pyfloat \<Rightarrow> string) \<Rightarrow> pyval \<Rightarrow> pyval \<Rightarrow> release_plan \<Rightarrow> unit rel" where
  "validate_input_fields fr files policy p =
     bind_res (bind_res (declared_files policy) iterate) (\<lambda>declarations.
     bind_res (map_res (declared_row p) declarations) (\<lambda>declared.
     bind_res (iterate files) (\<lambda>rows.
     bind_res (map_res (check_file_fields fr declared) rows) (\<lambda>_. Inr ()))))"

definition check_policy_inputs :: "(pyfloat \<Rightarrow> string) \<Rightarrow> pyval \<Rightarrow> pyval \<Rightarrow> release_plan \<Rightarrow> unit rel" where
  "check_policy_inputs fr files policy p =
     bind_res (paths_of files) (\<lambda>covered.
     bind_res (bind_res (declared_files policy) paths_of) (\<lambda>declared.
     rel_seq (raise_if (\<not> same_set covered declared) ValueError)
       (validate_input_fields fr files policy p)))"

definition verify_receipt_evidence ::
  "(pyfloat \<Rightarrow> string) \<Rightarrow> pyval \<Rightarrow> release_plan \<Rightarrow> pyval option \<Rightarrow> (string, pyval) dict option \<Rightarrow> unit rel" where
  "verify_receipt_evidence fr receipt p policy wanted_producer =
     bind_res (get_of receipt ''plan_sha256'' VNone) (\<lambda>stated.
     bind_res (plan_digest fr (VDict (plan_dict p))) (\<lambda>pd.
     rel_seq (raise_if (stated \<noteq> VStr pd) ValueError)
     (bind_res (get_of receipt ''source_sha'' VNone) (\<lambda>sha.
      bind_res (get_of receipt ''files'' VNone) (\<lambda>files.
      rel_seq (raise_if (sha \<noteq> VStr (rp_source_sha p) \<or> \<not> truthy files) ValueError)
      (rel_seq (case wanted_producer of None \<Rightarrow> Inr () | Some wanted \<Rightarrow> verify_producer_identity receipt wanted)
      (bind_res (get_of receipt ''toolchain'' VNone) (\<lambda>toolchain.
       rel_seq (raise_if (\<not> is_dict toolchain \<or> \<not> truthy (get_or (entries_of toolchain) ''python'' VNone)) ValueError)
       (bind_res (get_of receipt ''effective_inputs_sha256'' VNone) (\<lambda>effective.
        bind_res (evidence_digest fr files) (\<lambda>ed.
        rel_seq (raise_if (effective \<noteq> VStr ed) ValueError)
          (case policy of None \<Rightarrow> Inr () | Some pol \<Rightarrow> check_policy_inputs fr files pol p))))))))))))"

text \<open>Payload metadata by name; the last entry of a name wins.\<close>

definition payload_key :: "pyval \<Rightarrow> pyval rel" where
  "payload_key entry =
     bind_res (subscript entry ''name'') (\<lambda>v. if is_list v \<or> is_dict v then Inl (Raised TypeError) else Inr v)"

definition payload_index :: "pyval list \<Rightarrow> (string, pyval) dict rel" where
  "payload_index payloads =
     bind_res (map_res payload_key payloads) (\<lambda>names.
       case as_strings names of
         None \<Rightarrow> Inl (Raised TypeError)
       | Some texts \<Rightarrow> Inr (dict_merge [] (zip texts payloads)))"

fun cover_rows :: "(string, pyval) dict \<Rightarrow> string list \<Rightarrow> string list \<Rightarrow> pyval list \<Rightarrow> string list rel" where
  "cover_rows expected receipts covered [] = Inr covered"
| "cover_rows expected receipts covered (artifact # rest) =
     bind_res (get_of artifact ''name'' VNone) (\<lambda>v.
       if is_list v \<or> is_dict v then Inl (Raised TypeError)
       else case v of
         VStr name \<Rightarrow>
           rel_seq (raise_if (name \<in> set covered \<or> name \<in> set receipts) ValueError)
           (rel_seq (raise_if (case map_of expected name of None \<Rightarrow> True | Some e \<Rightarrow> \<not> py_eq e artifact) ValueError)
             (cover_rows expected receipts (name # covered) rest))
       | _ \<Rightarrow> Inl (Raised ValueError))"

definition cover_receipt_artifacts ::
  "pyval \<Rightarrow> (string, pyval) dict \<Rightarrow> string list \<Rightarrow> string list \<Rightarrow> string list rel" where
  "cover_receipt_artifacts receipt expected receipts covered =
     bind_res (get_of receipt ''artifacts'' VNone) (\<lambda>v.
       case v of
         VList artifacts \<Rightarrow>
           rel_seq (raise_if (artifacts = []) ValueError) (cover_rows expected receipts covered artifacts)
       | _ \<Rightarrow> Inl (Raised ValueError))"

definition MAX_RECEIPT_BYTES :: nat where
  "MAX_RECEIPT_BYTES = 2000000"

record receipt_env =
  re_read :: "string \<Rightarrow> string rel"
  re_loads :: "string \<Rightarrow> pyval rel"
  re_provenance :: "unit rel"

fun verify_each ::
  "(pyfloat \<Rightarrow> string) \<Rightarrow> receipt_env \<Rightarrow> release_plan \<Rightarrow> pyval option \<Rightarrow> (string, pyval) dict option \<Rightarrow>
   (string, pyval) dict \<Rightarrow> string list \<Rightarrow> string list \<Rightarrow> string list \<Rightarrow>
   (string list \<times> (string \<times> string \<times> pyval) list) rel" where
  "verify_each fr env p policy who expected receipts [] covered = Inr (covered, [])"
| "verify_each fr env p policy who expected receipts (name # names) covered =
     bind_res (re_read env name) (\<lambda>raw.
     rel_seq (raise_if (MAX_RECEIPT_BYTES < length raw) ValueError)
     (bind_res (re_loads env raw) (\<lambda>receipt.
      rel_seq (verify_receipt_evidence fr receipt p policy who)
      (bind_res (cover_receipt_artifacts receipt expected receipts covered) (\<lambda>now.
       bind_res (verify_each fr env p policy who expected receipts names now) (\<lambda>(final, results).
         Inr (final, (name, sha256 raw, receipt) # results)))))))"

definition verify_receipts ::
  "(pyfloat \<Rightarrow> string) \<Rightarrow> receipt_env \<Rightarrow> release_plan \<Rightarrow> pyval list \<Rightarrow> pyval option \<Rightarrow> (string, pyval) dict option \<Rightarrow>
   (string \<times> string \<times> pyval) list rel" where
  "verify_receipts fr env p payloads policy who =
     bind_res (payload_index payloads) (\<lambda>expected.
     (let receipts = filter is_receipt_name (dict_keys expected)
      in rel_seq (raise_if (receipts = []) ValueError)
         (bind_res (verify_each fr env p policy who expected receipts (sort receipts) []) (\<lambda>(covered, results).
          rel_seq (raise_if (set covered \<noteq> set (dict_keys expected) - set receipts) ValueError)
          (rel_seq (case policy of None \<Rightarrow> Inr () | Some _ \<Rightarrow> re_provenance env) (Inr results))))))"

definition verify_required_build_receipts :: "pyval list \<Rightarrow> pyval \<Rightarrow> unit rel" where
  "verify_required_build_receipts receipts policy =
     bind_res (subscript policy ''versioning'') (\<lambda>versioning.
     bind_res (required_build_receipts (entries_of versioning)) (\<lambda>required.
       case required of
         None \<Rightarrow> Inr ()
       | Some needed \<Rightarrow>
           bind_res (map_res payload_key receipts) (\<lambda>names.
             raise_if (\<not> distinct names \<or> set names \<noteq> VStr ` set needed) ValueError)))"

subsection \<open>Accepted receipts cover the payloads once\<close>

definition artifacts_of :: "pyval \<Rightarrow> pyval list" where
  "artifacts_of receipt = items_of (get_or (entries_of receipt) ''artifacts'' VNone)"

definition artifact_name :: "pyval \<Rightarrow> string" where
  "artifact_name artifact = text_of (get_or (entries_of artifact) ''name'' VNone)"

definition staged :: "(string, pyval) dict \<Rightarrow> pyval \<Rightarrow> bool" where
  "staged index artifact \<longleftrightarrow>
     (case map_of index (artifact_name artifact) of None \<Rightarrow> False | Some e \<Rightarrow> py_eq e artifact)"

lemma get_of_Inr: "get_of v k dflt = Inr w \<longleftrightarrow> is_dict v \<and> w = get_or (entries_of v) k dflt"
  by (cases v) (auto simp: get_of_def is_dict_def entries_of_def)

lemma cover_rows_Cons_Inr:
  "cover_rows expected receipts covered (a # rest) = Inr final \<longleftrightarrow>
     (is_dict a \<and> type_of (get_or (entries_of a) ''name'' VNone) = TStr \<and>
      artifact_name a \<notin> set covered \<and> artifact_name a \<notin> set receipts \<and> staged expected a \<and>
      cover_rows expected receipts (artifact_name a # covered) rest = Inr final)"
proof -
  have body: "(if is_list v \<or> is_dict v then Inl (Raised TypeError)
       else case v of
         VStr name \<Rightarrow>
           rel_seq (raise_if (name \<in> set covered \<or> name \<in> set receipts) ValueError)
           (rel_seq (raise_if (case map_of expected name of None \<Rightarrow> True | Some e \<Rightarrow> \<not> py_eq e a) ValueError)
             (cover_rows expected receipts (name # covered) rest))
       | _ \<Rightarrow> Inl (Raised ValueError)) = Inr final \<longleftrightarrow>
     type_of v = TStr \<and> text_of v \<notin> set covered \<and> text_of v \<notin> set receipts \<and>
     (case map_of expected (text_of v) of None \<Rightarrow> False | Some e \<Rightarrow> py_eq e a) \<and>
     cover_rows expected receipts (text_of v # covered) rest = Inr final" for v
    by (cases v) (auto simp: is_list_def is_dict_def text_of_def split: option.splits)
  show ?thesis
    unfolding cover_rows.simps bind_res_eq_Inr_iff get_of_Inr body staged_def artifact_name_def
    by (simp only: ex_simps simp_thms conj_assoc)
qed

lemma cover_rows_cover:
  assumes "cover_rows expected receipts covered rows = Inr final"
  shows "final = rev (map artifact_name rows) @ covered \<and> list_all (staged expected) rows \<and>
    distinct (map artifact_name rows) \<and>
    set (map artifact_name rows) \<inter> (set covered \<union> set receipts) = {}"
  using assms
proof (induction rows arbitrary: covered)
  case (Cons a rest)
  from Cons.prems have a: "artifact_name a \<notin> set covered" "artifact_name a \<notin> set receipts" "staged expected a"
    "cover_rows expected receipts (artifact_name a # covered) rest = Inr final"
    unfolding cover_rows_Cons_Inr by blast+
  with Cons.IH [OF a(4)] show ?case by auto
qed simp

lemma cover_receipt_Inr:
  "cover_receipt_artifacts receipt expected receipts covered = Inr final \<longleftrightarrow>
     is_dict receipt \<and> is_list (get_or (entries_of receipt) ''artifacts'' VNone) \<and> artifacts_of receipt \<noteq> [] \<and>
     cover_rows expected receipts covered (artifacts_of receipt) = Inr final"
  unfolding cover_receipt_artifacts_def bind_res_eq_Inr_iff get_of_Inr artifacts_of_def
  by (cases "get_or (entries_of receipt) ''artifacts'' VNone") (auto simp: is_list_def items_of_def)

definition attests ::
  "(pyfloat \<Rightarrow> string) \<Rightarrow> release_plan \<Rightarrow> pyval option \<Rightarrow> (string, pyval) dict option \<Rightarrow> (string, pyval) dict \<Rightarrow>
   pyval \<Rightarrow> bool" where
  "attests fr p policy who index receipt \<longleftrightarrow>
     verify_receipt_evidence fr receipt p policy who = Inr () \<and> artifacts_of receipt \<noteq> [] \<and>
     list_all (staged index) (artifacts_of receipt)"

lemma verify_each_cover:
  assumes "verify_each fr env p policy who expected receipts names covered = Inr (final, results)" "distinct covered"
  shows "map fst results = names \<and> list_all (\<lambda>(_, _, r). attests fr p policy who expected r) results \<and>
    distinct final \<and>
    mset final = mset (concat (map (\<lambda>(_, _, r). map artifact_name (artifacts_of r)) results)) + mset covered"
  using assms
proof (induction names arbitrary: covered results)
  case (Cons name names)
  from Cons.prems(1) obtain raw receipt now rest where s:
    "verify_receipt_evidence fr receipt p policy who = Inr ()"
    "cover_receipt_artifacts receipt expected receipts covered = Inr now"
    "verify_each fr env p policy who expected receipts names now = Inr (final, rest)"
    "results = (name, sha256 raw, receipt) # rest"
    by auto
  from s(2) have c: "artifacts_of receipt \<noteq> []" "cover_rows expected receipts covered (artifacts_of receipt) = Inr now"
    by (simp_all add: cover_receipt_Inr)
  note cov = cover_rows_cover [OF c(2)]
  from cov Cons.prems(2) have "distinct now" by auto
  from Cons.IH [OF s(3) this] cov s(1,4) c(1) show ?case by (auto simp: attests_def)
qed simp

text \<open>
  C23: when the receipts of a release are accepted, there is one result for every staged receipt, each
  receipt is bound to the plan (its digest, its source commit, its version inputs and, where asked, its
  producer and the policy), every artifact it lists is a staged payload with equal metadata, and the
  artifacts of all receipts together are exactly the payloads that are no receipts, each listed once.
\<close>

theorem payloads_attested_once:
  assumes "verify_receipts fr env p payloads policy who = Inr results"
  shows "\<exists>index. payload_index payloads = Inr index \<and> results \<noteq> [] \<and>
    map fst results = sort (filter is_receipt_name (dict_keys index)) \<and>
    list_all (\<lambda>(_, _, receipt). attests fr p policy who index receipt) results \<and>
    distinct (concat (map (\<lambda>(_, _, receipt). map artifact_name (artifacts_of receipt)) results)) \<and>
    set (concat (map (\<lambda>(_, _, receipt). map artifact_name (artifacts_of receipt)) results)) =
      set (filter (\<lambda>name. \<not> is_receipt_name name) (dict_keys index))"
proof -
  let ?names = "concat (map (\<lambda>(_, _, receipt). map artifact_name (artifacts_of receipt)) results)"
  from assms obtain index covered where v: "payload_index payloads = Inr index"
    "filter is_receipt_name (dict_keys index) \<noteq> []"
    "verify_each fr env p policy who index (filter is_receipt_name (dict_keys index))
       (sort (filter is_receipt_name (dict_keys index))) [] = Inr (covered, results)"
    "set covered = set (dict_keys index) - set (filter is_receipt_name (dict_keys index))"
    unfolding verify_receipts_def Let_def by auto
  from verify_each_cover [OF v(3)] have c: "map fst results = sort (filter is_receipt_name (dict_keys index))"
    "list_all (\<lambda>(_, _, r). attests fr p policy who index r) results" "distinct covered" "mset covered = mset ?names"
    by simp_all
  from c(3,4) have "distinct ?names" "set ?names = set covered" by (metis mset_eq_imp_distinct_iff, metis set_mset_mset)
  moreover have "results \<noteq> []" using c(1) v(2) by (metis list.map_disc_iff set_empty set_sort)
  ultimately show ?thesis using v(1,4) c(1,2) by (intro exI [of _ index]) (auto simp del: set_concat)
qed

subsection \<open>A created receipt verifies\<close>

lemma receipt_name_affixes:
  assumes "is_receipt_name name"
  shows "startswith name ''release-inputs-'' \<and> endswith name ''.json''"
proof -
  from assms obtain i j where a: "rmatch False name (Lit ''release-inputs-'') 0 i"
    and b: "rmatch False name (Lit ''.json'') j (length name)"
    unfolding is_receipt_name_def fullmatch_iff receipt_pattern_def rmatch_simps by blast
  from rmatch_Lit_slice [OF a] have "startswith name ''release-inputs-''" unfolding startswith_def by simp
  moreover from rmatch_Lit_slice [OF b] have "name = take j name @ ''.json''"
    by (metis append_take_drop_id length_drop add_diff_cancel_left' order_refl take_all)
  then have "endswith name ''.json''" unfolding endswith_iff by blast
  ultimately show ?thesis by simp
qed

definition package_row :: "package_entry \<Rightarrow> pyval" where
  "package_row e = VDict (dict_merge [(''name'', VStr (pe_name e))] (pe_identity e))"

lemma package_rows_Inr:
  assumes "package_rows seen es = Inr rows"
  shows "rows = map package_row es \<and> distinct (map pe_name es) \<and> lower ` set (map pe_name es) \<inter> set seen = {} \<and>
    list_all (\<lambda>e. \<not> is_receipt_name (pe_name e)) es"
  using assms
proof (induction es arbitrary: seen rows)
  case (Cons e es)
  then obtain rest where r: "\<not> (startswith (pe_name e) ''release-inputs-'' \<and> endswith (pe_name e) ''.json'')"
    "lower (pe_name e) \<notin> set seen" "package_rows (lower (pe_name e) # seen) es = Inr rest"
    "rows = package_row e # rest"
    by (auto simp: package_row_def)
  from Cons.IH [OF r(3)] r(1,2,4) receipt_name_affixes [of "pe_name e"] show ?case by auto
qed simp

lemma receipt_packages_Inr:
  assumes "receipt_packages entries = Inr rows"
  obtains es where "mset es = mset entries" "rows = map package_row es" "distinct (map pe_name es)" "es \<noteq> []"
    "list_all (\<lambda>e. \<not> is_receipt_name (pe_name e)) es"
proof -
  from assms have "package_rows [] (sort_key pe_name entries) = Inr rows" "rows \<noteq> []"
    by (auto simp: receipt_packages_def)
  with package_rows_Inr [OF this(1)] show thesis by (intro that [of "sort_key pe_name entries"]) auto
qed

lemma add_tools_keeps:
  "add_tools probe names d = Inr d' \<Longrightarrow> k \<notin> set names \<Longrightarrow> map_of d' k = map_of d k"
proof (induction probe names d rule: add_tools.induct)
  case (2 probe name names d)
  then show ?case by (cases "probe name") auto
qed simp

lemma toolchain_python:
  assumes "capture_toolchain platform python environ probe = Inr d"
  shows "get_or d ''python'' VNone = VStr python"
  using add_tools_keeps [OF assms [unfolded capture_toolchain_def], of "''python''"]
  by (simp add: TOOLS_def get_or_def)

text \<open>Package metadata as \<^verbatim>\<open>stream_identity\<close> gives it.\<close>

definition plain_identity :: "package_entry \<Rightarrow> bool" where
  "plain_identity e \<longleftrightarrow> (case pe_identity e of
     [(a, VInt _), (b, VStr _)] \<Rightarrow> a = ''size'' \<and> b = ''sha256'' | _ \<Rightarrow> False)"

lemma plain_row:
  assumes "plain_identity e"
  shows "py_eq (package_row e) (package_row e)" "artifact_name (package_row e) = pe_name e"
    "payload_key (package_row e) = Inr (VStr (pe_name e))" "is_dict (package_row e)"
    "get_or (entries_of (package_row e)) ''name'' VNone = VStr (pe_name e)"
proof -
  from assms obtain n s where i: "pe_identity e = [(''size'', VInt n), (''sha256'', VStr s)]"
    by (auto simp: plain_identity_def split: list.splits prod.splits pyval.splits)
  have row: "package_row e = VDict [(''name'', VStr (pe_name e)), (''size'', VInt n), (''sha256'', VStr s)]"
    unfolding package_row_def i dict_merge_def by simp
  show "py_eq (package_row e) (package_row e)" unfolding row by simp
  show "artifact_name (package_row e) = pe_name e" "payload_key (package_row e) = Inr (VStr (pe_name e))"
    "is_dict (package_row e)" "get_or (entries_of (package_row e)) ''name'' VNone = VStr (pe_name e)"
    unfolding row by (simp_all add: artifact_name_def get_or_def entries_of_def text_of_def payload_key_def
        subscript_def at_key_def is_list_def is_dict_def)
qed

lemma cover_rows_all:
  "list_all (\<lambda>a. is_dict a \<and> type_of (get_or (entries_of a) ''name'' VNone) = TStr \<and> staged expected a) rows \<Longrightarrow>
   distinct (map artifact_name rows) \<Longrightarrow>
   set (map artifact_name rows) \<inter> (set covered \<union> set receipts) = {} \<Longrightarrow>
   cover_rows expected receipts covered rows = Inr (rev (map artifact_name rows) @ covered)"
proof (induction rows arbitrary: covered)
  case (Cons a rows)
  then have "cover_rows expected receipts (artifact_name a # covered) rows =
      Inr (rev (map artifact_name rows) @ artifact_name a # covered)" by auto
  with Cons.prems show ?case unfolding cover_rows_Cons_Inr by simp
qed simp

lemma dict_merge_distinct: "distinct (dict_keys (d @ e)) \<Longrightarrow> dict_merge d e = d @ e"
proof (induction e arbitrary: d)
  case (Cons x e)
  then have "dict_set (fst x) (snd x) d = d @ [x]" using dict_set_new [of "fst x" d "snd x"] by simp
  with Cons show ?case by (cases x) (simp add: dict_merge_def)
qed (simp add: dict_merge_def)

lemma as_strings_map [simp]: "as_strings (map VStr names) = Some names"
  by (induction names) auto

lemma payload_index_distinct:
  assumes "list_all2 (\<lambda>v name. payload_key v = Inr (VStr name)) payloads names" "distinct names"
  shows "payload_index payloads = Inr (zip names payloads)"
proof -
  have "map_res payload_key payloads = Inr (map VStr names)"
    using assms(1) by (simp add: map_res_Inr_iff list_all2_map2)
  moreover have "length names = length payloads" using assms(1) by (metis list_all2_lengthD)
  ultimately show ?thesis using assms(2) dict_merge_distinct [of "[]" "zip names payloads"] by (simp add: payload_index_def)
qed

lemma get_or_merge:
  assumes "distinct (dict_keys e)"
  shows "get_or (dict_merge d e) k dflt = (case map_of e k of Some v \<Rightarrow> v | None \<Rightarrow> get_or d k dflt)"
proof -
  have "map_of (rev e) = map_of e" using assms by (simp add: map_of_inject_set rev_map [symmetric])
  then show ?thesis by (auto simp: get_or_def map_of_dict_merge map_add_def split: option.splits)
qed

lemma created_receipt_shape:
  assumes "create_receipt fr site (VDict (plan_dict p)) evidence = Inr (receipt, text)"
  obtains packages toolchain who where
    "plan_ok p" "is_receipt_name (bs_output_name site)"
    "receipt_packages (bs_entries site) = Inr packages"
    "capture_toolchain (bs_platform site) (bs_python site) (bs_environ site) (bs_probe site) = Inr toolchain"
    "receipt = VDict (dict_merge (entries_of evidence)
       ([(''artifacts'', VList packages), (''toolchain'', VDict toolchain)] @ who))"
    "who = [] \<or> (\<exists>w. who = [(''producer'', w)])"
    "\<exists>pd ed. plan_digest fr (VDict (plan_dict p)) = Inr pd \<and>
      get_or (entries_of evidence) ''plan_sha256'' VNone = VStr pd \<and>
      get_or (entries_of evidence) ''source_sha'' VNone = VStr (rp_source_sha p) \<and>
      truthy (get_or (entries_of evidence) ''files'' VNone) \<and>
      evidence_digest fr (get_or (entries_of evidence) ''files'' VNone) = Inr ed \<and>
      get_or (entries_of evidence) ''effective_inputs_sha256'' VNone = VStr ed"
proof -
  obtain q pd ed packages toolchain producer where c:
    "validate_plan fr (VDict (plan_dict p)) None None = Inr q" "plan_digest fr (VDict (plan_dict p)) = Inr pd"
    "get_or (entries_of evidence) ''plan_sha256'' VNone = VStr pd"
    "get_or (entries_of evidence) ''source_sha'' VNone = VStr (rp_source_sha q)"
    "truthy (get_or (entries_of evidence) ''files'' VNone)"
    "evidence_digest fr (get_or (entries_of evidence) ''files'' VNone) = Inr ed"
    "get_or (entries_of evidence) ''effective_inputs_sha256'' VNone = VStr ed"
    "is_receipt_name (bs_output_name site)" "receipt_packages (bs_entries site) = Inr packages"
    "capture_toolchain (bs_platform site) (bs_python site) (bs_environ site) (bs_probe site) = Inr toolchain"
    "receipt = VDict (dict_merge (entries_of evidence)
       ([(''artifacts'', VList packages), (''toolchain'', VDict toolchain)] @
         (case producer of None \<Rightarrow> [] | Some who \<Rightarrow> [(''producer'', who)])))"
    using assms unfolding create_receipt_def bind_res_eq_Inr_iff rel_seq_Inr_iff raise_if_Inr get_of_Inr Let_def
    by (elim exE conjE) (simp only: de_Morgan_disj not_not sum.inject prod.inject; blast)
  have "plan_ok p" "q = p" using c(1) by (auto simp: validate_plan_def check_plan_dict)
  then show thesis
    using c by (intro that [of packages toolchain "case producer of None \<Rightarrow> [] | Some who \<Rightarrow> [(''producer'', who)]"])
      (simp_all split: option.split)
qed

lemma created_receipt_evidence:
  assumes "create_receipt fr site (VDict (plan_dict p)) evidence = Inr (receipt, text)" "bs_python site \<noteq> []"
  shows "verify_receipt_evidence fr receipt p None None = Inr ()"
    "receipt_packages (bs_entries site) = Inr packages \<Longrightarrow> artifacts_of receipt = packages"
    "is_dict receipt" "is_list (get_or (entries_of receipt) ''artifacts'' VNone)"
proof -
  obtain rows toolchain who where c: "receipt_packages (bs_entries site) = Inr rows"
    "capture_toolchain (bs_platform site) (bs_python site) (bs_environ site) (bs_probe site) = Inr toolchain"
    "receipt = VDict (dict_merge (entries_of evidence)
       ([(''artifacts'', VList rows), (''toolchain'', VDict toolchain)] @ who))"
    "who = [] \<or> (\<exists>w. who = [(''producer'', w)])"
    "\<exists>pd ed. plan_digest fr (VDict (plan_dict p)) = Inr pd \<and>
      get_or (entries_of evidence) ''plan_sha256'' VNone = VStr pd \<and>
      get_or (entries_of evidence) ''source_sha'' VNone = VStr (rp_source_sha p) \<and>
      truthy (get_or (entries_of evidence) ''files'' VNone) \<and>
      evidence_digest fr (get_or (entries_of evidence) ''files'' VNone) = Inr ed \<and>
      get_or (entries_of evidence) ''effective_inputs_sha256'' VNone = VStr ed"
    by (rule created_receipt_shape [OF assms(1)])
  let ?ext = "[(''artifacts'', VList rows), (''toolchain'', VDict toolchain)] @ who"
  have "distinct (dict_keys ?ext)" using c(4) by auto
  note merge = get_or_merge [OF this, of "entries_of evidence"]
  have entries: "entries_of receipt = dict_merge (entries_of evidence) ?ext" unfolding c(3) by (simp add: entries_of_def)
  have old: "get_or (entries_of receipt) ''plan_sha256'' VNone = get_or (entries_of evidence) ''plan_sha256'' VNone"
    "get_or (entries_of receipt) ''source_sha'' VNone = get_or (entries_of evidence) ''source_sha'' VNone"
    "get_or (entries_of receipt) ''files'' VNone = get_or (entries_of evidence) ''files'' VNone"
    "get_or (entries_of receipt) ''effective_inputs_sha256'' VNone = get_or (entries_of evidence) ''effective_inputs_sha256'' VNone"
    unfolding entries merge using c(4) by (elim disjE exE; simp)+
  have new: "get_or (entries_of receipt) ''artifacts'' VNone = VList rows"
    "get_or (entries_of receipt) ''toolchain'' VNone = VDict toolchain" unfolding entries merge by simp_all
  show d: "is_dict receipt" unfolding c(3) is_dict_def by simp
  show "is_list (get_or (entries_of receipt) ''artifacts'' VNone)" unfolding new by (simp add: is_list_def)
  show "receipt_packages (bs_entries site) = Inr packages \<Longrightarrow> artifacts_of receipt = packages"
    using c(1) unfolding artifacts_of_def new by (simp add: items_of_def)
  have "get_or toolchain ''python'' VNone = VStr (bs_python site)" by (rule toolchain_python [OF c(2)])
  then have tool: "truthy (get_or (entries_of (VDict toolchain)) ''python'' VNone)"
    using assms(2) by (simp add: entries_of_def)
  show "verify_receipt_evidence fr receipt p None None = Inr ()"
    unfolding verify_receipt_evidence_def bind_res_eq_Inr_iff rel_seq_Inr_iff raise_if_Inr get_of_Inr option.case
    unfolding old new(2) using c(5) d tool by (simp add: is_dict_def)
qed

lemma zip_map_lookup:
  "distinct (map f es) \<Longrightarrow> e \<in> set es \<Longrightarrow> map_of (zip (map f es) (map g es)) (f e) = Some (g e)"
  by (induction es) (auto, metis image_eqI)

lemma created_receipt_accepted:
  assumes "create_receipt fr site (VDict (plan_dict p)) evidence = Inr (receipt, text)"
    "receipt_packages (bs_entries site) = Inr packages"
    "list_all plain_identity (bs_entries site)" "bs_python site \<noteq> []"
    "re_read env (bs_output_name site) = Inr text" "re_loads env text = Inr receipt"
    "length text \<le> MAX_RECEIPT_BYTES"
  shows "verify_receipts fr env p (packages @ [VDict ((''name'', VStr (bs_output_name site)) # other)]) None None =
    Inr [(bs_output_name site, sha256 text, receipt)]"
proof -
  let ?out = "bs_output_name site"
  let ?entry = "VDict ((''name'', VStr ?out) # other)"
  have out: "is_receipt_name ?out" using created_receipt_shape [OF assms(1)] by metis
  obtain es where es: "mset es = mset (bs_entries site)" "packages = map package_row es" "distinct (map pe_name es)" "es \<noteq> []"
    "list_all (\<lambda>e. \<not> is_receipt_name (pe_name e)) es"
    by (rule receipt_packages_Inr [OF assms(2)])
  have plain: "\<And>e. e \<in> set es \<Longrightarrow> plain_identity e"
    using assms(3) es(1) by (metis list_all_iff mset_eq_setD)
  let ?names = "map pe_name es @ [?out]"
  let ?index = "zip ?names (packages @ [?entry])"
  have fresh: "?out \<notin> set (map pe_name es)" using es(5) out by (auto simp: list_all_iff)
  have "payload_key ?entry = Inr (VStr ?out)"
    by (simp add: payload_key_def subscript_def at_key_def is_list_def is_dict_def)
  then have index: "payload_index (packages @ [?entry]) = Inr ?index"
    using es(2,3) fresh plain_row(3) [OF plain]
    by (intro payload_index_distinct) (auto simp: list_all2_append list_all2_map1 list_all2_map2 list_all2_same)
  have keys: "dict_keys ?index = ?names" using es(2) by simp
  have "filter is_receipt_name (map pe_name es) = []" using es(5) by (simp add: filter_empty_conv list_all_iff)
  then have receipts: "filter is_receipt_name (dict_keys ?index) = [?out]" unfolding keys using out by simp
  have names: "map artifact_name packages = map pe_name es" using es(2) plain_row(2) [OF plain] by simp
  have at: "map_of ?index (pe_name e) = Some (package_row e)" if "e \<in> set es" for e
    using zip_map_lookup [OF es(3) that, of package_row] fresh that es(2) by (simp add: map_add_def)
  have "cover_rows ?index [?out] [] packages = Inr (rev (map artifact_name packages) @ [])"
  proof (rule cover_rows_all)
    show "list_all (\<lambda>a. is_dict a \<and> type_of (get_or (entries_of a) ''name'' VNone) = TStr \<and> staged ?index a) packages"
      unfolding es(2) list_all_iff using plain_row [OF plain] at by (auto simp: staged_def es(2))
    show "distinct (map artifact_name packages)" "set (map artifact_name packages) \<inter> (set [] \<union> set [?out]) = {}"
      unfolding names using es(3) fresh by auto
  qed
  then have cover: "cover_receipt_artifacts receipt ?index [?out] [] = Inr (rev (map pe_name es))"
    unfolding cover_receipt_Inr created_receipt_evidence(2) [OF assms(1,4,2)]
    using created_receipt_evidence(3,4) [OF assms(1,4)] es(2,4) names by simp
  have each: "verify_each fr env p None None ?index [?out] [?out] [] =
      Inr (rev (map pe_name es), [(?out, sha256 text, receipt)])"
    using assms(5-7) created_receipt_evidence(1) [OF assms(1,4)] cover by simp
  have covered: "set (rev (map pe_name es)) = set (dict_keys ?index) - set [?out]" unfolding keys using fresh by auto
  have "verify_receipts fr env p (packages @ [?entry]) None None =
      rel_seq (raise_if (set (rev (map pe_name es)) \<noteq> set (dict_keys ?index) - set [?out]) ValueError)
        (Inr [(?out, sha256 text, receipt)])"
    unfolding verify_receipts_def index bind_res_simps Let_def receipts sort_key_simps foldr.simps
    by (simp only: sort_key_simps insort_key.simps each bind_res_simps prod.case list.distinct raise_if_def if_False
        rel_seq_Inr option.case)
  then show ?thesis unfolding covered by (simp add: raise_if_def)
qed


text \<open>
  C24: a receipt that was created verifies.  Staged beside exactly the packages it was created for, and
  read back as the value that was written, it is accepted for the same plan, and it is the only
  result.
\<close>

theorem created_receipt_verifies:
  assumes "create_receipt fr site (VDict (plan_dict p)) evidence = Inr (receipt, text)"
    "receipt_packages (bs_entries site) = Inr packages"
    "list_all plain_identity (bs_entries site)" "bs_python site \<noteq> []"
    "re_read env (bs_output_name site) = Inr text" "re_loads env text = Inr receipt"
    "length text \<le> MAX_RECEIPT_BYTES"
  shows "verify_receipts fr env p (packages @ [VDict ((''name'', VStr (bs_output_name site)) # other)]) None None =
    Inr [(bs_output_name site, sha256 text, receipt)]"
  using assms by (rule created_receipt_accepted)

subsection \<open>An example\<close>

lemma length_json_string: "length (json_string s) \<le> 6 * length s + 2"
proof -
  have "length (json_escape c) \<le> 6" for c by (simp add: json_escape_def)
  then have "length (concat (map json_escape s)) \<le> 6 * length s"
    by (induction s) (auto intro: add_mono)
  then show ?thesis by (simp add: json_string_def)
qed

lemma length_join: "length (join sep rows) \<le> sum_list (map (\<lambda>r. length r + length sep) rows)"
  by (induction sep rows rule: join.induct) auto

lemma length_block:
  "length (block level op cl rows) \<le> 4 * level + 6 + sum_list (map (\<lambda>r. length r + (2 * level + 4)) rows)"
proof -
  have sep: "length ('','' @ new_line (level + 1)) = 2 * level + 4" by (simp add: new_line_def)
  have "length (join ('','' @ new_line (level + 1)) rows) \<le> sum_list (map (\<lambda>r. length r + (2 * level + 4)) rows)"
    using length_join [of "'','' @ new_line (level + 1)" rows] unfolding sep .
  moreover have "length (block level op cl rows) \<le> length (join ('','' @ new_line (level + 1)) rows) + (4 * level + 6)"
    unfolding block_def by (simp add: new_line_def)
  ultimately show ?thesis by linarith
qed

lemma sum_list_sort_key: "sum_list (map f (sort_key g xs)) = sum_list (map (f :: _ \<Rightarrow> nat) xs)"
  by (metis mset_map mset_sort sum_mset_sum_list)

lemma length_json_list:
  "length (json_indent fr level (VList xs)) \<le>
     4 * level + 6 + sum_list (map (\<lambda>x. length (json_indent fr (level + 1) x) + (2 * level + 4)) xs)"
  using length_block [of level "CHR ''[''" "CHR '']''" "map (json_indent fr (level + 1)) xs"] by (simp add: comp_def)

lemma length_json_dict:
  "length (json_indent fr level (VDict kv)) \<le> 4 * level + 6 +
     sum_list (map (\<lambda>(k, v). 6 * length k + length (json_indent fr (level + 1) v) + (2 * level + 8)) kv)"
proof -
  let ?rows = "map (\<lambda>(k, v). (k, json_indent fr (level + 1) v)) kv"
  have "length (json_indent fr level (VDict kv)) \<le>
      4 * level + 6 + sum_list (map (\<lambda>(k, t). length (json_string k @ '': '' @ t) + (2 * level + 4)) (sort_key fst ?rows))"
    using length_block [of level "CHR ''{''" "CHR ''}''" "map (\<lambda>(k, t). json_string k @ '': '' @ t) (sort_key fst ?rows)"]
    by (simp add: comp_def case_prod_unfold)
  also have "\<dots> = 4 * level + 6 + sum_list (map (\<lambda>(k, t). length (json_string k @ '': '' @ t) + (2 * level + 4)) ?rows)"
    by (simp only: sum_list_sort_key)
  also have "\<dots> \<le> 4 * level + 6 +
     sum_list (map (\<lambda>(k, v). 6 * length k + length (json_indent fr (level + 1) v) + (2 * level + 8)) kv)"
  proof -
    have "length (json_string k @ '': '' @ t) + (2 * level + 4) \<le> 6 * length k + length t + (2 * level + 8)" for k t
      using length_json_string [of k] by simp
    then show ?thesis by (auto simp: comp_def case_prod_unfold intro!: sum_list_mono)
  qed
  finally show ?thesis .
qed

definition example_entry :: package_entry where
  "example_entry = \<lparr>pe_name = ''app.whl'', pe_symlink = False, pe_file = True,
     pe_identity = [(''size'', VInt 3), (''sha256'', VStr ''00'')]\<rparr>"

definition example_site :: build_site where
  "example_site = \<lparr>bs_assets_ok = True, bs_output_ok = True, bs_output_name = ''release-inputs-x.json'',
     bs_entries = [example_entry], bs_platform = ''linux'', bs_python = ''3.12.1'', bs_environ = [],
     bs_probe = (\<lambda>_. None), bs_inputs_unchanged = Inr (), bs_open = Inr ()\<rparr>"

definition example_files :: pyval where
  "example_files = VList [VDict [(''path'', VStr ''VERSION''), (''after_sha256'', VStr (replicate 64 (CHR ''0'')))]]"

definition example_evidence :: "string \<Rightarrow> string \<Rightarrow> pyval" where
  "example_evidence pd ed = VDict [(''plan_sha256'', VStr pd), (''source_sha'', VStr example_sha),
     (''files'', example_files), (''effective_inputs_sha256'', VStr ed)]"

definition example_toolchain :: "(string, pyval) dict" where
  "example_toolchain = [(''platform'', VStr ''linux''), (''python'', VStr ''3.12.1'')]"

definition example_receipt :: "string \<Rightarrow> string \<Rightarrow> pyval" where
  "example_receipt pd ed = VDict [(''plan_sha256'', VStr pd), (''source_sha'', VStr example_sha),
     (''files'', example_files), (''effective_inputs_sha256'', VStr ed),
     (''artifacts'', VList [package_row example_entry]), (''toolchain'', VDict example_toolchain)]"

lemma example_packages: "receipt_packages [example_entry] = Inr [package_row example_entry]"
proof -
  have "fullmatch package_pattern ''app.whl''" by code_simp
  then show ?thesis
    by (simp add: receipt_packages_def example_entry_def package_row_def startswith_code raise_if_def)
qed

lemma example_toolchain_captured:
  "capture_toolchain ''linux'' ''3.12.1'' [] (\<lambda>_. None) = Inr example_toolchain"
  by (simp add: capture_toolchain_def TOOLS_def IMAGE_VARIABLES_def env_or_def example_toolchain_def)

lemma example_digest: "\<exists>ed. evidence_digest fr example_files = Inr ed \<and> length ed = 64"
proof -
  have "fullmatch digest_pattern (replicate 64 (CHR ''0''))"
    unfolding digest_pattern_def fullmatch_Rep_Cls by (simp add: list_all_iff class_has_def)
  then show ?thesis
    by (simp add: evidence_digest_def example_files_def iterate_def is_dict_def effective_inputs_digest_def entries_of_def
      relative_def startswith_code json_bytes_def sha256_shape)
qed


lemma example_receipt_length:
  assumes "length pd = 64" "length ed = 64"
  shows "length (canonical fr (example_receipt pd ed)) \<le> MAX_RECEIPT_BYTES"
proof -
  note str = length_json_string
  have one_row: "length (json_indent fr 2 (VDict [(''path'', VStr ''VERSION''), (''after_sha256'', VStr (replicate 64 (CHR ''0'')))])) \<le> 700"
    using length_json_dict [of fr 2 "[(''path'', VStr ''VERSION''), (''after_sha256'', VStr (replicate 64 (CHR ''0'')))]"]
      str [of "''VERSION''"] str [of "replicate 64 (CHR ''0'')"] by simp
  have files: "length (json_indent fr 1 example_files) \<le> 800"
    using length_json_list [of fr 1 "[VDict [(''path'', VStr ''VERSION''), (''after_sha256'', VStr (replicate 64 (CHR ''0'')))]]"]
      one_row by (simp add: example_files_def numeral_2_eq_2)
  have "str_of_int 3 = ''3''" by code_simp
  then have row: "length (json_indent fr 2 (package_row example_entry)) \<le> 300"
    using length_json_dict [of fr 2 "[(''name'', VStr ''app.whl''), (''size'', VInt 3), (''sha256'', VStr ''00'')]"]
      str [of "''app.whl''"] str [of "''00''"]
    by (simp add: package_row_def example_entry_def dict_merge_def)
  have rows: "length (json_indent fr 1 (VList [package_row example_entry])) \<le> 400"
    using length_json_list [of fr 1 "[package_row example_entry]"] row by (simp add: numeral_2_eq_2)
  have tool: "length (json_indent fr 1 (VDict example_toolchain)) \<le> 400"
    using length_json_dict [of fr 1 example_toolchain] str [of "''linux''"] str [of "''3.12.1''"]
    by (simp add: example_toolchain_def)
  have "length (json_indent fr 0 (example_receipt pd ed)) \<le> 6000"
    using length_json_dict [of fr 0 "[(''plan_sha256'', VStr pd), (''source_sha'', VStr example_sha),
     (''files'', example_files), (''effective_inputs_sha256'', VStr ed),
     (''artifacts'', VList [package_row example_entry]), (''toolchain'', VDict example_toolchain)]"]
      str [of pd] str [of ed] str [of example_sha] files rows tool assms
    by (simp add: example_receipt_def example_sha_def del: json_indent.simps(6,7))
  then show ?thesis by (simp add: canonical_def MAX_RECEIPT_BYTES_def)
qed

lemma example_receipt_created:
  obtains p receipt doc pd ed where
    "create_receipt fr example_site (VDict (plan_dict p)) (example_evidence pd ed) = Inr (receipt, doc)"
    "length doc \<le> MAX_RECEIPT_BYTES"
proof -
  obtain p where "create_plan fr ''1.2.3'' ''rc'' (VInt 1) example_sha example_policy (Some 7) = Inr p"
    by (rule example_plan_created [of 7 fr]) simp_all
  note made = create_plan_ok [OF this]
  have valid: "validate_plan fr (VDict (plan_dict p)) None None = Inr p"
    using made(1) by (simp add: validate_plan_def check_plan_dict)
  obtain js where "json_bytes fr (VDict (plan_dict p)) = Inr js"
    using made(4,7) by (simp add: json_bytes_def plan_dict_def int_or_none_def)
  then have digest: "plan_digest fr (VDict (plan_dict p)) = Inr (sha256 js)" by (simp add: plan_digest_def valid)
  obtain ed where ed: "evidence_digest fr example_files = Inr ed" "length ed = 64" using example_digest by blast
  have name: "is_receipt_name ''release-inputs-x.json''" unfolding is_receipt_name_def by code_simp
  have merge: "VDict (dict_merge (entries_of (example_evidence pd ed))
      [(''artifacts'', VList [package_row example_entry]), (''toolchain'', VDict example_toolchain)]) = example_receipt pd ed" for pd
    using dict_merge_distinct [of "entries_of (example_evidence pd ed)"
        "[(''artifacts'', VList [package_row example_entry]), (''toolchain'', VDict example_toolchain)]"]
    by (simp add: example_evidence_def entries_of_def example_receipt_def)
  have truth: "truthy example_files" by (simp add: example_files_def)
  have get: "get_of (example_evidence pd ed) ''plan_sha256'' VNone = Inr (VStr pd)"
    "get_of (example_evidence pd ed) ''source_sha'' VNone = Inr (VStr example_sha)"
    "get_of (example_evidence pd ed) ''files'' VNone = Inr example_files"
    "get_of (example_evidence pd ed) ''effective_inputs_sha256'' VNone = Inr (VStr ed)" for pd
    by (simp_all add: example_evidence_def get_of_def get_or_def)
  have "create_receipt fr example_site (VDict (plan_dict p)) (example_evidence (sha256 js) ed) =
      Inr (example_receipt (sha256 js) ed, canonical fr (example_receipt (sha256 js) ed))"
    unfolding create_receipt_def valid bind_res_simps digest get ed(1) made(3) example_site_def build_site.simps
      example_packages example_toolchain_captured current_producer_def
    by (simp add: raise_if_def name merge truth Let_def del: bind_res_eq_Inr_iff)
  with example_receipt_length [OF sha256_shape(1) ed(2)] show thesis using that by blast
qed

definition example_receipt_env :: "string \<Rightarrow> pyval \<Rightarrow> receipt_env" where
  "example_receipt_env doc receipt = \<lparr>re_read = (\<lambda>_. Inr doc), re_loads = (\<lambda>_. Inr receipt), re_provenance = Inr ()\<rparr>"

lemma example_site_facts:
  "receipt_packages (bs_entries example_site) = Inr [package_row example_entry]"
  "list_all plain_identity (bs_entries example_site)" "bs_python example_site \<noteq> []"
  "bs_output_name example_site = ''release-inputs-x.json''"
  using example_packages by (simp_all add: example_site_def plain_identity_def example_entry_def)

theorem created_receipt_verifies_witness:
  "\<exists>env p receipt doc. verify_receipts (\<lambda>_. []) env p
     [package_row example_entry, VDict [(''name'', VStr ''release-inputs-x.json'')]] None None =
     Inr [(''release-inputs-x.json'', sha256 doc, receipt)]"
proof -
  obtain p receipt doc pd ed where c:
    "create_receipt (\<lambda>_. []) example_site (VDict (plan_dict p)) (example_evidence pd ed) = Inr (receipt, doc)"
    "length doc \<le> MAX_RECEIPT_BYTES" by (rule example_receipt_created)
  let ?env = "example_receipt_env doc receipt"
  have "re_read ?env (bs_output_name example_site) = Inr doc" "re_loads ?env doc = Inr receipt"
    by (simp_all add: example_receipt_env_def)
  from created_receipt_verifies [OF c(1) example_site_facts(1-3) this c(2), of "[]"] show ?thesis
    unfolding example_site_facts(4) append.simps by blast
qed

theorem payloads_attested_once_witness:
  "\<exists>index results. payload_index [package_row example_entry, VDict [(''name'', VStr ''release-inputs-x.json'')]] = Inr index \<and>
     set (concat (map (\<lambda>(_, _, receipt). map artifact_name (artifacts_of receipt)) (results :: (string \<times> string \<times> pyval) list))) =
       set (filter (\<lambda>name. \<not> is_receipt_name name) (dict_keys index))"
proof -
  obtain p receipt doc pd ed where c:
    "create_receipt (\<lambda>_. []) example_site (VDict (plan_dict p)) (example_evidence pd ed) = Inr (receipt, doc)"
    "length doc \<le> MAX_RECEIPT_BYTES" by (rule example_receipt_created)
  let ?env = "example_receipt_env doc receipt"
  have "re_read ?env (bs_output_name example_site) = Inr doc" "re_loads ?env doc = Inr receipt"
    by (simp_all add: example_receipt_env_def)
  from created_receipt_accepted [OF c(1) example_site_facts(1-3) this c(2), of "[]"]
  have "verify_receipts (\<lambda>_. []) ?env p [package_row example_entry, VDict [(''name'', VStr ''release-inputs-x.json'')]] None None =
     Inr [(''release-inputs-x.json'', sha256 doc, receipt)]"
    unfolding example_site_facts(4) append.simps .
  from payloads_attested_once [OF this] show ?thesis by blast
qed

end
