(* ===== verification/Github_Client.thy ===== *)
theory Github_Client
  imports Version_Receipt
begin

section \<open>The GitHub client\<close>

text \<open>
  Model of the class \<^verbatim>\<open>GitHub\<close> of \<^verbatim>\<open>scripts/release_control.py\<close>: one repository, reached by \<^verbatim>\<open>gh\<close>
  subprocesses.  What a process, the clock and the JSON decoder answer is a parameter, indexed by a tick
  that every such call advances, so that two reads of the same resource may differ.  The world keeps
  the log of the processes started, newest first.  Bytes and text are strings of code points below
  256, and interpolated parts of messages are left out.
\<close>

subsection \<open>Worlds and operations\<close>

type_synonym gh_call = "string list \<times> string option"

record finished =
  fi_code :: int
  fi_out :: string
  fi_err :: string

text \<open>
  \<open>ge_limited\<close> is a process with a timeout, \<open>None\<close> when it ran out; \<open>ge_waiting\<close> one without.
  \<open>ge_loads\<close> is \<^verbatim>\<open>json.loads\<close> with the fields of every object as read, and \<open>ge_raw_decode\<close> the length
  of the JSON value that starts a text.
\<close>

record gh_env =
  ge_repo :: string
  ge_verified :: bool
  ge_environ :: "(string, string) dict"
  ge_limited :: "nat \<Rightarrow> gh_call \<Rightarrow> finished option"
  ge_waiting :: "nat \<Rightarrow> gh_call \<Rightarrow> finished"
  ge_clock :: "nat \<Rightarrow> rat"
  ge_loads :: "string \<Rightarrow> pyval option"
  ge_raw_decode :: "string \<Rightarrow> nat option"
  ge_float :: "pyfloat \<Rightarrow> string"

record gh_world =
  gw_tick :: nat
  gw_calls :: "gh_call list"

type_synonym 'a gh = "gh_world \<Rightarrow> 'a rel \<times> gh_world"

definition gh_lift :: "'a rel \<Rightarrow> 'a gh" where
  "gh_lift r w = (r, w)"

definition gh_bind :: "'a gh \<Rightarrow> ('a \<Rightarrow> 'b gh) \<Rightarrow> 'b gh" where
  "gh_bind m f w = (case m w of (Inl e, w') \<Rightarrow> (Inl e, w') | (Inr x, w') \<Rightarrow> f x w')"

definition gh_seq :: "unit rel \<Rightarrow> 'a gh \<Rightarrow> 'a gh" where
  "gh_seq r m w = (case r of Inl e \<Rightarrow> (Inl e, w) | Inr _ \<Rightarrow> m w)"

definition gh_with :: "'a rel \<Rightarrow> ('a \<Rightarrow> 'b gh) \<Rightarrow> 'b gh" where
  "gh_with r f w = (case r of Inl e \<Rightarrow> (Inl e, w) | Inr x \<Rightarrow> f x w)"

definition run_limited :: "gh_env \<Rightarrow> gh_call \<Rightarrow> finished option gh" where
  "run_limited env call w =
     (Inr (ge_limited env (gw_tick w) call), \<lparr>gw_tick = gw_tick w + 1, gw_calls = call # gw_calls w\<rparr>)"

definition run_waiting :: "gh_env \<Rightarrow> gh_call \<Rightarrow> finished gh" where
  "run_waiting env call w =
     (Inr (ge_waiting env (gw_tick w) call), \<lparr>gw_tick = gw_tick w + 1, gw_calls = call # gw_calls w\<rparr>)"

definition read_clock :: "gh_env \<Rightarrow> rat gh" where
  "read_clock env w = (Inr (ge_clock env (gw_tick w)), w\<lparr>gw_tick := gw_tick w + 1\<rparr>)"

definition pause :: "unit gh" where
  "pause w = (Inr (), w\<lparr>gw_tick := gw_tick w + 1\<rparr>)"

subsection \<open>Responses\<close>

text \<open>The first \<^verbatim>\<open>\r?\n\r?\n\<close>: what precedes it, itself and what follows.\<close>

definition line_break :: "string \<Rightarrow> nat option" where
  "line_break s =
     (case s of
        c # cs \<Rightarrow>
          if c = CHR 0x0A then Some 1
          else if c = CHR 0x0D \<and> cs \<noteq> [] \<and> hd cs = CHR 0x0A then Some 2 else None
      | [] \<Rightarrow> None)"

definition blank_line :: "string \<Rightarrow> nat option" where
  "blank_line s =
     (case line_break s of
        None \<Rightarrow> None
      | Some n \<Rightarrow> (case line_break (drop n s) of None \<Rightarrow> None | Some m \<Rightarrow> Some (n + m)))"

fun split_head :: "string \<Rightarrow> (string \<times> string \<times> string) option" where
  "split_head [] = None"
| "split_head (c # cs) =
     (case blank_line (c # cs) of
        Some n \<Rightarrow> Some ([], take n (c # cs), drop n (c # cs))
      | None \<Rightarrow>
          (case split_head cs of None \<Rightarrow> None | Some (before, break, rest) \<Rightarrow> Some (c # before, break, rest)))"

text \<open>
  \<^verbatim>\<open>splitlines\<close> with the line breaks besides \<^verbatim>\<open>\r\<close> and \<^verbatim>\<open>\n\<close>: none for bytes, some control characters for
  text.  The flag says that a carriage return ended the last line.
\<close>

fun split_lines :: "char list \<Rightarrow> string \<Rightarrow> bool \<Rightarrow> string \<Rightarrow> string list" where
  "split_lines breaks acc returned [] = (if acc = [] then [] else [rev acc])"
| "split_lines breaks acc returned (c # cs) =
     (if c = CHR 0x0A \<and> returned then split_lines breaks [] False cs
      else if c = CHR 0x0A \<or> c \<in> set breaks then rev acc # split_lines breaks [] False cs
      else if c = CHR 0x0D then rev acc # split_lines breaks [] True cs
      else split_lines breaks (c # acc) False cs)"

definition not_break :: re where
  "not_break = Cls [CRange (CHR 0x00) (CHR 0x09), CRange (CHR 0x0B) (CHR 0x0C), CRange (CHR 0x0E) (CHR 0xFF)]"

definition status_pattern :: re where
  "status_pattern =
     Seq (Lit ''HTTP/'')
       (Seq (Alt (Seq (Lit ''1.'') (Cls [CChar (CHR ''0''), CChar (CHR ''1'')])) (Seq (Lit ''2'') (Opt (Lit ''.0''))))
         (Seq (Chr (CHR '' '')) (Seq (Cls [CRange (CHR ''1'') (CHR ''5'')]) (Seq (Rep 2 digit_class)
           (Opt (Seq (Chr (CHR '' '')) (Star not_break)))))))"

definition header_pattern :: re where
  "header_pattern =
     Seq (Plus (Cls (map CChar ''!#$%&*+.^_|~-'' @ [CChar (CHR 0x27), CChar (CHR 0x60),
         CRange (CHR ''0'') (CHR ''9''), CRange (CHR ''A'') (CHR ''Z''), CRange (CHR ''a'') (CHR ''z'')])))
       (Seq (Chr (CHR '':'')) (Star not_break))"

text \<open>The three digits after the first space of a status line.\<close>

definition status_of :: "string \<Rightarrow> nat" where
  "status_of line =
     foldl (\<lambda>n c. 10 * n + digit_val c) 0 (take 3 (tl (dropWhile (\<lambda>c. c \<noteq> CHR '' '') line)))"

definition http_head :: "string \<Rightarrow> (nat \<times> string) rel" where
  "http_head data =
     (case split_head data of
        None \<Rightarrow> Inl (GitHubError ''GitHub response headers are missing or truncated'' False)
      | Some (before, _, rest) \<Rightarrow>
          (let lines = split_lines [] [] False before
           in if lines = [] \<or> \<not> fullmatch status_pattern (hd lines) \<or> \<not> list_all (fullmatch header_pattern) (tl lines)
              then Inl (GitHubError ''GitHub response headers are invalid'' False)
              else Inr (status_of (hd lines), rest)))"

text \<open>\<^verbatim>\<open>parse_json\<close>: no object may repeat a field.\<close>

fun distinct_fields :: "pyval \<Rightarrow> bool" where
  "distinct_fields (VList vs) = list_all distinct_fields vs"
| "distinct_fields (VDict kv) = (distinct (map fst kv) \<and> list_all (\<lambda>(_, v). distinct_fields v) kv)"
| "distinct_fields v = True"

definition parse_json :: "gh_env \<Rightarrow> string \<Rightarrow> pyval rel" where
  "parse_json env data =
     (case ge_loads env data of
        None \<Rightarrow> Inl (ReleaseError ''Invalid JSON'')
      | Some v \<Rightarrow> rel_seq (rc_require (distinct_fields v) ''Duplicate JSON field'') (Inr v))"

definition json_blank :: "char \<Rightarrow> bool" where
  "json_blank c \<longleftrightarrow> c = CHR '' '' \<or> c = CHR 0x09 \<or> c = CHR 0x0D \<or> c = CHR 0x0A"

lemma blank_line_bound: "blank_line s = Some n \<Longrightarrow> 2 \<le> n \<and> n \<le> length s"
  by (auto simp: blank_line_def line_break_def split: list.splits if_splits option.splits)
     (auto simp: neq_Nil_conv)

lemma split_head_shorter: "split_head s = Some (before, break, rest) \<Longrightarrow> length rest < length s"
proof (induction s arbitrary: before)
  case (Cons c cs)
  then show ?case
    using blank_line_bound [of "c # cs"] by (fastforce split: option.splits)
qed simp

lemma following_shorter:
  assumes "split_head (dropWhile json_blank (drop n (dropWhile json_blank s))) = Some (before, break, following)"
  shows "length following < length s"
proof -
  have "length (dropWhile json_blank (drop n (dropWhile json_blank s))) \<le> length (dropWhile json_blank s)"
    using length_dropWhile_le [of json_blank "drop n (dropWhile json_blank s)"] by simp
  then show ?thesis
    using split_head_shorter [OF assms] length_dropWhile_le [of json_blank s] by linarith
qed

text \<open>
  The pages of a response, each a JSON value behind the headers of its own request; a page that does
  not follow a success ends it and drops the pages before it.  Every turn reads one blank line more.
\<close>

definition page_error :: "'a rel" where
  "page_error = Inl (GitHubError ''GitHub response page is invalid or truncated'' False)"

function read_pages :: "gh_env \<Rightarrow> nat \<Rightarrow> string \<Rightarrow> pyval list \<Rightarrow> (nat \<times> string) rel" where
  "read_pages env status text pages =
     (if \<not> (200 \<le> status \<and> status < 300) then Inr (status, [])
      else
        (let rest = dropWhile json_blank text
         in case ge_raw_decode env rest of
              None \<Rightarrow> page_error
            | Some n \<Rightarrow>
                (case parse_json env (take n rest) of
                   Inl _ \<Rightarrow> page_error
                 | Inr v \<Rightarrow>
                     (let after = dropWhile json_blank (drop n rest)
                      in if after = [] then Inr (status, canonical (ge_float env) (VList (pages @ [v])))
                         else
                           (case split_head after of
                              None \<Rightarrow> Inl (GitHubError ''GitHub response headers are missing or truncated'' False)
                            | Some (before, break, following) \<Rightarrow>
                                (case http_head (before @ break) of
                                   Inl e \<Rightarrow> Inl e
                                 | Inr (s, _) \<Rightarrow> read_pages env s following (pages @ [v])))))))"
  by pat_completeness auto
termination
  by (relation "measure (\<lambda>(_, _, body, _). length body)") (auto dest: following_shorter)

definition http_response :: "gh_env \<Rightarrow> string \<Rightarrow> bool \<Rightarrow> (nat \<times> string) rel" where
  "http_response env stdout paginated =
     bind_res (http_head stdout) (\<lambda>(status, body).
       if paginated then read_pages env status body [] else Inr (status, body))"

definition cli_response :: "finished \<Rightarrow> (nat \<times> string) option \<Rightarrow> string rel" where
  "cli_response result http =
     (let (status, body) = (case http of None \<Rightarrow> (None, fi_out result) | Some (s, b) \<Rightarrow> (Some s, b))
      in if status \<noteq> None \<and> (fi_code result = 0) \<noteq> (200 \<le> the status \<and> the status < 300)
         then Inl (GitHubError ''GitHub HTTP status and CLI result disagree'' False)
         else if fi_code result \<noteq> 0 then Inl (GitHubError ''GitHub request failed'' (status = Some 404))
         else Inr body)"

subsection \<open>Which requests are allowed\<close>

definition hex_class :: re where
  "hex_class = Cls [CRange (CHR ''0'') (CHR ''9''), CRange (CHR ''a'') (CHR ''f'')]"

text \<open>\<^verbatim>\<open>(?:[A-Za-z0-9_.~-]|%[0-9A-F]{2})+\<close>.\<close>

definition quoted_pattern :: re where
  "quoted_pattern =
     Plus (Alt (Cls [CRange (CHR ''A'') (CHR ''Z''), CRange (CHR ''a'') (CHR ''z''), CRange (CHR ''0'') (CHR ''9''),
                     CChar (CHR ''_''), CChar (CHR ''.''), CChar (CHR ''~''), CChar (CHR ''-'')])
               (Seq (Chr (CHR ''%'')) (Rep 2 (Cls [CRange (CHR ''0'') (CHR ''9''), CRange (CHR ''A'') (CHR ''F'')]))))"

text \<open>\<^verbatim>\<open>TAG_RE\<close>, a version with an optional channel suffix.\<close>

definition tag_pattern :: re where
  "tag_pattern =
     Seq (Chr (CHR ''v'')) (Seq base_pattern
       (Opt (Alt
         (Seq (Chr (CHR ''-'')) (Seq (Alt (Lit ''beta'') (Lit ''rc'')) (Seq (Chr (CHR ''.'')) positive_pattern)))
         (Seq (Lit ''-nightly.'') (Seq (Rep 14 digit_class)
           (Seq (Chr (CHR ''.'')) (Seq positive_pattern (Seq (Chr (CHR ''.'')) positive_pattern))))))))"

text \<open>\<^verbatim>\<open>unquote\<close> byte by byte: enough for the dots and slashes it is used on.\<close>

definition hex_val :: "char \<Rightarrow> nat option" where
  "hex_val c =
     (let n = code c
      in if 48 \<le> n \<and> n \<le> 57 then Some (n - 48)
         else if 65 \<le> n \<and> n \<le> 70 then Some (n - 55)
         else if 97 \<le> n \<and> n \<le> 102 then Some (n - 87) else None)"

fun unquote :: "string \<Rightarrow> string" where
  "unquote (p # a # b # cs) =
     (case (hex_val a, hex_val b) of
        (Some x, Some y) \<Rightarrow> if p = CHR ''%'' then char_of (16 * x + y) # unquote cs else p # unquote (a # b # cs)
      | _ \<Rightarrow> p # unquote (a # b # cs))"
| "unquote s = s"

text \<open>\<^verbatim>\<open>quote(s, safe='')\<close>: UTF-8 bytes outside the unreserved characters in upper hexadecimal.\<close>

definition unreserved :: "char \<Rightarrow> bool" where
  "unreserved c \<longleftrightarrow> isascii [c] \<and> (is_word_char c \<or> c \<in> {CHR ''.'', CHR ''~'', CHR ''-''})"

definition upper_hex :: "nat \<Rightarrow> char" where
  "upper_hex n = (if n < 10 then char_of (48 + n) else char_of (55 + n))"

definition utf8_bytes :: "char \<Rightarrow> nat list" where
  "utf8_bytes c = (if code c < 128 then [code c] else [192 + code c div 64, 128 + code c mod 64])"

definition quote :: "string \<Rightarrow> string" where
  "quote s =
     concat (map (\<lambda>c. if unreserved c then [c]
       else concat (map (\<lambda>b. [CHR ''%'', upper_hex (b div 16), upper_hex (b mod 16)]) (utf8_bytes c))) s)"

definition api_paths :: "string \<Rightarrow> re list" where
  "api_paths verb =
     (if verb = ''GET'' then
        [Alt Eps (Alt (Lit ''tags'') (Alt (Lit ''releases'') (Lit ''environments/release''))),
         Seq (Lit ''releases/'') (Alt (Seq positive_pattern (Opt (Lit ''/assets''))) (Seq (Lit ''assets/'') positive_pattern)),
         Seq (Lit ''releases/tags/'') tag_pattern,
         Seq (Lit ''git/ref/tags/'') tag_pattern,
         Seq (Lit ''actions/runs/'') (Seq positive_pattern
           (Opt (Alt (Lit ''/artifacts'') (Seq (Lit ''/attempts/'') (Seq positive_pattern (Lit ''/jobs'')))))),
         Seq (Lit ''actions/artifacts/'') (Seq positive_pattern (Lit ''/zip'')),
         Seq (Lit ''contents/.release-policy.json?ref='') (Rep 40 hex_class),
         Seq (Lit ''contents/CHANGELOG.md?ref='') (Rep 40 hex_class),
         Seq (Lit ''contents/.github?ref='') (Rep 40 hex_class),
         Lit ''contents/release-version-state.json?ref=release-version-state'',
         Lit ''git/ref/heads/release-version-state'',
         Seq (Lit ''git/ref/heads/'') quoted_pattern,
         Seq (Lit ''actions/workflows/release-pipeline.yml/runs?branch='') (Seq quoted_pattern
           (Seq (Lit ''&event=push&head_sha='') (Seq (Rep 40 hex_class) (Lit ''&per_page=100'')))),
         Seq (Lit ''compare/'') (Seq (Rep 40 hex_class) (Seq (Lit ''...'') quoted_pattern))]
      else if verb = ''POST'' then [Alt (Lit ''git/refs'') (Lit ''releases'')]
      else if verb = ''PATCH'' then [Seq (Lit ''releases/'') positive_pattern]
      else if verb = ''PUT'' then [Lit ''contents/release-version-state.json'']
      else [])"

definition VERBS :: "string list" where
  "VERBS = [''GET'', ''POST'', ''PATCH'', ''PUT'']"

text \<open>The checks of a request, in their order; \<open>VNone\<close> is a request without a body.\<close>

definition request_allowed :: "string \<Rightarrow> string \<Rightarrow> pyval \<Rightarrow> string \<Rightarrow> unit rel" where
  "request_allowed path verb body mode =
     rel_seq (rc_require (verb \<in> set VERBS) ''Unsupported API method'')
     (rel_seq (rc_require (list_ex (\<lambda>r. fullmatch r path) (api_paths verb)) ''Unsupported API endpoint'')
     (rel_seq (rc_require (list_all (\<lambda>part. part \<noteq> ''.'' \<and> part \<noteq> ''..'') (split_on (CHR ''/'') (unquote path)))
       ''API endpoint cannot traverse repository paths'')
     (rel_seq (rc_require ((verb = ''GET'' \<and> body = VNone) \<or> (verb \<noteq> ''GET'' \<and> is_dict body))
       ''API body does not match its method'')
     (rel_seq (rc_require (verb \<noteq> ''PUT'' \<or>
         get_or (entries_of body) ''branch'' VNone = VStr ''release-version-state'' \<and>
         set (dict_keys (entries_of body)) \<subseteq> {''branch'', ''content'', ''message'', ''sha''})
       ''Ledger writes must target the dedicated state branch'')
       (rc_require (mode \<in> {''json'', ''pages'', ''asset''} \<and> (mode = ''json'' \<or> verb = ''GET'')) ''Invalid API mode'')))))"

definition drop_slashes :: "string \<Rightarrow> string" where
  "drop_slashes s = rev (dropWhile (\<lambda>c. c = CHR ''/'') (rev s))"

definition repo_base :: "gh_env \<Rightarrow> string" where
  "repo_base env = ''repos/'' @ ge_repo env"

definition request_endpoint :: "gh_env \<Rightarrow> string \<Rightarrow> string \<Rightarrow> string" where
  "request_endpoint env path mode =
     (let endpoint = drop_slashes (repo_base env @ ''/'' @ path)
      in if mode = ''pages''
         then endpoint @ (if CHR ''?'' \<in> set endpoint then ''&'' else ''?'') @ ''per_page='' @
              (if endswith path ''/jobs'' then ''20'' else ''100'')
         else endpoint)"

definition mode_args :: "string \<Rightarrow> string list" where
  "mode_args mode =
     (if mode = ''pages'' then [''--paginate'', ''--jq'', ''tojson'']
      else if mode = ''asset'' then [''-H'', ''Accept: application/octet-stream''] else [])"

definition request_call :: "gh_env \<Rightarrow> string \<Rightarrow> string \<Rightarrow> pyval \<Rightarrow> string \<Rightarrow> gh_call" where
  "request_call env path verb body mode =
     ([''gh'', ''api'', ''--hostname'', ''github.com'', ''--include'', ''--method'', verb] @ mode_args mode @
        (if body = VNone then [] else [''--input'', ''-'']) @ [''--'', request_endpoint env path mode],
      if body = VNone then None else Some (canonical (ge_float env) body))"

subsection \<open>Requests\<close>

definition API_READ_ATTEMPTS :: nat where
  "API_READ_ATTEMPTS = 3"

definition transient :: "finished \<Rightarrow> nat \<Rightarrow> bool" where
  "transient result status \<longleftrightarrow> fi_code result \<noteq> 0 \<and> status \<in> {500, 502, 503, 504}"

text \<open>The attempts of a read that are left: only a timeout or a transient failure is tried again.\<close>

fun metadata_attempts :: "gh_env \<Rightarrow> gh_call \<Rightarrow> bool \<Rightarrow> nat \<Rightarrow> string gh" where
  "metadata_attempts env call paginated 0 = gh_lift (Inl (Raised AssertionError))"
| "metadata_attempts env call paginated (Suc left) =
     gh_bind (run_limited env call) (\<lambda>outcome.
       case outcome of
         None \<Rightarrow>
           if left = 0 then gh_lift (Inl (GitHubError ''metadata read timed out'' False))
           else gh_bind pause (\<lambda>_. metadata_attempts env call paginated left)
       | Some result \<Rightarrow>
           gh_with (http_response env (fi_out result) paginated) (\<lambda>http.
             if \<not> transient result (fst http) \<or> left = 0 then gh_lift (cli_response result (Some http))
             else gh_bind pause (\<lambda>_. metadata_attempts env call paginated left)))"

definition metadata_read :: "gh_env \<Rightarrow> gh_call \<Rightarrow> bool \<Rightarrow> string gh" where
  "metadata_read env call paginated = metadata_attempts env call paginated API_READ_ATTEMPTS"

definition is_metadata :: "string \<Rightarrow> string \<Rightarrow> string \<Rightarrow> bool" where
  "is_metadata path verb mode \<longleftrightarrow> verb = ''GET'' \<and> mode \<noteq> ''asset'' \<and> \<not> endswith path ''/zip''"

definition request :: "gh_env \<Rightarrow> string \<Rightarrow> string \<Rightarrow> pyval \<Rightarrow> string \<Rightarrow> string gh" where
  "request env path verb body mode =
     gh_seq (request_allowed path verb body mode)
       (let call = request_call env path verb body mode
        in if is_metadata path verb mode then metadata_read env call (mode = ''pages'')
           else
             gh_bind (run_waiting env call) (\<lambda>result.
               gh_with (http_response env (fi_out result) False) (\<lambda>http. gh_lift (cli_response result (Some http)))))"

definition api :: "gh_env \<Rightarrow> string \<Rightarrow> string \<Rightarrow> pyval \<Rightarrow> pyval gh" where
  "api env path verb body =
     gh_bind (request env path verb body ''json'') (\<lambda>raw.
       gh_lift (if strip_bytes raw = [] then Inr VNone else parse_json env raw))"

abbreviation get :: "gh_env \<Rightarrow> string \<Rightarrow> pyval gh" where
  "get env path \<equiv> api env path ''GET'' VNone"

definition optional :: "gh_env \<Rightarrow> string \<Rightarrow> pyval gh" where
  "optional env path w =
     (case get env path w of
        (Inl (GitHubError m missing), w') \<Rightarrow> (if missing then Inr VNone else Inl (GitHubError m missing), w')
      | r \<Rightarrow> r)"

text \<open>\<open>fld\<close> is \<^verbatim>\<open>field\<close>, absent or nonempty; records need not be objects yet.\<close>

definition page_values :: "string option \<Rightarrow> pyval \<Rightarrow> pyval list rel" where
  "page_values fld page =
     (let values = (case (fld, page) of (Some k, VDict d) \<Rightarrow> get_or d k VNone | _ \<Rightarrow> page)
      in rel_seq (rc_require (is_list values) ''Invalid paginated records'') (Inr (items_of values)))"

definition pages :: "gh_env \<Rightarrow> string \<Rightarrow> string option \<Rightarrow> pyval list gh" where
  "pages env path fld =
     gh_bind (request env path ''GET'' VNone ''pages'') (\<lambda>raw.
     gh_with (parse_json env raw) (\<lambda>all.
       gh_seq (rc_require (is_list all) ''Invalid pagination response'')
         (gh_lift (map_sum id concat (map_res (page_values fld) (items_of all))))))"

definition asset_path :: re where
  "asset_path = Seq (Lit ''releases/assets/'') positive_pattern"

definition binary :: "gh_env \<Rightarrow> string \<Rightarrow> string gh" where
  "binary env path =
     (if fullmatch (Seq (Lit ''actions/artifacts/'') (Seq positive_pattern (Lit ''/zip''))) path
      then request env path ''GET'' VNone ''json''
      else gh_seq (rc_require (fullmatch asset_path path) ''Unsupported binary download endpoint'')
        (request env path ''GET'' VNone ''asset''))"

text \<open>The bytes that \<^verbatim>\<open>download_asset\<close> leaves in its output file.\<close>

definition download_asset :: "gh_env \<Rightarrow> string \<Rightarrow> string gh" where
  "download_asset env path =
     gh_seq (rc_require (fullmatch asset_path path) ''Unsupported binary download endpoint'')
     (gh_bind (run_limited env
        ([''gh'', ''api'', ''--hostname'', ''github.com'', ''--method'', ''GET'', ''-H'',
          ''Accept: application/octet-stream'', ''--'', repo_base env @ ''/'' @ path], None)) (\<lambda>outcome.
        case outcome of
          None \<Rightarrow> gh_lift (Inl (GitHubError ''asset download ran out of time'' False))
        | Some result \<Rightarrow> gh_lift (bind_res (cli_response result None) (\<lambda>_. Inr (fi_out result)))))"

subsection \<open>Uploads\<close>

text \<open>
  A file of the staging directory: its path as given and resolved, the name of its resolved directory
  and whether that lies in the directory of temporary files.
\<close>

record staged_file =
  sg_path :: string
  sg_name :: string
  sg_absolute :: bool
  sg_regular :: bool
  sg_source :: string
  sg_parent :: string
  sg_in_temp :: bool
  sg_bytes :: string

text \<open>\<^verbatim>\<open>[A-Za-z0-9][A-Za-z0-9._+-]{0,199}\Z\<close>.\<close>

definition alnum_items :: "citem list" where
  "alnum_items = [CRange (CHR ''A'') (CHR ''Z''), CRange (CHR ''a'') (CHR ''z''), CRange (CHR ''0'') (CHR ''9'')]"

definition asset_name_ok :: "string \<Rightarrow> bool" where
  "asset_name_ok s \<longleftrightarrow>
     s \<noteq> [] \<and> length s \<le> 200 \<and> class_has False alnum_items (hd s) \<and>
     list_all (class_has False (alnum_items @ map CChar ''._+-'')) (tl s)"

definition STAGING :: "string list" where
  "STAGING = [''release-candidate-'', ''release-promote-'', ''release-versioned-'']"

definition upload_call :: "gh_env \<Rightarrow> staged_file \<Rightarrow> int \<Rightarrow> gh_call" where
  "upload_call env file release_id =
     ([''gh'', ''api'', ''--hostname'', ''github.com'', ''--include'', ''--method'', ''POST'', ''-H'',
       ''Content-Type: application/octet-stream'', ''--input'', sg_source file, ''--'',
       ''https://uploads.github.com/'' @ repo_base env @ ''/releases/'' @ str_of_int release_id @ ''/assets?name='' @
         quote (sg_name file)], None)"

definition upload_allowed :: "string \<Rightarrow> staged_file \<Rightarrow> pyval \<Rightarrow> int rel" where
  "upload_allowed tag file release_id =
     rel_seq (rc_require (fullmatch tag_pattern tag) ''Unsupported release upload tag'')
     (bind_res (positive release_id ''release ID'') (\<lambda>n.
        rel_seq (rc_require (sg_absolute file \<and> asset_name_ok (sg_name file)) ''Unsafe upload path'')
        (rel_seq (rc_require (sg_regular file) ''Upload must be a regular file'')
        (rel_seq (rc_require (sg_in_temp file \<and> list_ex (startswith (sg_parent file)) STAGING \<and>
            CHR ''#'' \<notin> set (sg_path file))
          ''Upload must come from the private release staging directory'')
          (Inr n)))))"

text \<open>The response to an upload must confirm the staged file.\<close>

definition upload_confirmed :: "gh_env \<Rightarrow> staged_file \<Rightarrow> finished \<Rightarrow> nat \<times> string \<Rightarrow> unit rel" where
  "upload_confirmed env file result http =
     bind_res (cli_response result (Some http)) (\<lambda>body.
     rel_seq (rc_require (fst http = 201) ''upload was not confirmed as created'')
     (bind_res (parse_json env body) (\<lambda>asset.
      rel_seq (rc_require (is_dict asset) ''invalid asset response'')
      (let d = entries_of asset
       in bind_res (positive (get_or d ''id'' VNone) ''uploaded asset ID'') (\<lambda>_.
            rc_require
              (get_or d ''name'' VNone = VStr (sg_name file) \<and> get_or d ''state'' VNone = VStr ''uploaded'' \<and>
               get_or d ''size'' VNone = VInt (int (length (sg_bytes file))))
              ''upload response did not confirm the staged asset'')))))"

definition upload :: "gh_env \<Rightarrow> string \<Rightarrow> staged_file \<Rightarrow> pyval \<Rightarrow> unit gh" where
  "upload env tag file release_id =
     gh_with (upload_allowed tag file release_id) (\<lambda>n.
     gh_bind (run_limited env (upload_call env file n)) (\<lambda>outcome.
       case outcome of
         None \<Rightarrow> gh_lift (Inl (GitHubError ''asset upload ran out of time'' False))
       | Some result \<Rightarrow>
           (case http_response env (fi_out result) False of
              Inl (GitHubError m missing) \<Rightarrow> gh_lift (Inl (GitHubError ''upload failed'' False))
            | Inl e \<Rightarrow> gh_lift (Inl e)
            | Inr http \<Rightarrow> gh_lift (upload_confirmed env file result http))))"

subsection \<open>The constructor and its permission probe\<close>

text \<open>The first \<^verbatim>\<open>\n\n\<close> after \<^verbatim>\<open>\r\n\<close> became \<^verbatim>\<open>\n\<close> everywhere.\<close>

fun unix_breaks :: "string \<Rightarrow> string" where
  "unix_breaks (a # b # cs) =
     (if a = CHR 0x0D \<and> b = CHR 0x0A then b # unix_breaks cs else a # unix_breaks (b # cs))"
| "unix_breaks s = s"

fun head_body :: "string \<Rightarrow> (string \<times> string) option" where
  "head_body (a # b # cs) =
     (if a = CHR 0x0A \<and> b = CHR 0x0A then Some ([], cs)
      else (case head_body (b # cs) of None \<Rightarrow> None | Some (h, t) \<Rightarrow> Some (a # h, t)))"
| "head_body s = None"

definition TEXT_BREAKS :: string where
  "TEXT_BREAKS = [CHR 0x0B, CHR 0x0C, CHR 0x1C, CHR 0x1D, CHR 0x1E]"

definition header_scopes :: "string \<Rightarrow> string list" where
  "header_scopes line =
     (let key = takeWhile (\<lambda>c. c \<noteq> CHR '':'') line; rest = drop (length key) line
      in if rest \<noteq> [] \<and> lower key = ''x-oauth-scopes'' then map strip (split_on (CHR '','') (tl rest)) else [])"

definition probe_call :: "gh_env \<Rightarrow> gh_call" where
  "probe_call env =
     ([''gh'', ''api'', ''--hostname'', ''github.com'', ''--method'', ''GET'', ''--include'', ''--'', repo_base env], None)"

definition probe_accepted :: "gh_env \<Rightarrow> finished \<Rightarrow> unit rel" where
  "probe_accepted env result =
     rel_seq (rc_require (fi_code result = 0) ''Publication token permission probe failed'')
     (case head_body (unix_breaks (fi_out result)) of
        None \<Rightarrow> Inl (ReleaseError ''Publication token permission headers are missing'')
      | Some (headers, body) \<Rightarrow>
          (let scopes = concat (map header_scopes (split_lines TEXT_BREAKS [] False headers))
           in bind_res (parse_json env body) (\<lambda>repository.
              let d = entries_of repository
              in rel_seq (rc_require
                   (is_dict repository \<and>
                    is_str_ok (\<lambda>s. lower s = lower (ge_repo env)) (get_or d ''full_name'' VNone) \<and>
                    type_of (get_or d ''private'' VNone) = TBool \<and>
                    is_dict (get_or d ''permissions'' VNone) \<and>
                    get_or (entries_of (get_or d ''permissions'' VNone)) ''push'' VNone = VBool True)
                   ''Publication token cannot write the expected repository'')
                 (rc_require
                   (''workflow'' \<in> set scopes \<and>
                    (''repo'' \<in> set scopes \<or>
                     get_or d ''private'' VNone = VBool False \<and> ''public_repo'' \<in> set scopes))
                   ''Publication token requires verified workflow and repo/public_repo OAuth scopes''))))"

definition verify_publication_permissions :: "gh_env \<Rightarrow> unit gh" where
  "verify_publication_permissions env =
     gh_seq (rc_require
       (map_of (ge_environ env) ''RELEASE_REQUIRE_WORKFLOW_SCOPE'' = Some ''true'' \<and>
        env_or (ge_environ env) ''GH_TOKEN'' \<noteq> [])
       ''Publication token is missing or its permission probe is not enabled'')
     (gh_bind (run_waiting env (probe_call env)) (\<lambda>result. gh_lift (probe_accepted env result)))"

definition github_repo :: re where
  "github_repo =
     (let name = Seq (Cls alnum_items) (Star (Cls (alnum_items @ map CChar ''_.-'')))
      in Seq name (Seq (Chr (CHR ''/'')) name))"

definition new_github :: "gh_env \<Rightarrow> string \<Rightarrow> gh_env gh" where
  "new_github env repository =
     gh_seq (rc_require (fullmatch github_repo repository) ''Repository must be OWNER/REPO'')
     (let client = env\<lparr>ge_repo := repository, ge_verified := False\<rparr>
      in if env_or (ge_environ env) ''RELEASE_REQUIRE_WORKFLOW_SCOPE'' = [] then gh_lift (Inr client)
         else gh_bind (verify_publication_permissions client) (\<lambda>_. gh_lift (Inr (client\<lparr>ge_verified := True\<rparr>))))"

subsection \<open>The log of an operation\<close>

named_theorems gh_defs

lemmas [gh_defs] = gh_lift_def gh_bind_def gh_seq_def gh_with_def

definition added :: "'a gh \<Rightarrow> gh_world \<Rightarrow> gh_call list \<Rightarrow> bool" where
  "added m w calls \<longleftrightarrow> gw_calls (snd (m w)) = calls @ gw_calls w"

lemma added_lift [simp]: "added (gh_lift r) w cs \<longleftrightarrow> cs = []"
  by (auto simp: added_def gh_lift_def)

lemma metadata_attempts_log:
  "\<exists>n \<le> left. gw_calls (snd (metadata_attempts env call paginated left w)) = replicate n call @ gw_calls w"
proof (induction left arbitrary: w)
  case (Suc left)
  let ?m = "metadata_attempts env call paginated"
  have again: "\<exists>n \<le> Suc left. gw_calls (snd (?m left v)) = replicate n call @ gw_calls w"
    if "gw_calls v = call # gw_calls w" for v
  proof -
    obtain n where "n \<le> left" "gw_calls (snd (?m left v)) = replicate n call @ gw_calls v" using Suc by blast
    then show ?thesis using that by (intro exI [of _ "Suc n"]) (simp add: replicate_app_Cons_same)
  qed
  have once: "\<exists>n \<le> Suc left. call # gw_calls w = replicate n call @ gw_calls w"
    by (intro exI [of _ 1]) simp
  show ?case
    by (auto simp: gh_defs run_limited_def pause_def split: option.split sum.split intro!: again once)
qed (simp add: gh_defs)

text \<open>What may be written, and where.\<close>

definition write_target :: "string \<Rightarrow> string \<Rightarrow> pyval \<Rightarrow> bool" where
  "write_target verb path body \<longleftrightarrow>
     (verb = ''POST'' \<and> path \<in> {''git/refs'', ''releases''}) \<or>
     (verb = ''PATCH'' \<and> startswith path ''releases/'') \<or>
     (verb = ''PUT'' \<and> path = ''contents/release-version-state.json'' \<and>
      get_or (entries_of body) ''branch'' VNone = VStr ''release-version-state'')"

lemma allowed_target:
  assumes "request_allowed path verb body mode = Inr ()"
  shows "verb = ''GET'' \<and> body = VNone \<or> write_target verb path body"
proof -
  have verb: "verb = ''GET'' \<or> verb = ''POST'' \<or> verb = ''PATCH'' \<or> verb = ''PUT''"
    and path: "list_ex (\<lambda>r. fullmatch r path) (api_paths verb)"
    and body: "verb = ''GET'' \<and> body = VNone \<or> verb \<noteq> ''GET'' \<and> is_dict body"
    and put: "verb \<noteq> ''PUT'' \<or> get_or (entries_of body) ''branch'' VNone = VStr ''release-version-state''"
    using assms unfolding request_allowed_def rel_seq_Inr_iff rc_require_Inr_iff VERBS_def by simp_all
  from verb show ?thesis
  proof (elim disjE)
    assume "verb = ''PATCH''"
    moreover then have "fullmatch (Seq (Lit ''releases/'') positive_pattern) path" using path by (simp add: api_paths_def)
    then have "startswith path ''releases/''" using fullmatch_Lit_Seq startswith_iff by metis
    ultimately show ?thesis by (simp add: write_target_def)
  next
    assume v: "verb = ''POST''"
    then have "path = ''git/refs'' \<or> path = ''releases''"
      using path by (simp add: api_paths_def fullmatch_Alt fullmatch_Lit del: Lit.simps)
    then show ?thesis using v by (auto simp: write_target_def)
  next
    assume v: "verb = ''PUT''"
    then have "path = ''contents/release-version-state.json''"
      using path by (simp add: api_paths_def fullmatch_Lit del: Lit.simps)
    then show ?thesis using v put by (simp add: write_target_def)
  next
    assume "verb = ''GET''"
    then show ?thesis using body by simp
  qed
qed

lemma request_log:
  "\<exists>n. gw_calls (snd (request env path verb body mode w)) =
       replicate n (request_call env path verb body mode) @ gw_calls w \<and>
     n \<le> (if verb = ''GET'' then API_READ_ATTEMPTS else 1) \<and>
     (n = 0 \<or> request_allowed path verb body mode = Inr ())"
proof (cases "request_allowed path verb body mode")
  case (Inl e)
  then show ?thesis by (intro exI [of _ 0]) (simp add: request_def gh_defs)
next
  case (Inr u)
  let ?call = "request_call env path verb body mode"
  show ?thesis
  proof (cases "is_metadata path verb mode")
    case True
    obtain n where "n \<le> API_READ_ATTEMPTS"
      "gw_calls (snd (metadata_attempts env ?call (mode = ''pages'') API_READ_ATTEMPTS w)) =
         replicate n ?call @ gw_calls w"
      using metadata_attempts_log by blast
    then show ?thesis
      using Inr True by (intro exI [of _ n]) (simp add: request_def gh_defs metadata_read_def is_metadata_def Let_def)
  next
    case False
    then show ?thesis
      using Inr by (intro exI [of _ 1])
        (simp add: request_def gh_defs Let_def run_waiting_def API_READ_ATTEMPTS_def split: sum.split)
  qed
qed

text \<open>
  C38: Whatever GitHub answers, a request starts only its own fixed command.  A read runs at most three
  times; a write runs at most once, creates a tag or a release, changes a release, or puts the ledger
  file on its own branch, and nothing else.
\<close>

theorem writes_never_replayed:
  "\<exists>n. gw_calls (snd (request env path verb body mode w)) =
       replicate n (request_call env path verb body mode) @ gw_calls w \<and>
     (if verb = ''GET'' then n \<le> 3 else n \<le> 1) \<and>
     (if n = 0 then True else verb = ''GET'' \<and> body = VNone \<or> write_target verb path body)"
proof -
  from request_log [of env path verb body mode w] obtain n
    where "gw_calls (snd (request env path verb body mode w)) =
        replicate n (request_call env path verb body mode) @ gw_calls w"
      "n \<le> (if verb = ''GET'' then API_READ_ATTEMPTS else 1)"
      "n = 0 \<or> request_allowed path verb body mode = Inr ()" by blast
  then show ?thesis using allowed_target by (intro exI [of _ n]) (auto simp: API_READ_ATTEMPTS_def split: if_splits)
qed

subsection \<open>Reads that are repeated\<close>

text \<open>What one process makes of a read: \<open>None\<close> when it is worth another attempt.\<close>

definition settled :: "gh_env \<Rightarrow> gh_call \<Rightarrow> bool \<Rightarrow> nat \<Rightarrow> string rel option" where
  "settled env call paginated tick =
     (case ge_limited env tick call of
        None \<Rightarrow> None
      | Some result \<Rightarrow>
          (case http_response env (fi_out result) paginated of
             Inl e \<Rightarrow> Some (Inl e)
           | Inr http \<Rightarrow> if transient result (fst http) then None else Some (cli_response result (Some http))))"

lemma attempts_unfold:
  "fst (metadata_attempts env call paginated (Suc (Suc left)) w) =
     (case settled env call paginated (gw_tick w) of
        Some r \<Rightarrow> r
      | None \<Rightarrow> fst (metadata_attempts env call paginated (Suc left)
          \<lparr>gw_tick = gw_tick w + 2, gw_calls = call # gw_calls w\<rparr>))"
  by (auto simp: gh_defs settled_def run_limited_def pause_def simp del: metadata_attempts.simps(2)
      simp: metadata_attempts.simps(2) [of env call paginated "Suc left"] split: option.splits sum.splits)

lemma attempt_last:
  "\<exists>m missing. fst (metadata_attempts env call paginated (Suc 0) w) =
     (case settled env call paginated (gw_tick w) of
        Some r \<Rightarrow> r | None \<Rightarrow> Inl (GitHubError m missing))"
  by (auto simp: gh_defs settled_def run_limited_def transient_def cli_response_def Let_def split: option.splits sum.splits)

lemma metadata_read_settles:
  "\<exists>m missing. fst (metadata_read env call paginated w) =
     (case first_some (settled env call paginated) [gw_tick w, gw_tick w + 2, gw_tick w + 4] of
        Some r \<Rightarrow> r | None \<Rightarrow> Inl (GitHubError m missing))"
proof -
  let ?w = "\<lparr>gw_tick = gw_tick w + 2 + 2, gw_calls = call # call # gw_calls w\<rparr>"
  obtain m missing where "fst (metadata_attempts env call paginated (Suc 0) ?w) =
     (case settled env call paginated (gw_tick w + 2 + 2) of Some r \<Rightarrow> r | None \<Rightarrow> Inl (GitHubError m missing))"
    using attempt_last [of env call paginated ?w] by auto
  then show ?thesis
    by (intro exI [of _ m] exI [of _ missing])
      (simp add: metadata_read_def API_READ_ATTEMPTS_def eval_nat_numeral attempts_unfold del: metadata_attempts.simps
         split: option.split)
qed

subsection \<open>Successful runs\<close>

named_theorems gh_runs

lemma gh_lift_runs [gh_runs]: "gh_lift r w = (Inr y, w') \<longleftrightarrow> r = Inr y \<and> w' = w"
  by (auto simp: gh_lift_def)

lemma gh_bind_runs [gh_runs]:
  "gh_bind m f w = (Inr y, w') \<longleftrightarrow> (\<exists>x v. m w = (Inr x, v) \<and> f x v = (Inr y, w'))"
  by (auto simp: gh_bind_def split: prod.splits sum.splits)

lemma gh_seq_runs [gh_runs]: "gh_seq r m w = (Inr y, w') \<longleftrightarrow> r = Inr () \<and> m w = (Inr y, w')"
  by (auto simp: gh_seq_def split: sum.splits)

lemma gh_with_runs [gh_runs]: "gh_with r f w = (Inr y, w') \<longleftrightarrow> (\<exists>x. r = Inr x \<and> f x w = (Inr y, w'))"
  by (auto simp: gh_with_def split: sum.splits)

lemma read_clock_runs [gh_runs]:
  "read_clock env w = (Inr t, w') \<longleftrightarrow> t = ge_clock env (gw_tick w) \<and> w' = w\<lparr>gw_tick := gw_tick w + 1\<rparr>"
  by (auto simp: read_clock_def)

lemma run_limited_runs [gh_runs]:
  "run_limited env call w = (Inr r, w') \<longleftrightarrow>
     r = ge_limited env (gw_tick w) call \<and> w' = \<lparr>gw_tick = gw_tick w + 1, gw_calls = call # gw_calls w\<rparr>"
  by (auto simp: run_limited_def)

subsection \<open>Reads and writes\<close>

text \<open>The method of a call and the writing calls of the log, newest first.\<close>

definition call_verb :: "gh_call \<Rightarrow> string" where
  "call_verb call =
     (case dropWhile (\<lambda>a. a \<noteq> ''--method'') (fst call) of _ # verb # _ \<Rightarrow> verb | _ \<Rightarrow> [])"

definition writes :: "gh_world \<Rightarrow> gh_call list" where
  "writes w = filter (\<lambda>call. call_verb call \<noteq> ''GET'') (gw_calls w)"

text \<open>An operation that only reads: time does not go back and nothing is written.\<close>

definition reads :: "'a gh \<Rightarrow> bool" where
  "reads m \<longleftrightarrow> (\<forall>w. gw_tick w \<le> gw_tick (snd (m w)) \<and> writes (snd (m w)) = writes w)"

named_theorems reads_intros

lemma reads_D: "reads m \<Longrightarrow> m w = (r, w') \<Longrightarrow> gw_tick w \<le> gw_tick w' \<and> writes w' = writes w"
  unfolding reads_def by (metis snd_conv)

lemma reads_lift [reads_intros]: "reads (gh_lift r)"
  by (simp add: reads_def gh_lift_def)

lemma reads_bind [reads_intros]:
  assumes "reads m" "\<And>x. reads (f x)"
  shows "reads (gh_bind m f)"
  unfolding reads_def gh_bind_def
proof
  fix w
  obtain r v where m: "m w = (r, v)" by (cases "m w")
  note first = reads_D [OF assms(1) m]
  show "gw_tick w \<le> gw_tick (snd (case m w of (Inl e, w') \<Rightarrow> (Inl e, w') | (Inr x, w') \<Rightarrow> f x w')) \<and>
    writes (snd (case m w of (Inl e, w') \<Rightarrow> (Inl e, w') | (Inr x, w') \<Rightarrow> f x w')) = writes w"
  proof (cases r)
    case (Inr x)
    have "gw_tick v \<le> gw_tick (snd (f x v)) \<and> writes (snd (f x v)) = writes v"
      using assms(2) by (simp add: reads_def)
    with Inr m first show ?thesis by auto
  qed (use m first in simp)
qed

lemma reads_seq [reads_intros]: "reads m \<Longrightarrow> reads (gh_seq r m)"
  by (auto simp: reads_def gh_seq_def split: sum.split)

lemma reads_with [reads_intros]: "(\<And>x. reads (f x)) \<Longrightarrow> reads (gh_with r f)"
  by (auto simp: reads_def gh_with_def split: sum.split)

lemma reads_if [reads_intros]: "reads a \<Longrightarrow> reads b \<Longrightarrow> reads (if c then a else b)"
  by simp

lemma reads_option [reads_intros]:
  "reads a \<Longrightarrow> (\<And>x. reads (f x)) \<Longrightarrow> reads (case r of None \<Rightarrow> a | Some x \<Rightarrow> f x)"
  by (simp split: option.split)

lemma reads_clock [reads_intros]: "reads (read_clock env)"
  by (simp add: reads_def read_clock_def writes_def)

lemma reads_pause [reads_intros]: "reads pause"
  by (simp add: reads_def pause_def writes_def)

lemma reads_limited: "call_verb call = ''GET'' \<Longrightarrow> reads (run_limited env call)"
  by (simp add: reads_def run_limited_def writes_def)

lemma reads_waiting: "call_verb call = ''GET'' \<Longrightarrow> reads (run_waiting env call)"
  by (simp add: reads_def run_waiting_def writes_def)

lemma request_verb: "call_verb (request_call env path verb body mode) = verb"
  by (simp add: call_verb_def request_call_def)

lemma reads_attempts:
  "call_verb call = ''GET'' \<Longrightarrow> reads (metadata_attempts env call paginated left)"
  by (induction left) (auto intro!: reads_intros reads_limited)

lemma reads_request [reads_intros]: "reads (request env path ''GET'' body mode)"
  unfolding request_def Let_def metadata_read_def
  by (intro reads_intros reads_attempts reads_waiting request_verb)

lemma reads_get [reads_intros]: "reads (get env path)"
  unfolding api_def by (intro reads_intros)

lemma reads_pages [reads_intros]: "reads (pages env path fld)"
  unfolding pages_def by (intro reads_intros)

lemma reads_optional [reads_intros]: "reads (optional env path)"
proof -
  have "snd (optional env path w) = snd (get env path w)" for w
    by (auto simp: optional_def split: prod.splits sum.splits release_exc.splits)
  then show ?thesis using reads_get [of env path] by (simp add: reads_def)
qed

lemma reads_binary [reads_intros]: "reads (binary env path)"
  unfolding binary_def by (intro reads_intros)

lemma reads_download [reads_intros]: "reads (download_asset env path)"
  unfolding download_asset_def by (intro reads_intros reads_limited) (simp add: call_verb_def)

lemma reads_probe [reads_intros]: "reads (verify_publication_permissions env)"
  unfolding verify_publication_permissions_def
  by (intro reads_intros reads_waiting) (simp add: probe_call_def call_verb_def)

lemma reads_new_github [reads_intros]: "reads (new_github env repository)"
  unfolding new_github_def Let_def by (intro reads_intros)

text \<open>Reading first: either that fails and nothing is written, or the rest runs on what was read.\<close>

lemma gh_reads_then:
  assumes "reads m" "gh_bind m f w = (r, w')"
  shows "isl r \<and> writes w' = writes w \<or> (\<exists>x v. m w = (Inr x, v) \<and> writes v = writes w \<and> f x v = (r, w'))"
proof -
  obtain q v where m: "m w = (q, v)" by fastforce
  with reads_D [OF assms(1) m] assms(2) show ?thesis by (cases q) (auto simp: gh_bind_def)
qed

lemma gh_with_then:
  "gh_with q f w = (r, w') \<Longrightarrow> isl r \<and> writes w' = writes w \<or> (\<exists>x. q = Inr x \<and> f x w = (r, w'))"
  by (auto simp: gh_with_def split: sum.splits)

subsection \<open>Writes in order\<close>

lemma request_write:
  assumes "verb \<noteq> ''GET''"
  shows "snd (request env path verb body mode w) =
    (if request_allowed path verb body mode = Inr ()
     then \<lparr>gw_tick = gw_tick w + 1, gw_calls = request_call env path verb body mode # gw_calls w\<rparr> else w)"
  using assms
  by (cases "request_allowed path verb body mode")
    (auto simp: request_def gh_defs is_metadata_def run_waiting_def Let_def split: sum.split)

lemma api_world: "snd (api env path verb body w) = snd (request env path verb body ''json'' w)"
  by (auto simp: api_def gh_defs split: prod.split sum.split)

lemma api_write:
  assumes "verb \<noteq> ''GET''"
  shows "writes (snd (api env path verb body w)) =
      (if request_allowed path verb body ''json'' = Inr () then [request_call env path verb body ''json''] else []) @ writes w"
  using assms by (simp add: api_world request_write writes_def request_verb)

lemma api_write_allowed: "fst (api env path verb body w) = Inr v \<Longrightarrow> request_allowed path verb body ''json'' = Inr ()"
  by (cases "request_allowed path verb body ''json''") (auto simp: api_def request_def gh_defs)

lemma upload_verb: "call_verb (upload_call env file n) = ''POST''"
  by (simp add: call_verb_def upload_call_def)

lemma upload_write:
  "writes (snd (upload env tag file release_id w)) =
     (case upload_allowed tag file release_id of Inl e \<Rightarrow> [] | Inr n \<Rightarrow> [upload_call env file n]) @ writes w"
  by (auto simp: upload_def gh_defs run_limited_def writes_def upload_verb
      split: sum.split option.split release_exc.split)

lemma upload_allowed_id: "upload_allowed tag file release_id = Inr n \<Longrightarrow> positive release_id ''release ID'' = Inr n"
  by (auto simp: upload_allowed_def)

text \<open>
  The writes an operation makes, in order: some prefix of a list that satisfies \<open>P\<close>, the whole list when it
  returns.
\<close>

definition emits :: "'a gh \<Rightarrow> (gh_call list \<Rightarrow> bool) \<Rightarrow> bool" where
  "emits m P \<longleftrightarrow>
     (\<forall>w. \<exists>cs k. P cs \<and> k \<le> length cs \<and> writes (snd (m w)) = rev (take k cs) @ writes w \<and>
        ((\<exists>y. fst (m w) = Inr y) \<longrightarrow> k = length cs))"

named_theorems emits_intros

lemma emits_reads: "reads m \<Longrightarrow> emits m (\<lambda>cs. cs = [])"
  by (auto simp: emits_def reads_def)

lemma emits_weaken: "emits m P \<Longrightarrow> (\<And>cs. P cs \<Longrightarrow> Q cs) \<Longrightarrow> emits m Q"
  unfolding emits_def by blast

lemma emits_some: "emits m P \<Longrightarrow> \<exists>cs. P cs"
  unfolding emits_def by blast

lemma gh_emits_bind:
  assumes "emits m P" "\<And>x. emits (f x) Q"
  shows "emits (gh_bind m f) (\<lambda>cs. \<exists>a b. cs = a @ b \<and> P a \<and> Q b)"
  unfolding emits_def
proof
  fix w
  obtain r v where m: "m w = (r, v)" by (cases "m w")
  obtain a k where a: "P a" "k \<le> length a" "writes v = rev (take k a) @ writes w" "(\<exists>y. r = Inr y) \<longrightarrow> k = length a"
    using assms(1) m unfolding emits_def by (metis fst_conv snd_conv)
  show "\<exists>cs k. (\<exists>a b. cs = a @ b \<and> P a \<and> Q b) \<and> k \<le> length cs \<and>
      writes (snd (gh_bind m f w)) = rev (take k cs) @ writes w \<and>
      ((\<exists>y. fst (gh_bind m f w) = Inr y) \<longrightarrow> k = length cs)"
  proof (cases r)
    case (Inl e)
    obtain b where "Q b" using emits_some [OF assms(2)] by blast
    with a Inl m show ?thesis
      by (intro exI [of _ "a @ b"] exI [of _ k]) (auto simp: gh_bind_def)
  next
    case (Inr x)
    obtain b l where b: "Q b" "l \<le> length b" "writes (snd (f x v)) = rev (take l b) @ writes v"
      "(\<exists>y. fst (f x v) = Inr y) \<longrightarrow> l = length b"
      using assms(2) [of x] unfolding emits_def by blast
    with a Inr m show ?thesis
      by (intro exI [of _ "a @ b"] exI [of _ "length a + l"]) (auto simp: gh_bind_def)
  qed
qed

lemma emits_after_read: "reads m \<Longrightarrow> (\<And>x. emits (f x) Q) \<Longrightarrow> emits (gh_bind m f) Q"
  by (rule emits_weaken [OF gh_emits_bind [OF emits_reads]]) auto

lemma emits_before_read: "emits m P \<Longrightarrow> (\<And>x. reads (f x)) \<Longrightarrow> emits (gh_bind m f) P"
  by (rule emits_weaken [OF gh_emits_bind [OF _ emits_reads]]) auto

lemma emits_seq: "emits m P \<Longrightarrow> emits (gh_seq r m) P"
  unfolding emits_def gh_seq_def by (cases r) (auto intro!: exI [of _ 0])

lemma emits_with:
  assumes "\<And>x. emits (f x) P"
  shows "emits (gh_with r f) P"
proof (cases r)
  case (Inl e)
  obtain cs where "P cs" using emits_some [OF assms] by blast
  with Inl show ?thesis by (auto simp: emits_def gh_with_def intro!: exI [of _ cs] exI [of _ 0])
next
  case (Inr x)
  with assms [of x] show ?thesis by (simp add: emits_def gh_with_def)
qed

lemma emits_api:
  assumes "verb \<noteq> ''GET''"
  shows "emits (api env path verb body) (\<lambda>cs. cs = [request_call env path verb body ''json''])"
  unfolding emits_def
proof
  fix w
  let ?ok = "request_allowed path verb body ''json'' = Inr ()" and ?call = "request_call env path verb body ''json''"
  show "\<exists>cs k. cs = [?call] \<and> k \<le> length cs \<and>
      writes (snd (api env path verb body w)) = rev (take k cs) @ writes w \<and>
      ((\<exists>y. fst (api env path verb body w) = Inr y) \<longrightarrow> k = length cs)"
    using api_write [OF assms, of env path body w] api_write_allowed [of env path verb body w]
    by (intro exI [of _ "[?call]"] exI [of _ "if ?ok then 1 else 0"]) auto
qed

lemma emits_upload:
  assumes "positive release_id ''release ID'' = Inr n"
  shows "emits (upload env tag file release_id) (\<lambda>cs. cs = [upload_call env file n])"
  unfolding emits_def
proof
  fix w
  show "\<exists>cs k. cs = [upload_call env file n] \<and> k \<le> length cs \<and>
      writes (snd (upload env tag file release_id w)) = rev (take k cs) @ writes w \<and>
      ((\<exists>y. fst (upload env tag file release_id w) = Inr y) \<longrightarrow> k = length cs)"
  proof (cases "upload_allowed tag file release_id")
    case (Inl e)
    then show ?thesis
      using upload_write [of env tag "file" release_id w]
      by (intro exI [of _ "[upload_call env file n]"] exI [of _ 0]) (simp add: upload_def gh_defs)
  next
    case (Inr m)
    then have "m = n" using upload_allowed_id assms by fastforce
    then show ?thesis
      using Inr upload_write [of env tag "file" release_id w]
      by (intro exI [of _ "[upload_call env file n]"] exI [of _ 1]) simp
  qed
qed

text \<open>One operation after another for the elements of a list.\<close>

fun gh_each :: "('a \<Rightarrow> unit gh) \<Rightarrow> 'a list \<Rightarrow> unit gh" where
  "gh_each f [] = gh_lift (Inr ())"
| "gh_each f (x # xs) = gh_bind (f x) (\<lambda>_. gh_each f xs)"

fun gh_map :: "('a \<Rightarrow> 'b gh) \<Rightarrow> 'a list \<Rightarrow> 'b list gh" where
  "gh_map f [] = gh_lift (Inr [])"
| "gh_map f (x # xs) = gh_bind (f x) (\<lambda>y. gh_bind (gh_map f xs) (\<lambda>ys. gh_lift (Inr (y # ys))))"

lemma reads_map: "(\<And>x. reads (f x)) \<Longrightarrow> reads (gh_map f xs)"
  by (induction xs) (auto intro!: reads_intros)

lemma gh_map_runs: "gh_map f xs w = (Inr ys, w') \<Longrightarrow> list_all2 (\<lambda>x y. \<exists>v v'. f x v = (Inr y, v')) xs ys"
proof (induction xs arbitrary: ys w w')
  case (Cons x xs)
  then obtain y v zs u where "f x w = (Inr y, v)" "gh_map f xs v = (Inr zs, u)" "ys = y # zs"
    by (auto simp: gh_runs)
  with Cons.IH show ?case by auto
qed (simp add: gh_runs)

lemma reads_each: "(\<And>x. reads (f x)) \<Longrightarrow> reads (gh_each f xs)"
  by (induction xs) (auto intro!: reads_intros)

lemma emits_each:
  "(\<And>x. emits (f x) (\<lambda>cs. cs = [g x])) \<Longrightarrow> emits (gh_each f xs) (\<lambda>cs. cs = map g xs)"
proof (induction xs)
  case Nil
  then show ?case using emits_reads [OF reads_lift] by simp
next
  case (Cons x xs)
  show ?case
    using emits_weaken [OF gh_emits_bind [OF Cons.prems Cons.IH [OF Cons.prems]]] by simp
qed

end
