(* ===== verification/Release_Notes.thy ===== *)
theory Release_Notes
  imports Github_Client
begin

section \<open>Release notes\<close>

text \<open>
  Model of the release notes of \<^verbatim>\<open>scripts/release_control.py\<close>: the Markdown reader that finds the
  sections of a changelog outside fences and comments, and the selection of the notes of a release.
  Text is a string of code points below 256; a line keeps its line feed.
\<close>

subsection \<open>Stripping and lines\<close>

definition lstrip :: "string \<Rightarrow> string \<Rightarrow> string" where
  "lstrip chars s = dropWhile (\<lambda>c. c \<in> set chars) s"

definition rstrip :: "string \<Rightarrow> string \<Rightarrow> string" where
  "rstrip chars s = rev (lstrip chars (rev s))"

definition strip_of :: "string \<Rightarrow> string \<Rightarrow> string" where
  "strip_of chars s = rstrip chars (lstrip chars s)"

definition BLANKS :: string where
  "BLANKS = [CHR '' '', CHR 0x09]"

definition BLANKS_NL :: string where
  "BLANKS_NL = [CHR '' '', CHR 0x09, CHR 0x0D, CHR 0x0A]"

text \<open>Iterating over \<^verbatim>\<open>io.StringIO(text)\<close>: lines end after a line feed.\<close>

fun text_lines :: "string \<Rightarrow> string list" where
  "text_lines [] = []"
| "text_lines (c # cs) =
     (if c = CHR 0x0A then [c] # text_lines cs
      else case text_lines cs of [] \<Rightarrow> [[c]] | w # ws \<Rightarrow> (c # w) # ws)"

subsection \<open>Fences\<close>

type_synonym fence = "char \<times> nat \<times> string"

definition release_fence :: "string \<Rightarrow> fence option" where
  "release_fence line =
     (let content = lstrip '' '' line
      in if 3 < length line - length content \<or> content = [] \<or> hd content \<notin> {CHR 0x60, CHR ''~''} then None
         else
           (let marker = hd content; n = length content - length (lstrip [marker] content)
            in if n < 3 then None else Some (marker, n, drop n content)))"

definition fence_closes :: "fence option \<Rightarrow> char \<times> nat \<Rightarrow> bool" where
  "fence_closes candidate fence =
     (case candidate of
        None \<Rightarrow> False
      | Some (marker, n, rest) \<Rightarrow> marker = fst fence \<and> snd fence \<le> n \<and> strip_of BLANKS_NL rest = [])"

subsection \<open>Comments\<close>

text \<open>Maximal runs of backticks with their bounds, from position \<open>i\<close> on.\<close>

function code_runs :: "nat \<Rightarrow> string \<Rightarrow> (nat \<times> nat) list" where
  "code_runs i [] = []"
| "code_runs i (c # cs) =
     (if c = CHR 0x60
      then (let n = length (takeWhile (\<lambda>d. d = CHR 0x60) cs) + 1
            in (i, i + n) # code_runs (i + n) (drop n (c # cs)))
      else code_runs (i + 1) cs)"
  by pat_completeness auto
termination by (relation "measure (\<lambda>(_, s). length s)") auto

text \<open>The end of the next run of equal length, for every run that has one.\<close>

definition span_step ::
  "nat \<times> nat \<Rightarrow> (nat, nat) dict \<times> (nat, nat) dict \<Rightarrow> (nat, nat) dict \<times> (nat, nat) dict" where
  "span_step run acc =
     (case (run, acc) of ((start, stop), (following, found)) \<Rightarrow>
        let n = stop - start
        in (dict_set n stop following,
            case map_of following n of None \<Rightarrow> found | Some e \<Rightarrow> dict_set start e found))"

definition code_span_ends :: "string \<Rightarrow> (nat, nat) dict" where
  "code_span_ends line = snd (foldr span_step (code_runs 0 line) ([], []))"

text \<open>\<^verbatim>\<open>line.find(w, position)\<close>.\<close>

fun find_from :: "string \<Rightarrow> nat \<Rightarrow> string \<Rightarrow> nat option" where
  "find_from w i [] = (if w = [] then Some i else None)"
| "find_from w i (c # cs) = (if startswith (c # cs) w then Some i else find_from w (i + 1) cs)"

definition mask_char :: "char \<Rightarrow> char" where
  "mask_char c = (if c = CHR 0x0D \<or> c = CHR 0x0A then c else CHR '' '')"

definition mask :: "string \<Rightarrow> nat \<Rightarrow> nat \<Rightarrow> string \<Rightarrow> string" where
  "mask line start stop visible =
     take start visible @ map mask_char (take (stop - start) (drop start line)) @ drop stop visible"

text \<open>The scan of a line, at most \<open>fuel\<close> turns of its loop; \<open>None\<close> is an unfinished scan.\<close>

fun comment_scan ::
  "nat \<Rightarrow> string \<Rightarrow> (nat, nat) dict \<Rightarrow> nat \<Rightarrow> bool \<Rightarrow> string \<Rightarrow> (string \<times> bool) option" where
  "comment_scan 0 line found position comment visible = None"
| "comment_scan (Suc fuel) line found position comment visible =
     (if length line \<le> position then Some (visible, comment)
      else if comment then
        (case find_from ''-->'' position (drop position line) of
           None \<Rightarrow> comment_scan fuel line found (length line) True (mask line position (length line) visible)
         | Some e \<Rightarrow> comment_scan fuel line found (e + 3) False (mask line position (e + 3) visible))
      else if line ! position = CHR 0x5C then comment_scan fuel line found (position + 2) comment visible
      else case map_of found position of
        Some e \<Rightarrow> comment_scan fuel line found e comment visible
      | None \<Rightarrow>
          if startswith (drop position line) ''<!--'' then comment_scan fuel line found position True visible
          else comment_scan fuel line found (position + 1) comment visible)"

definition comment_line :: "string \<Rightarrow> bool \<Rightarrow> string \<times> bool" where
  "comment_line line comment =
     (case comment_scan (2 * length line + 2) line (code_span_ends line) 0 comment line of
        Some r \<Rightarrow> r | None \<Rightarrow> (line, comment))"

subsection \<open>The lines of a text\<close>

text \<open>A line as shown, whether it may be a heading, and whether it is visible guidance.\<close>

type_synonym shown = "string \<times> bool \<times> bool"

fun shown_lines :: "(char \<times> nat) option \<Rightarrow> bool \<Rightarrow> string list \<Rightarrow> shown list" where
  "shown_lines fence comment [] = []"
| "shown_lines fence comment (line # lines) =
     (let candidate = release_fence line
      in case fence of
           Some f \<Rightarrow>
             (let closes = fence_closes candidate f
              in (line, False, \<not> closes) # shown_lines (if closes then None else fence) comment lines)
         | None \<Rightarrow>
             (case (if comment then None else candidate) of
                Some (marker, n, rest) \<Rightarrow>
                  if marker = CHR ''~'' \<or> CHR 0x60 \<notin> set rest
                  then (line, False, False) # shown_lines (Some (marker, n)) comment lines
                  else if startswith line ''    '' \<or> startswith line [CHR 0x09]
                  then (line, False, True) # shown_lines None comment lines
                  else (case comment_line line comment of (visible, now) \<Rightarrow>
                    (visible, True, True) # shown_lines None now lines)
              | None \<Rightarrow>
                  if \<not> comment \<and> (startswith line ''    '' \<or> startswith line [CHR 0x09])
                  then (line, False, True) # shown_lines None comment lines
                  else (case comment_line line comment of (visible, now) \<Rightarrow>
                    (visible, True, True) # shown_lines None now lines)))"

definition release_lines :: "string \<Rightarrow> shown list" where
  "release_lines text = shown_lines None False (text_lines text)"

subsection \<open>Headings and sections\<close>

definition heading_title :: "string \<Rightarrow> string" where
  "heading_title content =
     (let title = strip_of BLANKS_NL content; before = rstrip ''#'' title
      in if before = [] \<or> endswith before '' '' \<or> endswith before [CHR 0x09] then rstrip BLANKS before else title)"

text \<open>Level, title, and the bounds of the line.\<close>

type_synonym heading = "nat \<times> string \<times> nat \<times> nat"

definition heading_of :: "shown \<Rightarrow> nat \<Rightarrow> heading list" where
  "heading_of row offset =
     (case row of (line, heading_allowed, _) \<Rightarrow>
        let indentation = length line - length (lstrip '' '' line);
            head = (if indentation \<le> 3 then drop indentation line else line);
            level = length head - length (lstrip ''#'' head)
        in if heading_allowed \<and> 1 \<le> level \<and> level \<le> 6 \<and>
              (drop level head = [] \<or> hd (drop level head) \<in> set BLANKS_NL)
           then [(level, heading_title (drop level head), offset, offset + length line)] else [])"

fun headings_from :: "nat \<Rightarrow> shown list \<Rightarrow> heading list" where
  "headings_from offset [] = []"
| "headings_from offset (row # rows) = heading_of row offset @ headings_from (offset + length (fst row)) rows"

definition release_headings :: "string \<Rightarrow> heading list" where
  "release_headings text = headings_from 0 (release_lines text)"

definition slice :: "string \<Rightarrow> nat \<Rightarrow> nat \<Rightarrow> string" where
  "slice s start stop = take (stop - start) (drop start s)"

definition visible_text :: "string \<Rightarrow> string" where
  "visible_text text = concat (map fst (release_lines text))"

fun sections_of :: "string \<Rightarrow> string \<Rightarrow> nat \<Rightarrow> heading list \<Rightarrow> (string \<times> string \<times> string) list" where
  "sections_of text visible level [] = []"
| "sections_of text visible level ((n, title, first, start) # hs) =
     (let stop = (case hs of [] \<Rightarrow> length text | (_, _, next_first, _) # _ \<Rightarrow> next_first)
      in (if n = level then [(title, strip (slice text start stop), slice visible start stop)] else []) @
         sections_of text visible level hs)"

definition release_sections :: "string \<Rightarrow> nat \<Rightarrow> (string \<times> string \<times> string) list" where
  "release_sections text level =
     sections_of text (visible_text text) level (filter (\<lambda>(n, _). n \<le> level) (release_headings text))"


subsection \<open>Guidance\<close>

text \<open>\<^verbatim>\<open>expandtabs(4)\<close> from a column on.\<close>

fun expand_tabs :: "nat \<Rightarrow> string \<Rightarrow> string" where
  "expand_tabs column [] = []"
| "expand_tabs column (c # cs) =
     (if c = CHR 0x09 then replicate (4 - column mod 4) (CHR '' '') @ expand_tabs (column + (4 - column mod 4)) cs
      else c # expand_tabs (if c = CHR 0x0A \<or> c = CHR 0x0D then 0 else column + 1) cs)"

definition blank_or_end :: "string \<Rightarrow> bool" where
  "blank_or_end s \<longleftrightarrow> s = [] \<or> hd s \<in> set BLANKS \<or> s = [CHR 0x0A]"

text \<open>The length of a container marker and whether it starts a list item.\<close>

definition marker_at :: "string \<Rightarrow> (nat \<times> bool) option" where
  "marker_at s =
     (if s = [] then None
      else if hd s = CHR ''>'' then Some (1, False)
      else if hd s \<in> {CHR ''-'', CHR ''+'', CHR ''*''} \<and> blank_or_end (tl s) then Some (1, True)
      else
        (let n = length (takeWhile is_decimal_char s)
         in if 1 \<le> n \<and> n \<le> 9 \<and> drop n s \<noteq> [] \<and> s ! n \<in> {CHR ''.'', CHR '')''} \<and> blank_or_end (drop (n + 1) s)
            then Some (n + 1, True) else None))"

lemma marker_at_progress: "marker_at s = Some (n, item) \<Longrightarrow> 0 < n \<and> s \<noteq> []"
  by (auto simp: marker_at_def Let_def split: if_splits)

function strip_containers :: "bool \<Rightarrow> string \<Rightarrow> string" where
  "strip_containers list_item s =
     (case marker_at s of
        None \<Rightarrow> if list_item \<and> s \<in> {''[ ]'', ''[x]'', ''[X]''} then [] else s
      | Some (n, item) \<Rightarrow>
          (let rest = drop n s; pad = takeWhile (\<lambda>c. c \<in> set BLANKS) rest
           in if 5 \<le> length pad then rest else strip_containers item (drop (length pad) rest)))"
  by pat_completeness auto
termination
  by (relation "measure (\<lambda>(_, s). length s)") (auto dest: marker_at_progress)

definition container_content :: "string \<Rightarrow> string" where
  "container_content line = strip_containers False (strip (expand_tabs 0 line))"

definition prefix_match :: "re \<Rightarrow> string \<Rightarrow> bool" where
  "prefix_match r s \<longleftrightarrow> ends False s r 0 \<noteq> []"

definition atx_pattern :: re where
  "atx_pattern =
     Seq (RepUpTo 3 (Chr (CHR '' '')))
       (Seq (Chr (CHR ''#''))
         (Seq (RepUpTo 5 (Chr (CHR ''#'')))
           (Alt (Cls [CChar (CHR '' ''), CChar (CHR 0x09), CChar (CHR 0x0D), CChar (CHR 0x0A)]) Eol)))"

definition separator_line :: "string \<Rightarrow> bool" where
  "separator_line line \<longleftrightarrow>
     (let markers = filter (\<lambda>c. c \<notin> set BLANKS) (strip line)
      in 3 \<le> length markers \<and> hd markers \<in> set ''-*_'' \<and> strip_of [hd markers] markers = [])"

fun guidance_in :: "shown list \<Rightarrow> bool" where
  "guidance_in [] = False"
| "guidance_in ((line, heading_allowed, guidance) # rows) =
     (if \<not> guidance \<or> strip line = [] then guidance_in rows
      else if \<not> heading_allowed then True
      else
        (let content = container_content line
         in if startswith content ''    '' \<or> startswith content [CHR 0x09] then True
            else if content = [] \<or> prefix_match atx_pattern content then guidance_in rows
            else if separator_line content then guidance_in rows
            else True))"

definition has_guidance :: "string \<Rightarrow> bool" where
  "has_guidance text = guidance_in (release_lines text)"

definition setext_pattern :: re where
  "setext_pattern =
     Seq (RepUpTo 3 (Chr (CHR '' '')))
       (Seq (Alt (Plus (Chr (CHR ''=''))) (Plus (Chr (CHR ''-''))))
         (Seq (Star (Cls [CChar (CHR '' ''), CChar (CHR 0x09)]))
           (Opt (Seq (Opt (Chr (CHR 0x0D))) (Chr (CHR 0x0A))))))"

fun setext_in :: "bool \<Rightarrow> (string \<times> shown) list \<Rightarrow> bool" where
  "setext_in paragraph [] = False"
| "setext_in paragraph ((raw, line, heading_allowed, guidance) # rows) =
     (if \<not> heading_allowed then setext_in False rows
      else if strip line = [] \<and> strip raw \<noteq> [] then setext_in paragraph rows
      else if fullmatch setext_pattern line then (if paragraph then True else setext_in False rows)
      else setext_in (strip line \<noteq> [] \<and> \<not> prefix_match atx_pattern line) rows)"

definition has_setext_heading :: "string \<Rightarrow> bool" where
  "has_setext_heading text = setext_in False (zip (text_lines text) (release_lines text))"

subsection \<open>The notes of a release\<close>

text \<open>
  What the code obtains elsewhere: the policy and the changelog at the source commit, and the decoders
  of the standard library (Base64 and UTF-8; \<open>ne_blob_sha\<close> is Git's identifier of a blob).
\<close>

record notes_env =
  ne_policy :: "(string, pyval) dict rel"
  ne_response :: "pyval rel"
  ne_base64 :: "string \<Rightarrow> string option"
  ne_decode :: "string \<Rightarrow> string option"
  ne_blob_sha :: "string \<Rightarrow> string"

text \<open>The version in a tag of this form ends at the first dash.\<close>

definition tag_base :: "string \<Rightarrow> string" where
  "tag_base tag = takeWhile (\<lambda>c. c \<noteq> CHR ''-'') (tl tag)"

definition section_pattern :: "string \<Rightarrow> re" where
  "section_pattern base =
     (let blank = Cls [CChar (CHR '' ''), CChar (CHR 0x09)]
      in Seq (Chr (CHR ''['')) (Seq (Lit base) (Seq (Chr (CHR '']''))
           (Seq (Opt (Seq (Plus blank) (Seq (Chr (CHR ''-'')) (Seq (Plus blank) (Plus Dot))))) (Star blank)))))"

fun unix_lines :: "string \<Rightarrow> string" where
  "unix_lines (a # b # cs) =
     (if a = CHR 0x0D \<and> b = CHR 0x0A then b # unix_lines cs else a # unix_lines (b # cs))"
| "unix_lines s = s"

definition utf8_length :: "string \<Rightarrow> nat" where
  "utf8_length s = sum_list (map (\<lambda>c. if code c < 128 then 1 else 2) s)"

definition notes_source :: "notes_env \<Rightarrow> string rel" where
  "notes_source env =
     bind_res (ne_response env) (\<lambda>response.
     let d = entries_of response in
     rel_seq (rc_require (is_dict response \<and> get_or d ''type'' VNone = VStr ''file'' \<and>
         get_or d ''path'' VNone = VStr ''CHANGELOG.md'' \<and> get_or d ''encoding'' VNone = VStr ''base64'')
       ''Release notes must be a regular CHANGELOG.md at the source commit'')
     (rel_seq (rc_require (is_str_ok (\<lambda>s. length s \<le> 400000) (get_or d ''content'' VNone))
       ''Invalid or oversized release notes content'')
     (case ne_base64 env (filter (\<lambda>c. \<not> is_space c) (text_of (get_or d ''content'' VNone))) of
        None \<Rightarrow> Inl (ReleaseError ''Invalid release notes encoding'')
      | Some raw \<Rightarrow>
          (case ne_decode env raw of
             None \<Rightarrow> Inl (ReleaseError ''Invalid release notes encoding'')
           | Some text \<Rightarrow>
               rel_seq (rc_require (length raw \<le> 250000 \<and> py_eq (get_or d ''size'' VNone) (VInt (int (length raw))))
                 ''Release notes size mismatch'')
               (rel_seq (rc_require (get_or d ''sha'' VNone = VStr (ne_blob_sha env raw))
                 ''Release notes Git blob identity mismatch'')
                 (Inr (unix_lines text)))))))"

definition first_section :: "(string \<times> string \<times> string) list \<Rightarrow> string \<Rightarrow> string option" where
  "first_section sections heading =
     (case filter (\<lambda>(title, _, _). title = heading) sections of [] \<Rightarrow> None | (_, _, body) # _ \<Rightarrow> Some body)"

fun need_guidance :: "(string \<times> string \<times> string) list \<Rightarrow> string list \<Rightarrow> unit rel" where
  "need_guidance sections [] = Inr ()"
| "need_guidance sections (heading # hs) =
     rel_seq (rc_require
       (case first_section sections heading of None \<Rightarrow> False | Some body \<Rightarrow> body \<noteq> [] \<and> has_guidance body)
       ''Release notes need guidance'')
       (need_guidance sections hs)"

definition notes_body :: "string \<Rightarrow> string \<Rightarrow> string \<Rightarrow> string" where
  "notes_body base notes provenance =
     ''## Changes in '' @ base @ [CHR 0x0A, CHR 0x0A] @ notes @ [CHR 0x0A, CHR 0x0A] @ ''## Build provenance'' @
     [CHR 0x0A, CHR 0x0A] @ provenance"

definition matching_sections :: "string \<Rightarrow> string \<Rightarrow> (string \<times> string) list" where
  "matching_sections changelog base =
     map snd (filter (\<lambda>(title, _, _). fullmatch (section_pattern base) title) (release_sections changelog 2))"

definition release_notes :: "notes_env \<Rightarrow> string \<Rightarrow> string \<Rightarrow> string rel" where
  "release_notes env tag provenance =
     bind_res (ne_policy env) (\<lambda>policy.
       if get_or policy ''release_notes'' VNone = VNone then Inr provenance
       else
         rel_seq (rc_require (get_or policy ''release_notes'' VNone = VStr ''CHANGELOG.md'')
           ''Unsupported release notes source'')
         (rel_seq (rc_require (fullmatch tag_pattern tag) ''Invalid release notes tag'')
         (bind_res (notes_source env) (\<lambda>changelog.
          case matching_sections changelog (tag_base tag) of
            [(notes, visible)] \<Rightarrow>
              rel_seq (rc_require (notes \<noteq> []) ''Release needs one nonempty changelog section'')
              (rel_seq (rc_require (\<not> has_setext_heading notes)
                ''Release note sections must use ATX headings, not Setext underlines'')
              (rel_seq (need_guidance (release_sections visible 3) [''Upgrade'', ''Security''])
              (let body = notes_body (tag_base tag) notes provenance
               in rel_seq (rc_require (utf8_length body \<le> 125000) ''Release notes are too large'') (Inr body))))
          | _ \<Rightarrow> Inl (ReleaseError ''Release needs one nonempty changelog section'')))))"

subsection \<open>Masking keeps offsets\<close>

text \<open>Equal length, and every character is the same or a blank that hides no line break.\<close>

definition aligned :: "string \<Rightarrow> string \<Rightarrow> bool" where
  "aligned shown text \<longleftrightarrow> list_all2 (\<lambda>v c. v = c \<or> (v = CHR '' '' \<and> c \<noteq> CHR 0x0D \<and> c \<noteq> CHR 0x0A)) shown text"

lemma aligned_refl [simp]: "aligned s s"
  by (simp add: aligned_def list_all2_same)

lemma aligned_append: "aligned v s \<Longrightarrow> aligned w t \<Longrightarrow> aligned (v @ w) (s @ t)"
  by (simp add: aligned_def list_all2_appendI)

lemma aligned_length: "aligned v s \<Longrightarrow> length v = length s"
  by (auto simp: aligned_def dest: list_all2_lengthD)

lemma aligned_mask_char: "aligned (map mask_char s) s"
  by (auto simp: aligned_def mask_char_def list_all2_map1 list_all2_same)

lemma aligned_mask:
  assumes "aligned visible line" "start \<le> stop" "stop \<le> length line"
  shows "aligned (mask line start stop visible) line"
proof -
  have "line = take start line @ take (stop - start) (drop start line) @ drop stop line"
    using assms(2) by (metis append_take_drop_id drop_drop le_add_diff_inverse2)
  moreover have "aligned (take start visible) (take start line)" "aligned (drop stop visible) (drop stop line)"
    using assms(1) by (simp_all add: aligned_def list_all2_takeI list_all2_dropI)
  ultimately show ?thesis
    unfolding mask_def using aligned_append aligned_mask_char by metis
qed

lemma find_from_Some:
  "find_from w i s = Some e \<Longrightarrow> i \<le> e \<and> e + length w \<le> i + length s"
proof (induction w i s rule: find_from.induct)
  case (2 w i c cs)
  show ?case
  proof (cases "startswith (c # cs) w")
    case True
    then have "length w \<le> length (c # cs)" by (auto simp: startswith_iff) (metis le_add1 length_Cons length_append)
    with 2 True show ?thesis by simp
  next
    case False
    with 2 show ?thesis by auto
  qed
qed (auto split: if_splits)

definition spans_ok :: "nat \<Rightarrow> (nat, nat) dict \<times> (nat, nat) dict \<Rightarrow> bool" where
  "spans_ok i acc \<longleftrightarrow>
     (\<forall>n e. map_of (fst acc) n = Some e \<longrightarrow> i < e) \<and> (\<forall>p e. map_of (snd acc) p = Some e \<longrightarrow> p < e)"

lemma spans_ok_step:
  assumes "spans_ok (i + n) acc" "0 < n"
  shows "spans_ok i (span_step (i, i + n) acc)"
  using assms by (cases acc) (auto simp: spans_ok_def span_step_def Let_def split: option.splits; fastforce)

lemma code_runs_spans: "spans_ok i (foldr span_step (code_runs i s) ([], []))"
proof (induction i s rule: code_runs.induct)
  case (1 i)
  then show ?case by (simp add: spans_ok_def)
next
  case (2 i c cs)
  show ?case
  proof (cases "c = CHR 0x60")
    case True
    let ?n = "length (takeWhile (\<lambda>d. d = CHR 0x60) cs) + 1"
    have "code_runs i (c # cs) = (i, i + ?n) # code_runs (i + ?n) (drop ?n (c # cs))"
      using True by (simp add: Let_def)
    with spans_ok_step [OF 2(1) [OF True refl]] show ?thesis by simp
  next
    case False
    have "spans_ok (i + 1) acc \<Longrightarrow> spans_ok i acc" for acc unfolding spans_ok_def by (metis add_lessD1)
    with False 2(2) show ?thesis by simp
  qed
qed

lemma code_span_forward: "map_of (code_span_ends line) p = Some e \<Longrightarrow> p < e"
  using code_runs_spans [of 0 line] by (simp add: spans_ok_def code_span_ends_def)

text \<open>The scan ends within its fuel, and what it shows is aligned with the line.\<close>

lemma comment_scan_aligned:
  "comment_scan fuel line found position comment visible = Some (v, now) \<Longrightarrow> aligned visible line \<Longrightarrow> aligned v line"
proof (induction fuel line found position comment visible rule: comment_scan.induct)
  case (2 fuel line found position comment visible)
  note IH = 2(1-6)
  show ?case
  proof (cases "length line \<le> position")
    case True
    with 2 show ?thesis by simp
  next
    case False
    then have tail: "aligned (mask line position (length line) visible) line"
      using 2(8) by (intro aligned_mask) auto
    have found_end: "aligned (mask line position (e + 3) visible) line"
      if "find_from ''-->'' position (drop position line) = Some e" for e
      using find_from_Some [OF that] False 2(8) by (intro aligned_mask) auto
    show ?thesis
      using 2 False tail found_end by (auto split: if_splits option.splits)
  qed
qed simp

lemma comment_scan_finishes:
  assumes "\<And>p e. map_of found p = Some e \<Longrightarrow> p < e"
    and "2 * (length line - position) + (if comment then 0 else 1) < fuel"
  shows "\<exists>v now. comment_scan fuel line found position comment visible = Some (v, now)"
  using assms(2)
proof (induction fuel arbitrary: position comment visible)
  case (Suc fuel)
  show ?case
  proof (cases "length line \<le> position")
    case False
    have ends: "position < e" if "map_of found position = Some e" for e using assms(1) [OF that] .
    have stops: "position < e + 3" if "find_from ''-->'' position (drop position line) = Some e" for e
      using find_from_Some [OF that] by simp
    note step = Suc.IH Suc.prems False ends stops
    show ?thesis
    proof (cases comment)
      case True
      then show ?thesis
        using step by (cases "find_from ''-->'' position (drop position line)") auto
    next
      case no: False
      show ?thesis
      proof (cases "map_of found position")
        case None
        then show ?thesis using step no by auto
      next
        case (Some e)
        then have "2 * (length line - e) + 1 < fuel" using ends [OF Some] Suc.prems False no by auto
        then show ?thesis using step no Some by auto
      qed
    qed
  qed simp
qed simp


lemma comment_line_scan:
  obtains v now where
    "comment_scan (2 * length line + 2) line (code_span_ends line) 0 comment line = Some (v, now)"
    "comment_line line comment = (v, now)" "aligned v line"
proof -
  have "\<exists>v now. comment_scan (2 * length line + 2) line (code_span_ends line) 0 comment line = Some (v, now)"
    by (rule comment_scan_finishes [OF code_span_forward]) auto
  then obtain v now where s: "comment_scan (2 * length line + 2) line (code_span_ends line) 0 comment line = Some (v, now)"
    by blast
  with comment_scan_aligned [OF s] that show ?thesis by (simp add: comment_line_def)
qed

abbreviation aligned_rows :: "shown list \<Rightarrow> string list \<Rightarrow> bool" where
  "aligned_rows \<equiv> list_all2 (\<lambda>row line. aligned (fst row) line)"

lemma comment_line_aligned: "aligned (fst (comment_line line comment)) line"
  using comment_line_scan [of line comment] by (metis fst_conv)

lemma shown_lines_aligned: "aligned_rows (shown_lines fence comment lines) lines"
proof (induction lines arbitrary: fence comment)
  case (Cons line lines)
  obtain visible now where masked: "comment_line line comment = (visible, now)" by (cases "comment_line line comment")
  then have visible: "aligned visible line" using comment_line_aligned [of line comment] by simp
  note rule = shown_lines.simps(2) Let_def masked prod.case list_all2_Cons fst_conv
  show ?case
  proof (cases fence)
    case (Some f)
    then show ?thesis by (simp add: rule Cons.IH)
  next
    case None
    show ?thesis
    proof (cases "if comment then None else release_fence line")
      case nofence: None
      then show ?thesis by (simp only: rule None option.case split: if_split) (simp add: Cons.IH visible)
    next
      case (Some c)
      obtain marker n rest where c: "c = (marker, n, rest)" by (cases c)
      with Some show ?thesis
        by (simp only: rule None option.case split: if_split) (simp add: Cons.IH visible)
    qed
  qed
qed simp

lemma concat_text_lines: "concat (text_lines s) = s"
  by (induction s rule: text_lines.induct) (auto split: list.split)

lemma concat_aligned: "list_all2 aligned vs ls \<Longrightarrow> aligned (concat vs) (concat ls)"
  by (induction rule: list_all2_induct) (auto intro: aligned_append)

lemma visible_aligned: "aligned (visible_text text) text"
proof -
  have "list_all2 aligned (map fst (release_lines text)) (text_lines text)"
    unfolding release_lines_def list_all2_map1 by (rule shown_lines_aligned)
  from concat_aligned [OF this] show ?thesis by (simp add: visible_text_def concat_text_lines)
qed

subsection \<open>Sections are disjoint slices\<close>

definition rows_length :: "shown list \<Rightarrow> nat" where
  "rows_length rows = sum_list (map (\<lambda>row. length (fst row)) rows)"

definition heading_bounds :: "heading \<Rightarrow> nat \<times> nat" where
  "heading_bounds h = (case h of (_, _, first, start) \<Rightarrow> (first, start))"

definition ordered :: "nat \<Rightarrow> nat \<Rightarrow> heading list \<Rightarrow> bool" where
  "ordered low high hs \<longleftrightarrow>
     list_all (\<lambda>h. low \<le> fst (heading_bounds h) \<and> fst (heading_bounds h) \<le> snd (heading_bounds h) \<and>
       snd (heading_bounds h) \<le> high) hs \<and>
     sorted_wrt (\<lambda>g h. snd (heading_bounds g) \<le> fst (heading_bounds h)) hs"

lemma ordered_headings: "ordered offset (offset + rows_length rows) (headings_from offset rows)"
proof (induction offset rows rule: headings_from.induct)
  case (2 offset row rows)
  have one: "heading_of row offset = [] \<or> (\<exists>n t. heading_of row offset = [(n, t, offset, offset + length (fst row))])"
    by (cases row) (auto simp: heading_of_def Let_def)
  have len: "rows_length (row # rows) = length (fst row) + rows_length rows" by (simp add: rows_length_def)
  have weak: "offset \<le> x" if "offset + length (fst row) \<le> x" for x using that by simp
  from one 2 show ?case
    by (elim disjE exE) (auto simp: ordered_def heading_bounds_def len list_all_iff add.assoc dest: weak)
qed (simp add: ordered_def)

lemma ordered_filter: "ordered low high hs \<Longrightarrow> ordered low high (filter P hs)"
  by (auto simp: ordered_def list_all_iff sorted_wrt_filter)

definition slices ::
  "string \<Rightarrow> string \<Rightarrow> (string \<times> string \<times> string) list \<Rightarrow> (nat \<times> nat) list \<Rightarrow> bool" where
  "slices text visible sections bounds \<longleftrightarrow>
     list_all2 (\<lambda>(title, body, shown) (start, stop). start \<le> stop \<and> stop \<le> length text \<and>
       body = strip (slice text start stop) \<and> shown = slice visible start stop) sections bounds \<and>
     sorted_wrt (\<lambda>(_, stop) (start, _). stop \<le> start) bounds"

lemma sections_slices:
  "ordered low (length src) hs \<Longrightarrow>
   \<exists>bounds. slices src visible (sections_of src visible level hs) bounds \<and>
     list_all (\<lambda>(start, stop). case hs of [] \<Rightarrow> True | h # _ \<Rightarrow> snd (heading_bounds h) \<le> start) bounds"
proof (induction src visible level hs rule: sections_of.induct)
  case (1 src visible level)
  then show ?case by (intro exI [of _ "[]"]) (simp add: slices_def)
next
  case (2 src visible level n title first start hs)
  let ?stop = "case hs of [] \<Rightarrow> length src | (_, _, next_first, _) # _ \<Rightarrow> next_first"
  from 2(2) have hs: "ordered low (length src) hs" by (simp add: ordered_def)
  from 2(1) [OF refl hs] obtain bounds where b: "slices src visible (sections_of src visible level hs) bounds"
    "list_all (\<lambda>(s, e). case hs of [] \<Rightarrow> True | h # _ \<Rightarrow> snd (heading_bounds h) \<le> s) bounds" by blast
  have stops: "start \<le> ?stop \<and> ?stop \<le> length src"
    using 2(2) by (auto simp: ordered_def heading_bounds_def split: list.splits)
  have later: "list_all (\<lambda>(s, e). ?stop \<le> s) bounds"
  proof (cases hs)
    case Nil
    then have "bounds = []" using b(1) by (simp add: slices_def)
    then show ?thesis by simp
  next
    case (Cons h rest)
    obtain m t f s where h: "h = (m, t, f, s)" by (cases h)
    have "f \<le> s" using 2(2) Cons h by (simp add: ordered_def heading_bounds_def)
    then show ?thesis using b(2) Cons h by (auto simp: list_all_iff heading_bounds_def)
  qed
  then have after: "list_all (\<lambda>(s, e). start \<le> s) bounds" using stops by (auto simp: list_all_iff)
  show ?case
  proof (cases "n = level")
    case True
    then have "slices src visible (sections_of src visible level ((n, title, first, start) # hs)) ((start, ?stop) # bounds)"
      using b(1) stops later by (auto simp: slices_def list_all_iff Let_def)
    then show ?thesis using after by (intro exI [of _ "(start, ?stop) # bounds"]) (simp add: heading_bounds_def)
  next
    case False
    then show ?thesis using b(1) after by (intro exI [of _ bounds]) (simp add: heading_bounds_def)
  qed
qed

lemma headings_length: "rows_length (release_lines s) = length s"
  using aligned_length [OF visible_aligned [of s]]
  by (simp add: rows_length_def visible_text_def length_concat comp_def)

lemma ordered_release_headings: "ordered 0 (length s) (release_headings s)"
  using ordered_headings [of 0 "release_lines s"] by (simp add: release_headings_def headings_length)

lemma release_sections_slices: "\<exists>bounds. slices s (visible_text s) (release_sections s level) bounds"
  using sections_slices [OF ordered_filter [OF ordered_release_headings]] unfolding release_sections_def by blast

subsection \<open>Properties\<close>

text \<open>The scan that masks the comments of a line ends within its bound: it looks at a position at
  most twice.\<close>

lemma comment_scan_terminates:
  "\<exists>visible now.
     comment_scan (2 * length line + 2) line (code_span_ends line) 0 comment line = Some (visible, now)"
  by (rule comment_line_scan) blast

text \<open>Masking comments keeps every offset: the visible text has the length of the text, and at each
  position shows its character or a blank, never hiding a line break.\<close>

lemma visible_text_aligned:
  "list_all2 (\<lambda>v c. v = c \<or> v = CHR '' '' \<and> c \<noteq> CHR 0x0D \<and> c \<noteq> CHR 0x0A) (visible_text s) s"
  by (rule visible_aligned [unfolded aligned_def])

text \<open>The sections of a level are disjoint slices of the text in its order: each body is the stripped
  slice of its bounds, its visible part the same slice of the masked text, and it ends before the next
  section starts.\<close>

lemma sections_are_disjoint_slices:
  "\<exists>bounds. list_all2 (\<lambda>(title, body, shown) (start, stop). start \<le> stop \<and> stop \<le> length s \<and>
       body = strip (slice s start stop) \<and> shown = slice (visible_text s) start stop)
     (release_sections s level) bounds \<and>
   sorted_wrt (\<lambda>(_, stop) (start, _). stop \<le> start) bounds"
  by (rule release_sections_slices [unfolded slices_def])

lemma need_guidance_ok:
  "need_guidance sections hs = Inr u \<Longrightarrow>
   list_all (\<lambda>h. \<exists>g. first_section sections h = Some g \<and> g \<noteq> [] \<and> has_guidance g) hs"
  by (induction hs) (auto split: option.splits)

text \<open>When the policy of the commit asks for changelog notes and they are accepted, the release text
  is built from the one nonempty section of the tag's version, without ambiguous headings, which
  has visible upgrade and security guidance, and fits GitHub's limit.\<close>

lemma accepted_notes_reviewed:
  assumes "release_notes env tag provenance = Inr body"
    and "ne_policy env = Inr policy" "get_or policy ''release_notes'' VNone \<noteq> VNone"
  shows "\<exists>changelog section visible.
    notes_source env = Inr changelog \<and> matching_sections changelog (tag_base tag) = [(section, visible)] \<and>
    section \<noteq> [] \<and> \<not> has_setext_heading section \<and>
    list_all (\<lambda>h. \<exists>g. first_section (release_sections visible 3) h = Some g \<and> g \<noteq> [] \<and> has_guidance g)
       [''Upgrade'', ''Security''] \<and>
    body = notes_body (tag_base tag) section provenance \<and> utf8_length body \<le> 125000"
proof -
  obtain changelog where source: "notes_source env = Inr changelog"
    using assms by (auto simp: release_notes_def bind_res_eq_Inr_iff)
  with assms have "\<exists>section visible. matching_sections changelog (tag_base tag) = [(section, visible)]"
    by (auto simp: release_notes_def split: list.splits)
  then obtain found visible where one: "matching_sections changelog (tag_base tag) = [(found, visible)]" by blast
  with assms source have facts: "found \<noteq> []" "\<not> has_setext_heading found"
    "need_guidance (release_sections visible 3) [''Upgrade'', ''Security''] = Inr ()"
    "body = notes_body (tag_base tag) found provenance" "utf8_length body \<le> 125000"
    by (auto simp: release_notes_def Let_def simp del: need_guidance.simps)
  show ?thesis
    using source one facts need_guidance_ok [OF facts(3)] by (intro exI conjI)
qed

definition sample_changelog :: string where
  "sample_changelog = concat (map (\<lambda>w. w @ [CHR 0x0A])
     [''## [1.0.0]'', ''### Upgrade'', ''Back up.'', ''### Security'', ''No change.''])"

definition sample_notes :: notes_env where
  "sample_notes = \<lparr>ne_policy = Inr [(''release_notes'', VStr ''CHANGELOG.md'')],
     ne_response = Inr (VDict [(''type'', VStr ''file''), (''path'', VStr ''CHANGELOG.md''),
       (''encoding'', VStr ''base64''), (''content'', VStr ''eA==''), (''size'', VInt 56), (''sha'', VStr ''0a'')]),
     ne_base64 = (\<lambda>_. Some sample_changelog), ne_decode = Some, ne_blob_sha = (\<lambda>_. ''0a'')\<rparr>"

lemma sample_source: "notes_source sample_notes = Inr sample_changelog"
proof -
  have "length sample_changelog = 56" "unix_lines sample_changelog = sample_changelog" by code_simp+
  then show ?thesis
    by (simp add: notes_source_def sample_notes_def get_or_def is_str_ok_def is_dict_def entries_of_def Let_def)
qed

lemma sample_sections: "matching_sections sample_changelog ''1.0.0'' = [(strip (drop 11 sample_changelog), drop 11 sample_changelog)]"
  by code_simp

lemma sample_body:
  "strip (drop 11 sample_changelog) \<noteq> []"
  "\<not> has_setext_heading (strip (drop 11 sample_changelog))"
  "need_guidance (release_sections (drop 11 sample_changelog) 3) [''Upgrade'', ''Security''] = Inr ()"
  "fullmatch tag_pattern ''v1.0.0''"
  by code_simp+

lemma sample_length: "utf8_length (notes_body ''1.0.0'' (strip (drop 11 sample_changelog)) ''Built.'') = 94"
  by code_simp

lemma sample_notes_accepted:
  "release_notes sample_notes ''v1.0.0'' ''Built.'' =
     Inr (notes_body ''1.0.0'' (strip (drop 11 sample_changelog)) ''Built.'')"
proof -
  have "ne_policy sample_notes = Inr [(''release_notes'', VStr ''CHANGELOG.md'')]" by (simp add: sample_notes_def)
  with sample_body show ?thesis
    by (simp add: release_notes_def sample_source sample_sections sample_length tag_base_def Let_def get_or_def
          rc_require_def del: need_guidance.simps)
qed

lemma accepted_notes_reviewed_example:
  "\<exists>changelog section visible.
    notes_source sample_notes = Inr changelog \<and>
    matching_sections changelog ''1.0.0'' = [(section, visible)] \<and> section \<noteq> []"
  using accepted_notes_reviewed [OF sample_notes_accepted, of "[(''release_notes'', VStr ''CHANGELOG.md'')]"]
  by (auto simp: sample_notes_def get_or_def tag_base_def)

end
