(* ===== verification/Change_Scope.thy ===== *)
theory Change_Scope
  imports Version_Plan
begin

section \<open>Which changes skip the heavy checks\<close>

text \<open>
  Model of \<^verbatim>\<open>scripts/change_scope.py\<close>: a change may skip the heavy checks only when Git lists
  nothing but ordinary documentation files.  In this theory a text is its UTF-8 bytes, so
  that paths are exact beyond Latin-1.  Running Git, reading the event file and parsing JSON
  are parameters; the arguments that reach Git are computed here.  Path suffixes follow
  \<^verbatim>\<open>pathlib\<close> up to Python 3.13.
\<close>

record decision =
  de_run :: bool
  de_reason :: string

text \<open>Exceptions: those of the other theories, \<^verbatim>\<open>OSError\<close> and \<^verbatim>\<open>SubprocessError\<close>.\<close>

datatype scope_exc = Py py_exc | OS_error | Subprocess_error

type_synonym 'a scope = "scope_exc + 'a"

definition decide :: "bool \<Rightarrow> string \<Rightarrow> decision" where
  "decide run reason = \<lparr>de_run = run, de_reason = reason\<rparr>"

definition DOCUMENT_NAMES :: "string list" where
  "DOCUMENT_NAMES =
     [''readme'', ''changelog'', ''contributing'', ''security'', ''releasing'', ''code_of_conduct'']"

definition PROTECTED_PARTS :: "string list" where
  "PROTECTED_PARTS =
     [''src'', ''source'', ''sources'', ''test'', ''tests'', ''testdata'', ''fixtures'', ''__tests__'',
      ''snapshots'', ''resources'', ''assets'', ''templates'', ''scripts'', ''script'', ''tools'', ''ci'',
      ''workflows'', ''actions'', ''hooks'', ''bin'', ''lib'', ''app'', ''apps'', ''build'', ''dist'',
      ''target'', ''config'', ''configs'', ''configuration'', ''dependencies'', ''deps'', ''packages'',
      ''package'', ''packaging'', ''node_modules'', ''gradle'', ''cmake'', ''docker'', ''deploy'',
      ''deployment'', ''migrations'', ''charts'', ''helm'', ''k8s'', ''vendor-bin'']"

definition MAX_DIFF_BYTES :: nat where
  "MAX_DIFF_BYTES = 8 * 1024 * 1024"

subsection \<open>Text in UTF-8\<close>

definition continuation :: "nat \<Rightarrow> bool" where
  "continuation b \<longleftrightarrow> 128 \<le> b \<and> b \<le> 191"

text \<open>The strict decoder accepts shortest forms of code points that are no surrogates.\<close>

fun utf8_ok :: "nat list \<Rightarrow> bool" where
  "utf8_ok [] = True"
| "utf8_ok (a # bs) =
     (if a < 128 then utf8_ok bs
      else case bs of
        [] \<Rightarrow> False
      | b # cs \<Rightarrow>
          if 194 \<le> a \<and> a \<le> 223 then continuation b \<and> utf8_ok cs
          else (case cs of
            [] \<Rightarrow> False
          | c # ds \<Rightarrow>
              if 224 \<le> a \<and> a \<le> 239
              then continuation b \<and> (a = 224 \<longrightarrow> 160 \<le> b) \<and> (a = 237 \<longrightarrow> b \<le> 159) \<and>
                continuation c \<and> utf8_ok ds
              else (case ds of
                [] \<Rightarrow> False
              | d # es \<Rightarrow>
                  240 \<le> a \<and> a \<le> 244 \<and> continuation b \<and> (a = 240 \<longrightarrow> 144 \<le> b) \<and> (a = 244 \<longrightarrow> b \<le> 143) \<and>
                  continuation c \<and> continuation d \<and> utf8_ok es)))"

definition decode_utf8 :: "string \<Rightarrow> string scope" where
  "decode_utf8 raw = (if utf8_ok (map code raw) then Inr raw else Inl (Py ValueError))"

text \<open>
  \<^verbatim>\<open>lower\<close> as far as it can yield an ASCII letter: the capitals, and the Kelvin sign, which
  becomes \<^verbatim>\<open>k\<close>.  The code compares lowered text with ASCII names only.
\<close>

definition KELVIN_SIGN :: string where
  "KELVIN_SIGN = [CHR 0xE2, CHR 0x84, CHR 0xAA]"

definition lower_ascii :: "char \<Rightarrow> char" where
  "lower_ascii c = (if 65 \<le> code c \<and> code c \<le> 90 then char_of (code c + 32) else c)"

fun lower_text :: "string \<Rightarrow> string" where
  "lower_text [] = []"
| "lower_text (c # cs) =
     (if startswith (c # cs) KELVIN_SIGN then CHR ''k'' # lower_text (drop 2 cs)
      else lower_ascii c # lower_text cs)"

subsection \<open>Paths\<close>

text \<open>\<^verbatim>\<open>PurePosixPath(path).parts\<close> and \<^verbatim>\<open>str\<close> of it, for a relative path.\<close>

definition path_parts :: "string \<Rightarrow> string list" where
  "path_parts path = filter (\<lambda>part. part \<noteq> [] \<and> part \<noteq> ''.'') (split_on (CHR ''/'') path)"

definition path_text :: "string \<Rightarrow> string" where
  "path_text path = (if path_parts path = [] then ''.'' else join ''/'' (path_parts path))"

definition split_name :: "string \<Rightarrow> string \<times> string" where
  "split_name name =
     (let ext = takeWhile (\<lambda>c. c \<noteq> CHR ''.'') (rev name); before = dropWhile (\<lambda>c. c \<noteq> CHR ''.'') (rev name)
      in if 1 < length before \<and> ext \<noteq> [] then (rev (tl before), CHR ''.'' # rev ext) else (name, []))"

definition path_name :: "string \<Rightarrow> string" where
  "path_name path = (if path_parts path = [] then [] else last (path_parts path))"

definition path_stem :: "string \<Rightarrow> string" where
  "path_stem path = fst (split_name (path_name path))"

definition path_suffix :: "string \<Rightarrow> string" where
  "path_suffix path = snd (split_name (path_name path))"

definition literal_text :: "string \<Rightarrow> bool" where
  "literal_text path \<longleftrightarrow>
     path \<noteq> [] \<and> CHR 0x5C \<notin> set path \<and> CHR 0x00 \<notin> set path \<and>
     \<not> startswith path ''/'' \<and> path_text path = path \<and> path_parts path \<noteq> [] \<and>
     ''..'' \<notin> set (path_parts path) \<and> list_all (\<lambda>c. c \<notin> set ''*?['') path"

definition literal_path :: "pyval \<Rightarrow> bool" where
  "literal_path v = is_str_ok literal_text v"

definition document_name :: "pyval \<Rightarrow> bool" where
  "document_name v \<longleftrightarrow>
     literal_path v \<and> lower_text (path_suffix (text_of v)) \<in> {''.md'', ''.rst''}"

definition documentation_path :: "string \<Rightarrow> string list \<Rightarrow> bool" where
  "documentation_path path explicit =
     (if \<not> document_name (VStr path) then False
      else
        (let parts = map lower_text (path_parts path)
         in if list_ex (\<lambda>part. startswith part ''.'' \<or> part \<in> set PROTECTED_PARTS) (butlast parts) then False
            else if startswith (last parts) ''.'' then False
            else path \<in> set explicit \<or>
              (length parts = 1 \<and> lower_text (path_stem path) \<in> set DOCUMENT_NAMES) \<or>
              (1 < length parts \<and> hd parts = ''docs'')))"

subsection \<open>Revisions\<close>

definition item :: "pyval \<Rightarrow> string \<Rightarrow> pyval scope" where
  "item v k =
     (case v of
        VDict d \<Rightarrow> (case map_of d k of None \<Rightarrow> Inl (Py KeyError) | Some w \<Rightarrow> Inr w)
      | _ \<Rightarrow> Inl (Py TypeError))"

definition full_revision :: "pyval \<Rightarrow> bool" where
  "full_revision v = is_str_ok (\<lambda>s. fullmatch sha_pattern s \<and> s \<noteq> replicate 40 (CHR ''0'')) v"

definition event_range :: "string \<Rightarrow> pyval \<Rightarrow> (pyval \<times> pyval \<times> string) scope" where
  "event_range event_name ev =
     (if event_name = ''pull_request'' then
        bind_res (item ev ''pull_request'') (\<lambda>pull.
        bind_res (bind_res (item pull ''base'') (\<lambda>b. item b ''sha'')) (\<lambda>base.
        bind_res (bind_res (item pull ''head'') (\<lambda>h. item h ''sha'')) (\<lambda>head.
          Inr (base, head, ''...''))))
      else if event_name = ''merge_group'' then
        bind_res (item ev ''merge_group'') (\<lambda>group.
        bind_res (item group ''base_sha'') (\<lambda>base.
        bind_res (item group ''head_sha'') (\<lambda>head. Inr (base, head, ''..''))))
      else
        bind_res (item ev ''before'') (\<lambda>base.
        bind_res (item ev ''after'') (\<lambda>head. Inr (base, head, ''..''))))"

definition event_revisions :: "string \<Rightarrow> pyval \<Rightarrow> (string \<times> string \<times> string) scope" where
  "event_revisions event_name ev =
     (if type_of ev \<noteq> TDict then Inl (Py TypeError)
      else bind_res (event_range event_name ev) (\<lambda>(base, head, separator).
        if full_revision base \<and> full_revision head then Inr (text_of base, text_of head, separator)
        else Inl (Py ValueError)))"

subsection \<open>Git\<close>

text \<open>Whether the resolved path is a directory, and what running an argument vector prints.\<close>

record git_env =
  ge_directory :: "bool scope"
  ge_run :: "string list \<Rightarrow> string scope"

definition range_pattern :: re where
  "range_pattern =
     Seq sha_pattern
       (Seq (Seq (Chr (CHR ''.'')) (Seq (Chr (CHR ''.'')) (Opt (Chr (CHR ''.''))))) sha_pattern)"

definition git_arguments :: "string \<Rightarrow> string \<Rightarrow> string list scope" where
  "git_arguments operation revision =
     (if operation = ''shallow'' \<and> revision = [] then Inr [''git'', ''rev-parse'', ''--is-shallow-repository'']
      else if operation = ''commit-type'' then
        if fullmatch sha_pattern revision then Inr [''git'', ''cat-file'', ''-t'', ''--'', revision]
        else Inl (Py ValueError)
      else if operation = ''diff'' then
        if fullmatch range_pattern revision
        then Inr [''git'', ''diff'', ''--raw'', ''--no-abbrev'', ''-z'', ''--no-renames'', ''--no-ext-diff'',
          ''--no-textconv'', ''--no-relative'', ''--ignore-submodules=none'', ''--end-of-options'', revision, ''--'']
        else Inl (Py ValueError)
      else Inl (Py ValueError))"

definition git :: "git_env \<Rightarrow> string \<Rightarrow> string \<Rightarrow> string scope" where
  "git env operation revision =
     bind_res (ge_directory env) (\<lambda>is_dir.
       if \<not> is_dir then Inl (Py ValueError)
       else bind_res (git_arguments operation revision) (ge_run env))"

subsection \<open>The diff\<close>

definition revision_field :: "string \<Rightarrow> bool scope" where
  "revision_field value = (if isascii value then Inr (fullmatch sha_pattern value) else Inl (Py ValueError))"

definition expected_modes :: "(string \<times> string \<times> string) list" where
  "expected_modes =
     [(''A'', ''000000'', ''100644''), (''D'', ''100644'', ''000000''), (''M'', ''100644'', ''100644'')]"

definition classify_record :: "string \<Rightarrow> string \<Rightarrow> string list \<Rightarrow> string list \<Rightarrow> decision option scope" where
  "classify_record header raw_path explicit required =
     (case split_ws header of
        [before, after, old_hash, new_hash, status] \<Rightarrow>
          if \<not> startswith before '':'' then Inr (Some (decide True ''invalid-diff''))
          else
            bind_res (revision_field old_hash) (\<lambda>old_ok.
            bind_res (if old_ok then revision_field new_hash else Inr False) (\<lambda>hashes_ok.
              if \<not> hashes_ok then Inr (Some (decide True ''invalid-diff''))
              else if map_of expected_modes status \<noteq> Some (tl before, after)
              then Inr (Some (decide True ''non-regular-or-mode-change''))
              else
                bind_res (decode_utf8 raw_path) (\<lambda>path.
                  Inr (if path \<in> set required then Some (decide True ''required-path-change'')
                       else if \<not> documentation_path path explicit
                       then Some (decide True ''non-documentation-change'')
                       else None))))
      | _ \<Rightarrow> Inr (Some (decide True ''invalid-diff'')))"

fun pairs :: "'a list \<Rightarrow> ('a \<times> 'a) list" where
  "pairs (a # b # xs) = (a, b) # pairs xs"
| "pairs _ = []"

fun classify_records :: "(string \<times> string) list \<Rightarrow> string list \<Rightarrow> string list \<Rightarrow> decision scope" where
  "classify_records [] explicit required = Inr (decide False ''documentation-only'')"
| "classify_records ((header, path) # rs) explicit required =
     bind_res (classify_record header path explicit required) (\<lambda>result.
       case result of Some d \<Rightarrow> Inr d | None \<Rightarrow> classify_records rs explicit required)"

definition classify_diff :: "string \<Rightarrow> string list \<Rightarrow> string list \<Rightarrow> decision scope" where
  "classify_diff raw explicit required =
     (if raw = [] then Inr (decide True ''empty-diff'')
      else if MAX_DIFF_BYTES < length raw \<or> \<not> endswith raw [CHR 0x00] then Inr (decide True ''invalid-diff'')
      else
        (let records = split_on (CHR 0x00) (butlast raw)
         in if odd (length records) then Inr (decide True ''invalid-diff'')
            else classify_records (pairs records) explicit required))"

subsection \<open>The decision\<close>

definition EVENTS :: "string list" where
  "EVENTS = [''pull_request'', ''merge_group'', ''push'']"

definition all_paths :: "(pyval \<Rightarrow> bool) \<Rightarrow> pyval \<Rightarrow> bool" where
  "all_paths P v = (case v of VList vs \<Rightarrow> list_all P vs | _ \<Rightarrow> False)"

definition inspect :: "git_env \<Rightarrow> string \<Rightarrow> string \<Rightarrow> string \<Rightarrow> string list \<Rightarrow> string list \<Rightarrow> decision scope" where
  "inspect env base head separator explicit required =
     bind_res (git env ''shallow'' []) (\<lambda>shallow.
       if strip_bytes shallow \<noteq> ''false'' then Inr (decide True ''incomplete-history'')
       else bind_res (git env ''commit-type'' base) (\<lambda>base_type.
         if strip_bytes base_type \<noteq> ''commit'' then Inr (decide True ''invalid-revisions'')
         else bind_res (git env ''commit-type'' head) (\<lambda>head_type.
           if strip_bytes head_type \<noteq> ''commit'' then Inr (decide True ''invalid-revisions'')
           else bind_res (git env ''diff'' (base @ separator @ head)) (\<lambda>raw.
             classify_diff raw explicit required))))"

definition guarded :: "scope_exc list \<Rightarrow> decision \<Rightarrow> decision scope \<Rightarrow> decision scope" where
  "guarded caught d r = (case r of Inl e \<Rightarrow> if e \<in> set caught then Inr d else Inl e | Inr x \<Rightarrow> Inr x)"

definition classify ::
  "git_env \<Rightarrow> string \<Rightarrow> pyval \<Rightarrow> pyval \<Rightarrow> pyval \<Rightarrow> bool \<Rightarrow> decision scope" where
  "classify env event_name ev documentation_paths required_paths force =
     (if force then Inr (decide True ''forced'')
      else if event_name \<notin> set EVENTS then Inr (decide True ''unsupported-event'')
      else if \<not> all_paths document_name documentation_paths
      then Inr (decide True ''invalid-documentation-paths'')
      else if \<not> all_paths literal_path required_paths then Inr (decide True ''invalid-required-paths'')
      else case event_revisions event_name ev of
        Inl e \<Rightarrow>
          guarded [Py KeyError, Py TypeError, Py ValueError] (decide True ''invalid-revisions'') (Inl e)
      | Inr (base, head, separator) \<Rightarrow>
          guarded [OS_error, Py ValueError, Subprocess_error] (decide True ''git-error'')
            (inspect env base head separator
              (map text_of (items_of documentation_paths)) (map text_of (items_of required_paths))))"

subsection \<open>The command line\<close>

record scope_args =
  sa_force :: bool
  sa_event_name :: string
  sa_documentation_path :: "string list"
  sa_documentation_paths_json :: string
  sa_require_path :: "string list"
  sa_required_paths_json :: string

definition json_paths :: "(string \<Rightarrow> pyval scope) \<Rightarrow> string \<Rightarrow> string list \<Rightarrow> pyval scope" where
  "json_paths loads value repeated =
     bind_res (loads value) (\<lambda>v.
       case v of VList paths \<Rightarrow> Inr (VList (map VStr repeated @ paths)) | _ \<Rightarrow> Inl (Py TypeError))"

definition on_paths :: "string \<Rightarrow> pyval scope \<Rightarrow> (pyval \<Rightarrow> decision scope) \<Rightarrow> decision scope" where
  "on_paths reason r k =
     (case r of
        Inl e \<Rightarrow> guarded [Py TypeError, Py ValueError] (decide True reason) (Inl e)
      | Inr v \<Rightarrow> k v)"

definition from_arguments ::
  "git_env \<Rightarrow> (string \<Rightarrow> pyval scope) \<Rightarrow> string scope \<Rightarrow> scope_args \<Rightarrow> decision scope" where
  "from_arguments env loads event_text args =
     (if sa_force args \<or> sa_event_name args \<notin> set EVENTS
      then classify env (sa_event_name args) VNone (VList []) (VList []) (sa_force args)
      else
        on_paths ''invalid-documentation-paths''
          (json_paths loads (sa_documentation_paths_json args) (sa_documentation_path args)) (\<lambda>documentation_paths.
        on_paths ''invalid-required-paths''
          (json_paths loads (sa_required_paths_json args) (sa_require_path args)) (\<lambda>required_paths.
        case bind_res event_text loads of
          Inl e \<Rightarrow> guarded [OS_error, Py ValueError] (decide True ''invalid-event-file'') (Inl e)
        | Inr ev \<Rightarrow> classify env (sa_event_name args) ev documentation_paths required_paths False)))"

definition output_lines :: "decision \<Rightarrow> string" where
  "output_lines d =
     ''run='' @ (if de_run d then ''true'' else ''false'') @ [CHR 0x0A] @ ''reason='' @ de_reason d @ [CHR 0x0A]"

subsection \<open>A skipped diff lists documentation only\<close>

definition regular_change :: "string \<Rightarrow> bool" where
  "regular_change header =
     (case split_ws header of
        [before, after, old_hash, new_hash, status] \<Rightarrow>
          startswith before '':'' \<and> fullmatch sha_pattern old_hash \<and> fullmatch sha_pattern new_hash \<and>
          map_of expected_modes status = Some (tl before, after)
      | _ \<Rightarrow> False)"

definition ordinary_document :: "string list \<Rightarrow> string list \<Rightarrow> string \<times> string \<Rightarrow> bool" where
  "ordinary_document explicit required record =
     (case record of (header, path) \<Rightarrow>
        regular_change header \<and> utf8_ok (map code path) \<and> path \<notin> set required \<and> documentation_path path explicit)"

lemma sha_isascii: "fullmatch sha_pattern s \<Longrightarrow> isascii s"
  unfolding sha_pattern_def isascii_def fullmatch_Rep_Cls
  by (auto simp: list_all_iff class_has_def)

lemma revision_field_eq:
  "revision_field s =
     (if fullmatch sha_pattern s then Inr True else if isascii s then Inr False else Inl (Py ValueError))"
  using sha_isascii [of s] by (simp add: revision_field_def)

lemma case_five_other:
  "length ws \<noteq> 5 \<Longrightarrow> (case ws of [a, b, c, d, e] \<Rightarrow> f a b c d e | _ \<Rightarrow> y) = y"
  by (auto split: list.split)

lemma both_fields:
  assumes "k False \<noteq> Inr None"
  shows "bind_res (revision_field a) (\<lambda>x. bind_res (if x then revision_field b else Inr False) k) = Inr None \<longleftrightarrow>
    fullmatch sha_pattern a \<and> fullmatch sha_pattern b \<and> k True = Inr (None :: decision option)"
  using assms
  by (cases "fullmatch sha_pattern a"; cases "fullmatch sha_pattern b"; cases "isascii a"; cases "isascii b")
    (simp_all add: revision_field_eq del: bind_res_eq_Inr_iff)

lemma classify_record_None:
  "classify_record h p explicit required = Inr None \<longleftrightarrow> ordinary_document explicit required (h, p)"
proof (cases "length (split_ws h) = 5")
  case False
  show ?thesis
    unfolding classify_record_def ordinary_document_def regular_change_def case_five_other [OF False] prod.case
    by simp
next
  case True
  then obtain before after old new status where ws: "split_ws h = [before, after, old, new, status]"
    by (auto simp: eval_nat_numeral length_Suc_conv)
  show ?thesis
    unfolding classify_record_def ordinary_document_def regular_change_def ws list.case prod.case
    by (cases "startswith before '':''"; cases "utf8_ok (map code p)")
      (simp_all add: both_fields decode_utf8_def conj_ac del: bind_res_eq_Inr_iff)
qed

lemma classify_record_Some: "classify_record h p explicit required = Inr (Some d) \<Longrightarrow> de_run d"
  unfolding classify_record_def
  by (auto simp: decide_def split: list.splits if_splits)

lemma classify_records_skip:
  "classify_records rs explicit required = Inr d \<and> \<not> de_run d \<longleftrightarrow>
     d = decide False ''documentation-only'' \<and> list_all (ordinary_document explicit required) rs"
proof (induction rs explicit required rule: classify_records.induct)
  case (1 explicit required)
  then show ?case by (auto simp: decide_def)
next
  case (2 h p rs explicit required)
  show ?case
  proof (cases "classify_record h p explicit required")
    case (Inl e)
    then show ?thesis using classify_record_None [of h p explicit required] by simp
  next
    case (Inr r)
    then show ?thesis
      using 2 classify_record_None [of h p explicit required] classify_record_Some [of h p explicit required]
      by (cases r) auto
  qed
qed

text \<open>The bytes that Git prints for a list of changes under \<^verbatim>\<open>--raw -z\<close>.\<close>

definition diff_text :: "(string \<times> string) list \<Rightarrow> string" where
  "diff_text rs = concat (map (\<lambda>(header, path). header @ [CHR 0x00] @ path @ [CHR 0x00]) rs)"

lemma diff_text_pairs:
  "even (length ws) \<Longrightarrow> diff_text (pairs ws) = concat (map (\<lambda>w. w @ [CHR 0x00]) ws)"
  by (induction ws rule: pairs.induct) (auto simp: diff_text_def)

lemma join_terminated: "ws \<noteq> [] \<Longrightarrow> join [c] ws @ [c] = concat (map (\<lambda>w. w @ [c]) ws)"
  by (induction "[c]" ws rule: join.induct) auto

lemma diff_text_records:
  assumes "endswith raw [CHR 0x00]" "even (length (split_on (CHR 0x00) (butlast raw)))"
  shows "diff_text (pairs (split_on (CHR 0x00) (butlast raw))) = raw"
proof -
  have "raw = butlast raw @ [CHR 0x00]" using assms(1) by (auto simp: endswith_iff)
  then show ?thesis
    by (simp add: diff_text_pairs [OF assms(2)] join_split_on flip: join_terminated)
qed

lemma pairs_nonempty: "even (length ws) \<Longrightarrow> ws \<noteq> [] \<Longrightarrow> pairs ws \<noteq> []"
  by (cases ws rule: pairs.cases) auto

lemma pairs_flat: "pairs (concat (map (\<lambda>(h, p). [h, p]) rs)) = rs"
  by (induction rs) auto

lemma diff_text_flat:
  "diff_text rs = concat (map (\<lambda>w. w @ [CHR 0x00]) (concat (map (\<lambda>(h, p). [h, p]) rs)))"
  by (induction rs) (auto simp: diff_text_def)

lemma even_flat: "even (length (concat (map (\<lambda>(h, p). [h, p]) rs)))"
  by (induction rs) auto

lemma pairs_members: "\<forall>w \<in> set ws. P w \<Longrightarrow> list_all (\<lambda>(h, p). P h \<and> P p) (pairs ws)"
  by (induction ws rule: pairs.induct) auto

lemma flat_members: "list_all (\<lambda>(h, p). P h \<and> P p) rs \<Longrightarrow> w \<in> set (concat (map (\<lambda>(h, p). [h, p]) rs)) \<Longrightarrow> P w"
  by (force simp: list_all_iff)

lemma de_run_decide [simp]: "de_run (decide b reason) = b"
  by (simp add: decide_def)

lemma classify_diff_run:
  assumes "classify_diff raw explicit required = Inr d" "\<not> de_run d"
  shows "raw \<noteq> [] \<and> length raw \<le> MAX_DIFF_BYTES \<and> endswith raw [CHR 0x00] \<and>
    even (length (split_on (CHR 0x00) (butlast raw))) \<and>
    classify_records (pairs (split_on (CHR 0x00) (butlast raw))) explicit required = Inr d"
proof -
  have ne: "(if b then Inr (decide True reason) else r) = Inr d \<longleftrightarrow> \<not> b \<and> r = Inr d"
    for b reason and r :: "decision scope" using assms(2) by auto
  show ?thesis using assms(1) unfolding classify_diff_def Let_def ne by (simp add: not_less)
qed

lemma classify_diff_skip:
  "classify_diff raw explicit required = Inr d \<and> \<not> de_run d \<longleftrightarrow>
     d = decide False ''documentation-only'' \<and> length raw \<le> MAX_DIFF_BYTES \<and>
     (\<exists>rs. rs \<noteq> [] \<and> raw = diff_text rs \<and> list_all (\<lambda>(h, p). CHR 0x00 \<notin> set h \<and> CHR 0x00 \<notin> set p) rs \<and>
        list_all (ordinary_document explicit required) rs)" (is "?L \<longleftrightarrow> ?R")
proof
  assume L: ?L
  let ?ws = "split_on (CHR 0x00) (butlast raw)"
  from L have ok: "length raw \<le> MAX_DIFF_BYTES" "endswith raw [CHR 0x00]" "even (length ?ws)"
      "classify_records (pairs ?ws) explicit required = Inr d \<and> \<not> de_run d"
    using classify_diff_run [of raw explicit required d] by simp_all
  have "\<forall>w \<in> set ?ws. CHR 0x00 \<notin> set w" using split_on_no_sep by blast
  then have "list_all (\<lambda>(h, p). CHR 0x00 \<notin> set h \<and> CHR 0x00 \<notin> set p) (pairs ?ws)" by (rule pairs_members)
  moreover have "pairs ?ws \<noteq> []" using ok(3) split_on_nonempty by (rule pairs_nonempty)
  moreover have "raw = diff_text (pairs ?ws)" using diff_text_records [OF ok(2,3)] by simp
  moreover have "d = decide False ''documentation-only'' \<and> list_all (ordinary_document explicit required) (pairs ?ws)"
    using ok(4) classify_records_skip [of "pairs ?ws" explicit required d] by blast
  ultimately show ?R using ok(1) by blast
next
  assume ?R
  then obtain rs where rs: "rs \<noteq> []" "raw = diff_text rs" "list_all (\<lambda>(h, p). CHR 0x00 \<notin> set h \<and> CHR 0x00 \<notin> set p) rs"
      "list_all (ordinary_document explicit required) rs"
    and d: "d = decide False ''documentation-only''" "length raw \<le> MAX_DIFF_BYTES" by blast
  let ?ws = "concat (map (\<lambda>(h, p). [h, p]) rs)"
  have ne: "?ws \<noteq> []" using rs(1) by (cases rs) auto
  have raw: "raw = join [CHR 0x00] ?ws @ [CHR 0x00]" using rs(2) by (simp add: diff_text_flat join_terminated [OF ne])
  have ws: "split_on (CHR 0x00) (butlast raw) = ?ws"
    unfolding raw butlast_snoc using ne flat_members [OF rs(3)] by (intro split_on_join ballI) blast+
  have "raw \<noteq> []" "endswith raw [CHR 0x00]" using raw by (auto simp: endswith_iff)
  then have "classify_diff raw explicit required = classify_records rs explicit required"
    unfolding classify_diff_def Let_def ws pairs_flat using d(2) even_flat [of rs] by simp
  then show ?L using classify_records_skip [of rs explicit required d] rs(4) d(1) by simp
qed

subsection \<open>Skipping the checks\<close>

definition skips :: "decision scope \<Rightarrow> bool" where
  "skips r \<longleftrightarrow> (case r of Inl _ \<Rightarrow> False | Inr d \<Rightarrow> \<not> de_run d)"

lemma skips_simps [simp]:
  "\<not> skips (Inl e)"
  "skips (Inr d) \<longleftrightarrow> \<not> de_run d"
  "skips (guarded caught (decide True reason) r) \<longleftrightarrow> skips r"
  "skips (bind_res q k) \<longleftrightarrow> (\<exists>x. q = Inr x \<and> skips (k x))"
  by (auto simp: skips_def guarded_def bind_res_def split: sum.splits)

lemma skips_if [simp]: "skips (if b then Inr (decide True reason) else r) \<longleftrightarrow> \<not> b \<and> skips r"
  by simp

lemma skips_classify_diff:
  "skips (classify_diff raw explicit required) \<longleftrightarrow>
     length raw \<le> MAX_DIFF_BYTES \<and>
     (\<exists>rs. rs \<noteq> [] \<and> raw = diff_text rs \<and> list_all (\<lambda>(h, p). CHR 0x00 \<notin> set h \<and> CHR 0x00 \<notin> set p) rs \<and>
        list_all (ordinary_document explicit required) rs)"
proof -
  have "skips r \<longleftrightarrow> (\<exists>d. r = Inr d \<and> \<not> de_run d)" for r by (auto simp: skips_def split: sum.splits)
  then have "skips (classify_diff raw explicit required) \<longleftrightarrow> (\<exists>d. classify_diff raw explicit required = Inr d \<and> \<not> de_run d)" .
  then show ?thesis unfolding classify_diff_skip by (simp only: simp_thms)
qed

definition answers :: "string scope \<Rightarrow> string \<Rightarrow> bool" where
  "answers r text \<longleftrightarrow> (case r of Inl _ \<Rightarrow> False | Inr s \<Rightarrow> strip_bytes s = text)"

lemma answers_iff: "answers r text \<longleftrightarrow> (\<exists>s. r = Inr s \<and> strip_bytes s = text)"
  by (auto simp: answers_def split: sum.splits)

lemma skips_inspect:
  "skips (inspect env base head separator explicit required) \<longleftrightarrow>
     answers (git env ''shallow'' []) ''false'' \<and> answers (git env ''commit-type'' base) ''commit'' \<and>
     answers (git env ''commit-type'' head) ''commit'' \<and>
     (\<exists>raw. git env ''diff'' (base @ separator @ head) = Inr raw \<and> skips (classify_diff raw explicit required))"
  unfolding inspect_def by (auto simp: answers_iff)

text \<open>A documentation path lies in no protected or hidden directory and has a documentation suffix.\<close>

lemma documentation_path_safe:
  assumes "documentation_path path explicit"
  shows "lower_text (path_suffix path) \<in> {''.md'', ''.rst''}"
    "list_all (\<lambda>part. part \<notin> set PROTECTED_PARTS \<and> \<not> startswith part ''.'') (butlast (map lower_text (path_parts path)))"
    "\<not> startswith path ''/'' \<and> ''..'' \<notin> set (split_on (CHR ''/'') path)"
proof -
  have doc: "document_name (VStr path)" using assms by (auto simp: documentation_path_def split: if_splits)
  then show "lower_text (path_suffix path) \<in> {''.md'', ''.rst''}"
    unfolding document_name_def text_of_def by simp
  show "list_all (\<lambda>part. part \<notin> set PROTECTED_PARTS \<and> \<not> startswith part ''.'') (butlast (map lower_text (path_parts path)))"
    using assms doc unfolding documentation_path_def Let_def
    by (auto simp: list_all_iff list_ex_iff split: if_splits)
  have "literal_text path" using doc by (simp add: document_name_def literal_path_def is_str_ok_def)
  then show "\<not> startswith path ''/'' \<and> ''..'' \<notin> set (split_on (CHR ''/'') path)"
    unfolding literal_text_def path_parts_def by auto
qed

text \<open>
  C25: the heavy checks are skipped exactly when nothing forces them, the event is known, both
  policy lists hold literal paths, the repository is complete, the event names two commits, and
  Git lists a nonempty diff of at most 8 MB between them in which every record adds, removes or
  edits a regular file whose path is UTF-8, ordinary documentation and not on the list of required
  paths.  Every doubt and every failure of Git runs the full checks.
\<close>

theorem checks_skipped_iff_documentation_only:
  "skips (classify env event_name ev documentation_paths required_paths force) \<longleftrightarrow>
     \<not> force \<and> event_name \<in> set EVENTS \<and> all_paths document_name documentation_paths \<and>
     all_paths literal_path required_paths \<and>
     (\<exists>base head separator rs.
        event_revisions event_name ev = Inr (base, head, separator) \<and>
        answers (git env ''shallow'' []) ''false'' \<and> answers (git env ''commit-type'' base) ''commit'' \<and>
        answers (git env ''commit-type'' head) ''commit'' \<and>
        git env ''diff'' (base @ separator @ head) = Inr (diff_text rs) \<and>
        rs \<noteq> [] \<and> length (diff_text rs) \<le> MAX_DIFF_BYTES \<and>
        list_all (\<lambda>(header, path). CHR 0x00 \<notin> set header \<and> CHR 0x00 \<notin> set path) rs \<and>
        list_all (ordinary_document (map text_of (items_of documentation_paths))
          (map text_of (items_of required_paths))) rs)"
proof (cases "event_revisions event_name ev")
  case (Inl e)
  then show ?thesis unfolding classify_def by simp
next
  case (Inr r)
  then show ?thesis
    unfolding classify_def by (cases r) (simp add: skips_inspect skips_classify_diff, blast)
qed

text \<open>Examples: a protected directory wins over an explicit exception.\<close>

lemma documentation_path_examples:
  "documentation_path ''README.md'' []" "documentation_path ''docs/Guide.RST'' []"
  "\<not> documentation_path ''docs/Src/a.md'' [''docs/Src/a.md'']" "\<not> documentation_path ''notes.md'' []"
  "documentation_path ''notes.md'' [''notes.md'']"
  by code_simp+

definition example_header :: string where
  "example_header = '':100644 100644 '' @ replicate 40 (CHR ''a'') @ '' '' @ replicate 40 (CHR ''b'') @ '' M''"

lemma example_skip:
  "classify_diff (diff_text [(example_header, ''README.md'')]) [] [] = Inr (decide False ''documentation-only'')"
proof -
  have ws: "split_ws example_header = ['':100644'', ''100644'', replicate 40 (CHR ''a''), replicate 40 (CHR ''b''), ''M'']"
    by code_simp
  have m: "map_of expected_modes ''M'' = Some (tl '':100644'', ''100644'')" "startswith '':100644'' '':''"
    "utf8_ok (map code ''README.md'')" by code_simp+
  have sha: "fullmatch sha_pattern (replicate 40 (CHR ''a''))" "fullmatch sha_pattern (replicate 40 (CHR ''b''))"
    unfolding sha_pattern_def fullmatch_Rep_Cls by (simp_all add: list_all_iff class_has_def)
  have "ordinary_document [] [] (example_header, ''README.md'')"
    unfolding ordinary_document_def prod.case regular_change_def ws list.case
    using m sha documentation_path_examples(1) by (simp only: empty_iff list.set simp_thms)
  moreover have "CHR 0x00 \<notin> set example_header" "CHR 0x00 \<notin> set ''README.md''"
    by (simp_all add: example_header_def)
  moreover have "length (diff_text [(example_header, ''README.md'')]) \<le> MAX_DIFF_BYTES"
    by (simp add: diff_text_def example_header_def MAX_DIFF_BYTES_def)
  ultimately have "\<exists>rs. rs \<noteq> [] \<and> diff_text [(example_header, ''README.md'')] = diff_text rs \<and>
      list_all (\<lambda>(h, p). CHR 0x00 \<notin> set h \<and> CHR 0x00 \<notin> set p) rs \<and> list_all (ordinary_document [] []) rs"
    by (intro exI [where x = "[(example_header, ''README.md'')]"]) (simp only: list.pred_inject list.distinct simp_thms prod.case)
  with \<open>length _ \<le> _\<close> show ?thesis
    using classify_diff_skip [of "diff_text [(example_header, ''README.md'')]" "[]" "[]" "decide False ''documentation-only''"]
    by (simp only: simp_thms)
qed

end
