(* ===== verification/Fuzz_Policy.thy ===== *)
theory Fuzz_Policy
  imports Release_Checks Change_Scope
begin

section \<open>The fuzzing of release candidates\<close>

text \<open>
  Model of \<^verbatim>\<open>scripts/release_fuzz.py\<close>: the opt-in of a release policy, the reviewed manifest of fuzz
  targets with its budgets, the commands and corpora of a campaign, and the evidence its report must
  show.  Files that resolve inside the source tree and regular files are predicates; running a
  campaign is left out.  Every \<^verbatim>\<open>ValueError\<close> keeps its class and loses its message.
\<close>

subsection \<open>The policy\<close>

definition bad :: "bool \<Rightarrow> unit rel" where
  "bad b = raise_if b ValueError"

lemma bad_Inr [simp]: "bad b = Inr u \<longleftrightarrow> \<not> b"
  by (simp add: bad_def)

definition fuzz_configuration :: "(string, pyval) dict \<Rightarrow> (string, pyval) dict option rel" where
  "fuzz_configuration policy =
     (let v = get_or policy ''fuzzing'' VNone; d = entries_of v
      in if v = VNone then Inr None
         else rel_seq (bad (\<not> is_dict v \<or> set (dict_keys d) \<noteq> {''toolkit_ref''} \<or>
             \<not> is_str_ok (fullmatch sha_pattern) (get_or d ''toolkit_ref'' VNone) \<or>
             get_or policy ''visibility'' (VStr ''public'') \<noteq> VStr ''public'' \<or>
             get_or policy ''mode'' VNone \<noteq> VStr ''release'' \<or>
             get_or policy ''ci_execution'' (VStr ''github'') \<noteq> VStr ''github'' \<or>
             \<not> is_dict (get_or policy ''versioning'' VNone)))
           (Inr (Some d)))"

definition FUZZ_MANIFEST :: string where
  "FUZZ_MANIFEST = ''.github/fuzz.json''"

definition fuzz_profile :: "(string, pyval) dict \<Rightarrow> string \<Rightarrow> pyval rel" where
  "fuzz_profile policy channel =
     bind_res (fuzz_configuration policy) (\<lambda>config.
       case config of
         None \<Rightarrow> Inr VNone
       | Some d \<Rightarrow>
           if channel \<noteq> ''rc'' then Inr VNone
           else Inr (VDict (dict_merge
             [(''schema'', VInt 1), (''channel'', VStr ''rc''), (''manifest'', VStr FUZZ_MANIFEST)] d)))"

subsection \<open>The manifest\<close>

record fuzz_tree =
  ft_length :: nat
  ft_json :: "pyval option"
  ft_confined :: "string \<Rightarrow> bool"
  ft_regular :: "string \<Rightarrow> bool"
  ft_sha256 :: string

definition path_items :: "citem list" where
  "path_items =
     [CRange (CHR ''A'') (CHR ''Z''), CRange (CHR ''a'') (CHR ''z''), CRange (CHR ''0'') (CHR ''9''),
      CChar (CHR ''_''), CChar (CHR ''.''), CChar (CHR ''/''), CChar (CHR ''-'')]"

definition fuzz_relative :: "pyval \<Rightarrow> string rel" where
  "fuzz_relative v =
     rel_seq (bad (\<not> is_str_ok (fullmatch (Plus (Cls path_items))) v))
     (let s = text_of v
      in rel_seq (bad (s \<noteq> ''.'' \<and> (startswith s ''/'' \<or> list_ex (\<lambda>p. p = [] \<or> p = ''.'' \<or> p = ''..'')
             (split_on (CHR ''/'') s))))
         (Inr s))"

definition fuzz_argument :: "pyval \<Rightarrow> bool" where
  "fuzz_argument v = is_str_ok (\<lambda>s. s \<noteq> [] \<and> length s \<le> 2048 \<and> list_all (\<lambda>c. 32 \<le> code c) s) v"

definition fuzz_argv :: "pyval \<Rightarrow> string list rel" where
  "fuzz_argv v =
     rel_seq (bad (\<not> is_list v \<or> length (items_of v) < 1 \<or> 64 < length (items_of v) \<or>
         \<not> list_all fuzz_argument (items_of v)))
       (Inr (map text_of (items_of v)))"

definition confined_path :: "fuzz_tree \<Rightarrow> pyval \<Rightarrow> string rel" where
  "confined_path tree v =
     bind_res (fuzz_relative v) (\<lambda>s. rel_seq (bad (\<not> ft_confined tree s)) (Inr s))"

definition MANIFEST_FIELDS :: "string list" where
  "MANIFEST_FIELDS =
     [''schema'', ''language'', ''setup'', ''targets'', ''go-version-file'', ''preflight'', ''preflight-paths'']"

definition LANGUAGES :: "string list" where
  "LANGUAGES = [''go'', ''rust'', ''python'', ''javascript'', ''c'', ''jvm'']"

definition list_within :: "nat \<Rightarrow> nat \<Rightarrow> pyval \<Rightarrow> bool" where
  "list_within low high v \<longleftrightarrow> is_list v \<and> low \<le> length (items_of v) \<and> length (items_of v) \<le> high"

definition manifest_shape :: "pyval \<Rightarrow> unit rel" where
  "manifest_shape data =
     (let d = entries_of data
      in rel_seq (bad (\<not> is_dict data \<or> \<not> set (dict_keys d) \<subseteq> set MANIFEST_FIELDS \<or>
             get_or d ''schema'' VNone \<noteq> VInt 1))
         (bind_res (in_names (get_or d ''language'' VNone) LANGUAGES) (\<lambda>known.
           bad (\<not> known \<or> \<not> list_within 0 16 (get_or d ''setup'' VNone) \<or>
             \<not> list_within 1 12 (get_or d ''targets'' VNone)))))"

definition TARGET_FIELDS :: "string list" where
  "TARGET_FIELDS = [''name'', ''engine'', ''command'', ''seconds'', ''cwd'', ''corpus'', ''instrumentation'']"

definition target_name :: re where
  "target_name =
     Seq (Cls [CRange (CHR ''a'') (CHR ''z'')])
       (RepUpTo 49 (Cls [CRange (CHR ''a'') (CHR ''z''), CRange (CHR ''0'') (CHR ''9''), CChar (CHR ''-'')]))"

definition ident_items :: "citem list" where
  "ident_items = [CRange (CHR ''A'') (CHR ''Z''), CRange (CHR ''a'') (CHR ''z''), CChar (CHR ''_'')]"

definition declared_module :: re where
  "declared_module = Seq (Cls ident_items)
     (Star (Cls (ident_items @ [CRange (CHR ''0'') (CHR ''9''), CChar (CHR ''.''), CChar (CHR ''-'')])))"

definition declared_function :: re where
  "declared_function = Seq (Cls ident_items)
     (Star (Cls (ident_items @ [CRange (CHR ''0'') (CHR ''9''), CChar (CHR ''.'')])))"

definition instrumentation_ok :: "pyval \<Rightarrow> bool" where
  "instrumentation_ok declared \<longleftrightarrow>
     (let d = entries_of declared
      in is_dict declared \<and> set (dict_keys d) = {''module'', ''functions''} \<and>
         is_str_ok (fullmatch declared_module) (get_or d ''module'' VNone) \<and>
         list_within 1 32 (get_or d ''functions'' VNone) \<and>
         list_all (is_str_ok (fullmatch declared_function)) (items_of (get_or d ''functions'' VNone)))"

definition RESERVED :: "string list" where
  "RESERVED = [''-fuzztime'', ''-fuzzminimizetime'', ''-parallel'', ''-timeout'', ''-max_total_time'',
     ''-rss_limit_mb'', ''-artifact_prefix'', ''-runs'', ''-jobs'', ''-workers'']"

definition option_of :: "string \<Rightarrow> string" where
  "option_of arg = takeWhile (\<lambda>c. c \<noteq> CHR ''='') arg"

definition optional_path :: "fuzz_tree \<Rightarrow> (string, pyval) dict \<Rightarrow> string \<Rightarrow> unit rel" where
  "optional_path tree d key =
     (if has_key d key then bind_res (confined_path tree (get_or d key VNone)) (\<lambda>_. Inr ()) else Inr ())"

text \<open>A target and the name it adds to those already used.\<close>

definition validate_target :: "fuzz_tree \<Rightarrow> pyval \<Rightarrow> string list \<Rightarrow> string rel" where
  "validate_target tree target names =
     (let d = entries_of target
      in rel_seq (bad (\<not> is_dict target \<or> \<not> set (dict_keys d) \<subseteq> set TARGET_FIELDS \<or>
             \<not> is_str_ok (\<lambda>s. fullmatch target_name s \<and> s \<notin> set names) (get_or d ''name'' VNone)))
         (bind_res (in_names (get_or d ''engine'' VNone) [''go'', ''libfuzzer'', ''atheris'']) (\<lambda>known.
          rel_seq (bad (\<not> known \<or> \<not> int_field_ok (\<lambda>n. 1 \<le> n \<and> n \<le> 120) (get_or d ''seconds'' VNone)))
          (bind_res (fuzz_argv (get_or d ''command'' VNone)) (\<lambda>command.
           bind_res (confined_path tree (get_or d ''cwd'' (VStr ''.''))) (\<lambda>_.
           rel_seq (optional_path tree d ''corpus'')
           (rel_seq (bad (has_key d ''instrumentation'' \<and>
               \<not> (get_or d ''engine'' VNone = VStr ''atheris'' \<and>
                  list_within 1 32 (get_or d ''instrumentation'' VNone) \<and>
                  list_all instrumentation_ok (items_of (get_or d ''instrumentation'' VNone)))))
           (rel_seq (bad (list_ex (\<lambda>arg. option_of arg \<in> set RESERVED) command))
             (Inr (text_of (get_or d ''name'' VNone)))))))))))"

fun validate_targets :: "fuzz_tree \<Rightarrow> string list \<Rightarrow> pyval list \<Rightarrow> unit rel" where
  "validate_targets tree names [] = Inr ()"
| "validate_targets tree names (t # ts) =
     bind_res (validate_target tree t names) (\<lambda>name. validate_targets tree (name # names) ts)"

definition seconds_of :: "pyval \<Rightarrow> int" where
  "seconds_of target = (case get_or (entries_of target) ''seconds'' VNone of VInt n \<Rightarrow> n | _ \<Rightarrow> 0)"

fun each :: "('a \<Rightarrow> 'b rel) \<Rightarrow> 'a list \<Rightarrow> unit rel" where
  "each f [] = Inr ()"
| "each f (x # xs) = bind_res (f x) (\<lambda>_. each f xs)"

definition go_module_ok :: "fuzz_tree \<Rightarrow> pyval \<Rightarrow> unit rel" where
  "go_module_ok tree v = bind_res (confined_path tree v) (\<lambda>s. bad (\<not> ft_regular tree s))"

definition fuzz_manifest :: "fuzz_tree \<Rightarrow> (string, pyval) dict rel" where
  "fuzz_manifest tree =
     rel_seq (bad (65536 < ft_length tree))
     (case ft_json tree of
        None \<Rightarrow> Inl (Raised ValueError)
      | Some data \<Rightarrow>
          (let d = entries_of data
           in rel_seq (manifest_shape data)
              (rel_seq (each fuzz_argv (items_of (get_or d ''setup'' VNone)))
              (rel_seq (bad (\<not> list_within 0 16 (get_or d ''preflight'' (VList []))))
              (rel_seq (each fuzz_argv (items_of (get_or d ''preflight'' (VList []))))
              (rel_seq (bad (\<not> list_within 0 128 (get_or d ''preflight-paths'' (VList []))))
              (rel_seq (each (confined_path tree) (items_of (get_or d ''preflight-paths'' (VList []))))
              (rel_seq (if has_key d ''go-version-file''
                 then rel_seq (bad (get_or d ''language'' VNone \<noteq> VStr ''go''))
                   (go_module_ok tree (get_or d ''go-version-file'' VNone))
                 else Inr ())
              (rel_seq (validate_targets tree [] (items_of (get_or d ''targets'' VNone)))
              (rel_seq (bad (600 < sum_list (map seconds_of (items_of (get_or d ''targets'' VNone)))))
                (Inr d)))))))))))"

subsection \<open>Events and jobs\<close>

text \<open>\<open>str_of\<close> is Python's \<^verbatim>\<open>str\<close> of a JSON value.\<close>

definition event_contract ::
  "(pyval \<Rightarrow> string) \<Rightarrow> pyval \<Rightarrow> string \<Rightarrow> string \<Rightarrow> string \<Rightarrow> string \<Rightarrow> unit rel" where
  "event_contract str_of ev event_name ref repository sha =
     bind_res (get_of ev ''repository'' (VDict [])) (\<lambda>repo.
     rel_seq (bad (event_name \<noteq> ''workflow_dispatch''))
     (bind_res (get_of ev ''inputs'' (VDict [])) (\<lambda>inputs.
      bind_res (get_of inputs ''channel'' VNone) (\<lambda>channel.
      rel_seq (bad (channel \<noteq> VStr ''rc''))
      (bind_res (get_of repo ''private'' VNone) (\<lambda>private_flag.
       bad (private_flag \<noteq> VBool False \<or>
         get_or (entries_of repo) ''full_name'' VNone \<noteq> VStr repository \<or>
         ref \<noteq> ''refs/heads/'' @ str_of (get_or (entries_of repo) ''default_branch'' VNone) \<or>
         \<not> fullmatch sha_pattern sha)))))))"

definition FUZZ_JOB :: string where
  "FUZZ_JOB = ''fuzz / RC fuzzing''"

definition fuzz_run_jobs :: "pyval list \<Rightarrow> string \<Rightarrow> string \<Rightarrow> unit rel" where
  "fuzz_run_jobs jobs channel sha =
     bind_res (map_res (\<lambda>job. get_of job ''name'' VNone) jobs) (\<lambda>names.
       let matches = map (entries_of \<circ> fst) (filter (\<lambda>(_, n). n = VStr FUZZ_JOB) (zip jobs names))
       in if channel = ''rc''
          then bad (length matches \<noteq> 1 \<or>
            list_ex (\<lambda>(k, v). get_or (hd matches) k VNone \<noteq> VStr v)
              [(''head_sha'', sha), (''status'', ''completed''), (''conclusion'', ''success'')])
          else bad (list_ex (\<lambda>d. get_or d ''conclusion'' VNone \<noteq> VStr ''skipped'') matches))"

subsection \<open>The report\<close>

definition is_int :: "pyval \<Rightarrow> bool" where
  "is_int v \<longleftrightarrow> type_of v = TInt"

definition dict_items :: "(string, pyval) dict \<Rightarrow> string \<Rightarrow> pyval list" where
  "dict_items d k = items_of (get_or d k (VList []))"

definition report_row :: "pyval \<Rightarrow> pyval \<times> pyval \<times> pyval" where
  "report_row t =
     (let d = entries_of t in (get_or d ''name'' VNone, get_or d ''seconds'' VNone, get_or d ''exit_code'' VNone))"

definition target_row :: "pyval \<Rightarrow> pyval \<times> pyval \<times> pyval" where
  "target_row t = (let d = entries_of t in (get_or d ''name'' VNone, get_or d ''seconds'' VNone, VInt 0))"

definition verify_target_inventory :: "pyval \<Rightarrow> pyval list \<Rightarrow> unit rel" where
  "verify_target_inventory targets configured =
     bad (\<not> is_list targets \<or>
       \<not> list_all (\<lambda>t. is_dict t \<and> is_int (get_or (entries_of t) ''seconds'' VNone) \<and>
          is_int (get_or (entries_of t) ''exit_code'' VNone)) (items_of targets) \<or>
       map report_row (items_of targets) \<noteq> map target_row configured)"

definition declared_functions :: "pyval \<Rightarrow> (pyval \<times> pyval) list" where
  "declared_functions target =
     concat (map (\<lambda>row. map (Pair (get_or (entries_of row) ''module'' VNone)) (dict_items (entries_of row) ''functions''))
       (dict_items (entries_of target) ''instrumentation''))"

definition verify_python_proof :: "pyval \<Rightarrow> pyval \<Rightarrow> unit rel" where
  "verify_python_proof proof target =
     (let d = entries_of proof; expect = declared_functions target; actual = get_or d ''instrumentation'' VNone
      in rel_seq (bad (\<not> is_dict proof \<or>
             get_or d ''target'' VNone \<noteq> get_or (entries_of target) ''name'' VNone \<or> expect = []))
         (rel_seq (bad (get_or d ''engine'' VNone \<noteq> VStr ''atheris'' \<or>
             \<not> int_field_ok (\<lambda>n. 0 < n) (get_or d ''executions'' VNone)))
         (rel_seq (bad (\<not> is_list actual \<or> \<not> list_all is_dict (items_of actual)))
           (bad (map (\<lambda>row. (get_or (entries_of row) ''module'' VNone, get_or (entries_of row) ''function'' VNone))
             (items_of actual) \<noteq> expect)))))"

definition exercised_as :: "pyval \<Rightarrow> pyval \<Rightarrow> bool" where
  "exercised_as target declared \<longleftrightarrow>
     get_or (entries_of target) ''engine'' VNone = get_or (entries_of declared) ''engine'' VNone \<and>
     int_field_ok (\<lambda>n. 0 < n) (get_or (entries_of target) ''executions'' VNone)"

definition verify_preflight_evidence :: "(string, pyval) dict \<Rightarrow> (string, pyval) dict \<Rightarrow> unit rel" where
  "verify_preflight_evidence data config =
     (let declared = dict_items config ''targets''
      in if get_or data ''schema'' VNone = VInt 1
         then bad (truthy (get_or config ''preflight'' VNone) \<or>
           list_ex (\<lambda>t. truthy (get_or (entries_of t) ''instrumentation'' VNone)) declared)
         else
           (let evidence = get_or data ''preflight'' VNone
            in rel_seq (bad (\<not> is_dict evidence \<or>
                   \<not> py_eq (get_or (entries_of evidence) ''commands'' VNone)
                      (VInt (int (length (dict_items config ''preflight''))))))
               (rel_seq (bad (\<not> list_all (\<lambda>(t, d). exercised_as t d) (zip (dict_items data ''targets'') declared)))
               (if get_or config ''language'' VNone \<noteq> VStr ''python'' then Inr ()
                else
                  (let proofs = get_or (entries_of evidence) ''python_targets'' VNone
                   in rel_seq (bad (\<not> is_list proofs \<or> length (items_of proofs) \<noteq> length declared))
                        (each (\<lambda>(p, t). verify_python_proof p t) (zip (items_of proofs) declared)))))))"

definition report_identity :: "fuzz_tree \<Rightarrow> string \<Rightarrow> string \<Rightarrow> int \<Rightarrow> int \<Rightarrow> (string, pyval) dict" where
  "report_identity tree repository sha run attempt =
     [(''repository'', VStr repository), (''source_sha'', VStr sha), (''run_id'', VInt run),
      (''run_attempt'', VInt attempt), (''channel'', VStr ''rc''), (''private'', VBool False),
      (''manifest_sha256'', VStr (ft_sha256 tree)), (''status'', VStr ''passed''), (''network'', VStr ''isolated'')]"

definition verify_report :: "fuzz_tree \<Rightarrow> pyval \<Rightarrow> string \<Rightarrow> string \<Rightarrow> int \<Rightarrow> int \<Rightarrow> unit rel" where
  "verify_report tree data repository sha run attempt =
     bind_res (fuzz_manifest tree) (\<lambda>config.
     bind_res (get_of data ''schema'' VNone) (\<lambda>schema.
       let d = entries_of data
       in rel_seq (bad (schema \<notin> {VInt 1, VInt 2} \<or>
              list_ex (\<lambda>(k, v). get_or d k VNone \<noteq> v) (report_identity tree repository sha run attempt)))
          (rel_seq (verify_target_inventory (get_or d ''targets'' (VList [])) (dict_items config ''targets''))
            (verify_preflight_evidence d config))))"

subsection \<open>Campaigns\<close>

definition target_command :: "pyval \<Rightarrow> string \<Rightarrow> string list" where
  "target_command target target_dir =
     (let d = entries_of target; seconds = seconds_of target
      in map text_of (dict_items d ''command'') @
         (if get_or d ''engine'' VNone = VStr ''go''
          then [''-fuzztime='' @ str_of_int seconds @ ''s'', ''-fuzzminimizetime=10s'', ''-parallel=2'',
                ''-timeout='' @ str_of_int (seconds + 60) @ ''s'']
          else [''-max_total_time='' @ str_of_int seconds, ''-timeout=10'', ''-rss_limit_mb=2048'',
                ''-artifact_prefix='' @ target_dir @ ''/'', target_dir @ ''/corpus'']))"

definition CORPUS_FILES :: nat where
  "CORPUS_FILES = 10000"

definition CORPUS_BYTES :: nat where
  "CORPUS_BYTES = 64 * 1024 * 1024"

text \<open>
  What walking a directory meets in its order: a directory that holds a symbolic link, and regular
  files with their sizes.
\<close>

datatype walked = Holds_link | Regular string nat

record retained =
  rt_files :: nat
  rt_bytes :: nat
  rt_truncated :: bool
  rt_copied :: "string list"

fun copy_walked :: "bool \<Rightarrow> walked list \<Rightarrow> retained \<Rightarrow> retained rel" where
  "copy_walked required [] r = rel_seq (bad (required \<and> rt_files r = 0)) (Inr r)"
| "copy_walked required (Holds_link # ws) r =
     (if required then Inl (Raised ValueError) else copy_walked required ws r)"
| "copy_walked required (Regular path n # ws) r =
     (if CORPUS_FILES \<le> rt_files r \<or> CORPUS_BYTES < rt_bytes r + n then Inr (r\<lparr>rt_truncated := True\<rparr>)
      else copy_walked required ws
        (r\<lparr>rt_files := rt_files r + 1, rt_bytes := rt_bytes r + n, rt_copied := rt_copied r @ [path]\<rparr>))"

text \<open>\<open>directory\<close> says that the source is a directory and no symbolic link.\<close>

definition retain_corpus :: "bool \<Rightarrow> walked list \<Rightarrow> bool \<Rightarrow> retained rel" where
  "retain_corpus directory ws required =
     (let none = \<lparr>rt_files = 0, rt_bytes = 0, rt_truncated = False, rt_copied = []\<rparr>
      in rel_seq (bad (required \<and> \<not> directory)) (if \<not> directory then Inr none else copy_walked required ws none))"

definition preflight_timeout :: "rat \<Rightarrow> rat \<Rightarrow> int \<Rightarrow> int rel" where
  "preflight_timeout deadline now maximum =
     (let left = deadline - now; remaining = (if 0 \<le> left then \<lfloor>left\<rfloor> else \<lceil>left\<rceil>)
      in rel_seq (bad (remaining \<le> 0)) (Inr (min maximum remaining)))"

definition validate_python_preflight :: "(string, pyval) dict \<Rightarrow> unit rel" where
  "validate_python_preflight data =
     bad (get_or data ''language'' VNone = VStr ''python'' \<and>
       list_ex (\<lambda>t. let d = entries_of t in get_or d ''engine'' VNone \<noteq> VStr ''atheris'' \<or>
           length (dict_items d ''command'') < 2 \<or> \<not> truthy (get_or d ''instrumentation'' VNone))
         (dict_items data ''targets''))"

subsection \<open>When ordinary CI replays the seeds\<close>

definition PREFLIGHT_PATHS :: "string list" where
  "PREFLIGHT_PATHS = [''.github/fuzz.json'', ''.github/requirements-fuzz.txt'', ''.release-policy.json'',
     ''scripts/change_scope.py'', ''scripts/release_fuzz.py'', ''scripts/fuzz_python_preflight.py'', ''.github/workflows'']"

definition changed_paths :: "(string list \<Rightarrow> string scope) \<Rightarrow> string \<Rightarrow> pyval \<Rightarrow> string list scope" where
  "changed_paths run_git event_name ev =
     bind_res (event_revisions event_name ev) (\<lambda>(base, head, separator).
       if \<not> fullmatch sha_pattern base \<or> \<not> fullmatch sha_pattern head \<or> separator \<notin> {''..'', ''...''}
       then Inl (Py ValueError)
       else
         bind_res (run_git [''git'', ''diff'', ''--name-only'', ''-z'', ''--no-renames'', ''--no-ext-diff'',
             base @ separator @ head, ''--'']) (\<lambda>raw.
           map_res decode_utf8 (filter (\<lambda>p. p \<noteq> []) (split_on (CHR 0x00) raw))))"

definition under_path :: "string \<Rightarrow> string \<Rightarrow> bool" where
  "under_path path wanted \<longleftrightarrow> path = wanted \<or> startswith path (wanted @ ''/'')"

definition preflight_needed ::
  "(string list \<Rightarrow> string scope) \<Rightarrow> pyval \<Rightarrow> pyval \<Rightarrow> string option \<Rightarrow> (string, pyval) dict \<Rightarrow> bool scope" where
  "preflight_needed run_git ev repository event_name data =
     (case bind_res (get_of ev ''repository'' (VDict [])) (\<lambda>repo. bind_res (get_of repo ''private'' VNone) (\<lambda>flag.
             bad (flag \<noteq> VBool False \<or> get_or (entries_of repo) ''full_name'' VNone \<noteq> repository))) of
        Inl (Raised e) \<Rightarrow> Inl (Py e)
      | Inl _ \<Rightarrow> Inl (Py ValueError)
      | Inr _ \<Rightarrow>
          (case event_name of
             None \<Rightarrow> Inr False
           | Some name \<Rightarrow>
               if name \<notin> {''pull_request'', ''merge_group'', ''push''} then Inr False
               else
                 (let required = map text_of (dict_items data ''preflight-paths'')
                  in if required = [] \<or> ''.'' \<in> set required then Inr True
                     else
                       (case changed_paths run_git name ev of
                          Inl e \<Rightarrow> if e \<in> {Py ValueError, Py KeyError, OS_error, Subprocess_error} then Inr True else Inl e
                        | Inr paths \<Rightarrow>
                            Inr (list_ex (\<lambda>path. list_ex (under_path path) (required @ PREFLIGHT_PATHS)) paths)))))"

subsection \<open>Properties\<close>

lemma each_Inr: "each f xs = Inr u \<longleftrightarrow> list_all (\<lambda>x. \<exists>y. f x = Inr y) xs"
  by (induction xs) auto

definition target_fits :: "fuzz_tree \<Rightarrow> pyval \<Rightarrow> bool" where
  "target_fits tree t \<longleftrightarrow>
     1 \<le> seconds_of t \<and> seconds_of t \<le> 120 \<and> is_str_ok (fullmatch target_name) (get_or (entries_of t) ''name'' VNone) \<and>
     (\<exists>command. fuzz_argv (get_or (entries_of t) ''command'' VNone) = Inr command \<and>
        list_all (\<lambda>arg. option_of arg \<notin> set RESERVED) command) \<and>
     (\<exists>s. confined_path tree (get_or (entries_of t) ''cwd'' (VStr ''.'')) = Inr s)"

lemma validate_target_fits:
  assumes "validate_target tree t names = Inr name"
  shows "target_fits tree t \<and> get_or (entries_of t) ''name'' VNone = VStr name \<and> name \<notin> set names"
proof -
  let ?d = "entries_of t"
  obtain command s where
    name: "is_str_ok (\<lambda>s. fullmatch target_name s \<and> s \<notin> set names) (get_or ?d ''name'' VNone)"
    and seconds: "int_field_ok (\<lambda>n. 1 \<le> n \<and> n \<le> 120) (get_or ?d ''seconds'' VNone)"
    and command: "fuzz_argv (get_or ?d ''command'' VNone) = Inr command"
    and cwd: "confined_path tree (get_or ?d ''cwd'' (VStr ''.'')) = Inr s"
    and free: "\<not> list_ex (\<lambda>arg. option_of arg \<in> set RESERVED) command"
    and result: "name = text_of (get_or ?d ''name'' VNone)"
    using assms unfolding validate_target_def Let_def rel_seq_Inr_iff bad_Inr bind_res_eq_Inr_iff
    by (simp only: de_Morgan_disj not_not sum.inject) blast
  have "1 \<le> seconds_of t \<and> seconds_of t \<le> 120"
    using seconds by (auto simp: seconds_of_def int_field_ok_def split: pyval.splits)
  moreover have "is_str_ok (fullmatch target_name) (get_or ?d ''name'' VNone)"
    "get_or ?d ''name'' VNone = VStr name" "name \<notin> set names"
    using name result by (auto simp: is_str_ok_def text_of_def split: pyval.splits)
  ultimately show ?thesis using command cwd free
    by (simp add: target_fits_def list_ex_iff list_all_iff)
qed

lemma validate_targets_fit:
  "validate_targets tree names ts = Inr u \<Longrightarrow>
   \<exists>ns. map (\<lambda>t. get_or (entries_of t) ''name'' VNone) ts = map VStr ns \<and> distinct ns \<and>
     set ns \<inter> set names = {} \<and> list_all (target_fits tree) ts"
proof (induction ts arbitrary: names)
  case (Cons t ts)
  then obtain name where t: "validate_target tree t names = Inr name"
    and ts: "validate_targets tree (name # names) ts = Inr u" by auto
  from Cons.IH [OF ts] obtain ns where "map (\<lambda>t. get_or (entries_of t) ''name'' VNone) ts = map VStr ns"
    "distinct ns" "set ns \<inter> set (name # names) = {}" "list_all (target_fits tree) ts" by blast
  with validate_target_fits [OF t] show ?case by (intro exI [of _ "name # ns"]) auto
qed simp

lemma fuzz_manifest_parts:
  assumes "fuzz_manifest tree = Inr d"
  shows "manifest_shape (VDict d) = Inr ()" "validate_targets tree [] (dict_items d ''targets'') = Inr ()"
    "sum_list (map seconds_of (dict_items d ''targets'')) \<le> 600"
proof -
  have items: "items_of (get_or e ''targets'' VNone) = dict_items e ''targets''" for e
    by (simp add: dict_items_def get_or_def items_of_def split: option.split)
  obtain data where data: "d = entries_of data" "manifest_shape data = Inr ()"
    "validate_targets tree [] (dict_items d ''targets'') = Inr ()"
    "\<not> 600 < sum_list (map seconds_of (dict_items d ''targets''))"
    using assms unfolding fuzz_manifest_def Let_def
    by (auto simp: items split: option.splits simp del: validate_targets.simps)
  then have "is_dict data" by (simp add: manifest_shape_def Let_def)
  then have "data = VDict d" using data(1) by (cases data) (auto simp: is_dict_def entries_of_def)
  then show "manifest_shape (VDict d) = Inr ()" "validate_targets tree [] (dict_items d ''targets'') = Inr ()"
    "sum_list (map seconds_of (dict_items d ''targets'')) \<le> 600"
    using data by auto
qed

text \<open>
  C39: An accepted fuzz manifest is bounded: it names one to twelve targets, all different, each of one to
  120 seconds and all of them at most ten minutes, with a bounded command that overrides no limit of
  the runner and a working directory inside the source tree.
\<close>

theorem accepted_manifest_bounded:
  assumes "fuzz_manifest tree = Inr d"
  shows "\<exists>ns. map (\<lambda>t. get_or (entries_of t) ''name'' VNone) (dict_items d ''targets'') = map VStr ns \<and>
     distinct ns \<and> 1 \<le> length ns \<and> length ns \<le> 12 \<and> list_all (target_fits tree) (dict_items d ''targets'') \<and>
     sum_list (map seconds_of (dict_items d ''targets'')) \<le> 600"
proof -
  note parts = fuzz_manifest_parts [OF assms]
  from validate_targets_fit [OF parts(2)] obtain ns where
    ns: "map (\<lambda>t. get_or (entries_of t) ''name'' VNone) (dict_items d ''targets'') = map VStr ns" "distinct ns"
      "list_all (target_fits tree) (dict_items d ''targets'')" by blast
  from ns(1) have "length ns = length (dict_items d ''targets'')" by (metis length_map)
  moreover have "list_within 1 12 (get_or d ''targets'' VNone)"
    using parts(1) by (auto simp: manifest_shape_def Let_def entries_of_def)
  then have "1 \<le> length (dict_items d ''targets'') \<and> length (dict_items d ''targets'') \<le> 12"
    by (auto simp: list_within_def dict_items_def items_of_def is_list_def get_or_def split: option.splits)
  ultimately show ?thesis using ns parts(3) by auto
qed

definition row_passed :: "pyval \<Rightarrow> pyval \<Rightarrow> bool" where
  "row_passed t c \<longleftrightarrow>
     get_or (entries_of t) ''name'' VNone = get_or (entries_of c) ''name'' VNone \<and>
     get_or (entries_of t) ''seconds'' VNone = get_or (entries_of c) ''seconds'' VNone \<and>
     get_or (entries_of t) ''exit_code'' VNone = VInt 0"

lemma inventory_rows:
  assumes "verify_target_inventory (VList ts) cs = Inr u"
  shows "list_all2 row_passed ts cs"
proof -
  have rows: "map report_row ts = map target_row cs"
    using assms by (simp add: verify_target_inventory_def items_of_def)
  then have "length ts = length cs" by (metis length_map)
  moreover have "row_passed (ts ! i) (cs ! i)" if "i < length ts" for i
  proof -
    have "report_row (ts ! i) = target_row (cs ! i)"
      using rows that calculation by (metis nth_map)
    then show ?thesis by (simp add: row_passed_def report_row_def target_row_def Let_def)
  qed
  ultimately show ?thesis by (simp add: list_all2_conv_all_nth)
qed

text \<open>
  C40: A fuzz report is accepted only as evidence for the campaign that the source's own manifest
  demands: it names this repository, commit, run and attempt and the digest of the manifest, says that
  the run passed without network, and lists exactly the manifest's targets in order, each run for its
  full time with exit code 0; from schema 2 on each with the declared engine and a positive number of
  executions.
\<close>

theorem accepted_report_covers_manifest:
  assumes "verify_report tree data repository sha run attempt = Inr u"
  shows "\<exists>config. fuzz_manifest tree = Inr config \<and>
     list_all (\<lambda>(k, v). get_or (entries_of data) k VNone = v) (report_identity tree repository sha run attempt) \<and>
     list_all2 row_passed (dict_items (entries_of data) ''targets'') (dict_items config ''targets'') \<and>
     (get_or (entries_of data) ''schema'' VNone = VInt 1 \<or>
      list_all2 exercised_as (dict_items (entries_of data) ''targets'') (dict_items config ''targets''))"
proof -
  let ?d = "entries_of data"
  obtain config schema where config: "fuzz_manifest tree = Inr config"
    and schema: "get_of data ''schema'' VNone = Inr schema"
    and identity: "\<not> list_ex (\<lambda>(k, v). get_or ?d k VNone \<noteq> v) (report_identity tree repository sha run attempt)"
    and inventory: "verify_target_inventory (get_or ?d ''targets'' (VList [])) (dict_items config ''targets'') = Inr ()"
    and evidence: "verify_preflight_evidence ?d config = Inr ()"
    using assms by (auto simp: verify_report_def Let_def)
  have "is_list (get_or ?d ''targets'' (VList []))" using inventory by (simp add: verify_target_inventory_def)
  then have "get_or ?d ''targets'' (VList []) = VList (dict_items ?d ''targets'')"
    by (cases "get_or ?d ''targets'' (VList [])") (auto simp: is_list_def dict_items_def items_of_def)
  with inventory have rows: "list_all2 row_passed (dict_items ?d ''targets'') (dict_items config ''targets'')"
    using inventory_rows by metis
  have "list_all2 exercised_as (dict_items ?d ''targets'') (dict_items config ''targets'')"
    if "get_or ?d ''schema'' VNone \<noteq> VInt 1"
    using evidence that rows
    by (auto simp: verify_preflight_evidence_def Let_def list_all2_iff list_all_iff split: if_splits)
  with config rows identity show ?thesis by (intro exI [of _ config]) (auto simp: list_ex_iff list_all_iff)
qed

text \<open>A retained corpus stays within 10000 files and 64 MiB, whatever its source holds.\<close>

lemma copy_walked_bounds:
  "copy_walked required ws r = Inr r' \<Longrightarrow> rt_files r \<le> CORPUS_FILES \<Longrightarrow> rt_bytes r \<le> CORPUS_BYTES \<Longrightarrow>
   length (rt_copied r) = rt_files r \<Longrightarrow>
   rt_files r' \<le> CORPUS_FILES \<and> rt_bytes r' \<le> CORPUS_BYTES \<and> length (rt_copied r') = rt_files r'"
  by (induction required ws r arbitrary: r' rule: copy_walked.induct) (auto split: if_splits)

lemma retained_corpus_bounded:
  "retain_corpus directory ws required = Inr r \<Longrightarrow>
   length (rt_copied r) \<le> CORPUS_FILES \<and> rt_bytes r \<le> CORPUS_BYTES"
  using copy_walked_bounds [of required ws _ r] by (fastforce simp: retain_corpus_def Let_def split: if_splits)

subsection \<open>Examples\<close>

definition example_target :: pyval where
  "example_target = VDict [(''name'', VStr ''parse''), (''engine'', VStr ''libfuzzer''),
     (''command'', VList [VStr ''./fuzz'', VStr ''-seed=1'']), (''seconds'', VInt 60)]"

definition example_tree :: fuzz_tree where
  "example_tree = \<lparr>ft_length = 300,
     ft_json = Some (VDict [(''schema'', VInt 1), (''language'', VStr ''c''), (''setup'', VList []),
       (''targets'', VList [example_target])]),
     ft_confined = (\<lambda>s. s = ''.''), ft_regular = (\<lambda>_. False), ft_sha256 = ''ab''\<rparr>"

lemma example_manifest:
  "fuzz_manifest example_tree = Inr [(''schema'', VInt 1), (''language'', VStr ''c''), (''setup'', VList []),
       (''targets'', VList [example_target])]"
proof -
  have parts: "manifest_shape (the (ft_json example_tree)) = Inr ()"
    "validate_targets example_tree [] [example_target] = Inr ()" "seconds_of example_target = 60"
    by code_simp+
  then show ?thesis
    by (simp add: fuzz_manifest_def example_tree_def get_or_def entries_of_def items_of_def has_key_def list_within_def
          is_list_def Let_def)
qed

theorem accepted_manifest_bounded_witness:
  "list_all (target_fits example_tree) [example_target] \<and> seconds_of example_target \<le> 600"
  using accepted_manifest_bounded [OF example_manifest]
  by (auto simp: dict_items_def items_of_def get_or_def)

definition example_report :: pyval where
  "example_report = VDict ((''schema'', VInt 2) # report_identity example_tree ''a/b'' ''0a'' 7 1 @
     [(''targets'', VList [VDict [(''name'', VStr ''parse''), (''seconds'', VInt 60), (''exit_code'', VInt 0),
        (''engine'', VStr ''libfuzzer''), (''executions'', VInt 9)]]),
      (''preflight'', VDict [(''commands'', VInt 0)])])"

lemma example_report_accepted: "verify_report example_tree example_report ''a/b'' ''0a'' 7 1 = Inr ()"
proof -
  have "bad (list_ex (\<lambda>(k, v). get_or (entries_of example_report) k VNone \<noteq> v)
      (report_identity example_tree ''a/b'' ''0a'' 7 1)) = Inr ()"
    "get_of example_report ''schema'' VNone = Inr (VInt 2)"
    "verify_target_inventory (get_or (entries_of example_report) ''targets'' (VList [])) [example_target] = Inr ()"
    by code_simp+
  moreover have "verify_preflight_evidence (entries_of example_report)
     [(''schema'', VInt 1), (''language'', VStr ''c''), (''setup'', VList []), (''targets'', VList [example_target])] = Inr ()"
    by code_simp
  ultimately show ?thesis
    by (simp add: verify_report_def example_manifest dict_items_def get_or_def items_of_def Let_def bad_def raise_if_def)
qed

theorem accepted_report_covers_manifest_witness:
  "\<exists>config. fuzz_manifest example_tree = Inr config \<and>
     list_all2 row_passed (dict_items (entries_of example_report) ''targets'') (dict_items config ''targets'')"
  using accepted_report_covers_manifest [OF example_report_accepted] by blast

end
