(* ===== verification/Release_Run.thy ===== *)
theory Release_Run
  imports Release_Notes Fuzz_Policy
begin

section \<open>The run that may publish\<close>

text \<open>
  Model of the checks of \<^verbatim>\<open>scripts/release_control.py\<close> that bind a publication to its source policy and
  to one run of the release workflow, and of the bounded wait for that run.  Every read goes through
  the client of \<^verbatim>\<open>Github_Client\<close>, so each look sees a fresh answer.  The checkout, the event file and
  Python's \<^verbatim>\<open>str\<close> of a value that is no string are parameters.
\<close>

subsection \<open>Values of a response\<close>

definition lower_of :: "pyval \<Rightarrow> string rel" where
  "lower_of v = (case v of VStr s \<Rightarrow> Inr (lower s) | _ \<Rightarrow> Inl (Raised AttributeError))"

definition dict_of :: "pyval \<Rightarrow> (string, pyval) dict rel" where
  "dict_of v = (case v of VDict d \<Rightarrow> Inr d | _ \<Rightarrow> Inl (Raised AttributeError))"

definition get_dict :: "gh_env \<Rightarrow> string \<Rightarrow> (string, pyval) dict gh" where
  "get_dict env path = gh_bind (get env path) (\<lambda>v. gh_lift (dict_of v))"

text \<open>\<^verbatim>\<open>d.get(k, {}).get(l)\<close>.\<close>

definition get_in :: "(string, pyval) dict \<Rightarrow> string \<Rightarrow> string \<Rightarrow> pyval \<Rightarrow> pyval rel" where
  "get_in d k l dflt = get_of (get_or d k (VDict [])) l dflt"

text \<open>A \<^verbatim>\<open>ValueError\<close> of an imported check is reported as a \<^verbatim>\<open>ReleaseError\<close>.\<close>

definition as_release :: "'a rel \<Rightarrow> 'a rel" where
  "as_release r = (case r of Inl (Raised ValueError) \<Rightarrow> Inl (ReleaseError ''Invalid release policy'') | _ \<Rightarrow> r)"

definition repository_info :: "gh_env \<Rightarrow> (string, pyval) dict gh" where
  "repository_info env =
     gh_bind (get env []) (\<lambda>info. gh_lift
       (rel_seq (rc_require (is_dict info) ''Invalid repository response'')
       (let d = entries_of info
        in bind_res (lower_of (get_or d ''full_name'' (VStr []))) (\<lambda>name.
             rel_seq (rc_require (name = lower (ge_repo env)) ''Repository identity mismatch'')
             (rel_seq (rc_require (truthy (get_or d ''default_branch'' VNone)) ''Repository has no default branch'')
               (Inr d))))))"

subsection \<open>The release policy at the source commit\<close>

definition POLICY :: string where
  "POLICY = ''.release-policy.json''"

definition require_fuzzing_policy :: "(string, pyval) dict \<Rightarrow> unit rel" where
  "require_fuzzing_policy policy =
     (if \<not> has_key policy ''fuzzing'' then Inr ()
      else bind_res (as_release (fuzz_configuration policy)) (\<lambda>_. Inr ()))"

definition check_blockers :: "(string, pyval) dict \<Rightarrow> bool \<Rightarrow> string \<Rightarrow> unit rel" where
  "check_blockers policy qualified name =
     (let blockers = get_or policy name (VList [])
      in rel_seq (rc_require (is_list blockers \<and> list_all (is_str_ok (\<lambda>s. strip s \<noteq> [])) (items_of blockers))
             ''Source policy blockers must be a list of nonempty strings'')
           (rc_require (\<not> qualified \<or> items_of blockers = []) ''Source policy has unresolved blockers''))"

definition require_release_policy :: "pyval \<Rightarrow> string \<Rightarrow> bool \<Rightarrow> unit rel" where
  "require_release_policy v repo qualified =
     (let policy = entries_of v
      in rel_seq (rc_require (is_dict v) ''Source release policy must be an object'')
         (rel_seq (rc_require (is_str_ok (\<lambda>s. lower s = lower repo) (get_or policy ''repository'' VNone))
           ''Source policy repository mismatch'')
         (rel_seq (rc_require (get_or policy ''mode'' VNone = VStr ''release'') ''Source policy mode must be release'')
         (rel_seq (require_fuzzing_policy policy)
         (rel_seq (if has_key policy ''channel_validation_workflows''
            then bind_res (as_release (channel_workflows policy)) (\<lambda>_. Inr ()) else Inr ())
         (rel_seq (check_blockers policy qualified ''release_blockers'')
           (check_blockers policy qualified ''stable_blockers'')))))))"

text \<open>Base64, and Git's identifier of a blob; UTF-8 for the release notes.\<close>

record codec =
  cd_base64 :: "string \<Rightarrow> string option"
  cd_blob_sha :: "string \<Rightarrow> string"
  cd_decode :: "string \<Rightarrow> string option"
  cd_encode :: "string \<Rightarrow> string"

definition snapshot_of :: "gh_env \<Rightarrow> codec \<Rightarrow> pyval \<Rightarrow> (string, pyval) dict rel" where
  "snapshot_of env codec response =
     (let d = entries_of response
      in rel_seq (rc_require (is_dict response \<and> get_or d ''type'' VNone = VStr ''file'' \<and>
             get_or d ''path'' VNone = VStr POLICY \<and> get_or d ''encoding'' VNone = VStr ''base64'')
           ''Source commit must contain a regular release policy file'')
         (rel_seq (rc_require (is_str_ok (\<lambda>s. length s \<le> 400000) (get_or d ''content'' VNone))
           ''Invalid or oversized source policy content'')
         (case cd_base64 codec (filter (\<lambda>c. \<not> is_space c) (text_of (get_or d ''content'' VNone))) of
            None \<Rightarrow> Inl (ReleaseError ''Invalid source policy base64 content'')
          | Some raw \<Rightarrow>
              rel_seq (rc_require (length raw \<le> 250000 \<and> py_eq (get_or d ''size'' VNone) (VInt (int (length raw))))
                ''Source policy size mismatch'')
              (rel_seq (rc_require (get_or d ''sha'' VNone = VStr (cd_blob_sha codec raw))
                ''Source policy Git blob identity mismatch'')
              (bind_res (parse_json env raw) (\<lambda>data.
                rel_seq (require_release_policy data (ge_repo env) False)
                (Inr [(''schema'', VInt 1), (''path'', VStr POLICY), (''git_blob_sha'', VStr (cd_blob_sha codec raw)),
                      (''sha256'', VStr (sha256 raw)), (''data'', data)])))))))"

definition source_policy_snapshot :: "gh_env \<Rightarrow> codec \<Rightarrow> string \<Rightarrow> (string, pyval) dict gh" where
  "source_policy_snapshot env codec sha =
     gh_seq (rc_require (fullmatch sha_pattern sha) ''Invalid source policy commit SHA'')
     (gh_bind (get env (''contents/'' @ POLICY @ ''?ref='' @ sha)) (\<lambda>response. gh_lift (snapshot_of env codec response)))"

definition snapshot_policy :: "(string, pyval) dict \<Rightarrow> (string, pyval) dict" where
  "snapshot_policy snapshot = entries_of (get_or snapshot ''data'' VNone)"

definition validate_policy_snapshot :: "pyval \<Rightarrow> string \<Rightarrow> unit rel" where
  "validate_policy_snapshot snapshot repo =
     (let d = entries_of snapshot
      in rel_seq (rc_require (is_dict snapshot \<and> get_or d ''schema'' VNone = VInt 1 \<and> get_or d ''path'' VNone = VStr POLICY)
           ''Manifest requires a versioned source policy snapshot'')
         (rel_seq (rc_require (is_str_ok (fullmatch sha_pattern) (get_or d ''git_blob_sha'' VNone) \<and>
             is_str_ok (fullmatch digest_pattern) (get_or d ''sha256'' VNone))
           ''Invalid source policy snapshot hashes'')
           (require_release_policy (get_or d ''data'' VNone) repo True)))"

text \<open>The release notes with the policy and the changelog read from GitHub.\<close>

definition notes_with :: "codec \<Rightarrow> (string, pyval) dict \<Rightarrow> pyval rel \<Rightarrow> notes_env" where
  "notes_with codec policy response =
     \<lparr>ne_policy = Inr policy, ne_response = response, ne_base64 = cd_base64 codec, ne_decode = cd_decode codec,
      ne_blob_sha = cd_blob_sha codec\<rparr>"

definition gh_release_notes :: "gh_env \<Rightarrow> codec \<Rightarrow> string \<Rightarrow> string \<Rightarrow> string \<Rightarrow> string gh" where
  "gh_release_notes env codec tag sha provenance =
     gh_bind (source_policy_snapshot env codec sha) (\<lambda>snapshot.
       let policy = snapshot_policy snapshot
       in if get_or policy ''release_notes'' VNone = VStr ''CHANGELOG.md'' \<and> fullmatch tag_pattern tag
          then (\<lambda>w. case get env (''contents/CHANGELOG.md?ref='' @ sha) w of
            (response, w') \<Rightarrow> (release_notes (notes_with codec policy response) tag provenance, w'))
          else gh_lift (release_notes (notes_with codec policy (Inl (Raised AssertionError))) tag provenance))"

subsection \<open>Ancestry and workflows\<close>

definition check_ancestry :: "gh_env \<Rightarrow> string \<Rightarrow> string \<Rightarrow> unit gh" where
  "check_ancestry env sha default_branch =
     gh_bind (get_dict env (''compare/'' @ sha @ ''...'' @ quote default_branch)) (\<lambda>comparison. gh_lift
       (rel_seq (rc_require (get_or comparison ''status'' VNone \<in> {VStr ''ahead'', VStr ''identical''})
          ''Source commit is not an ancestor of the current default branch'')
        (bind_res (get_in comparison ''merge_base_commit'' ''sha'' VNone) (\<lambda>base.
          rc_require (base = VStr sha) ''Source/default branch ancestry could not be verified''))))"

definition tree_entry :: "pyval \<Rightarrow> bool" where
  "tree_entry v \<longleftrightarrow>
     get_or (entries_of v) ''name'' VNone = VStr ''workflows'' \<or>
     get_or (entries_of v) ''path'' VNone = VStr ''.github/workflows''"

definition tree_of :: "pyval \<Rightarrow> string rel" where
  "tree_of listing =
     rel_seq (rc_require (is_list listing \<and> length (items_of listing) < 1000 \<and> list_all is_dict (items_of listing))
       ''Cannot verify the complete source .github directory'')
     (let matches = filter tree_entry (items_of listing); d = entries_of (hd matches)
      in rel_seq (rc_require (length matches = 1 \<and> get_or d ''name'' VNone = VStr ''workflows'' \<and>
             get_or d ''path'' VNone = VStr ''.github/workflows'' \<and> get_or d ''type'' VNone = VStr ''dir'' \<and>
             is_str_ok (fullmatch sha_pattern) (get_or d ''sha'' VNone))
           ''Cannot verify a regular source .github/workflows directory'')
         (Inr (text_of (get_or d ''sha'' VNone))))"

definition workflow_tree :: "gh_env \<Rightarrow> string \<Rightarrow> string gh" where
  "workflow_tree env sha =
     gh_bind (get env (''contents/.github?ref='' @ sha)) (\<lambda>listing. gh_lift (tree_of listing))"

text \<open>The commit a branch reference names.\<close>

definition branch_head :: "string \<Rightarrow> pyval \<Rightarrow> string rel" where
  "branch_head branch ref =
     (let d = entries_of ref; target = entries_of (get_or d ''object'' VNone)
      in rel_seq (rc_require (is_dict ref \<and> get_or d ''ref'' VNone = VStr (''refs/heads/'' @ branch) \<and>
             is_dict (get_or d ''object'' VNone) \<and> get_or target ''type'' VNone = VStr ''commit'' \<and>
             is_str_ok (fullmatch sha_pattern) (get_or target ''sha'' VNone))
           ''Cannot verify the default branch'')
         (Inr (text_of (get_or target ''sha'' VNone))))"

text \<open>\<^verbatim>\<open>quote\<close> of a branch, which must be text.\<close>

definition branch_of :: "(string, pyval) dict \<Rightarrow> string rel" where
  "branch_of info = (case get_or info ''default_branch'' VNone of VStr s \<Rightarrow> Inr s | _ \<Rightarrow> Inl (Raised TypeError))"

definition head_path :: "string \<Rightarrow> string" where
  "head_path branch = ''git/ref/heads/'' @ quote branch"

definition check_workflow_publication :: "gh_env \<Rightarrow> string \<Rightarrow> unit gh" where
  "check_workflow_publication env sha =
     gh_seq (rc_require (fullmatch sha_pattern sha) ''Invalid release source SHA'')
     (if ge_verified env then gh_lift (Inr ())
      else gh_bind (repository_info env) (\<lambda>info.
           gh_with (branch_of info) (\<lambda>branch.
           gh_bind (get env (head_path branch)) (\<lambda>ref.
           gh_with (branch_head branch ref) (\<lambda>head.
             if sha = head then gh_lift (Inr ())
             else
               gh_bind (workflow_tree env sha) (\<lambda>own.
               gh_bind (workflow_tree env head) (\<lambda>current.
               gh_seq (rc_require (own = current) ''Release source workflows differ from current default HEAD'')
               (gh_bind (repository_info env) (\<lambda>again.
                if get_or again ''default_branch'' VNone \<noteq> VStr branch
                then gh_lift (Inl (ReleaseError ''Default branch changed during publication preflight''))
                else gh_bind (get env (head_path branch)) (\<lambda>later.
                  gh_lift (rc_require (py_eq later ref) ''Default branch changed during publication preflight'')))))))))))"

subsection \<open>The identity of a run\<close>

definition RELEASE_WORKFLOW :: string where
  "RELEASE_WORKFLOW = ''.github/workflows/release-pipeline.yml''"

definition require_repository :: "(string, pyval) dict \<Rightarrow> string \<Rightarrow> string \<Rightarrow> unit rel" where
  "require_repository run key repo =
     bind_res (get_in run key ''full_name'' (VStr [])) (\<lambda>v.
     bind_res (lower_of v) (\<lambda>name. rc_require (name = lower repo) ''Source run belongs to another repository''))"

definition validate_run_provenance ::
  "string \<Rightarrow> (string, pyval) dict \<Rightarrow> (string, pyval) dict \<Rightarrow> string \<Rightarrow> int \<Rightarrow> unit rel" where
  "validate_run_provenance repo run info sha attempt =
     rel_seq (require_repository run ''repository'' repo)
     (rel_seq (require_repository run ''head_repository'' repo)
     (rel_seq (rc_require (get_or run ''head_sha'' VNone = VStr sha \<and> fullmatch sha_pattern sha) ''Source run SHA mismatch'')
     (rel_seq (rc_require (get_or run ''path'' VNone = VStr RELEASE_WORKFLOW) ''Source run uses an unexpected workflow path'')
     (rel_seq (rc_require (py_eq (get_or run ''head_branch'' VNone) (get_or info ''default_branch'' VNone))
       ''Source run does not target the default branch'')
     (rel_seq (rc_require (get_or run ''event'' VNone \<in> {VStr ''push'', VStr ''schedule'', VStr ''workflow_dispatch''})
       ''Untrusted source run event'')
     (rc_require (py_eq (get_or run ''run_attempt'' VNone) (VInt attempt))
       ''Source run was rerun; evidence is not from its latest attempt''))))))"

definition PENDING :: "string list" where
  "PENDING = [''queued'', ''requested'', ''pending'', ''waiting'', ''in_progress'']"

definition jobs_path :: "int \<Rightarrow> int \<Rightarrow> string" where
  "jobs_path run_id attempt =
     ''actions/runs/'' @ str_of_int run_id @ ''/attempts/'' @ str_of_int attempt @ ''/jobs''"

text \<open>What the jobs of the attempt say of the gate; \<open>False\<close> is a gate that is not there yet.\<close>

definition gate_error :: string where
  "gate_error = ''Exactly one successful, completed Release gate is required; skipped is not a pass''"

definition gate_of :: "pyval list \<Rightarrow> string \<Rightarrow> bool \<Rightarrow> bool rel" where
  "gate_of jobs sha allow_pending =
     bind_res (map_res (\<lambda>job. get_of job ''name'' VNone) jobs) (\<lambda>names.
       let gates = map (entries_of \<circ> fst) (filter (\<lambda>(_, n). n = VStr ''Release gate'') (zip jobs names))
       in if gates = [] \<and> allow_pending then Inr False
          else
            rel_seq (rc_require (length gates = 1) gate_error)
            (rel_seq (rc_require (get_or (hd gates) ''head_sha'' VNone = VStr sha) ''Release gate SHA mismatch'')
            (bind_res (if allow_pending then in_names (get_or (hd gates) ''status'' VNone) PENDING else Inr False) (\<lambda>unfinished.
              if unfinished
              then rel_seq (rc_require (get_or (hd gates) ''conclusion'' VNone = VNone) gate_error) (Inr False)
              else rel_seq (rc_require (get_or (hd gates) ''status'' VNone = VStr ''completed'' \<and>
                  get_or (hd gates) ''conclusion'' VNone = VStr ''success'') gate_error) (Inr True)))))"

definition release_gate_ready :: "gh_env \<Rightarrow> int \<Rightarrow> string \<Rightarrow> int \<Rightarrow> bool \<Rightarrow> bool gh" where
  "release_gate_ready env run_id sha attempt allow_pending =
     gh_bind (pages env (jobs_path run_id attempt) (Some ''jobs'')) (\<lambda>jobs. gh_lift (gate_of jobs sha allow_pending))"

definition run_status_ok :: "(string, pyval) dict \<Rightarrow> bool \<Rightarrow> unit rel" where
  "run_status_ok run completed =
     (if completed
      then rc_require (get_or run ''status'' VNone = VStr ''completed'' \<and> get_or run ''conclusion'' VNone = VStr ''success'')
        ''Source run has not completed successfully''
      else rc_require (get_or run ''status'' VNone = VStr ''in_progress'') ''Publication run is not in progress'')"

definition validate_run ::
  "gh_env \<Rightarrow> (string, pyval) dict \<Rightarrow> (string, pyval) dict \<Rightarrow> string \<Rightarrow> int \<Rightarrow> bool \<Rightarrow> bool \<Rightarrow> unit gh" where
  "validate_run env run info sha attempt completed gate =
     gh_seq (validate_run_provenance (ge_repo env) run info sha attempt)
     (gh_seq (run_status_ok run completed)
     (if gate
      then gh_with (positive (get_or run ''id'' VNone) ''run ID'') (\<lambda>run_id.
        gh_bind (release_gate_ready env run_id sha attempt False) (\<lambda>_. gh_lift (Inr ())))
      else gh_lift (Inr ())))"

text \<open>The jobs of the profile and of the fuzzing that the policy of the source asks for.\<close>

definition validate_validation_run ::
  "gh_env \<Rightarrow> (string, pyval) dict \<Rightarrow> (string, pyval) dict \<Rightarrow> string \<Rightarrow> unit gh" where
  "validate_validation_run env run policy channel =
     gh_with (if has_key policy ''channel_validation_workflows'' then as_release (profile policy channel) else Inr None)
       (\<lambda>wanted.
        if wanted = None \<and> \<not> has_key policy ''fuzzing'' then gh_lift (Inr ())
        else
          gh_with (positive (get_or run ''id'' VNone) ''run ID'') (\<lambda>run_id.
          gh_with (positive (get_or run ''run_attempt'' VNone) ''run attempt'') (\<lambda>attempt.
          gh_bind (pages env (jobs_path run_id attempt) (Some ''jobs'')) (\<lambda>jobs.
            gh_lift (as_release
              (bind_res (if wanted = None then Inr () else
                 bind_res (at_key run ''head_sha'') (\<lambda>sha. bind_res (map_res dict_of jobs) (\<lambda>rows.
                   check_run_jobs rows channel (text_of sha)))) (\<lambda>_.
               if has_key policy ''fuzzing''
               then bind_res (at_key run ''head_sha'') (\<lambda>sha. fuzz_run_jobs jobs channel (text_of sha))
               else Inr ())))))))"

subsection \<open>The execution environment\<close>

record run_env =
  re_checkout :: "string rel"
  re_event :: "pyval rel"
  re_str :: "pyval \<Rightarrow> string"

definition str_text :: "run_env \<Rightarrow> pyval \<Rightarrow> string" where
  "str_text re v = (case v of VStr s \<Rightarrow> s | VInt n \<Rightarrow> str_of_int n | _ \<Rightarrow> re_str re v)"

definition channel_events :: "(string, string list) dict" where
  "channel_events =
     [(''nightly'', [''schedule'', ''workflow_dispatch'']), (''beta'', [''push'', ''workflow_dispatch'']),
      (''rc'', [''workflow_dispatch'']), (''stable'', [''workflow_dispatch''])]"

definition dispatch_channel :: "run_env \<Rightarrow> (string, string) dict \<Rightarrow> string \<Rightarrow> unit rel" where
  "dispatch_channel re environ channel =
     rel_seq (rc_require (env_or environ ''GITHUB_EVENT_PATH'' \<noteq> []) ''Missing workflow dispatch event'')
     (bind_res (re_event re) (\<lambda>payload.
        if \<not> is_dict payload then Inl (ReleaseError ''Workflow dispatch input channel mismatch'')
        else bind_res (get_in (entries_of payload) ''inputs'' ''channel'' VNone) (\<lambda>c.
          rc_require (c = VStr channel) ''Workflow dispatch input channel mismatch'')))"

definition check_execution ::
  "gh_env \<Rightarrow> run_env \<Rightarrow> int \<Rightarrow> string \<Rightarrow> (string, pyval) dict \<Rightarrow> (string, pyval) dict \<Rightarrow> unit rel" where
  "check_execution env re run_id channel info run =
     (let environ = ge_environ env; branch = str_text re (get_or info ''default_branch'' VNone);
          event_name = map_of environ ''GITHUB_EVENT_NAME''
      in rel_seq (rc_require (map_of environ ''GITHUB_ACTIONS'' = Some ''true'') ''Publication must run inside GitHub Actions'')
         (rel_seq (rc_require (lower (env_or environ ''GITHUB_REPOSITORY'') = lower (ge_repo env))
           ''Execution repository mismatch'')
         (rel_seq (rc_require (map_of environ ''GITHUB_RUN_ID'' = Some (str_of_int run_id)) ''Execution run ID mismatch'')
         (rel_seq (rc_require (map_of environ ''GITHUB_RUN_ATTEMPT'' = Some (str_text re (get_or run ''run_attempt'' VNone)))
           ''Execution run attempt mismatch'')
         (rel_seq (rc_require (map_of environ ''GITHUB_REF'' = Some (''refs/heads/'' @ branch))
           ''Dispatch must target the default branch'')
         (rel_seq (rc_require (map_of environ ''GITHUB_WORKFLOW_REF'' =
             Some (str_text re (get_or info ''full_name'' VNone) @ ''/'' @ RELEASE_WORKFLOW @ ''@refs/heads/'' @ branch))
           ''Execution workflow mismatch'')
         (bind_res (re_checkout re) (\<lambda>checkout.
          rel_seq (rc_require (get_or run ''head_sha'' VNone = VStr checkout) ''Checkout does not match the source run SHA'')
          (rel_seq (rc_require (get_or run ''event'' VNone = (case event_name of None \<Rightarrow> VNone | Some e \<Rightarrow> VStr e))
            ''Execution event mismatch'')
          (case map_of channel_events channel of
             None \<Rightarrow> Inl (Raised KeyError)
           | Some events \<Rightarrow>
               rel_seq (rc_require (case event_name of None \<Rightarrow> False | Some e \<Rightarrow> e \<in> set events)
                 ''Event cannot publish channel'')
               (if event_name = Some ''workflow_dispatch'' then dispatch_channel re environ channel else Inr ())))))))))))"

subsection \<open>The wait for the executing run\<close>

definition EXECUTING_RUN_WAIT_SECONDS :: rat where
  "EXECUTING_RUN_WAIT_SECONDS = 300"

datatype look = Ready "(string, pyval) dict" | Pending

definition run_path :: "int \<Rightarrow> string" where
  "run_path run_id = ''actions/runs/'' @ str_of_int run_id"

definition run_bound ::
  "gh_env \<Rightarrow> run_env \<Rightarrow> int \<Rightarrow> string \<Rightarrow> (string, pyval) dict \<Rightarrow> string \<Rightarrow> int \<Rightarrow> (string, pyval) dict \<Rightarrow> unit rel" where
  "run_bound env re run_id channel info sha attempt run =
     rel_seq (rc_require (py_eq (get_or run ''id'' VNone) (VInt run_id)) ''Execution run identity mismatch'')
     (rel_seq (check_execution env re run_id channel info run)
     (rel_seq (validate_run_provenance (ge_repo env) run info sha attempt)
     (rc_require (get_or run ''conclusion'' VNone = VNone) ''Publication run already has a conclusion'')))"

definition gate_passed :: "gh_env \<Rightarrow> int \<Rightarrow> string \<Rightarrow> int \<Rightarrow> bool \<Rightarrow> (string, pyval) dict \<Rightarrow> bool gh" where
  "gate_passed env run_id sha attempt gate run =
     (if get_or run ''status'' VNone \<noteq> VStr ''in_progress'' then gh_lift (Inr False)
      else if \<not> gate then gh_lift (Inr True)
      else release_gate_ready env run_id sha attempt True)"

text \<open>One turn of the loop, up to its sleep.\<close>

definition look_at_run ::
  "gh_env \<Rightarrow> run_env \<Rightarrow> int \<Rightarrow> string \<Rightarrow> (string, pyval) dict \<Rightarrow> string \<Rightarrow> int \<Rightarrow> bool \<Rightarrow> rat \<Rightarrow> look gh" where
  "look_at_run env re run_id channel info sha attempt gate deadline =
     gh_bind (get_dict env (run_path run_id)) (\<lambda>run.
     gh_seq (run_bound env re run_id channel info sha attempt run)
     (gh_bind (gate_passed env run_id sha attempt gate run) (\<lambda>passed.
        if passed then
          gh_bind (read_clock env) (\<lambda>now.
            gh_seq (rc_require (now < deadline) ''Publication metadata was not ready in time'') (gh_lift (Inr (Ready run))))
        else
          gh_with (in_names (get_or run ''status'' VNone) PENDING) (\<lambda>active.
          gh_seq (rc_require active ''Publication run is not active'')
          (gh_bind (read_clock env) (\<lambda>now.
            gh_seq (rc_require (now < deadline) ''Publication run did not become ready in time'')
              (gh_lift (Inr Pending))))))))"

text \<open>The loop for at most \<open>fuel\<close> turns; \<open>None\<close> is a loop that has not ended.\<close>

fun wait_turns :: "nat \<Rightarrow> look gh \<Rightarrow> gh_world \<Rightarrow> ((string, pyval) dict rel \<times> gh_world) option" where
  "wait_turns 0 turn w = None"
| "wait_turns (Suc fuel) turn w =
     (case turn w of
        (Inl e, w') \<Rightarrow> Some (Inl e, w')
      | (Inr (Ready run), w') \<Rightarrow> Some (Inr run, w')
      | (Inr Pending, w') \<Rightarrow> wait_turns fuel turn (snd (pause w')))"

definition wait_for_executing_run ::
  "nat \<Rightarrow> gh_env \<Rightarrow> run_env \<Rightarrow> int \<Rightarrow> string \<Rightarrow> (string, pyval) dict \<Rightarrow> string \<Rightarrow> int \<Rightarrow> bool \<Rightarrow> gh_world \<Rightarrow>
   ((string, pyval) dict rel \<times> gh_world) option" where
  "wait_for_executing_run fuel env re run_id channel info sha attempt gate w =
     (let deadline = ge_clock env (gw_tick w) + EXECUTING_RUN_WAIT_SECONDS
      in wait_turns fuel (look_at_run env re run_id channel info sha attempt gate deadline) (snd (read_clock env w)))"

subsection \<open>Superseded candidates\<close>

definition runs_path :: "string \<Rightarrow> string \<Rightarrow> string" where
  "runs_path branch head =
     ''actions/workflows/release-pipeline.yml/runs?branch='' @ quote branch @ ''&event=push&head_sha='' @ head @
     ''&per_page=100''"

definition only_replacement :: "pyval \<Rightarrow> (string, pyval) dict rel" where
  "only_replacement v =
     (let d = entries_of v; runs = get_or d ''workflow_runs'' VNone
      in rel_seq (rc_require (is_dict v \<and> get_or d ''total_count'' VNone = VInt 1 \<and> is_list runs \<and>
             length (items_of runs) = 1)
           ''Default branch advanced without one proven replacement release run'')
         (rel_seq (rc_require (is_dict (hd (items_of runs))) ''Invalid replacement release run'')
           (Inr (entries_of (hd (items_of runs))))))"

definition RUN_STATES :: "string list" where
  "RUN_STATES = [''queued'', ''requested'', ''pending'', ''waiting'', ''in_progress'', ''completed'']"

definition newer_run :: "(string, pyval) dict \<Rightarrow> (string, pyval) dict \<Rightarrow> unit rel" where
  "newer_run successor run =
     (let message = ''Replacement must be a newer automatic run of the default-branch release workflow''
      in rel_seq (rc_require (get_or successor ''event'' VNone = VStr ''push'') message)
         (bind_res (positive (get_or successor ''id'' VNone) ''successor run ID'') (\<lambda>i.
          bind_res (positive (get_or run ''id'' VNone) ''source run ID'') (\<lambda>j.
          rel_seq (rc_require (j < i) message)
          (bind_res (positive (get_or successor ''run_number'' VNone) ''successor run number'') (\<lambda>m.
           bind_res (positive (get_or run ''run_number'' VNone) ''source run number'') (\<lambda>n.
           rel_seq (rc_require (n < m) message)
           (bind_res (in_names (get_or successor ''status'' VNone) RUN_STATES) (\<lambda>known. rc_require known message)))))))))"

definition ancestor_of :: "pyval \<Rightarrow> string \<Rightarrow> unit rel" where
  "ancestor_of comparison sha =
     (let d = entries_of comparison;
          message = ''Automatic release source is not a verified ancestor of current default HEAD''
      in rel_seq (rc_require (is_dict comparison \<and> get_or d ''status'' VNone = VStr ''ahead'') message)
         (bind_res (get_in d ''merge_base_commit'' ''sha'' VNone) (\<lambda>base. rc_require (base = VStr sha) message)))"

text \<open>Whether the successor is a proven, newer run of the workflow at the current head.\<close>

definition proven_successor ::
  "string \<Rightarrow> (string, pyval) dict \<Rightarrow> (string, pyval) dict \<Rightarrow> (string, pyval) dict \<Rightarrow> string \<Rightarrow> unit rel" where
  "proven_successor repo successor info run head =
     bind_res (positive (get_or successor ''run_attempt'' VNone) ''run attempt'') (\<lambda>attempt.
     rel_seq (validate_run_provenance repo successor info head attempt) (newer_run successor run))"

definition superseded_result :: "gh_env \<Rightarrow> run_env \<Rightarrow> string \<Rightarrow> string \<Rightarrow> (string, pyval) dict \<Rightarrow> (string, pyval) dict" where
  "superseded_result env re source head successor =
     (let run_id = str_text re (get_or successor ''id'' VNone)
      in [(''status'', VStr ''superseded''), (''source_sha'', VStr source), (''superseded_by'', VStr head),
          (''successor_run_id'', VStr run_id),
          (''successor_run_url'', VStr (''https://github.com/'' @ ge_repo env @ ''/actions/runs/'' @ run_id))])"

definition automatic :: "(string, pyval) dict \<Rightarrow> string \<Rightarrow> bool rel" where
  "automatic run channel =
     bind_res (at_key run ''event'') (\<lambda>ev.
     bind_res (in_names ev [''push'', ''schedule'']) (\<lambda>_.
       Inr (ev = VStr ''push'' \<and> channel = ''beta'' \<or> ev = VStr ''schedule'' \<and> channel = ''nightly'')))"

definition superseded_candidate ::
  "gh_env \<Rightarrow> run_env \<Rightarrow> (string, pyval) dict \<Rightarrow> (string, pyval) dict \<Rightarrow> string \<Rightarrow> (string, pyval) dict option gh" where
  "superseded_candidate env re info run channel =
     gh_with (automatic run channel) (\<lambda>auto.
     if \<not> auto then gh_lift (Inr None)
     else
       gh_bind (repository_info env) (\<lambda>again.
       gh_seq (rc_require (py_eq (get_or again ''default_branch'' VNone) (get_or info ''default_branch'' VNone))
         ''Default branch changed during this run'')
       (gh_with (branch_of info) (\<lambda>branch.
        gh_bind (get env (head_path branch)) (\<lambda>ref.
        gh_with (branch_head branch ref) (\<lambda>head.
        gh_with (at_key run ''head_sha'') (\<lambda>source.
          if VStr head = source then gh_lift (Inr None)
          else
            gh_bind (get env (''compare/'' @ str_text re source @ ''...'' @ head)) (\<lambda>comparison.
            gh_seq (ancestor_of comparison (str_text re source))
            (gh_bind (get env (runs_path branch head)) (\<lambda>replacement.
             gh_with (only_replacement replacement) (\<lambda>successor.
             gh_seq (proven_successor (ge_repo env) successor info run head)
             (gh_bind (get env (head_path branch)) (\<lambda>later.
              gh_seq (rc_require (py_eq later ref) ''Default branch changed while verifying replacement'')
                (gh_lift (Inr (Some (superseded_result env re (str_text re source) head successor)))))))))))))))))"

subsection \<open>Tags\<close>

definition stable_tag_ok :: "string \<Rightarrow> pyval \<Rightarrow> unit rel" where
  "stable_tag_ok tag ref =
     (let d = entries_of ref; target = entries_of (get_or d ''object'' VNone)
      in rc_require (is_dict ref \<and> get_or d ''ref'' VNone = VStr (''refs/tags/'' @ tag) \<and>
             is_dict (get_or d ''object'' VNone) \<and>
             get_or target ''type'' VNone \<in> {VStr ''commit'', VStr ''tag''} \<and>
             is_str_ok (fullmatch sha_pattern) (get_or target ''sha'' VNone))
           ''Invalid stable tag response during automatic beta preparation'')"

definition version_required :: "string \<Rightarrow> (string, pyval) dict" where
  "version_required base =
     [(''status'', VStr ''version-required''), (''channel'', VStr ''beta''), (''version'', VStr base),
      (''build'', VStr ''false''), (''plan_artifact'', VStr []),
      (''reason'', VStr (''Stable tag v'' @ base @
        '' already exists; prepare and merge the next committed base version before creating another beta.''))]"

definition closed_push_cycle :: "gh_env \<Rightarrow> string \<Rightarrow> string \<Rightarrow> (string, pyval) dict option gh" where
  "closed_push_cycle env base kind =
     (if kind \<noteq> ''push'' then gh_lift (Inr None)
      else gh_with (rc_version base) (\<lambda>v. (\<lambda>w.
        (case get env (''git/ref/tags/'' @ quote (''v'' @ v)) w of
           (Inl (GitHubError m missing), w') \<Rightarrow> (if missing then Inr None else Inl (GitHubError m missing), w')
         | (Inl e, w') \<Rightarrow> (Inl e, w')
         | (Inr ref, w') \<Rightarrow> (rel_seq (stable_tag_ok (''v'' @ v) ref) (Inr (Some (version_required base))), w')))))"

text \<open>The names of all tags and releases, read in this order.\<close>

definition name_field :: "string \<Rightarrow> pyval \<Rightarrow> string rel" where
  "name_field key v =
     bind_res (get_of v key (VStr [])) (\<lambda>n. case n of VStr s \<Rightarrow> Inr s | _ \<Rightarrow> Inl (Raised AttributeError))"

definition gh_next_sequence :: "gh_env \<Rightarrow> string \<Rightarrow> string \<Rightarrow> int gh" where
  "gh_next_sequence env base_version channel =
     gh_seq (rc_require (channel \<in> {''beta'', ''rc''}) ''Sequence only applies to beta and rc'')
     (gh_with (rc_version base_version) (\<lambda>base.
      gh_bind (pages env ''tags'' None) (\<lambda>tags.
      gh_bind (pages env ''releases'' None) (\<lambda>releases.
        gh_lift (bind_res (map_res (name_field ''name'') tags) (\<lambda>a.
          bind_res (map_res (name_field ''tag_name'') releases) (\<lambda>b.
          bind_res (sequence_numbers (''v'' @ base @ ''-'' @ channel @ ''.'') (a @ b)) (\<lambda>ns.
            Inr (max_default ns + 1)))))))))"

definition gh_ensure_absent :: "gh_env \<Rightarrow> string \<Rightarrow> unit gh" where
  "gh_ensure_absent env tag =
     gh_bind (optional env (''git/ref/tags/'' @ quote tag)) (\<lambda>ref.
     gh_seq (rc_require (ref = VNone) ''Tag already exists'')
     (gh_bind (optional env (''releases/tags/'' @ quote tag)) (\<lambda>release.
      gh_seq (rc_require (release = VNone) ''Release already exists'')
      (gh_bind (pages env ''releases'' None) (\<lambda>releases.
       gh_lift (bind_res (map_res (\<lambda>r. get_of r ''tag_name'' VNone) releases) (\<lambda>tags.
         rc_require (VStr tag \<notin> set tags) ''Draft release already exists'')))))))"

text \<open>\<open>stamp\<close> is the UTC time as fourteen digits.\<close>

definition candidate_tag ::
  "gh_env \<Rightarrow> string \<Rightarrow> string \<Rightarrow> int \<Rightarrow> int \<Rightarrow> int option \<Rightarrow> string \<Rightarrow> string gh" where
  "candidate_tag env channel base_version run_id attempt sequence stamp =
     gh_with (rc_version base_version) (\<lambda>base.
       let prefix = ''v'' @ base @ ''-'' @ channel @ ''.''
       in if channel = ''nightly''
          then gh_seq (rc_require (sequence = None) ''Nightly tags do not accept a sequence'')
            (gh_lift (Inr (prefix @ stamp @ ''.'' @ str_of_int run_id @ ''.'' @ str_of_int attempt)))
          else gh_seq (rc_require (channel \<in> {''beta'', ''rc''}) ''Invalid candidate channel'')
            (gh_bind (case sequence of
                Some n \<Rightarrow> gh_lift (positive (VInt n) ''sequence'')
              | None \<Rightarrow> gh_next_sequence env base_version channel) (\<lambda>n.
              gh_lift (Inr (prefix @ str_of_int n)))))"

subsection \<open>The checks only read\<close>

lemma reads_get_dict [reads_intros]: "reads (get_dict env path)"
  unfolding get_dict_def by (intro reads_intros)

lemma reads_repository_info [reads_intros]: "reads (repository_info env)"
  unfolding repository_info_def by (intro reads_intros)

lemma reads_snapshot [reads_intros]: "reads (source_policy_snapshot env codec sha)"
  unfolding source_policy_snapshot_def by (intro reads_intros)

lemma reads_notes [reads_intros]: "reads (gh_release_notes env codec tag sha provenance)"
proof -
  have "reads (\<lambda>w. case get env path w of (a, b) \<Rightarrow> (f a, b))" for path and f :: "pyval rel \<Rightarrow> string rel"
    by (simp add: reads_def case_prod_unfold reads_get [unfolded reads_def])
  then show ?thesis unfolding gh_release_notes_def Let_def by (intro reads_intros)
qed

lemma reads_ancestry [reads_intros]: "reads (check_ancestry env sha branch)"
  unfolding check_ancestry_def by (intro reads_intros)

lemma reads_tree [reads_intros]: "reads (workflow_tree env sha)"
  unfolding workflow_tree_def by (intro reads_intros)

lemma reads_workflows [reads_intros]: "reads (check_workflow_publication env sha)"
  unfolding check_workflow_publication_def by (intro reads_intros)

lemma reads_gate [reads_intros]: "reads (release_gate_ready env run_id sha attempt pending)"
  unfolding release_gate_ready_def by (intro reads_intros)

lemma reads_gate_passed [reads_intros]: "reads (gate_passed env run_id sha attempt gate run)"
  unfolding gate_passed_def by (intro reads_intros)

lemma reads_validate_run [reads_intros]: "reads (validate_run env run info sha attempt completed gate)"
  unfolding validate_run_def by (intro reads_intros)

lemma reads_validation_run [reads_intros]: "reads (validate_validation_run env run policy channel)"
  unfolding validate_validation_run_def by (intro reads_intros)

lemma reads_look [reads_intros]: "reads (look_at_run env re run_id channel info sha attempt gate deadline)"
  unfolding look_at_run_def by (intro reads_intros)

lemma reads_superseded [reads_intros]: "reads (superseded_candidate env re info run channel)"
  unfolding superseded_candidate_def by (intro reads_intros)

lemma reads_next_sequence [reads_intros]: "reads (gh_next_sequence env base_version channel)"
  unfolding gh_next_sequence_def by (intro reads_intros)

lemma reads_absent [reads_intros]: "reads (gh_ensure_absent env tag)"
  unfolding gh_ensure_absent_def by (intro reads_intros)

lemma reads_candidate_tag [reads_intros]:
  "reads (candidate_tag env channel base_version run_id attempt sequence stamp)"
  unfolding candidate_tag_def Let_def by (intro reads_intros)

subsection \<open>The wait ends\<close>

lemma look_pending:
  assumes "look_at_run env re run_id channel info sha attempt gate deadline w = (Inr Pending, w')"
  shows "\<exists>tick \<ge> gw_tick w. ge_clock env tick < deadline"
proof -
  obtain run v passed u active where
    run: "get_dict env (run_path run_id) w = (Inr run, v)"
    and gate: "gate_passed env run_id sha attempt gate run v = (Inr passed, u)"
    and clock: "ge_clock env (gw_tick u) < deadline"
    using assms unfolding look_at_run_def
    by (auto simp: gh_runs split: if_splits)
  have "gw_tick w \<le> gw_tick u"
    using reads_D [OF reads_get_dict run] reads_D [OF reads_gate_passed gate] by simp
  then show ?thesis using clock by blast
qed

lemma wait_turns_end:
  assumes late: "\<And>tick. N \<le> tick \<Longrightarrow> deadline \<le> ge_clock env tick"
  shows "N \<le> gw_tick w + fuel \<Longrightarrow>
    wait_turns (Suc fuel) (look_at_run env re run_id channel info sha attempt gate deadline) w \<noteq> None"
proof (induction fuel arbitrary: w)
  case 0
  let ?look = "look_at_run env re run_id channel info sha attempt gate deadline"
  obtain r w' where look: "?look w = (r, w')" by (cases "?look w")
  have "r \<noteq> Inr Pending"
  proof
    assume "r = Inr Pending"
    then obtain tick where "gw_tick w \<le> tick" "ge_clock env tick < deadline" using look_pending look by blast
    with late [of tick] 0 show False by simp
  qed
  with look show ?case by (auto split: sum.split look.split)
next
  case (Suc fuel)
  let ?look = "look_at_run env re run_id channel info sha attempt gate deadline"
  obtain r w' where look: "?look w = (r, w')" by (cases "?look w")
  have "N \<le> gw_tick (snd (pause w')) + fuel"
    using reads_D [OF reads_look look] Suc.prems by (simp add: pause_def)
  from Suc.IH [OF this] show ?case
    using look by (auto split: sum.split look.split simp del: wait_turns.simps(2) simp: wait_turns.simps(2) [of "Suc fuel"])
qed

text \<open>
  C37: The wait for the executing run always ends: once the clock has passed its deadline, five minutes
  after the first reading, the loop returns the run or raises, after no more turns than there were
  readings before.
\<close>

theorem wait_for_executing_run_ends:
  assumes "\<And>tick. N \<le> tick \<Longrightarrow> ge_clock env (gw_tick w) + 300 \<le> ge_clock env tick"
  shows "\<exists>result. wait_for_executing_run (Suc N) env re run_id channel info sha attempt gate w = Some result"
  using wait_turns_end [of N _ env "snd (read_clock env w)" N, OF assms]
  by (auto simp: wait_for_executing_run_def EXECUTING_RUN_WAIT_SECONDS_def Let_def simp del: wait_turns.simps)

subsection \<open>What the wait returns\<close>

definition is_release_run ::
  "gh_env \<Rightarrow> run_env \<Rightarrow> int \<Rightarrow> string \<Rightarrow> (string, pyval) dict \<Rightarrow> string \<Rightarrow> int \<Rightarrow> (string, pyval) dict \<Rightarrow> bool" where
  "is_release_run env re run_id channel info sha attempt run \<longleftrightarrow>
     py_eq (get_or run ''id'' VNone) (VInt run_id) \<and> get_or run ''conclusion'' VNone = VNone \<and>
     get_or run ''head_sha'' VNone = VStr sha \<and> fullmatch sha_pattern sha \<and> re_checkout re = Inr sha \<and>
     get_or run ''path'' VNone = VStr RELEASE_WORKFLOW \<and>
     py_eq (get_or run ''head_branch'' VNone) (get_or info ''default_branch'' VNone) \<and>
     py_eq (get_or run ''run_attempt'' VNone) (VInt attempt) \<and>
     map_of (ge_environ env) ''GITHUB_RUN_ID'' = Some (str_of_int run_id) \<and>
     (\<exists>event_name events. map_of (ge_environ env) ''GITHUB_EVENT_NAME'' = Some event_name \<and>
        map_of channel_events channel = Some events \<and> event_name \<in> set events \<and>
        get_or run ''event'' VNone = VStr event_name)"

lemma run_bound_release:
  assumes "run_bound env re run_id channel info sha attempt run = Inr ()"
  shows "is_release_run env re run_id channel info sha attempt run"
proof -
  have prov: "validate_run_provenance (ge_repo env) run info sha attempt = Inr ()"
    and exec: "check_execution env re run_id channel info run = Inr ()"
    and ids: "py_eq (get_or run ''id'' VNone) (VInt run_id)" "get_or run ''conclusion'' VNone = VNone"
    using assms by (simp_all add: run_bound_def)
  from prov have p: "get_or run ''head_sha'' VNone = VStr sha" "fullmatch sha_pattern sha"
    "get_or run ''path'' VNone = VStr RELEASE_WORKFLOW"
    "py_eq (get_or run ''head_branch'' VNone) (get_or info ''default_branch'' VNone)"
    "py_eq (get_or run ''run_attempt'' VNone) (VInt attempt)"
    unfolding validate_run_provenance_def rel_seq_Inr_iff rc_require_Inr_iff by blast+
  obtain checkout events event_name where e:
    "map_of (ge_environ env) ''GITHUB_RUN_ID'' = Some (str_of_int run_id)" "re_checkout re = Inr checkout"
    "get_or run ''head_sha'' VNone = VStr checkout" "map_of channel_events channel = Some events"
    "map_of (ge_environ env) ''GITHUB_EVENT_NAME'' = Some event_name" "event_name \<in> set events"
    "get_or run ''event'' VNone = VStr event_name"
    using exec unfolding check_execution_def Let_def rel_seq_Inr_iff rc_require_Inr_iff bind_res_eq_Inr_iff
    by (auto split: option.splits)
  show ?thesis using ids p e unfolding is_release_run_def by auto
qed

lemma look_ready:
  assumes "look_at_run env re run_id channel info sha attempt gate deadline w = (Inr (Ready run), w')"
  shows "is_release_run env re run_id channel info sha attempt run \<and> get_or run ''status'' VNone = VStr ''in_progress'' \<and>
    (\<exists>v u. get_dict env (run_path run_id) w = (Inr run, v) \<and>
       (\<not> gate \<or> release_gate_ready env run_id sha attempt True v = (Inr True, u)) \<and>
       ge_clock env (gw_tick w' - 1) < deadline)"
proof -
  obtain v u where
    run: "get_dict env (run_path run_id) w = (Inr run, v)"
    and bound: "run_bound env re run_id channel info sha attempt run = Inr ()"
    and gate: "gate_passed env run_id sha attempt gate run v = (Inr True, u)"
    and clock: "ge_clock env (gw_tick u) < deadline" "w' = u\<lparr>gw_tick := gw_tick u + 1\<rparr>"
    using assms unfolding look_at_run_def
    by (auto simp: gh_runs split: if_splits)
  have "get_or run ''status'' VNone = VStr ''in_progress'' \<and>
    (\<not> gate \<or> release_gate_ready env run_id sha attempt True v = (Inr True, u))"
    using gate by (auto simp: gate_passed_def gh_runs split: if_splits)
  with run clock run_bound_release [OF bound] show ?thesis by auto
qed

lemma wait_turns_result:
  "wait_turns fuel turn w = Some (Inr run, w') \<Longrightarrow> \<exists>v. turn v = (Inr (Ready run), w')"
  by (induction fuel turn w rule: wait_turns.induct) (auto split: prod.splits sum.splits look.splits)

text \<open>
  C14: Publication proceeds only with a run that GitHub reported, within five minutes, as the one in
  progress for this execution: its number, attempt, workflow, branch and commit are the expected ones,
  the commit is the one checked out, its event may publish the channel, it has no conclusion yet, and,
  where the gate counts, the read that followed showed exactly one successful release gate of that
  commit and attempt.
\<close>

theorem executing_run_is_bound:
  assumes "wait_for_executing_run fuel env re run_id channel info sha attempt gate w = Some (Inr run, w')"
  shows "is_release_run env re run_id channel info sha attempt run \<and> get_or run ''status'' VNone = VStr ''in_progress'' \<and>
    (\<exists>before v u. get_dict env (run_path run_id) before = (Inr run, v) \<and>
       (\<not> gate \<or> release_gate_ready env run_id sha attempt True v = (Inr True, u))) \<and>
    ge_clock env (gw_tick w' - 1) < ge_clock env (gw_tick w) + 300"
proof -
  from wait_turns_result [OF assms [unfolded wait_for_executing_run_def Let_def]] obtain before where
    "look_at_run env re run_id channel info sha attempt gate
       (ge_clock env (gw_tick w) + EXECUTING_RUN_WAIT_SECONDS) before = (Inr (Ready run), w')" by blast
  from look_ready [OF this] show ?thesis unfolding EXECUTING_RUN_WAIT_SECONDS_def by blast
qed

subsection \<open>An example execution\<close>

definition sample_commit :: string where
  "sample_commit = replicate 40 (CHR ''a'')"

definition sample_info :: "(string, pyval) dict" where
  "sample_info = [(''full_name'', VStr ''o/r''), (''default_branch'', VStr ''main'')]"

definition sample_run :: "(string, pyval) dict" where
  "sample_run = [(''id'', VInt 7), (''repository'', VDict [(''full_name'', VStr ''o/r'')]),
     (''head_repository'', VDict [(''full_name'', VStr ''o/r'')]), (''head_sha'', VStr sample_commit),
     (''path'', VStr RELEASE_WORKFLOW), (''head_branch'', VStr ''main''), (''event'', VStr ''push''),
     (''run_attempt'', VInt 1), (''status'', VStr ''in_progress'')]"

definition sample_jobs :: pyval where
  "sample_jobs = VList [VDict [(''jobs'', VList [VDict [(''name'', VStr ''Release gate''),
     (''head_sha'', VStr sample_commit), (''status'', VStr ''completed''), (''conclusion'', VStr ''success'')]])]]"

text \<open>GitHub answers the run to the short text and its jobs to everything else.\<close>

definition sample_gh :: gh_env where
  "sample_gh = \<lparr>ge_repo = ''o/r'', ge_verified = False,
     ge_environ = [(''GITHUB_ACTIONS'', ''true''), (''GITHUB_REPOSITORY'', ''o/r''), (''GITHUB_RUN_ID'', ''7''),
       (''GITHUB_RUN_ATTEMPT'', ''1''), (''GITHUB_REF'', ''refs/heads/main''),
       (''GITHUB_WORKFLOW_REF'', ''o/r/.github/workflows/release-pipeline.yml@refs/heads/main''),
       (''GITHUB_EVENT_NAME'', ''push'')],
     ge_limited = (\<lambda>_ _. Some \<lparr>fi_code = 0, fi_out = ''HTTP/2 200'' @ [CHR 0x0A, CHR 0x0A, CHR ''1''], fi_err = []\<rparr>),
     ge_waiting = (\<lambda>_ _. \<lparr>fi_code = 1, fi_out = [], fi_err = []\<rparr>), ge_clock = (\<lambda>tick. 100 * of_nat tick),
     ge_loads = (\<lambda>s. Some (if s = ''1'' then VDict sample_run else sample_jobs)),
     ge_raw_decode = (\<lambda>_. Some 1), ge_float = (\<lambda>_. ''0'')\<rparr>"

definition sample_re :: run_env where
  "sample_re = \<lparr>re_checkout = Inr sample_commit, re_event = Inl (Raised ValueError), re_str = (\<lambda>_. ''1'')\<rparr>"

definition sample_reply :: finished where
  "sample_reply = \<lparr>fi_code = 0, fi_out = ''HTTP/2 200'' @ [CHR 0x0A, CHR 0x0A, CHR ''1''], fi_err = []\<rparr>"

lemma sample_gh_parts [simp]:
  "ge_limited sample_gh tick call = Some sample_reply" "ge_clock sample_gh tick = 100 * of_nat tick"
  "ge_loads sample_gh ''1'' = Some (VDict sample_run)" "ge_repo sample_gh = ''o/r''"
  by (simp_all add: sample_gh_def sample_reply_def)

lemma sample_get:
  "get_dict sample_gh (run_path 7) w =
     (Inr sample_run, \<lparr>gw_tick = gw_tick w + 1,
        gw_calls = request_call sample_gh (run_path 7) ''GET'' VNone ''json'' # gw_calls w\<rparr>)"
proof -
  have allowed: "request_allowed (run_path 7) ''GET'' VNone ''json'' = Inr ()"
    and meta: "is_metadata (run_path 7) ''GET'' ''json''"
    and http: "http_response sample_gh (fi_out sample_reply) False = Inr (200, ''1'')"
    and reply: "\<not> transient sample_reply 200" "cli_response sample_reply (Some (200, ''1'')) = Inr ''1''"
    and blank: "strip_bytes ''1'' = ''1''"
    and fields: "distinct_fields (VDict sample_run)"
    by code_simp+
  then have "parse_json sample_gh ''1'' = Inr (VDict sample_run)" by (simp add: parse_json_def rc_require_def)
  moreover have "metadata_read sample_gh call False v =
      (Inr ''1'', \<lparr>gw_tick = gw_tick v + 1, gw_calls = call # gw_calls v\<rparr>)" for call v
    unfolding metadata_read_def API_READ_ATTEMPTS_def eval_nat_numeral metadata_attempts.simps(2)
    using http reply by (simp add: gh_defs run_limited_def)
  ultimately show ?thesis
    using allowed meta blank by (simp add: get_dict_def api_def request_def gh_defs dict_of_def Let_def)
qed

lemma sample_bound: "run_bound sample_gh sample_re 7 ''beta'' sample_info sample_commit 1 sample_run = Inr ()"
proof -
  have sha: "fullmatch sha_pattern sample_commit"
    unfolding sha_pattern_def fullmatch_Rep_Cls sample_commit_def by (simp add: list_all_iff class_has_def)
  have "check_execution sample_gh sample_re 7 ''beta'' sample_info sample_run = Inr ()" by code_simp
  moreover have "validate_run_provenance (ge_repo sample_gh) sample_run sample_info sample_commit 1 = Inr ()"
    using sha by (simp add: validate_run_provenance_def require_repository_def get_in_def get_of_def lower_of_def
        sample_run_def sample_info_def get_or_def rc_require_def)
  moreover have "py_eq (get_or sample_run ''id'' VNone) (VInt 7)" "get_or sample_run ''conclusion'' VNone = VNone"
    by code_simp+
  ultimately show ?thesis by (simp add: run_bound_def rc_require_def)
qed

definition sample_world :: gh_world where
  "sample_world = \<lparr>gw_tick = 0, gw_calls = []\<rparr>"

lemma sample_wait:
  "\<exists>w'. wait_for_executing_run 1 sample_gh sample_re 7 ''beta'' sample_info sample_commit 1 False sample_world =
     Some (Inr sample_run, w')"
proof -
  have "get_or sample_run ''status'' VNone = VStr ''in_progress''" by code_simp
  then show ?thesis
    by (simp add: wait_for_executing_run_def look_at_run_def sample_get sample_bound gate_passed_def gh_defs read_clock_def
          sample_world_def EXECUTING_RUN_WAIT_SECONDS_def rc_require_def Let_def)
qed

theorem executing_run_is_bound_witness:
  "is_release_run sample_gh sample_re 7 ''beta'' sample_info sample_commit 1 sample_run"
  using sample_wait executing_run_is_bound by blast

theorem wait_for_executing_run_ends_witness:
  "\<exists>result. wait_for_executing_run 4 sample_gh sample_re 7 ''beta'' sample_info sample_commit 1 True sample_world = Some result"
  using wait_for_executing_run_ends [of 3 sample_gh sample_world sample_re 7 "''beta''" sample_info sample_commit 1 True]
  by (simp add: sample_world_def del: wait_for_executing_run_def)

subsection \<open>Supersession\<close>

text \<open>
  A candidate is skipped only for a push to beta or a scheduled nightly, and only when GitHub showed the
  one later push run of the release workflow at the new head, with a greater number.
\<close>

lemma superseded_needs_newer_run:
  assumes "superseded_candidate env re info run channel w = (Inr (Some r), w')"
  shows "\<exists>successor head attempt i j.
    (get_or run ''event'' VNone = VStr ''push'' \<and> channel = ''beta'' \<or>
     get_or run ''event'' VNone = VStr ''schedule'' \<and> channel = ''nightly'') \<and>
    validate_run_provenance (ge_repo env) successor info head attempt = Inr () \<and>
    get_or successor ''event'' VNone = VStr ''push'' \<and> get_or run ''head_sha'' VNone \<noteq> VStr head \<and>
    positive (get_or successor ''id'' VNone) ''successor run ID'' = Inr i \<and>
    positive (get_or run ''id'' VNone) ''source run ID'' = Inr j \<and> j < i \<and>
    r = superseded_result env re (str_text re (get_or run ''head_sha'' VNone)) head successor"
proof -
  obtain source head successor where
    auto: "automatic run channel = Inr True" and source: "at_key run ''head_sha'' = Inr source"
    and moved: "VStr head \<noteq> source"
    and proven: "proven_successor (ge_repo env) successor info run head = Inr ()"
    and result: "r = superseded_result env re (str_text re source) head successor"
    using assms unfolding superseded_candidate_def
    by (auto simp: gh_runs split: if_splits)
  from source have source': "get_or run ''head_sha'' VNone = source"
    by (simp add: at_key_def get_or_def split: option.splits)
  from auto have "get_or run ''event'' VNone = VStr ''push'' \<and> channel = ''beta'' \<or>
     get_or run ''event'' VNone = VStr ''schedule'' \<and> channel = ''nightly''"
    by (auto simp: automatic_def at_key_def get_or_def split: option.splits)
  moreover obtain attempt i j where "validate_run_provenance (ge_repo env) successor info head attempt = Inr ()"
    "get_or successor ''event'' VNone = VStr ''push''"
    "positive (get_or successor ''id'' VNone) ''successor run ID'' = Inr i"
    "positive (get_or run ''id'' VNone) ''source run ID'' = Inr j" "j < i"
    using proven unfolding proven_successor_def newer_run_def Let_def bind_res_eq_Inr_iff rel_seq_Inr_iff rc_require_Inr_iff
    by blast
  ultimately show ?thesis using source' moved result by metis
qed

end
