(* ===== verification/Release_Publish.thy ===== *)
theory Release_Publish
  imports Release_Run
begin

section \<open>Publication\<close>

text \<open>
  Model of the publishing half of \<^verbatim>\<open>scripts/release_control.py\<close>: staging of the assets, the transaction
  that tags, drafts, uploads, reads back and publishes.  Directories are lists of entries.  The signature
  check, Base64 and Git hashes are parameters.
\<close>

subsection \<open>Staging\<close>

record source_entry =
  se_name :: string
  se_regular :: bool
  se_bytes :: string

definition MANIFEST :: string where
  "MANIFEST = ''release-manifest.json''"

text \<open>Names that pass the pattern are ASCII, where \<^verbatim>\<open>casefold\<close> is \<^verbatim>\<open>lower\<close>.\<close>

fun stage_entries :: "string list \<Rightarrow> source_entry list \<Rightarrow> (string \<times> string) list rel" where
  "stage_entries folded [] = Inr []"
| "stage_entries folded (e # es) =
     rel_seq (rc_require (se_regular e) ''Assets must be flat regular files'')
     (rel_seq (rc_require (asset_name_ok (se_name e) \<and> lower (se_name e) \<noteq> lower MANIFEST) ''Unsafe or reserved asset name'')
     (rel_seq (rc_require (lower (se_name e) \<notin> set folded) ''Asset name collision'')
     (bind_res (stage_entries (lower (se_name e) # folded) es) (\<lambda>staged. Inr ((se_name e, se_bytes e) # staged)))))"

text \<open>The list of restricted package types is empty in this repository.\<close>

definition ASSET_RESTRICTIONS :: "(string list \<times> string) list" where
  "ASSET_RESTRICTIONS = []"

definition reject_restricted_assets :: "string list \<Rightarrow> unit rel" where
  "reject_restricted_assets names =
     (if list_ex (\<lambda>name. list_ex (\<lambda>(suffixes, _). list_ex (endswith (lower name)) suffixes) ASSET_RESTRICTIONS) names
      then Inl (ReleaseError ''Restricted asset'') else Inr ())"

definition stage_assets :: "bool \<Rightarrow> source_entry list \<Rightarrow> (string \<times> string) list rel" where
  "stage_assets directory entries =
     rel_seq (rc_require directory ''Assets must be a regular directory'')
     (rel_seq (reject_restricted_assets (map se_name (sort_key se_name entries)))
     (bind_res (stage_entries [] (sort_key se_name entries)) (\<lambda>assets.
       rel_seq (rc_require (assets \<noteq> []) ''Cannot publish an empty assets directory'') (Inr assets))))"

definition stream_identity :: "string \<Rightarrow> nat \<times> string" where
  "stream_identity bytes = (length bytes, sha256 bytes)"

definition asset_row :: "string \<times> string \<Rightarrow> pyval" where
  "asset_row a =
     VDict [(''name'', VStr (fst a)), (''size'', VInt (int (length (snd a)))), (''sha256'', VStr (sha256 (snd a)))]"

text \<open>A file of the private staging directory below the directory of temporary files.\<close>

definition staged_in :: "string \<Rightarrow> string \<Rightarrow> string \<times> string \<Rightarrow> staged_file" where
  "staged_in tmp directory a =
     (let path = tmp @ ''/'' @ directory @ ''/'' @ fst a
      in \<lparr>sg_path = path, sg_name = fst a, sg_absolute = True, sg_regular = True, sg_source = path,
          sg_parent = directory, sg_in_temp = True, sg_bytes = snd a\<rparr>)"

subsection \<open>The transaction\<close>

record publisher =
  pb_codec :: codec
  pb_signatures :: "staged_file list \<Rightarrow> string \<Rightarrow> unit rel"
  pb_tmp :: string

definition verify_uploaded_asset :: "gh_env \<Rightarrow> pyval \<Rightarrow> staged_file \<Rightarrow> unit gh" where
  "verify_uploaded_asset env asset file =
     gh_with (dict_of asset) (\<lambda>d.
     gh_seq (rc_require (get_or d ''state'' VNone = VStr ''uploaded'' \<and>
         py_eq (get_or d ''size'' VNone) (VInt (int (fst (stream_identity (sg_bytes file))))))
       ''Incomplete asset upload; draft left unpublished'')
     (gh_with (positive (get_or d ''id'' VNone) ''asset ID'') (\<lambda>n.
      gh_bind (download_asset env (''releases/assets/'' @ str_of_int n)) (\<lambda>bytes.
        gh_lift (rc_require (stream_identity bytes = stream_identity (sg_bytes file))
          ''Uploaded bytes differ; draft left unpublished'')))))"

definition tag_body :: "string \<Rightarrow> string \<Rightarrow> pyval" where
  "tag_body tag sha = VDict [(''ref'', VStr (''refs/tags/'' @ tag)), (''sha'', VStr sha)]"

definition draft_body :: "string \<Rightarrow> string \<Rightarrow> bool \<Rightarrow> string \<Rightarrow> pyval" where
  "draft_body tag sha prerelease body =
     VDict [(''tag_name'', VStr tag), (''target_commitish'', VStr sha), (''name'', VStr tag), (''body'', VStr body),
            (''draft'', VBool True), (''prerelease'', VBool prerelease), (''make_latest'', VStr ''false'')]"

definition public_body :: "bool \<Rightarrow> pyval" where
  "public_body prerelease =
     VDict [(''draft'', VBool False), (''prerelease'', VBool prerelease),
            (''make_latest'', VStr (if prerelease then ''false'' else ''true''))]"

text \<open>The files of the draft by name, as \<^verbatim>\<open>expected[item["name"]]\<close>.\<close>

definition file_named :: "staged_file list \<Rightarrow> pyval \<Rightarrow> staged_file option" where
  "file_named files name = find (\<lambda>f. VStr (sg_name f) = name) files"

definition check_inventory :: "pyval list \<Rightarrow> staged_file list \<Rightarrow> (pyval \<times> staged_file) list rel" where
  "check_inventory uploaded files =
     bind_res (map_res (\<lambda>asset. get_of asset ''name'' VNone) uploaded) (\<lambda>names.
     bind_res (map_res (\<lambda>n. in_names n []) names) (\<lambda>_.
     rel_seq (rc_require (length uploaded = length files \<and> set names = (\<lambda>f. VStr (sg_name f)) ` set files)
       ''Uploaded asset inventory mismatch; draft left unpublished'')
     (map_res (\<lambda>(asset, n). case file_named files n of None \<Rightarrow> Inl (Raised KeyError) | Some f \<Rightarrow> Inr (asset, f))
       (zip uploaded names))))"

definition tag_unmoved :: "string \<Rightarrow> string \<Rightarrow> pyval \<Rightarrow> unit rel" where
  "tag_unmoved tag sha ref =
     (let d = entries_of ref; target = entries_of (get_or d ''object'' VNone)
      in rc_require (is_dict ref \<and> get_or d ''ref'' VNone = VStr (''refs/tags/'' @ tag) \<and>
             is_dict (get_or d ''object'' VNone) \<and> get_or target ''type'' VNone = VStr ''commit'' \<and>
             get_or target ''sha'' VNone = VStr sha)
           ''Tag moved before publication; draft left unpublished'')"

text \<open>What follows the creation of draft \<open>n\<close>.\<close>

definition after_draft ::
  "gh_env \<Rightarrow> string \<Rightarrow> string \<Rightarrow> staged_file list \<Rightarrow> int \<Rightarrow> int gh" where
  "after_draft env tag sha files n =
     gh_bind (gh_each (\<lambda>f. upload env tag f (VInt n)) (sort_key sg_name files)) (\<lambda>_.
     gh_bind (pages env (''releases/'' @ str_of_int n @ ''/assets'') None) (\<lambda>uploaded.
     gh_with (check_inventory uploaded files) (\<lambda>pairs.
     gh_bind (gh_each (\<lambda>(asset, f). verify_uploaded_asset env asset f) pairs) (\<lambda>_.
     gh_bind (get env (''git/ref/tags/'' @ quote tag)) (\<lambda>ref.
     gh_seq (tag_unmoved tag sha ref) (gh_lift (Inr n)))))))"

definition created_draft :: "string \<Rightarrow> pyval \<Rightarrow> int rel" where
  "created_draft tag created =
     bind_res (dict_of created) (\<lambda>release.
     rel_seq (rc_require (get_or release ''draft'' VNone = VBool True \<and> get_or release ''tag_name'' VNone = VStr tag)
       ''Unexpected draft release response'')
       (positive (get_or release ''id'' VNone) ''release ID''))"

text \<open>Everything before the release is made public; the result is the number of the draft.\<close>

definition prepare_draft ::
  "gh_env \<Rightarrow> publisher \<Rightarrow> string \<Rightarrow> string \<Rightarrow> staged_file list \<Rightarrow> bool \<Rightarrow> string \<Rightarrow> int gh" where
  "prepare_draft env pb tag sha files prerelease body =
     gh_seq (pb_signatures pb files sha)
     (gh_seq (reject_restricted_assets (map sg_name files))
     (gh_bind (gh_ensure_absent env tag) (\<lambda>_.
      gh_bind (check_workflow_publication env sha) (\<lambda>_.
      gh_bind (api env ''git/refs'' ''POST'' (tag_body tag sha)) (\<lambda>_.
      gh_bind (api env ''releases'' ''POST'' (draft_body tag sha prerelease body)) (\<lambda>created.
      gh_with (created_draft tag created) (after_draft env tag sha files)))))))"

definition make_public :: "gh_env \<Rightarrow> string \<Rightarrow> bool \<Rightarrow> int \<Rightarrow> (string, pyval) dict gh" where
  "make_public env tag prerelease n =
     gh_bind (api env (''releases/'' @ str_of_int n) ''PATCH'' (public_body prerelease)) (\<lambda>answer.
     gh_with (dict_of answer) (\<lambda>result.
     gh_seq (rc_require (get_or result ''draft'' VNone = VBool False \<and> get_or result ''tag_name'' VNone = VStr tag \<and>
         get_or result ''prerelease'' VNone = VBool prerelease)
       ''Publication response did not confirm the requested state'')
       (gh_lift (Inr result))))"

text \<open>\<open>confirm\<close> is \<^verbatim>\<open>confirm_publish\<close>, a last check of the caller.\<close>

definition publish_prepared ::
  "gh_env \<Rightarrow> publisher \<Rightarrow> string \<Rightarrow> string \<Rightarrow> staged_file list \<Rightarrow> bool \<Rightarrow> string \<Rightarrow> unit gh \<Rightarrow> (string, pyval) dict gh" where
  "publish_prepared env pb tag sha files prerelease body confirm =
     gh_bind (prepare_draft env pb tag sha files prerelease body) (\<lambda>n.
     gh_bind confirm (\<lambda>_. make_public env tag prerelease n))"

definition rc_publish ::
  "gh_env \<Rightarrow> publisher \<Rightarrow> string \<Rightarrow> string \<Rightarrow> staged_file list \<Rightarrow> bool \<Rightarrow> string \<Rightarrow> (string, pyval) dict gh" where
  "rc_publish env pb tag sha files prerelease provenance =
     gh_seq (reject_restricted_assets (map sg_name files))
     (gh_bind (gh_release_notes env (pb_codec pb) tag sha provenance) (\<lambda>body.
       publish_prepared env pb tag sha files prerelease body (gh_lift (Inr ()))))"

subsection \<open>The writes of the transaction\<close>

text \<open>Nested operations, read from the outside.\<close>

lemma gh_bind_assoc:
  "gh_bind (gh_bind m g) f = gh_bind m (\<lambda>x. gh_bind (g x) f)"
  "gh_bind (gh_seq r k) f = gh_seq r (gh_bind k f)"
  "gh_bind (gh_with v h) f = gh_with v (\<lambda>x. gh_bind (h x) f)"
  "gh_bind (gh_lift (Inr y)) f = f y"
  by (auto simp: fun_eq_iff gh_bind_def gh_seq_def gh_with_def gh_lift_def split: prod.split sum.split)

definition draft_calls :: "gh_env \<Rightarrow> string \<Rightarrow> string \<Rightarrow> bool \<Rightarrow> string \<Rightarrow> gh_call list" where
  "draft_calls env tag sha prerelease body =
     [request_call env ''git/refs'' ''POST'' (tag_body tag sha) ''json'',
      request_call env ''releases'' ''POST'' (draft_body tag sha prerelease body) ''json'']"

definition transaction ::
  "gh_env \<Rightarrow> string \<Rightarrow> string \<Rightarrow> staged_file list \<Rightarrow> bool \<Rightarrow> string \<Rightarrow> int \<Rightarrow> gh_call list" where
  "transaction env tag sha files prerelease body n =
     draft_calls env tag sha prerelease body @
     map (\<lambda>f. upload_call env f n) (sort_key sg_name files) @
     [request_call env (''releases/'' @ str_of_int n) ''PATCH'' (public_body prerelease) ''json'']"

lemma positive_int_id: "positive (VInt n) name = Inr m \<Longrightarrow> m = n"
  by (auto simp: positive_def split: if_splits)

lemma emits_upload_int: "emits (upload env tag f (VInt n)) (\<lambda>cs. cs = [upload_call env f n])"
proof (cases "positive (VInt n) ''release ID''")
  case (Inl e)
  then have "upload_allowed tag f (VInt n) = Inl e \<or> (\<exists>e'. upload_allowed tag f (VInt n) = Inl e')"
    by (auto simp: upload_allowed_def rel_seq_def rc_require_def)
  then obtain e' where "upload_allowed tag f (VInt n) = Inl e'" by blast
  then show ?thesis
    by (auto simp: emits_def upload_def gh_defs intro!: exI [of _ 0])
next
  case (Inr m)
  with positive_int_id [OF Inr] show ?thesis using emits_upload by blast
qed

lemma reads_verify [reads_intros]: "reads (verify_uploaded_asset env asset f)"
  unfolding verify_uploaded_asset_def by (intro reads_intros)

lemma reads_verify_each [reads_intros]: "reads (gh_each (\<lambda>(asset, f). verify_uploaded_asset env asset f) ps)"
  by (rule reads_each) (simp add: case_prod_unfold reads_verify)

lemma emits_public:
  "emits (make_public env tag prerelease n)
     (\<lambda>cs. cs = [request_call env (''releases/'' @ str_of_int n) ''PATCH'' (public_body prerelease) ''json''])"
  unfolding make_public_def by (rule emits_before_read [OF emits_api]) (auto intro!: reads_intros)

definition public_call :: "gh_env \<Rightarrow> bool \<Rightarrow> int \<Rightarrow> gh_call" where
  "public_call env prerelease n =
     request_call env (''releases/'' @ str_of_int n) ''PATCH'' (public_body prerelease) ''json''"

lemma emits_then_public:
  assumes "reads confirm"
  shows "emits (gh_bind (after_draft env tag sha files n) (\<lambda>m. gh_bind confirm (\<lambda>_. make_public env tag prerelease m)))
    (\<lambda>cs. cs = map (\<lambda>f. upload_call env f n) (sort_key sg_name files) @ [public_call env prerelease n])"
proof -
  let ?public = "gh_bind confirm (\<lambda>_. make_public env tag prerelease n)"
  have public: "emits ?public (\<lambda>cs. cs = [public_call env prerelease n])"
    unfolding public_call_def by (rule emits_after_read [OF assms emits_public])
  have tail: "emits
      (gh_bind (pages env (''releases/'' @ str_of_int n @ ''/assets'') None) (\<lambda>uploaded.
       gh_with (check_inventory uploaded files) (\<lambda>pairs.
       gh_bind (gh_each (\<lambda>(asset, f). verify_uploaded_asset env asset f) pairs) (\<lambda>_.
       gh_bind (get env (''git/ref/tags/'' @ quote tag)) (\<lambda>ref. gh_seq (tag_unmoved tag sha ref) ?public)))))
      (\<lambda>cs. cs = [public_call env prerelease n])"
    by (intro emits_after_read emits_with emits_seq public reads_intros)
  show ?thesis
    unfolding after_draft_def gh_bind_assoc
    by (rule emits_weaken [OF gh_emits_bind [OF emits_each [OF emits_upload_int] tail]]) auto
qed

lemma emits_publish:
  assumes "reads confirm"
  shows "emits (publish_prepared env pb tag sha files prerelease body confirm)
    (\<lambda>cs. \<exists>n. cs = transaction env tag sha files prerelease body n)"
proof -
  let ?rest = "\<lambda>cs. \<exists>n. cs = map (\<lambda>f. upload_call env f n) (sort_key sg_name files) @ [public_call env prerelease n]"
  have rest: "emits (gh_with (created_draft tag created) (\<lambda>n. gh_bind (after_draft env tag sha files n)
      (\<lambda>m. gh_bind confirm (\<lambda>_. make_public env tag prerelease m)))) ?rest" for created
    by (rule emits_with, rule emits_weaken [OF emits_then_public [OF assms]]) blast
  have draft: "emits (gh_bind (api env ''releases'' ''POST'' (draft_body tag sha prerelease body)) (\<lambda>created.
      gh_with (created_draft tag created) (\<lambda>n. gh_bind (after_draft env tag sha files n)
      (\<lambda>m. gh_bind confirm (\<lambda>_. make_public env tag prerelease m)))))
    (\<lambda>cs. \<exists>a b. cs = a @ b \<and> a = [request_call env ''releases'' ''POST'' (draft_body tag sha prerelease body) ''json''] \<and>
       ?rest b)"
    by (rule gh_emits_bind [OF emits_api rest]) simp
  have tagged: "emits (gh_bind (api env ''git/refs'' ''POST'' (tag_body tag sha)) (\<lambda>_.
      gh_bind (api env ''releases'' ''POST'' (draft_body tag sha prerelease body)) (\<lambda>created.
      gh_with (created_draft tag created) (\<lambda>n. gh_bind (after_draft env tag sha files n)
      (\<lambda>m. gh_bind confirm (\<lambda>_. make_public env tag prerelease m))))))
    (\<lambda>cs. \<exists>n. cs = transaction env tag sha files prerelease body n)"
    by (rule emits_weaken [OF gh_emits_bind [OF emits_api draft]])
      (simp, auto simp: transaction_def draft_calls_def public_call_def)
  show ?thesis
    unfolding publish_prepared_def prepare_draft_def gh_bind_assoc
    by (intro emits_seq emits_after_read reads_absent reads_workflows tagged)
qed

text \<open>
  C36: Whatever GitHub answers, publishing a release writes the steps of one transaction in their order and
  none of them twice: the tag, the draft, each staged file by name, and last the change that makes the
  draft public.  An error stops it after some of them, and it returns only after all of them.
\<close>

theorem publication_writes_in_order:
  "\<exists>n k. k \<le> length (transaction env tag sha files prerelease body n) \<and>
     writes (snd (publish_prepared env pb tag sha files prerelease body (gh_lift (Inr ())) w)) =
       rev (take k (transaction env tag sha files prerelease body n)) @ writes w \<and>
     (case fst (publish_prepared env pb tag sha files prerelease body (gh_lift (Inr ())) w) of
        Inl e \<Rightarrow> True | Inr r \<Rightarrow> k = length (transaction env tag sha files prerelease body n))"
proof -
  let ?m = "publish_prepared env pb tag sha files prerelease body (gh_lift (Inr ()))"
  obtain n k where "k \<le> length (transaction env tag sha files prerelease body n)"
    "writes (snd (?m w)) = rev (take k (transaction env tag sha files prerelease body n)) @ writes w"
    "(\<exists>y. fst (?m w) = Inr y) \<longrightarrow> k = length (transaction env tag sha files prerelease body n)"
    using emits_publish [OF reads_lift, of env pb tag sha files prerelease body "Inr ()"]
    unfolding emits_def by blast
  then show ?thesis by (intro exI [of _ n] exI [of _ k]) (auto split: sum.split)
qed

subsection \<open>Public only after reading back\<close>

text \<open>Some download gave bytes of the size and digest of the staged file.\<close>

definition read_back :: "gh_env \<Rightarrow> staged_file \<Rightarrow> bool" where
  "read_back env f \<longleftrightarrow>
     (\<exists>path v bytes v'. download_asset env path v = (Inr bytes, v') \<and>
        stream_identity bytes = stream_identity (sg_bytes f))"

lemma verified_read_back: "verify_uploaded_asset env asset f v = (Inr u, v') \<Longrightarrow> read_back env f"
  unfolding verify_uploaded_asset_def read_back_def by (auto simp: gh_runs)

lemma verified_each:
  "gh_each (\<lambda>(asset, f). verify_uploaded_asset env asset f) ps v = (Inr u, v') \<Longrightarrow>
   list_all (\<lambda>p. read_back env (snd p)) ps"
proof (induction ps arbitrary: v)
  case (Cons p ps)
  then obtain u' v'' where "verify_uploaded_asset env (fst p) (snd p) v = (Inr u', v'')"
    "gh_each (\<lambda>(asset, f). verify_uploaded_asset env asset f) ps v'' = (Inr u, v')"
    by (auto simp: gh_runs case_prod_unfold)
  with Cons.IH verified_read_back show ?case by auto
qed simp

lemma file_named_own:
  "distinct (map sg_name files) \<Longrightarrow> f \<in> set files \<Longrightarrow> file_named files (VStr (sg_name f)) = Some f"
  by (induction files) (auto simp: file_named_def)

lemma inventory_covers:
  assumes "check_inventory uploaded files = Inr rows" "distinct (map sg_name files)" "f \<in> set files"
  shows "f \<in> snd ` set rows"
proof -
  let ?match = "\<lambda>(asset, n). case file_named files n of None \<Rightarrow> Inl (Raised KeyError) | Some f \<Rightarrow> Inr (asset, f)"
  obtain names where names: "set names = (\<lambda>f. VStr (sg_name f)) ` set files"
    and same: "map_res (\<lambda>asset. get_of asset ''name'' VNone) uploaded = Inr names"
    and rows: "map_res ?match (zip uploaded names) = Inr rows"
    using assms(1) unfolding check_inventory_def by (auto simp del: map_res.simps)
  have "length uploaded = length names" using same by (simp add: map_res_Inr_iff list_all2_lengthD)
  moreover have "VStr (sg_name f) \<in> set names" using names assms(3) by blast
  ultimately obtain asset where zipped: "(asset, VStr (sg_name f)) \<in> set (zip uploaded names)"
    by (elim in_set_impl_in_set_zip2)
  have all: "list_all2 (\<lambda>x y. ?match x = Inr y) (zip uploaded names) rows" using rows by (simp add: map_res_Inr_iff)
  from zipped obtain i where "i < length (zip uploaded names)" "zip uploaded names ! i = (asset, VStr (sg_name f))"
    by (auto simp only: in_set_conv_nth)
  then have "?match (asset, VStr (sg_name f)) = Inr (rows ! i)" "rows ! i \<in> set rows"
    using list_all2_nthD [OF all] list_all2_lengthD [OF all] by fastforce+
  then have "snd (rows ! i) = f" "rows ! i \<in> set rows"
    using file_named_own [OF assms(2,3)] by (auto dest: sym)
  then show ?thesis by blast
qed

lemma after_draft_read_back:
  assumes "after_draft env tag sha files n w = (Inr m, w')" "distinct (map sg_name files)"
  shows "list_all (read_back env) files"
proof -
  obtain uploaded rows v u v' where "check_inventory uploaded files = Inr rows"
    "gh_each (\<lambda>(asset, f). verify_uploaded_asset env asset f) rows v = (Inr u, v')"
    using assms(1) unfolding after_draft_def by (auto simp: gh_runs)
  with inventory_covers [OF _ assms(2)] verified_each show ?thesis
    by (fastforce simp: list_all_iff)
qed

lemma emits_draft:
  "emits (prepare_draft env pb tag sha files prerelease body) (list_all (\<lambda>c. call_verb c = ''POST''))"
proof -
  let ?P = "list_all (\<lambda>c. call_verb c = ''POST'')"
  have uploads: "emits (gh_each (\<lambda>f. upload env tag f (VInt n)) (sort_key sg_name files)) ?P" for n
    by (rule emits_weaken [OF emits_each [OF emits_upload_int]]) (simp add: list_all_iff upload_verb)
  have after: "emits (after_draft env tag sha files n) ?P" for n
    unfolding after_draft_def by (rule emits_before_read [OF uploads]) (intro reads_intros)
  have post: "emits (api env path ''POST'' b) ?P" for path b
    by (rule emits_weaken [OF emits_api]) (simp_all add: request_verb)
  have both: "emits (gh_bind m k) ?P" if "emits m ?P" "\<And>x. emits (k x) ?P" for m :: "pyval gh" and k :: "pyval \<Rightarrow> int gh"
    by (rule emits_weaken [OF gh_emits_bind [OF that]]) auto
  show ?thesis
    unfolding prepare_draft_def
    by (intro emits_seq emits_after_read reads_absent reads_workflows both post emits_with after)
qed

text \<open>
  C13: A release is made public only after every staged file was downloaded back with its size and
  digest: whenever the writes of a publication contain the change that publishes the draft, each file
  has been read back, whatever GitHub answered and whatever the caller's last check does.
\<close>

theorem public_only_after_read_back:
  assumes "writes (snd (publish_prepared env pb tag sha files prerelease body confirm w)) = cs @ writes w"
    and "list_ex (\<lambda>c. call_verb c = ''PATCH'') cs" "distinct (map sg_name files)"
  shows "list_all (read_back env) files"
proof -
  obtain r v where draft: "prepare_draft env pb tag sha files prerelease body w = (r, v)"
    by (cases "prepare_draft env pb tag sha files prerelease body w")
  obtain ds k where ds: "list_all (\<lambda>c. call_verb c = ''POST'') ds" "writes v = rev (take k ds) @ writes w"
    using emits_draft [of env pb tag sha files prerelease body] draft unfolding emits_def by (metis snd_conv)
  show ?thesis
  proof (cases r)
    case (Inl e)
    then have "writes v = cs @ writes w"
      using assms(1) draft by (simp add: publish_prepared_def gh_bind_def)
    with ds have "cs = rev (take k ds)" by simp
    then have "list_all (\<lambda>c. call_verb c = ''POST'') cs" using ds(1) by (auto simp: list_all_iff dest: in_set_takeD)
    with assms(2) show ?thesis by (auto simp: list_all_iff list_ex_iff)
  next
    case (Inr n)
    then obtain m x y where "after_draft env tag sha files m x = (Inr n, y)"
      using draft unfolding prepare_draft_def by (auto simp: gh_runs)
    from after_draft_read_back [OF this assms(3)] show ?thesis .
  qed
qed

subsection \<open>An example publication\<close>

definition sample_file :: staged_file where
  "sample_file = staged_in ''/tmp'' ''release-candidate-x'' (''a.txt'', ''HTTP/2 200'' @ [CHR 0x0A, CHR 0x0A, CHR ''7''])"

definition numbered_reply :: "nat \<Rightarrow> finished" where
  "numbered_reply tick =
     \<lparr>fi_code = (if tick < 2 then 1 else 0),
      fi_out = ''HTTP/2 '' @ (if tick < 2 then ''404'' else if tick = 5 then ''201'' else ''200'') @
        [CHR 0x0A, CHR 0x0A] @ str_of_nat tick, fi_err = []\<rparr>"

definition sample_answer :: "string \<Rightarrow> pyval" where
  "sample_answer s =
     (if s = ''4'' then VDict [(''draft'', VBool True), (''tag_name'', VStr ''v1.0.0''), (''id'', VInt 9)]
      else if s = ''5'' then VDict [(''id'', VInt 3), (''name'', VStr ''a.txt''), (''state'', VStr ''uploaded''), (''size'', VInt 13)]
      else if s = ''8'' then VDict [(''ref'', VStr ''refs/tags/v1.0.0''),
        (''object'', VDict [(''type'', VStr ''commit''), (''sha'', VStr sample_commit)])]
      else if s = ''9'' then VDict [(''draft'', VBool False), (''tag_name'', VStr ''v1.0.0''), (''prerelease'', VBool True)]
      else if length s = 1 then VStr s
      else if CHR ''6'' \<in> set s
      then VList [VList [VDict [(''id'', VInt 3), (''name'', VStr ''a.txt''), (''state'', VStr ''uploaded''), (''size'', VInt 13)]]]
      else VList [VList []])"

definition publish_gh :: gh_env where
  "publish_gh = \<lparr>ge_repo = ''o/r'', ge_verified = True, ge_environ = [],
     ge_limited = (\<lambda>tick _. Some (numbered_reply tick)), ge_waiting = (\<lambda>tick _. numbered_reply tick),
     ge_clock = (\<lambda>_. 0), ge_loads = (\<lambda>s. Some (sample_answer s)), ge_raw_decode = (\<lambda>_. Some 1),
     ge_float = (\<lambda>_. ''0'')\<rparr>"

definition sample_publisher :: publisher where
  "sample_publisher = \<lparr>pb_codec = \<lparr>cd_base64 = Some, cd_blob_sha = (\<lambda>s. s), cd_decode = Some, cd_encode = (\<lambda>s. s)\<rparr>,
     pb_signatures = (\<lambda>_ _. Inr ()), pb_tmp = ''/tmp''\<rparr>"

definition tick_world :: "nat \<Rightarrow> gh_call list \<Rightarrow> gh_world" where
  "tick_world t cs = \<lparr>gw_tick = t, gw_calls = cs\<rparr>"

lemma step:
  assumes "fst (m w) = Inr x" "gw_tick (snd (m w)) = t"
  shows "\<exists>cs. m w = (Inr x, tick_world t cs)"
  using assms by (intro exI [of _ "gw_calls (snd (m w))"]) (simp add: tick_world_def prod_eq_iff)

lemma sample_steps:
  "\<exists>cs'. gh_ensure_absent publish_gh ''v1.0.0'' (tick_world 0 cs) = (Inr (), tick_world 3 cs')"
  "\<exists>cs'. api publish_gh ''git/refs'' ''POST'' (tag_body ''v1.0.0'' sample_commit) (tick_world 3 cs) =
     (Inr (VStr ''3''), tick_world 4 cs')"
  "\<exists>cs'. api publish_gh ''releases'' ''POST'' (draft_body ''v1.0.0'' sample_commit True ''notes'') (tick_world 4 cs) =
     (Inr (sample_answer ''4''), tick_world 5 cs')"
  "\<exists>cs'. upload publish_gh ''v1.0.0'' sample_file (VInt 9) (tick_world 5 cs) = (Inr (), tick_world 6 cs')"
  "\<exists>cs'. pages publish_gh ''releases/9/assets'' None (tick_world 6 cs) = (Inr [sample_answer ''5''], tick_world 7 cs')"
  "\<exists>cs'. download_asset publish_gh ''releases/assets/3'' (tick_world 7 cs) = (Inr (sg_bytes sample_file), tick_world 8 cs')"
  "\<exists>cs'. get publish_gh ''git/ref/tags/v1.0.0'' (tick_world 8 cs) = (Inr (sample_answer ''8''), tick_world 9 cs')"
  "\<exists>cs'. api publish_gh ''releases/9'' ''PATCH'' (public_body True) (tick_world 9 cs) = (Inr (sample_answer ''9''), tick_world 10 cs')"
  by (rule step; code_simp)+

lemma sample_values:
  "created_draft ''v1.0.0'' (sample_answer ''4'') = Inr 9" "str_of_int 9 = ''9''" "str_of_int 3 = ''3''"
  "quote ''v1.0.0'' = ''v1.0.0''" "check_inventory [sample_answer ''5''] [sample_file] = Inr [(sample_answer ''5'', sample_file)]"
  "dict_of (sample_answer ''5'') = Inr [(''id'', VInt 3), (''name'', VStr ''a.txt''), (''state'', VStr ''uploaded''), (''size'', VInt 13)]"
  "tag_unmoved ''v1.0.0'' sample_commit (sample_answer ''8'') = Inr ()"
  "dict_of (sample_answer ''9'') = Inr [(''draft'', VBool False), (''tag_name'', VStr ''v1.0.0''), (''prerelease'', VBool True)]"
  "positive (VInt 3) ''asset ID'' = Inr 3" "length (sg_bytes sample_file) = 13" "py_eq (VInt 13) (VInt 13)"
  by code_simp+

lemma sample_verified:
  "\<exists>cs'. verify_uploaded_asset publish_gh (sample_answer ''5'') sample_file (tick_world 7 cs) = (Inr (), tick_world 8 cs')"
proof -
  obtain cs' where "download_asset publish_gh ''releases/assets/3'' (tick_world 7 cs) = (Inr (sg_bytes sample_file), tick_world 8 cs')"
    using sample_steps(6) by blast
  then show ?thesis
    by (intro exI [of _ cs'])
      (simp add: verify_uploaded_asset_def sample_values gh_defs get_or_def rc_require_def stream_identity_def)
qed

lemma sample_published:
  "\<exists>r. fst (publish_prepared publish_gh sample_publisher ''v1.0.0'' sample_commit [sample_file] True ''notes''
     (gh_lift (Inr ())) (tick_world 0 [])) = Inr r"
proof -
  obtain c1 where 1: "gh_ensure_absent publish_gh ''v1.0.0'' (tick_world 0 []) = (Inr (), tick_world 3 c1)"
    using sample_steps(1) by blast
  have "fullmatch sha_pattern sample_commit"
    unfolding sha_pattern_def fullmatch_Rep_Cls sample_commit_def by (simp add: list_all_iff class_has_def)
  then have 2: "check_workflow_publication publish_gh sample_commit (tick_world 3 c1) = (Inr (), tick_world 3 c1)"
    by (simp add: check_workflow_publication_def gh_defs rc_require_def publish_gh_def)
  obtain c3 where 3: "api publish_gh ''git/refs'' ''POST'' (tag_body ''v1.0.0'' sample_commit) (tick_world 3 c1) =
     (Inr (VStr ''3''), tick_world 4 c3)" using sample_steps(2) by blast
  obtain c4 where 4: "api publish_gh ''releases'' ''POST'' (draft_body ''v1.0.0'' sample_commit True ''notes'') (tick_world 4 c3) =
     (Inr (sample_answer ''4''), tick_world 5 c4)" using sample_steps(3) by blast
  obtain c5 where 5: "upload publish_gh ''v1.0.0'' sample_file (VInt 9) (tick_world 5 c4) = (Inr (), tick_world 6 c5)"
    using sample_steps(4) by blast
  obtain c6 where 6: "pages publish_gh ''releases/9/assets'' None (tick_world 6 c5) = (Inr [sample_answer ''5''], tick_world 7 c6)"
    using sample_steps(5) by blast
  obtain c7 where 7: "verify_uploaded_asset publish_gh (sample_answer ''5'') sample_file (tick_world 7 c6) = (Inr (), tick_world 8 c7)"
    using sample_verified by blast
  obtain c8 where 8: "get publish_gh ''git/ref/tags/v1.0.0'' (tick_world 8 c7) = (Inr (sample_answer ''8''), tick_world 9 c8)"
    using sample_steps(7) by blast
  obtain c9 where 9: "api publish_gh ''releases/9'' ''PATCH'' (public_body True) (tick_world 9 c8) = (Inr (sample_answer ''9''), tick_world 10 c9)"
    using sample_steps(8) by blast
  have "after_draft publish_gh ''v1.0.0'' sample_commit [sample_file] 9 (tick_world 5 c4) = (Inr 9, tick_world 9 c8)"
    using 5 6 7 8 by (simp add: after_draft_def sample_values gh_defs)
  then have "prepare_draft publish_gh sample_publisher ''v1.0.0'' sample_commit [sample_file] True ''notes'' (tick_world 0 []) =
      (Inr 9, tick_world 9 c8)"
    using 1 2 3 4
    by (simp add: prepare_draft_def gh_defs sample_publisher_def reject_restricted_assets_def ASSET_RESTRICTIONS_def sample_values)
  then show ?thesis
    using 9 by (simp add: publish_prepared_def make_public_def gh_defs sample_values get_or_def rc_require_def)
qed

theorem public_only_after_read_back_witness: "read_back publish_gh sample_file"
proof -
  let ?m = "publish_prepared publish_gh sample_publisher ''v1.0.0'' sample_commit [sample_file] True ''notes'' (gh_lift (Inr ()))"
  let ?w = "tick_world 0 []"
  obtain n where "writes (snd (?m ?w)) =
      rev (transaction publish_gh ''v1.0.0'' sample_commit [sample_file] True ''notes'' n) @ writes ?w"
    using emits_publish [OF reads_lift, of publish_gh sample_publisher "''v1.0.0''" sample_commit "[sample_file]" True "''notes''" "Inr ()"]
      sample_published unfolding emits_def by (metis take_all_iff order_refl)
  from public_only_after_read_back [OF this] show ?thesis
    by (simp add: transaction_def draft_calls_def request_verb)
qed

end
