(* ===== verification/Ledger_Client.thy ===== *)
theory Ledger_Client
  imports Release_Run
begin

section \<open>The ledger over the GitHub client\<close>

text \<open>
  The operations of \<^verbatim>\<open>scripts/release_state.py\<close> that a publication calls, as they run over the client of
  \<open>Github_Client\<close>: each reads the ledger file, checks it by the operations of \<open>Release_Ledger\<close> and writes at
  most one new version.  They refine those operations, which \<open>Ledger_Machine\<close> proves correct under every
  interleaving.  They run over the plain client, as the promote command calls them; the
  \<^verbatim>\<open>StateGitHub\<close> client of the reservation commands, which sends the same ledger requests in one process of
  its own without retries, is not modelled.  A blob hash that is no text counts as no hash.
\<close>

subsection \<open>The ledger file\<close>

definition LEDGER_BRANCH :: string where
  "LEDGER_BRANCH = ''release-version-state''"

definition LEDGER_FILE :: string where
  "LEDGER_FILE = ''release-version-state.json''"

definition READ_PATH :: string where
  "READ_PATH = ''contents/'' @ LEDGER_FILE @ ''?ref='' @ LEDGER_BRANCH"

definition WRITE_PATH :: string where
  "WRITE_PATH = ''contents/'' @ LEDGER_FILE"

definition REF_PATH :: string where
  "REF_PATH = ''git/ref/heads/'' @ LEDGER_BRANCH"

definition ledger_bytes :: "codec \<Rightarrow> (string, pyval) dict \<Rightarrow> string rel" where
  "ledger_bytes codec content =
     bind_res (at_key content ''content'') (\<lambda>v.
       case v of
         VStr s \<Rightarrow> (case cd_base64 codec (filter (\<lambda>c. \<not> is_space c) s) of
             None \<Rightarrow> Inl (Raised ValueError) | Some raw \<Rightarrow> Inr raw)
       | _ \<Rightarrow> Inl (Raised AttributeError))"

definition ledger_file_of :: "gh_env \<Rightarrow> codec \<Rightarrow> (string, pyval) dict \<Rightarrow> ledger_file" where
  "ledger_file_of env codec content =
     \<lparr>lf_type = get_or content ''type'' VNone, lf_encoding = get_or content ''encoding'' VNone,
      lf_size = bind_res (ledger_bytes codec content) (\<lambda>raw. Inr (length raw)),
      lf_json = bind_res (ledger_bytes codec content) (parse_json env),
      lf_sha = text_of (get_or content ''sha'' (VStr []))\<rparr>"

text \<open>A view on which nothing has been read; an operation that needs a read stops with this error.\<close>

definition unread :: "'a rel" where
  "unread = Inl (Raised AssertionError)"

definition no_view :: github_view where
  "no_view = \<lparr>gv_file = unread, gv_ref = unread, gv_tags = unread, gv_releases = unread,
     gv_tag_ref = (\<lambda>_. unread), gv_release_by_tag = (\<lambda>_. unread), gv_ref_later = unread\<rparr>"

definition file_view :: "gh_env \<Rightarrow> codec \<Rightarrow> pyval \<Rightarrow> pyval \<Rightarrow> github_view rel" where
  "file_view env codec content ref =
     (if content = VNone then Inr (no_view\<lparr>gv_file := Inr None, gv_ref := Inr (ref \<noteq> VNone)\<rparr>)
      else bind_res (dict_of content) (\<lambda>d. Inr (no_view\<lparr>gv_file := Inr (Some (ledger_file_of env codec d))\<rparr>)))"

text \<open>The branch is looked up only where the file is missing.\<close>

definition read_view :: "gh_env \<Rightarrow> codec \<Rightarrow> github_view gh" where
  "read_view env codec =
     gh_bind (optional env READ_PATH) (\<lambda>content.
     gh_bind (if content = VNone then optional env REF_PATH else gh_lift (Inr VNone)) (\<lambda>ref.
       gh_lift (file_view env codec content ref)))"

subsection \<open>Published tags\<close>

text \<open>A published release without a text as its tag is none of the ledger's.\<close>

definition release_row :: "pyval \<Rightarrow> (string \<times> pyval) list rel" where
  "release_row v =
     bind_res (get_of v ''draft'' VNone) (\<lambda>draft.
       if draft \<noteq> VBool False then Inr []
       else bind_res (get_of v ''tag_name'' VNone) (\<lambda>tag.
         bind_res (in_names tag []) (\<lambda>_. Inr (case tag of VStr s \<Rightarrow> [(s, draft)] | _ \<Rightarrow> []))))"

definition gh_releases :: "gh_env \<Rightarrow> (string \<times> pyval) list gh" where
  "gh_releases env =
     gh_bind (pages env ''releases'' None) (\<lambda>rows. gh_lift (map_sum id concat (map_res release_row rows)))"

text \<open>A check on the view, which lists the releases if it gets as far as asking for them.\<close>

definition with_releases :: "gh_env \<Rightarrow> github_view \<Rightarrow> (github_view \<Rightarrow> 'a rel) \<Rightarrow> 'a gh" where
  "with_releases env view check =
     (if check view = unread
      then gh_bind (gh_releases env) (\<lambda>releases. gh_lift (check (view\<lparr>gv_releases := Inr releases\<rparr>)))
      else gh_lift (check view))"

subsection \<open>Publication\<close>

definition gh_verify_promotion_order :: "gh_env \<Rightarrow> codec \<Rightarrow> pyval \<Rightarrow> release_plan gh" where
  "gh_verify_promotion_order env codec plan =
     gh_bind (read_view env codec) (\<lambda>view.
       with_releases env view (\<lambda>gh. verify_promotion_order (ge_float env) gh plan))"

definition gh_verify_reservation :: "gh_env \<Rightarrow> codec \<Rightarrow> pyval \<Rightarrow> int \<Rightarrow> pyval \<Rightarrow> release_plan gh" where
  "gh_verify_reservation env codec plan run_id parent =
     gh_bind (read_view env codec) (\<lambda>view.
       with_releases env view (\<lambda>gh. verify_reservation (ge_float env) gh plan run_id parent))"

definition ledger_text :: "gh_env \<Rightarrow> ledger \<Rightarrow> string" where
  "ledger_text env state = canonical (ge_float env) (ledger_value state)"

definition write_body :: "gh_env \<Rightarrow> codec \<Rightarrow> ledger_write \<Rightarrow> pyval" where
  "write_body env codec lw =
     VDict ([(''branch'', VStr LEDGER_BRANCH), (''message'', VStr ''Reserve release version plan''),
             (''content'', VStr (cd_encode codec (ledger_text env (lw_state lw))))] @
            (case lw_previous lw of None \<Rightarrow> [] | Some s \<Rightarrow> [(''sha'', VStr s)]))"

definition gh_begin_publication ::
  "gh_env \<Rightarrow> codec \<Rightarrow> pyval \<Rightarrow> int \<Rightarrow> pyval \<Rightarrow> bool \<Rightarrow> string gh" where
  "gh_begin_publication env codec plan run_id parent promotion =
     gh_with (positive (VInt run_id) ''Invalid run ID'') (\<lambda>_.
     gh_bind (read_view env codec) (\<lambda>view.
     gh_bind (with_releases env view (\<lambda>gh. begin_publication (ge_float env) gh plan run_id parent promotion))
       (\<lambda>(_, lw).
     gh_bind (api env WRITE_PATH ''PUT'' (write_body env codec lw)) (\<lambda>_.
       gh_lift (Inr (ledger_text env (lw_state lw)))))))"

lemma reads_view [reads_intros]: "reads (read_view env codec)"
  unfolding read_view_def by (intro reads_intros)

lemma reads_with_releases [reads_intros]: "reads (with_releases env view check)"
  unfolding with_releases_def gh_releases_def by (intro reads_intros)

lemma reads_promotion_order [reads_intros]: "reads (gh_verify_promotion_order env codec plan)"
  unfolding gh_verify_promotion_order_def by (intro reads_intros)

lemma reads_reservation [reads_intros]: "reads (gh_verify_reservation env codec plan run_id parent)"
  unfolding gh_verify_reservation_def by (intro reads_intros)

subsection \<open>What a publication sends\<close>

text \<open>What the operation saw: the ledger file as read first, and the releases if it got to them.\<close>

definition seen_by :: "gh_env \<Rightarrow> codec \<Rightarrow> gh_world \<Rightarrow> github_view \<Rightarrow> bool" where
  "seen_by env codec w view \<longleftrightarrow>
     (\<exists>first v. read_view env codec w = (Inr first, v) \<and>
        (view = first \<or> (\<exists>releases u. gh_releases env v = (Inr releases, u) \<and> view = first\<lparr>gv_releases := Inr releases\<rparr>)))"

lemma with_releases_runs:
  "with_releases env first check v = (Inr x, u) \<Longrightarrow>
     \<exists>view. check view = Inr x \<and>
       (view = first \<or> (\<exists>releases u'. gh_releases env v = (Inr releases, u') \<and> view = first\<lparr>gv_releases := Inr releases\<rparr>))"
  unfolding with_releases_def by (auto simp: gh_runs split: if_splits)

definition ledger_put :: "gh_env \<Rightarrow> codec \<Rightarrow> ledger_write \<Rightarrow> gh_call" where
  "ledger_put env codec lw = request_call env WRITE_PATH ''PUT'' (write_body env codec lw) ''json''"

lemma put_writes:
  assumes "gh_bind (api env WRITE_PATH ''PUT'' (write_body env codec lw)) (\<lambda>_. gh_lift (Inr bytes)) u = (r, w')"
  shows "isl r \<and> writes w' = writes u \<or>
    writes w' = ledger_put env codec lw # writes u \<and> (case r of Inl e \<Rightarrow> True | Inr sent \<Rightarrow> sent = bytes)"
proof -
  obtain q t where put: "api env WRITE_PATH ''PUT'' (write_body env codec lw) u = (q, t)" by fastforce
  with api_write [of "''PUT''" env WRITE_PATH "write_body env codec lw" u]
    api_write_allowed [of env WRITE_PATH "''PUT''" "write_body env codec lw" u] assms
  show ?thesis by (cases q) (auto simp: ledger_put_def gh_bind_def gh_lift_def split: if_splits)
qed

lemma emits_begin:
  "emits (gh_begin_publication env codec plan run_id parent promotion) (\<lambda>cs. \<exists>lw. cs = [ledger_put env codec lw])"
proof -
  have put: "emits (gh_bind (api env WRITE_PATH ''PUT'' (write_body env codec lw))
      (\<lambda>_. gh_lift (Inr (ledger_text env (lw_state lw))))) (\<lambda>cs. \<exists>lw. cs = [ledger_put env codec lw])" for lw
    by (rule emits_before_read [OF emits_weaken [OF emits_api]]) (auto simp: ledger_put_def intro: reads_intros)
  show ?thesis
    unfolding gh_begin_publication_def case_prod_unfold
    by (intro emits_with emits_after_read reads_intros put)
qed

text \<open>
  C15: Consuming a build number over GitHub is the ledger's own operation on what was read: whatever
  GitHub answers, at most one process writes, it writes the ledger file on its branch, and the state it sends
  and the blob hash it names are those that the operation computes from the file read first and the
  releases listed after it.  A success means that this write was sent and returns the bytes sent.
\<close>

theorem publication_sends_ledger_write:
  "case gh_begin_publication env codec plan run_id parent promotion w of (result, w') \<Rightarrow>
     isl result \<and> writes w' = writes w \<or>
     (\<exists>view p lw. seen_by env codec w view \<and>
        begin_publication (ge_float env) view plan run_id parent promotion = Inr (p, lw) \<and>
        writes w' = ledger_put env codec lw # writes w \<and>
        (case result of Inl e \<Rightarrow> True | Inr bytes \<Rightarrow> bytes = ledger_text env (lw_state lw)))"
proof -
  let ?check = "\<lambda>gh. begin_publication (ge_float env) gh plan run_id parent promotion"
  obtain r w' where run: "gh_begin_publication env codec plan run_id parent promotion w = (r, w')" by fastforce
  let ?P = "isl r \<and> writes w' = writes w \<or>
     (\<exists>view p lw. seen_by env codec w view \<and> ?check view = Inr (p, lw) \<and> writes w' = ledger_put env codec lw # writes w \<and>
        (case r of Inl e \<Rightarrow> True | Inr bytes \<Rightarrow> bytes = ledger_text env (lw_state lw)))"
  have sent: ?P if "with_releases env view ?check v = (Inr (p, lw), u)" "read_view env codec w = (Inr view, v)"
      "writes u = writes w"
      "gh_bind (api env WRITE_PATH ''PUT'' (write_body env codec lw)) (\<lambda>_. gh_lift (Inr (ledger_text env (lw_state lw)))) u = (r, w')"
    for view v p lw u
  proof -
    from with_releases_runs [OF that(1)] that(2) obtain seen where "?check seen = Inr (p, lw)" "seen_by env codec w seen"
      unfolding seen_by_def by blast
    moreover have "isl r \<and> writes w' = writes w \<or>
        writes w' = ledger_put env codec lw # writes w \<and> (case r of Inl e \<Rightarrow> True | Inr bytes \<Rightarrow> bytes = ledger_text env (lw_state lw))"
      using put_writes [OF that(4)] that(3) by simp
    ultimately show ?thesis by blast
  qed
  from gh_with_then [OF run [unfolded gh_begin_publication_def]] have ?P
  proof (elim disjE exE conjE)
    fix n assume "gh_bind (read_view env codec) (\<lambda>view. gh_bind (with_releases env view ?check) (\<lambda>(_, lw).
      gh_bind (api env WRITE_PATH ''PUT'' (write_body env codec lw)) (\<lambda>_. gh_lift (Inr (ledger_text env (lw_state lw)))))) w = (r, w')"
    from gh_reads_then [OF reads_view this] show ?P
    proof (elim disjE exE conjE)
      fix view v assume view: "read_view env codec w = (Inr view, v)" "writes v = writes w"
        and rest: "gh_bind (with_releases env view ?check) (\<lambda>(_, lw).
          gh_bind (api env WRITE_PATH ''PUT'' (write_body env codec lw)) (\<lambda>_. gh_lift (Inr (ledger_text env (lw_state lw))))) v = (r, w')"
      from gh_reads_then [OF reads_with_releases rest] view sent show ?P by fastforce
    qed simp
  qed simp
  with run show ?thesis by simp
qed

end
