(* ===== verification/Release_Commands.thy ===== *)
theory Release_Commands
  imports Release_Publish Ledger_Client
begin

section \<open>Manifests and published candidates\<close>

text \<open>
  Model of the manifest checks of \<^verbatim>\<open>scripts/release_control.py\<close>, of the snapshot of a published candidate with
  its identity, of the evidence archive and of the reviewers of the release environment.  The ZIP reader
  is a parameter.
\<close>

subsection \<open>The manifest\<close>

fun validate_manifest_assets :: "string list \<Rightarrow> pyval list \<Rightarrow> unit rel" where
  "validate_manifest_assets folded [] = Inr ()"
| "validate_manifest_assets folded (asset # assets) =
     (let d = entries_of asset; name = get_or d ''name'' VNone
      in rel_seq (rc_require (is_dict asset) ''Invalid manifest asset'')
         (rel_seq (rc_require (is_str_ok (\<lambda>s. asset_name_ok s \<and> lower s \<noteq> lower MANIFEST) name) ''Unsafe manifest asset name'')
         (rel_seq (rc_require (lower (text_of name) \<notin> set folded) ''Duplicate manifest asset name'')
         (rel_seq (rc_require (int_field_ok (\<lambda>n. 0 \<le> n) (get_or d ''size'' VNone)) ''Invalid manifest asset size'')
         (rel_seq (rc_require (is_str_ok (fullmatch digest_pattern) (get_or d ''sha256'' VNone)) ''Invalid asset checksum'')
           (validate_manifest_assets (lower (text_of name) # folded) assets))))))"

definition manifest_assets_ok :: "(string, pyval) dict \<Rightarrow> unit rel" where
  "manifest_assets_ok manifest =
     (let assets = get_or manifest ''assets'' VNone
      in rel_seq (rc_require (is_list assets \<and> items_of assets \<noteq> []) ''Manifest contains no assets'')
           (validate_manifest_assets [] (items_of assets)))"

definition manifest_policy :: "(string, pyval) dict \<Rightarrow> pyval" where
  "manifest_policy manifest = get_or (entries_of (get_or manifest ''source_policy'' VNone)) ''data'' VNone"

definition validate_manifest_plan ::
  "(pyfloat \<Rightarrow> string) \<Rightarrow> (string, pyval) dict \<Rightarrow> string \<Rightarrow> unit rel" where
  "validate_manifest_plan fr manifest base_version =
     (let plan = get_or manifest ''version_plan'' VNone
      in bind_res (validate_plan fr plan (Some (manifest_policy manifest))
            (Some (text_of (get_or manifest ''source_sha'' VNone)))) (\<lambda>p.
         bind_res (if VStr (rp_tag p) = get_or manifest ''tag'' VNone \<and> VStr (rp_channel p) = get_or manifest ''channel'' VNone \<and>
             rp_base_version p = base_version then map_sum id Some (plan_digest fr plan) else Inr None) (\<lambda>digest.
           rc_require (digest \<noteq> None \<and> get_or manifest ''plan_sha256'' VNone = VStr (the digest))
             ''Manifest differs from the frozen version plan'')))"

definition same_json :: "(pyfloat \<Rightarrow> string) \<Rightarrow> pyval \<Rightarrow> pyval \<Rightarrow> bool" where
  "same_json fr v u \<longleftrightarrow> canonical fr v = canonical fr u"

text \<open>The assets by name, of which the last of a name counts.\<close>

definition assets_by_name :: "(string, pyval) dict \<Rightarrow> (pyval \<times> pyval) list rel" where
  "assets_by_name manifest =
     bind_res (bind_res (at_key manifest ''assets'') iterate) (\<lambda>assets.
     bind_res (map_res (\<lambda>a. subscript a ''name'') assets) (\<lambda>names.
     bind_res (map_res (\<lambda>n. in_names n []) names) (\<lambda>_. Inr (rev (zip names assets)))))"

definition FUZZ_RECEIPT :: string where
  "FUZZ_RECEIPT = ''release-inputs-fuzz.json''"

definition validate_fuzz_manifest ::
  "(pyfloat \<Rightarrow> string) \<Rightarrow> (string, pyval) dict \<Rightarrow> (string, pyval) dict \<Rightarrow> unit rel" where
  "validate_fuzz_manifest fr manifest policy =
     (if \<not> has_key policy ''fuzzing'' then Inr ()
      else
        bind_res (at_key manifest ''channel'') (\<lambda>channel.
        bind_res (fuzz_profile policy (text_of channel)) (\<lambda>wanted.
        rel_seq (rc_require (same_json fr (get_or manifest ''fuzzing_profile'' VNone) wanted)
          ''Manifest fuzzing profile differs from its source policy/channel'')
        (if channel \<noteq> VStr ''rc'' then Inr ()
         else
           bind_res (assets_by_name manifest) (\<lambda>assets.
             case (map_of assets (VStr ''fuzz-report.json''), map_of assets (VStr FUZZ_RECEIPT)) of
               (Some _, Some receipt) \<Rightarrow>
                 if \<not> truthy receipt then Inl (ReleaseError ''RC fuzz validation evidence is absent from the immutable asset inventory'')
                 else bind_res (get_of receipt ''sha256'' VNone) (\<lambda>sha.
                   rc_require (py_eq (get_or manifest ''validation_receipts'' VNone)
                       (VList [VDict [(''name'', VStr FUZZ_RECEIPT), (''sha256'', sha)]]))
                     ''RC fuzz validation evidence is absent from the immutable asset inventory'')
             | _ \<Rightarrow> Inl (ReleaseError ''RC fuzz validation evidence is absent from the immutable asset inventory''))))))"

definition validation_profile :: "(string, pyval) dict \<Rightarrow> string \<Rightarrow> pyval rel" where
  "validation_profile policy channel =
     (if \<not> has_key policy ''channel_validation_workflows'' then Inr VNone
      else bind_res (as_release (profile policy channel)) (\<lambda>p. Inr (case p of None \<Rightarrow> VNone | Some v \<Rightarrow> v)))"

definition validate_validation_manifest :: "(pyfloat \<Rightarrow> string) \<Rightarrow> (string, pyval) dict \<Rightarrow> unit rel" where
  "validate_validation_manifest fr manifest =
     (let policy = entries_of (manifest_policy manifest)
      in bind_res (at_key manifest ''channel'') (\<lambda>channel.
         bind_res (validation_profile policy (text_of channel)) (\<lambda>wanted.
         rel_seq (rc_require (same_json fr (get_or manifest ''validation_profile'' VNone) wanted)
           ''Manifest validation profile differs from its source policy/channel'')
           (validate_fuzz_manifest fr manifest policy))))"

definition rc_tag_pattern :: "string \<Rightarrow> re" where
  "rc_tag_pattern base = Seq (Lit (''v'' @ base @ ''-rc.'')) positive_pattern"

text \<open>The accepted candidate a final build names as its parent.\<close>

definition final_parent_ok :: "(string, pyval) dict \<Rightarrow> string \<Rightarrow> unit rel" where
  "final_parent_ok manifest base =
     (let versioning = get_or (entries_of (manifest_policy manifest)) ''versioning'' VNone;
          parent = get_or manifest ''derived_from_rc'' VNone; d = entries_of parent
      in rel_seq (rc_require (truthy versioning \<and>
             get_or (entries_of versioning) ''promotion'' VNone = VStr ''final-build'') ''Final package policy is missing'')
         (rel_seq (rc_require (is_dict parent \<and> set (dict_keys d) = {''tag'', ''manifest_sha256'', ''source_sha'', ''run_id''})
           ''Final manifest needs accepted RC provenance'')
         (rel_seq (rc_require (is_str_ok (fullmatch (rc_tag_pattern base)) (get_or d ''tag'' VNone) \<and>
             get_or d ''source_sha'' VNone = get_or manifest ''source_sha'' VNone \<and>
             is_str_ok (fullmatch digest_pattern) (get_or d ''manifest_sha256'' VNone)) ''Invalid final RC provenance'')
         (bind_res (positive (get_or d ''run_id'' VNone) ''parent RC run ID'') (\<lambda>n.
           rc_require (\<not> py_eq (VInt n) (get_or manifest ''run_id'' VNone)) ''Final build must use a new run'')))))"

definition check_manifest ::
  "(pyfloat \<Rightarrow> string) \<Rightarrow> pyval \<Rightarrow> string \<Rightarrow> string \<Rightarrow> bool \<Rightarrow> (string, pyval) dict rel" where
  "check_manifest fr v repo rc_tag allow_final =
     (let manifest = entries_of v; base = text_of (get_or manifest ''version'' VNone);
          final = (allow_final \<and> get_or manifest ''channel'' VNone = VStr ''stable'')
      in rel_seq (rc_require (is_dict v \<and> get_or manifest ''schema'' VNone = VInt 1) ''Unsupported manifest schema'')
         (rel_seq (rc_require (is_str_ok (\<lambda>s. lower s = lower repo) (get_or manifest ''repository'' VNone))
           ''Manifest repository mismatch'')
         (rel_seq (rc_require (is_str_ok (\<lambda>_. True) (get_or manifest ''version'' VNone)) ''Missing manifest version'')
         (bind_res (rc_version base) (\<lambda>_.
         rel_seq
           (if final
            then rc_require (get_or manifest ''tag'' VNone = VStr rc_tag \<and> rc_tag = ''v'' @ base) ''Final tag/version mismatch''
            else rel_seq (rc_require (get_or manifest ''channel'' VNone = VStr ''rc'') ''Only release candidates can be promoted'')
              (rc_require (get_or manifest ''tag'' VNone = VStr rc_tag \<and> fullmatch (rc_tag_pattern base) rc_tag)
                ''Manifest RC tag/version mismatch''))
         (rel_seq (rc_require (is_str_ok (fullmatch sha_pattern) (get_or manifest ''source_sha'' VNone))
           ''Invalid manifest source SHA'')
         (rel_seq (rc_require (get_or manifest ''workflow_path'' VNone = VStr RELEASE_WORKFLOW) ''Manifest workflow path mismatch'')
         (bind_res (positive (get_or manifest ''run_id'' VNone) ''manifest run ID'') (\<lambda>_.
         bind_res (positive (get_or manifest ''run_attempt'' VNone) ''manifest run attempt'') (\<lambda>_.
         rel_seq (validate_policy_snapshot (get_or manifest ''source_policy'' VNone) repo)
         (rel_seq (validate_validation_manifest fr manifest)
         (rel_seq (if truthy (get_or (entries_of (manifest_policy manifest)) ''versioning'' VNone)
            then validate_manifest_plan fr manifest base else Inr ())
         (rel_seq (if final then final_parent_ok manifest base else Inr ())
         (rel_seq (manifest_assets_ok manifest) (Inr manifest)))))))))))))))"

definition validate_manifest :: "gh_env \<Rightarrow> string \<Rightarrow> string \<Rightarrow> bool \<Rightarrow> (string, pyval) dict rel" where
  "validate_manifest env raw rc_tag allow_final =
     rel_seq (rc_require (length raw \<le> 2000000) ''Manifest is unreasonably large'')
     (bind_res (parse_json env raw) (\<lambda>v. check_manifest (ge_float env) v (ge_repo env) rc_tag allow_final))"

subsection \<open>The published candidate\<close>

record snapshot =
  sn_ref :: "(string, pyval) dict"
  sn_release :: "(string, pyval) dict"
  sn_assets :: "(string, pyval) dict list"

definition snapshot_assets :: "pyval list \<Rightarrow> (string, pyval) dict list rel" where
  "snapshot_assets assets =
     bind_res (map_res dict_of assets) (\<lambda>rows.
       let names = map (\<lambda>d. get_or d ''name'' VNone) rows
       in rel_seq (rc_require (list_all (\<lambda>d. get_or d ''state'' VNone = VStr ''uploaded'') rows) ''Candidate has incomplete uploads'')
          (rel_seq (rc_require (list_all (is_str_ok asset_name_ok) names) ''Unsafe release asset name'')
          (rel_seq (rc_require (distinct (map (\<lambda>n. lower (text_of n)) names)) ''Duplicate release assets'')
            (Inr rows))))"

definition release_snapshot :: "gh_env \<Rightarrow> string \<Rightarrow> snapshot gh" where
  "release_snapshot env tag =
     gh_bind (get_dict env (''git/ref/tags/'' @ quote tag)) (\<lambda>ref.
     gh_with (get_in ref ''object'' ''type'' VNone) (\<lambda>kind.
     gh_seq (rc_require (get_or ref ''ref'' VNone = VStr (''refs/tags/'' @ tag) \<and> kind = VStr ''commit'')
       ''Candidate must have a lightweight commit tag'')
     (gh_bind (get_dict env (''releases/tags/'' @ quote tag)) (\<lambda>release.
      gh_seq (rc_require (get_or release ''tag_name'' VNone = VStr tag \<and> get_or release ''draft'' VNone = VBool False \<and>
          get_or release ''prerelease'' VNone = VBool True) ''Candidate is not a published prerelease'')
      (gh_with (positive (get_or release ''id'' VNone) ''release ID'') (\<lambda>n.
       gh_bind (pages env (''releases/'' @ str_of_int n @ ''/assets'') None) (\<lambda>assets.
       gh_with (snapshot_assets assets) (\<lambda>rows.
         gh_lift (Inr \<lparr>sn_ref = ref, sn_release = release, sn_assets = rows\<rparr>)))))))))"

definition IDENTITY_FIELDS :: "string list" where
  "IDENTITY_FIELDS = [''id'', ''tag_name'', ''target_commitish'', ''draft'', ''prerelease'', ''updated_at'']"

text \<open>GitHub's asset identifiers are integers.\<close>

definition asset_id :: "(string, pyval) dict \<Rightarrow> int rel" where
  "asset_id d = bind_res (at_key d ''id'') (\<lambda>v. case v of VInt n \<Rightarrow> Inr n | _ \<Rightarrow> Inl (Raised TypeError))"

definition snapshot_identity :: "(pyfloat \<Rightarrow> string) \<Rightarrow> snapshot \<Rightarrow> string rel" where
  "snapshot_identity fr s =
     (let kept = map (filter (\<lambda>(k, _). k \<noteq> ''download_count'')) (sn_assets s)
      in bind_res (map_res asset_id kept) (\<lambda>ids.
         Inr (canonical fr (VDict
           [(''ref'', VDict (sn_ref s)),
            (''release'', VDict (map (\<lambda>k. (k, get_or (sn_release s) k VNone)) IDENTITY_FIELDS)),
            (''assets'', VList (map (VDict \<circ> snd) (sort_key fst (zip ids kept))))]))))"

text \<open>\<open>unzip\<close> lists the members that are no directories with their sizes and contents.\<close>

definition evidence_matches :: "(string \<Rightarrow> (string \<times> nat \<times> string) list option) \<Rightarrow> string \<Rightarrow> string \<Rightarrow> unit rel" where
  "evidence_matches unzip archive raw =
     (case unzip archive of
        None \<Rightarrow> Inl (ReleaseError ''Cannot read release evidence archive'')
      | Some members \<Rightarrow>
          (case members of
             [(name, n, content)] \<Rightarrow>
               rel_seq (rc_require (name = MANIFEST \<or> name = ''.release-evidence/'' @ MANIFEST)
                 ''Evidence artifact has unexpected contents'')
               (rel_seq (rc_require (n \<le> 2000000) ''Evidence artifact manifest is too large'')
                 (rc_require (content = raw) ''Release manifest differs from immutable Actions evidence''))
           | _ \<Rightarrow> Inl (ReleaseError ''Evidence artifact has unexpected contents'')))"

definition evidence_artifact :: "pyval list \<Rightarrow> (string, pyval) dict rel" where
  "evidence_artifact artifacts =
     bind_res (map_res dict_of artifacts) (\<lambda>rows.
       let matching = filter (\<lambda>d. get_or d ''name'' VNone = VStr ''release-evidence'' \<and> \<not> truthy (get_or d ''expired'' VNone)) rows
       in rel_seq (rc_require (length matching = 1)
            ''Exactly one unexpired immutable release-evidence artifact is required'') (Inr (hd matching)))"

definition verify_evidence ::
  "gh_env \<Rightarrow> run_env \<Rightarrow> (string \<Rightarrow> (string \<times> nat \<times> string) list option) \<Rightarrow> (string, pyval) dict \<Rightarrow> string \<Rightarrow> unit gh" where
  "verify_evidence env re unzip manifest raw =
     gh_bind (pages env (''actions/runs/'' @ str_text re (get_or manifest ''run_id'' VNone) @ ''/artifacts'') (Some ''artifacts''))
       (\<lambda>artifacts.
     gh_with (evidence_artifact artifacts) (\<lambda>artifact.
     gh_with (get_in artifact ''workflow_run'' ''id'' VNone) (\<lambda>run_id.
     gh_with (get_in artifact ''workflow_run'' ''head_sha'' VNone) (\<lambda>sha.
     gh_seq (rc_require (py_eq run_id (get_or manifest ''run_id'' VNone) \<and> sha = get_or manifest ''source_sha'' VNone)
       ''Evidence artifact provenance mismatch'')
     (gh_with (positive (get_or artifact ''id'' VNone) ''artifact ID'') (\<lambda>n.
      gh_bind (binary env (''actions/artifacts/'' @ str_of_int n @ ''/zip'')) (\<lambda>archive.
      gh_seq (rc_require (get_or artifact ''digest'' VNone = VStr (''sha256:'' @ sha256 archive))
        ''Evidence must have a matching immutable v4 artifact digest'')
        (gh_lift (evidence_matches unzip archive raw)))))))))"

definition reviewers_configured :: "(string, pyval) dict \<Rightarrow> unit rel" where
  "reviewers_configured environment =
     rel_seq (rc_require (get_or environment ''name'' VNone = VStr ''release'') ''Protected release environment is missing'')
     (bind_res (iterate (get_or environment ''protection_rules'' (VList []))) (\<lambda>rules.
      bind_res (map_res dict_of rules) (\<lambda>rows.
        rc_require (list_ex (\<lambda>d. get_or d ''type'' VNone = VStr ''required_reviewers'' \<and> truthy (get_or d ''reviewers'' VNone)) rows)
          ''The release environment must have required reviewers configured'')))"

definition require_reviewers :: "gh_env \<Rightarrow> unit gh" where
  "require_reviewers env =
     gh_bind (get_dict env ''environments/release'') (\<lambda>environment. gh_lift (reviewers_configured environment))"

end
