(* ===== verification/Release_Promotion.thy ===== *)
theory Release_Promotion
  imports Release_Commands
begin

section \<open>Publishing a candidate and promoting it\<close>

text \<open>
  Model of the commands \<^verbatim>\<open>candidate\<close> and \<^verbatim>\<open>promote\<close> of \<^verbatim>\<open>scripts/release_control.py\<close>, composed of the wait and
  the checks of \<open>Release_Run\<close>, the manifest checks of \<open>Release_Commands\<close>, the ledger operations of
  \<open>Ledger_Client\<close> and the transaction of \<open>Release_Publish\<close>.  Each is split where it writes first, so that
  everything before it is seen to read only.  The checkout, the time, the names of temporary
  directories, the signature check and the ZIP reader are parameters; the local evidence file is left out.
\<close>

subsection \<open>Operations that wait\<close>

text \<open>An operation with the bounded loop of \<^verbatim>\<open>wait_for_executing_run\<close> in it; \<open>None\<close> has not ended.\<close>

type_synonym 'a waiting = "gh_world \<Rightarrow> ('a rel \<times> gh_world) option"

definition at_once :: "'a gh \<Rightarrow> 'a waiting" where
  "at_once m w = Some (m w)"

definition wait_bind :: "'a waiting \<Rightarrow> ('a \<Rightarrow> 'b waiting) \<Rightarrow> 'b waiting" where
  "wait_bind m f w =
     (case m w of
        None \<Rightarrow> None
      | Some (Inl e, w') \<Rightarrow> Some (Inl e, w')
      | Some (Inr x, w') \<Rightarrow> f x w')"

subsection \<open>The candidate\<close>

record candidate_args =
  ca_repo :: string
  ca_channel :: string
  ca_version :: string
  ca_sha :: string
  ca_run_id :: string
  ca_run_attempt :: string
  ca_directory :: bool
  ca_entries :: "source_entry list"
  ca_sequence :: "int option"

text \<open>The time as fourteen digits and in ISO format, and the name of the staging directory.\<close>

record moment =
  mo_stamp :: string
  mo_iso :: string
  mo_stage :: string

definition EVIDENCE :: string where
  "EVIDENCE = ''.release-evidence/'' @ MANIFEST"

definition actions_url :: "string \<Rightarrow> string \<Rightarrow> string" where
  "actions_url repo run_id = ''https://github.com/'' @ repo @ ''/actions/runs/'' @ run_id"

definition two_breaks :: string where
  "two_breaks = [CHR 0x0A, CHR 0x0A]"

definition quoted_code :: "string \<Rightarrow> string" where
  "quoted_code s = [CHR 0x60] @ s @ [CHR 0x60]"

definition candidate_text :: "string \<Rightarrow> string \<Rightarrow> string \<Rightarrow> int \<Rightarrow> string" where
  "candidate_text repo channel sha run_id =
     channel @ '' candidate from '' @ quoted_code sha @ ''.'' @ two_breaks @
     ''Validation: '' @ actions_url repo (str_of_int run_id) @ two_breaks @
     ''See '' @ quoted_code MANIFEST @ '' for checksums and immutable Actions evidence provenance.''"

definition candidate_manifest ::
  "candidate_args \<Rightarrow> pyval \<Rightarrow> string \<Rightarrow> (string, pyval) dict \<Rightarrow> int \<Rightarrow> int \<Rightarrow> string \<Rightarrow> (string \<times> string) list \<Rightarrow> pyval" where
  "candidate_manifest args full_name tag snapshot run_id attempt made assets =
     VDict [(''schema'', VInt 1), (''repository'', full_name), (''version'', VStr (ca_version args)),
       (''channel'', VStr (ca_channel args)), (''tag'', VStr tag), (''source_sha'', VStr (ca_sha args)),
       (''source_policy'', VDict snapshot), (''workflow_path'', VStr RELEASE_WORKFLOW), (''run_id'', VInt run_id),
       (''run_attempt'', VInt attempt), (''created_at'', VStr made), (''assets'', VList (map asset_row assets))]"

definition staged_files :: "publisher \<Rightarrow> moment \<Rightarrow> (string \<times> string) list \<Rightarrow> string \<Rightarrow> staged_file list" where
  "staged_files pb mo assets content = map (staged_in (pb_tmp pb) (mo_stage mo)) (assets @ [(MANIFEST, content)])"

definition candidate_start :: "gh_env \<Rightarrow> candidate_args \<Rightarrow> (gh_env \<times> int \<times> int \<times> (string, pyval) dict) gh" where
  "candidate_start env args =
     gh_bind (new_github env (ca_repo args)) (\<lambda>client.
     gh_with (rc_version (ca_version args)) (\<lambda>_.
     gh_seq (rc_require (fullmatch sha_pattern (ca_sha args)) ''Source SHA must be a full lowercase 40-character commit SHA'')
     (gh_with (positive (VStr (ca_run_id args)) ''run ID'') (\<lambda>run_id.
      gh_with (positive (VStr (ca_run_attempt args)) ''run attempt'') (\<lambda>attempt.
      gh_bind (repository_info client) (\<lambda>info. gh_lift (Inr (client, run_id, attempt, info))))))))"

text \<open>The source policy that the candidate is published under.\<close>

definition candidate_policy ::
  "gh_env \<Rightarrow> codec \<Rightarrow> candidate_args \<Rightarrow> (string, pyval) dict \<Rightarrow> (string, pyval) dict gh" where
  "candidate_policy env codec args info =
     gh_bind (source_policy_snapshot env codec (ca_sha args)) (\<lambda>snapshot.
     gh_seq (require_release_policy (get_or snapshot ''data'' VNone) (ge_repo env) (ca_channel args = ''rc''))
     (gh_seq (rc_require (\<not> truthy (get_or (snapshot_policy snapshot) ''versioning'' VNone))
        ''Versioned policies require the frozen-plan publisher, not post-build allocation'')
     (gh_with (branch_of info) (\<lambda>branch.
      gh_bind (check_ancestry env (ca_sha args) branch) (\<lambda>_. gh_lift (Inr snapshot))))))"

text \<open>What is known just before the first write: the tag, the files and the notes; or a superseded run.\<close>

datatype ready = Superseded "(string, pyval) dict" | Publish string "staged_file list" string

definition unless_superseded ::
  "gh_env \<Rightarrow> run_env \<Rightarrow> (string, pyval) dict \<Rightarrow> (string, pyval) dict \<Rightarrow> string \<Rightarrow> ready gh \<Rightarrow> ready gh" where
  "unless_superseded env re info run channel k =
     gh_bind (superseded_candidate env re info run channel) (\<lambda>s.
       case s of None \<Rightarrow> k | Some r \<Rightarrow> gh_lift (Inr (Superseded r)))"

definition candidate_ready ::
  "gh_env \<Rightarrow> run_env \<Rightarrow> publisher \<Rightarrow> candidate_args \<Rightarrow> moment \<Rightarrow> int \<Rightarrow> int \<Rightarrow> (string, pyval) dict \<Rightarrow>
   (string, pyval) dict \<Rightarrow> ready gh" where
  "candidate_ready env re pb args mo run_id attempt info run =
     gh_bind (candidate_policy env (pb_codec pb) args info) (\<lambda>snapshot.
     unless_superseded env re info run (ca_channel args)
     (gh_bind (if ca_channel args \<in> {''beta'', ''rc''} then gh_ensure_absent env (''v'' @ ca_version args)
        else gh_lift (Inr ())) (\<lambda>_.
      gh_bind (candidate_tag env (ca_channel args) (ca_version args) run_id attempt (ca_sequence args) (mo_stamp mo)) (\<lambda>tag.
      gh_with (stage_assets (ca_directory args) (ca_entries args)) (\<lambda>assets.
      gh_with (at_key info ''full_name'') (\<lambda>full_name.
      unless_superseded env re info run (ca_channel args)
      (gh_bind (gh_release_notes env (pb_codec pb) tag (ca_sha args)
          (candidate_text (ge_repo env) (ca_channel args) (ca_sha args) run_id)) (\<lambda>body.
        gh_lift (Inr (Publish tag (staged_files pb mo assets (canonical (ge_float env)
          (candidate_manifest args full_name tag snapshot run_id attempt (mo_iso mo) assets))) body))))))))))"

definition published_result :: "string \<Rightarrow> (string, pyval) dict \<Rightarrow> (string, pyval) dict rel" where
  "published_result tag release =
     bind_res (at_key release ''html_url'') (\<lambda>url.
       Inr [(''status'', VStr ''published''), (''tag'', VStr tag), (''release_url'', url), (''manifest_path'', VStr EVIDENCE)])"

definition candidate_finish ::
  "gh_env \<Rightarrow> publisher \<Rightarrow> string \<Rightarrow> ready \<Rightarrow> (string, pyval) dict gh" where
  "candidate_finish env pb sha r =
     (case r of
        Superseded answer \<Rightarrow> gh_lift (Inr answer)
      | Publish tag files body \<Rightarrow>
          gh_bind (publish_prepared env pb tag sha files True body (gh_lift (Inr ()))) (\<lambda>release.
            gh_lift (published_result tag release)))"

definition candidate ::
  "nat \<Rightarrow> gh_env \<Rightarrow> run_env \<Rightarrow> publisher \<Rightarrow> candidate_args \<Rightarrow> moment \<Rightarrow> (string, pyval) dict waiting" where
  "candidate fuel env re pb args mo =
     wait_bind (at_once (candidate_start env args)) (\<lambda>(client, run_id, attempt, info).
     wait_bind (wait_for_executing_run fuel client re run_id (ca_channel args) info (ca_sha args) attempt True) (\<lambda>run.
       at_once (gh_bind (candidate_ready client re pb args mo run_id attempt info run)
         (candidate_finish client pb (ca_sha args)))))"


subsection \<open>The accepted candidate\<close>

text \<open>\<^verbatim>\<open>vX.Y.Z-rc.N\<close>.\<close>

definition candidate_pattern :: re where
  "candidate_pattern = Seq (Chr (CHR ''v'')) (Seq base_pattern (Seq (Lit ''-rc.'') positive_pattern))"

text \<open>The published candidate with its manifest, read from its assets.\<close>

definition published_candidate :: "gh_env \<Rightarrow> string \<Rightarrow> (snapshot \<times> string \<times> (string, pyval) dict) gh" where
  "published_candidate env tag =
     gh_bind (release_snapshot env tag) (\<lambda>initial.
     let manifests = filter (\<lambda>d. get_or d ''name'' VNone = VStr MANIFEST) (sn_assets initial)
     in gh_seq (rc_require (length manifests = 1) ''Candidate manifest is missing'')
        (gh_with (positive (get_or (hd manifests) ''id'' VNone) ''manifest asset ID'') (\<lambda>n.
         gh_bind (binary env (''releases/assets/'' @ str_of_int n)) (\<lambda>raw.
         gh_with (validate_manifest env raw tag False) (\<lambda>manifest. gh_lift (Inr (initial, raw, manifest)))))))"

definition manifest_sha :: "(string, pyval) dict \<Rightarrow> string" where
  "manifest_sha manifest = text_of (get_or manifest ''source_sha'' VNone)"

definition require_current_fuzzing :: "gh_env \<Rightarrow> codec \<Rightarrow> (string, pyval) dict \<Rightarrow> string \<Rightarrow> unit gh" where
  "require_current_fuzzing env codec accepted current_sha =
     gh_bind (source_policy_snapshot env codec current_sha) (\<lambda>current. gh_lift
       (if has_key (snapshot_policy current) ''fuzzing''
        then bind_res (fuzz_configuration accepted) (\<lambda>config.
          rc_require (config \<noteq> None) ''Current release policy requires fuzzing; create a new RC after adoption'')
        else Inr ()))"

definition promotable :: "(string, pyval) dict \<Rightarrow> unit rel" where
  "promotable policy =
     bind_res (get_of (get_or policy ''versioning'' (VDict [])) ''promotion'' VNone) (\<lambda>p.
       rc_require (p \<noteq> VStr ''final-build'')
         ''This RC requires a separately validated final build; byte promotion is disabled'')"

definition manifest_run :: "run_env \<Rightarrow> (string, pyval) dict \<Rightarrow> string" where
  "manifest_run re manifest = ''actions/runs/'' @ str_text re (get_or manifest ''run_id'' VNone)"

text \<open>Only an integer can equal the attempt of a run.\<close>

definition manifest_attempt :: "(string, pyval) dict \<Rightarrow> int rel" where
  "manifest_attempt manifest =
     (case get_or manifest ''run_attempt'' VNone of VInt n \<Rightarrow> Inr n
      | _ \<Rightarrow> Inl (ReleaseError ''Source run was rerun; evidence is not from its latest attempt''))"

text \<open>The run that built the candidate: its checks, jobs and gate.\<close>

definition qualified_run ::
  "gh_env \<Rightarrow> (string, pyval) dict \<Rightarrow> (string, pyval) dict \<Rightarrow> (string, pyval) dict \<Rightarrow> (string, pyval) dict \<Rightarrow> unit rel \<Rightarrow> unit gh" where
  "qualified_run env info policy manifest run identity_ok =
     gh_bind (validate_validation_run env run policy ''rc'') (\<lambda>_.
     gh_seq identity_ok
     (gh_with (manifest_attempt manifest) (\<lambda>attempt.
       validate_run env run info (manifest_sha manifest) attempt True True)))"

definition source_run_checked ::
  "gh_env \<Rightarrow> run_env \<Rightarrow> (string, pyval) dict \<Rightarrow> (string, pyval) dict \<Rightarrow> (string, pyval) dict \<Rightarrow> unit gh" where
  "source_run_checked env re info policy manifest =
     gh_bind (get_dict env (manifest_run re manifest)) (\<lambda>run.
     gh_bind (qualified_run env info policy manifest run
        (rc_require (py_eq (get_or run ''id'' VNone) (get_or manifest ''run_id'' VNone)) ''Source run identity mismatch'')) (\<lambda>_.
     gh_seq (rc_require (get_or run ''event'' VNone = VStr ''workflow_dispatch'')
       ''RC must originate from a manual workflow dispatch'')
     (gh_with (branch_of info) (\<lambda>branch. check_ancestry env (manifest_sha manifest) branch))))"

text \<open>The rows of the manifest by name, and the names that the candidate must have.\<close>

definition manifest_rows :: "(string, pyval) dict \<Rightarrow> (string, (string, pyval) dict) dict" where
  "manifest_rows manifest =
     map (\<lambda>a. (text_of (get_or (entries_of a) ''name'' VNone), entries_of a)) (items_of (get_or manifest ''assets'' VNone))"

definition asset_name :: "(string, pyval) dict \<Rightarrow> string" where
  "asset_name asset = text_of (get_or asset ''name'' VNone)"

definition row_matches :: "(string, (string, pyval) dict) dict \<Rightarrow> string \<Rightarrow> string \<Rightarrow> unit rel" where
  "row_matches rows name bytes =
     (case map_of rows name of
        None \<Rightarrow> Inl (Raised KeyError)
      | Some row \<Rightarrow>
          rc_require (py_eq (VInt (int (length bytes))) (get_or row ''size'' VNone) \<and>
            get_or row ''sha256'' VNone = VStr (sha256 bytes)) ''Candidate checksum mismatch'')"

text \<open>One asset of the candidate, downloaded and compared with its row.\<close>

definition candidate_asset ::
  "gh_env \<Rightarrow> (string, (string, pyval) dict) dict \<Rightarrow> string \<Rightarrow> (string, pyval) dict \<Rightarrow> (string \<times> string) gh" where
  "candidate_asset env rows raw asset =
     (let name = asset_name asset
      in gh_bind (if name = MANIFEST then gh_lift (Inr raw)
           else gh_with (positive (get_or asset ''id'' VNone) ''asset ID'') (\<lambda>n.
             download_asset env (''releases/assets/'' @ str_of_int n))) (\<lambda>bytes.
         gh_seq (rc_require (py_eq (get_or asset ''size'' VNone) (VInt (int (length bytes)))) ''Release asset size mismatch'')
         (gh_seq (if name = MANIFEST then Inr () else row_matches rows name bytes)
           (gh_lift (Inr (name, bytes))))))"

definition inventory_matches :: "snapshot \<Rightarrow> (string, (string, pyval) dict) dict \<Rightarrow> bool" where
  "inventory_matches s rows \<longleftrightarrow> set (map asset_name (sn_assets s)) = insert MANIFEST (fst ` set rows)"

text \<open>The candidate's tag, release and assets are as they were.\<close>

definition unchanged_since :: "gh_env \<Rightarrow> string \<Rightarrow> snapshot \<Rightarrow> unit gh" where
  "unchanged_since env tag initial =
     gh_bind (release_snapshot env tag) (\<lambda>later.
     gh_with (snapshot_identity (ge_float env) later) (\<lambda>now.
     gh_with (snapshot_identity (ge_float env) initial) (\<lambda>before.
       gh_lift (rc_require (now = before) ''Candidate changed during verification''))))"

subsection \<open>Promotion\<close>

record promote_args =
  po_repo :: string
  po_rc :: string
  po_run_id :: string

text \<open>The ZIP reader, and the name of the staging directory.\<close>

record promoter =
  pr_publisher :: publisher
  pr_unzip :: "string \<Rightarrow> (string \<times> nat \<times> string) list option"
  pr_stage :: string

definition promote_start ::
  "gh_env \<Rightarrow> run_env \<Rightarrow> promote_args \<Rightarrow> (gh_env \<times> int \<times> (string, pyval) dict \<times> string \<times> int) gh" where
  "promote_start env re args =
     gh_bind (new_github env (po_repo args)) (\<lambda>client.
     gh_seq (rc_require (fullmatch candidate_pattern (po_rc args)) ''Promotion requires a strict vX.Y.Z-rc.N tag'')
     (gh_with (positive (VStr (po_run_id args)) ''run ID'') (\<lambda>current_id.
      gh_bind (repository_info client) (\<lambda>info.
      gh_with (re_checkout re) (\<lambda>sha.
      gh_with (positive (case map_of (ge_environ env) ''GITHUB_RUN_ATTEMPT'' of None \<Rightarrow> VNone | Some s \<Rightarrow> VStr s)
          ''current run attempt'') (\<lambda>attempt.
        gh_lift (Inr (client, current_id, info, sha, attempt))))))))"

definition version_plan_of :: "(string, pyval) dict \<Rightarrow> pyval" where
  "version_plan_of manifest = get_or manifest ''version_plan'' VNone"

definition order_checked :: "gh_env \<Rightarrow> codec \<Rightarrow> (string, pyval) dict \<Rightarrow> unit gh" where
  "order_checked env codec manifest =
     (if truthy (version_plan_of manifest)
      then gh_bind (gh_verify_promotion_order env codec (version_plan_of manifest)) (\<lambda>_. gh_lift (Inr ()))
      else gh_lift (Inr ()))"

text \<open>The source policy of the candidate, today's policy and the order of publication.\<close>

definition promotion_policy ::
  "gh_env \<Rightarrow> run_env \<Rightarrow> codec \<Rightarrow> snapshot \<Rightarrow> (string, pyval) dict \<Rightarrow> int \<Rightarrow> (string, pyval) dict gh" where
  "promotion_policy env re codec initial manifest current_id =
     gh_bind (source_policy_snapshot env codec (manifest_sha manifest)) (\<lambda>snapshot.
     gh_seq (require_release_policy (get_or snapshot ''data'' VNone) (ge_repo env) True)
     (gh_with (re_checkout re) (\<lambda>sha.
      gh_bind (require_current_fuzzing env codec (snapshot_policy snapshot) sha) (\<lambda>_.
      gh_seq (promotable (snapshot_policy snapshot))
      (gh_bind (order_checked env codec manifest) (\<lambda>_.
       gh_seq (rc_require (py_eq (VDict snapshot) (get_or manifest ''source_policy'' VNone))
         ''Manifest policy snapshot differs from the policy at the candidate source commit'')
       (gh_with (bind_res (at_key (sn_ref initial) ''object'') (\<lambda>target. get_of target ''sha'' VNone)) (\<lambda>tag_sha.
        gh_seq (rc_require (tag_sha = VStr (manifest_sha manifest)) ''Candidate tag SHA differs from manifest'')
        (gh_seq (rc_require (\<not> py_eq (get_or manifest ''run_id'' VNone) (VInt current_id))
          ''Candidate and promotion must use separate runs'')
          (gh_lift (Inr (snapshot_policy snapshot))))))))))))"

definition stable_tag :: "(string, pyval) dict \<Rightarrow> string" where
  "stable_tag manifest = ''v'' @ text_of (get_or manifest ''version'' VNone)"

definition promotion_text :: "run_env \<Rightarrow> string \<Rightarrow> string \<Rightarrow> pyval \<Rightarrow> (string, pyval) dict \<Rightarrow> int \<Rightarrow> string" where
  "promotion_text re repo rc url manifest current_id =
     ''Promoted unchanged from ['' @ rc @ ''](''  @ str_text re url @ '').'' @ two_breaks @
     ''Source: '' @ quoted_code (manifest_sha manifest) @ two_breaks @
     ''Validation: '' @ actions_url repo (str_text re (get_or manifest ''run_id'' VNone)) @ two_breaks @
     ''Promotion: '' @ actions_url repo (str_of_int current_id) @ two_breaks @
     ''Assets and '' @ quoted_code MANIFEST @ '' are byte-for-byte copies of the verified release candidate.''"

text \<open>Everything that is read before the first write: the manifest, the files and the notes.\<close>

definition promote_ready ::
  "gh_env \<Rightarrow> run_env \<Rightarrow> promoter \<Rightarrow> promote_args \<Rightarrow> int \<Rightarrow> (string, pyval) dict \<Rightarrow>
   ((string, pyval) dict \<times> staged_file list \<times> string) gh" where
  "promote_ready env re pr args current_id info =
     gh_bind (require_reviewers env) (\<lambda>_.
     gh_bind (published_candidate env (po_rc args)) (\<lambda>(initial, raw, manifest).
     let codec = pb_codec (pr_publisher pr); rows = manifest_rows manifest; sha = manifest_sha manifest; tag = stable_tag manifest
     in gh_bind (promotion_policy env re codec initial manifest current_id) (\<lambda>policy.
        gh_bind (source_run_checked env re info policy manifest) (\<lambda>_.
        gh_bind (verify_evidence env re (pr_unzip pr) manifest raw) (\<lambda>_.
        gh_bind (gh_ensure_absent env tag) (\<lambda>_.
        gh_seq (rc_require (inventory_matches initial rows) ''Candidate assets differ from manifest inventory'')
        (gh_bind (check_workflow_publication env sha) (\<lambda>_.
         gh_bind (gh_map (candidate_asset env rows raw) (sn_assets initial)) (\<lambda>assets.
         gh_bind (unchanged_since env (po_rc args) initial) (\<lambda>_.
         let files = map (staged_in (pb_tmp (pr_publisher pr)) (pr_stage pr)) assets
         in gh_seq (pb_signatures (pr_publisher pr) files sha)
            (gh_bind (get_dict env (manifest_run re manifest)) (\<lambda>latest.
             gh_bind (qualified_run env info policy manifest latest (Inr ())) (\<lambda>_.
             gh_bind (require_reviewers env) (\<lambda>_.
             gh_bind (check_workflow_publication env sha) (\<lambda>_.
             gh_with (at_key (sn_release initial) ''html_url'') (\<lambda>url.
             gh_bind (gh_release_notes env codec tag sha
                (promotion_text re (ge_repo env) (po_rc args) url manifest current_id)) (\<lambda>body.
             gh_bind (order_checked env codec manifest) (\<lambda>_.
               gh_lift (Inr (manifest, files, body))))))))))))))))))))"

definition promote_finish ::
  "gh_env \<Rightarrow> promoter \<Rightarrow> int \<Rightarrow> (string, pyval) dict \<times> staged_file list \<times> string \<Rightarrow> (string, pyval) dict gh" where
  "promote_finish env pr current_id = (\<lambda>(manifest, files, body).
     gh_bind (if truthy (version_plan_of manifest)
        then gh_bind (gh_begin_publication env (pb_codec (pr_publisher pr)) (version_plan_of manifest) current_id VNone True)
          (\<lambda>_. gh_lift (Inr ()))
        else gh_lift (Inr ())) (\<lambda>_.
     gh_bind (publish_prepared env (pr_publisher pr) (stable_tag manifest) (manifest_sha manifest) files False body
        (gh_lift (Inr ()))) (\<lambda>release.
     gh_with (at_key release ''html_url'') (\<lambda>url.
       gh_lift (Inr [(''tag'', VStr (stable_tag manifest)), (''release_url'', url)])))))"

definition promote ::
  "nat \<Rightarrow> gh_env \<Rightarrow> run_env \<Rightarrow> promoter \<Rightarrow> promote_args \<Rightarrow> (string, pyval) dict waiting" where
  "promote fuel env re pr args =
     wait_bind (at_once (promote_start env re args)) (\<lambda>(client, current_id, info, sha, attempt).
     wait_bind (wait_for_executing_run fuel client re current_id ''stable'' info sha attempt False) (\<lambda>_.
       at_once (gh_bind (promote_ready client re pr args current_id info) (promote_finish client pr current_id))))"

subsection \<open>What comes before the first write\<close>

lemma reads_release_snapshot [reads_intros]: "reads (release_snapshot env tag)"
  unfolding release_snapshot_def by (intro reads_intros)

lemma reads_evidence [reads_intros]: "reads (verify_evidence env re unzip manifest raw)"
  unfolding verify_evidence_def by (intro reads_intros)

lemma reads_reviewers [reads_intros]: "reads (require_reviewers env)"
  unfolding require_reviewers_def by (intro reads_intros)

lemma reads_candidate_start [reads_intros]: "reads (candidate_start env args)"
  unfolding candidate_start_def by (intro reads_intros)

lemma reads_candidate_policy [reads_intros]: "reads (candidate_policy env codec args info)"
  unfolding candidate_policy_def by (intro reads_intros)

lemma reads_unless_superseded [reads_intros]: "reads k \<Longrightarrow> reads (unless_superseded env re info run channel k)"
  unfolding unless_superseded_def by (intro reads_intros)

lemma reads_candidate_ready [reads_intros]: "reads (candidate_ready env re pb args mo run_id attempt info run)"
  unfolding candidate_ready_def by (intro reads_intros)

lemma reads_published_candidate [reads_intros]: "reads (published_candidate env tag)"
  unfolding published_candidate_def Let_def by (intro reads_intros)

lemma reads_current_fuzzing [reads_intros]: "reads (require_current_fuzzing env codec policy sha)"
  unfolding require_current_fuzzing_def by (intro reads_intros)

lemma reads_qualified_run [reads_intros]: "reads (qualified_run env info policy manifest run r)"
  unfolding qualified_run_def by (intro reads_intros)

lemma reads_source_run [reads_intros]: "reads (source_run_checked env re info policy manifest)"
  unfolding source_run_checked_def by (intro reads_intros)

lemma reads_candidate_asset [reads_intros]: "reads (candidate_asset env rows raw asset)"
  unfolding candidate_asset_def Let_def by (intro reads_intros)

lemma reads_unchanged [reads_intros]: "reads (unchanged_since env tag initial)"
  unfolding unchanged_since_def by (intro reads_intros)

lemma reads_promote_start [reads_intros]: "reads (promote_start env re args)"
  unfolding promote_start_def by (intro reads_intros)

lemma reads_order_checked [reads_intros]: "reads (order_checked env codec manifest)"
  unfolding order_checked_def by (intro reads_intros)

lemma reads_promotion_policy [reads_intros]: "reads (promotion_policy env re codec initial manifest current_id)"
  unfolding promotion_policy_def by (intro reads_intros)

lemma reads_promote_ready [reads_intros]: "reads (promote_ready env re pr args current_id info)"
  unfolding promote_ready_def case_prod_unfold Let_def by (intro reads_intros reads_map)

lemma wait_turns_writes:
  "reads turn \<Longrightarrow> wait_turns fuel turn w = Some (r, w') \<Longrightarrow> writes w' = writes w"
proof (induction fuel turn w rule: wait_turns.induct)
  case (2 fuel turn w)
  obtain q v where turn: "turn w = (q, v)" by fastforce
  have "writes v = writes w" using reads_D [OF 2(2) turn] by simp
  moreover have "writes (snd (pause v)) = writes v" by (simp add: pause_def writes_def)
  ultimately show ?case using 2 turn by (auto split: sum.splits look.splits)
qed simp

lemma wait_writes:
  assumes "wait_for_executing_run fuel env re run_id channel info sha attempt gate w = Some (r, w')"
  shows "writes w' = writes w"
  using wait_turns_writes [OF reads_look assms [unfolded wait_for_executing_run_def Let_def]]
  by (simp add: read_clock_def writes_def)

text \<open>The run that the wait of a command returned, as the command saw it.\<close>

definition publishing_run ::
  "gh_env \<Rightarrow> run_env \<Rightarrow> int \<Rightarrow> string \<Rightarrow> (string, pyval) dict \<Rightarrow> string \<Rightarrow> int \<Rightarrow> bool \<Rightarrow> (string, pyval) dict \<Rightarrow> bool" where
  "publishing_run env re run_id channel info sha attempt gate run \<longleftrightarrow>
     is_release_run env re run_id channel info sha attempt run \<and> get_or run ''status'' VNone = VStr ''in_progress'' \<and>
     (\<exists>before v u. get_dict env (run_path run_id) before = (Inr run, v) \<and>
        (\<not> gate \<or> release_gate_ready env run_id sha attempt True v = (Inr True, u)))"

lemma waited_run:
  assumes "wait_for_executing_run fuel env re run_id channel info sha attempt gate w = Some (Inr run, w')"
  shows "publishing_run env re run_id channel info sha attempt gate run"
proof -
  from wait_turns_result [OF assms [unfolded wait_for_executing_run_def Let_def]] obtain before where
    "look_at_run env re run_id channel info sha attempt gate
       (ge_clock env (gw_tick w) + EXECUTING_RUN_WAIT_SECONDS) before = (Inr (Ready run), w')" by blast
  from look_ready [OF this] show ?thesis unfolding publishing_run_def by blast
qed

subsection \<open>Candidates\<close>

text \<open>
  What a candidate may publish: the staged assets beside a manifest that names their digests, the run and
  the source policy, where that policy accepts the release and no newer run had replaced this one.
\<close>

definition candidate_files ::
  "gh_env \<Rightarrow> run_env \<Rightarrow> publisher \<Rightarrow> candidate_args \<Rightarrow> moment \<Rightarrow> int \<Rightarrow> int \<Rightarrow> (string, pyval) dict \<Rightarrow>
   (string, pyval) dict \<Rightarrow> string \<Rightarrow> staged_file list \<Rightarrow> bool" where
  "candidate_files env re pb args mo run_id attempt info run tag files \<longleftrightarrow>
     (\<exists>assets snapshot full_name.
        stage_assets (ca_directory args) (ca_entries args) = Inr assets \<and>
        require_release_policy (get_or snapshot ''data'' VNone) (ge_repo env) (ca_channel args = ''rc'') = Inr () \<and>
        (\<exists>v u. superseded_candidate env re info run (ca_channel args) v = (Inr None, u)) \<and>
        files = staged_files pb mo assets (canonical (ge_float env)
          (candidate_manifest args full_name tag snapshot run_id attempt (mo_iso mo) assets)))"

lemma new_github_repo: "new_github env repository w = (Inr client, v) \<Longrightarrow> ge_repo client = repository"
  unfolding new_github_def Let_def by (auto simp: gh_runs split: if_splits)

lemma candidate_start_runs:
  "candidate_start env args w = (Inr (client, run_id, attempt, info), v) \<Longrightarrow>
     ge_repo client = ca_repo args \<and> positive (VStr (ca_run_id args)) ''run ID'' = Inr run_id \<and>
     positive (VStr (ca_run_attempt args)) ''run attempt'' = Inr attempt"
  unfolding candidate_start_def by (auto simp: gh_runs new_github_repo)

lemma unless_superseded_runs:
  "unless_superseded env re info run channel k w = (Inr (Publish tag files body), w') \<Longrightarrow>
     \<exists>v. superseded_candidate env re info run channel w = (Inr None, v) \<and> k v = (Inr (Publish tag files body), w')"
  unfolding unless_superseded_def by (auto simp: gh_runs split: option.splits)

lemma candidate_policy_runs:
  "candidate_policy env codec args info w = (Inr snapshot, v) \<Longrightarrow>
     require_release_policy (get_or snapshot ''data'' VNone) (ge_repo env) (ca_channel args = ''rc'') = Inr ()"
  unfolding candidate_policy_def by (auto simp: gh_runs)

lemma candidate_ready_runs:
  assumes "candidate_ready env re pb args mo run_id attempt info run w = (Inr (Publish tag files body), w')"
  shows "candidate_files env re pb args mo run_id attempt info run tag files"
proof -
  obtain snapshot v where policy: "candidate_policy env (pb_codec pb) args info w = (Inr snapshot, v)"
    and rest: "unless_superseded env re info run (ca_channel args)
     (gh_bind (if ca_channel args \<in> {''beta'', ''rc''} then gh_ensure_absent env (''v'' @ ca_version args)
        else gh_lift (Inr ())) (\<lambda>_.
      gh_bind (candidate_tag env (ca_channel args) (ca_version args) run_id attempt (ca_sequence args) (mo_stamp mo)) (\<lambda>tag.
      gh_with (stage_assets (ca_directory args) (ca_entries args)) (\<lambda>assets.
      gh_with (at_key info ''full_name'') (\<lambda>full_name.
      unless_superseded env re info run (ca_channel args)
      (gh_bind (gh_release_notes env (pb_codec pb) tag (ca_sha args)
          (candidate_text (ge_repo env) (ca_channel args) (ca_sha args) run_id)) (\<lambda>body.
        gh_lift (Inr (Publish tag (staged_files pb mo assets (canonical (ge_float env)
          (candidate_manifest args full_name tag snapshot run_id attempt (mo_iso mo) assets))) body))))))))) v =
      (Inr (Publish tag files body), w')"
    using assms unfolding candidate_ready_def gh_bind_runs by blast
  obtain tag' assets full_name u where assets: "stage_assets (ca_directory args) (ca_entries args) = Inr assets"
    and again: "unless_superseded env re info run (ca_channel args)
      (gh_bind (gh_release_notes env (pb_codec pb) tag' (ca_sha args)
          (candidate_text (ge_repo env) (ca_channel args) (ca_sha args) run_id)) (\<lambda>body.
        gh_lift (Inr (Publish tag' (staged_files pb mo assets (canonical (ge_float env)
          (candidate_manifest args full_name tag' snapshot run_id attempt (mo_iso mo) assets))) body)))) u =
      (Inr (Publish tag files body), w')"
    using unless_superseded_runs [OF rest] unfolding gh_bind_runs gh_with_runs by blast
  from unless_superseded_runs [OF again] obtain t where "superseded_candidate env re info run (ca_channel args) u = (Inr None, t)"
    "tag' = tag" "files = staged_files pb mo assets (canonical (ge_float env)
          (candidate_manifest args full_name tag snapshot run_id attempt (mo_iso mo) assets))"
    unfolding gh_bind_runs gh_lift_runs by blast
  with assets candidate_policy_runs [OF policy] show ?thesis unfolding candidate_files_def by blast
qed

lemma wait_bind_then:
  "wait_bind m f w = Some (r, w') \<Longrightarrow>
     (\<exists>e. m w = Some (Inl e, w') \<and> r = Inl e) \<or> (\<exists>x v. m w = Some (Inr x, v) \<and> f x v = Some (r, w'))"
  by (auto simp: wait_bind_def split: option.splits prod.splits sum.splits)

lemma emits_prefix:
  assumes "emits m P" "m w = (r, w')"
  shows "\<exists>cs k. P cs \<and> k \<le> length cs \<and> writes w' = rev (take k cs) @ writes w"
  using assms unfolding emits_def by (metis snd_conv)

lemma candidate_finish_emits:
  "emits (candidate_finish env pb sha (Publish tag files body))
     (\<lambda>cs. \<exists>n. cs = transaction env tag sha files True body n)"
  unfolding candidate_finish_def ready.case
  by (rule emits_before_read [OF emits_publish]) (intro reads_intros)+

text \<open>
  C10: A candidate is published only by the run it names.  Whatever GitHub answers, when the command has
  written anything, the run in progress was this execution's own (number, attempt, branch, commit, event
  and a successful release gate), the source policy accepted the release, the run was not superseded, and
  all that was written is a beginning of the one publication of the staged assets and their manifest.
\<close>

theorem candidate_published_by_its_run:
  "case candidate fuel env re pb args mo w of
     None \<Rightarrow> True
   | Some (result, w') \<Rightarrow>
       if writes w' = writes w then True
       else \<exists>client run_id attempt info run tag files body n k.
         ge_repo client = ca_repo args \<and> positive (VStr (ca_run_id args)) ''run ID'' = Inr run_id \<and>
         positive (VStr (ca_run_attempt args)) ''run attempt'' = Inr attempt \<and>
         publishing_run client re run_id (ca_channel args) info (ca_sha args) attempt True run \<and>
         candidate_files client re pb args mo run_id attempt info run tag files \<and>
         writes w' = rev (take k (transaction client tag (ca_sha args) files True body n)) @ writes w"
proof (cases "candidate fuel env re pb args mo w")
  case (Some p)
  obtain result w' where p: "p = (result, w')" by fastforce
  have "\<exists>client run_id attempt info run tag files body n k.
         ge_repo client = ca_repo args \<and> positive (VStr (ca_run_id args)) ''run ID'' = Inr run_id \<and>
         positive (VStr (ca_run_attempt args)) ''run attempt'' = Inr attempt \<and>
         publishing_run client re run_id (ca_channel args) info (ca_sha args) attempt True run \<and>
         candidate_files client re pb args mo run_id attempt info run tag files \<and>
         writes w' = rev (take k (transaction client tag (ca_sha args) files True body n)) @ writes w"
    if "writes w' \<noteq> writes w"
  proof -
    from wait_bind_then [OF Some [unfolded p candidate_def]] that reads_D [OF reads_candidate_start, of env args w]
    obtain client run_id attempt info v where start: "candidate_start env args w = (Inr (client, run_id, attempt, info), v)"
      "writes v = writes w"
      and rest: "wait_bind (wait_for_executing_run fuel client re run_id (ca_channel args) info (ca_sha args) attempt True) (\<lambda>run.
         at_once (gh_bind (candidate_ready client re pb args mo run_id attempt info run)
           (candidate_finish client pb (ca_sha args)))) v = Some (result, w')"
      by (auto simp: at_once_def)
    from wait_bind_then [OF rest] that start wait_writes obtain run u where
      wait: "wait_for_executing_run fuel client re run_id (ca_channel args) info (ca_sha args) attempt True v = Some (Inr run, u)"
      "writes u = writes w"
      and publish: "gh_bind (candidate_ready client re pb args mo run_id attempt info run)
           (candidate_finish client pb (ca_sha args)) u = (result, w')"
      by (fastforce simp: at_once_def)
    from gh_reads_then [OF reads_candidate_ready publish] that wait obtain r t where
      ready: "candidate_ready client re pb args mo run_id attempt info run u = (Inr r, t)" "writes t = writes w"
      and finish: "candidate_finish client pb (ca_sha args) r t = (result, w')" by auto
    from finish ready(2) that obtain tag files body where r: "r = Publish tag files body"
      by (cases r) (auto simp: candidate_finish_def gh_lift_def)
    from emits_prefix [OF candidate_finish_emits finish [unfolded r]] ready(2) obtain n k where
      "writes w' = rev (take k (transaction client tag (ca_sha args) files True body n)) @ writes w" by auto
    with candidate_start_runs [OF start(1)] waited_run [OF wait(1)] candidate_ready_runs [OF ready(1) [unfolded r]]
    show ?thesis by blast
  qed
  then show ?thesis unfolding Some p by simp
qed simp

subsection \<open>Promotions\<close>

text \<open>
  What a promotion may publish: the files of the published candidate, the manifest as downloaded and
  every other file with the size and digest that the manifest records, no file more or less, where the
  manifest is the one in the evidence archive of its run and the candidate has not changed meanwhile.
\<close>

definition promoted_file :: "string \<Rightarrow> (string, pyval) dict \<Rightarrow> (string, pyval) dict \<Rightarrow> string \<times> string \<Rightarrow> bool" where
  "promoted_file raw manifest asset f \<longleftrightarrow>
     fst f = asset_name asset \<and>
     (if fst f = MANIFEST then snd f = raw else row_matches (manifest_rows manifest) (fst f) (snd f) = Inr ())"

definition promoted_files ::
  "gh_env \<Rightarrow> run_env \<Rightarrow> promoter \<Rightarrow> promote_args \<Rightarrow> (string, pyval) dict \<Rightarrow> staged_file list \<Rightarrow> bool" where
  "promoted_files env re pr args manifest files \<longleftrightarrow>
     (\<exists>initial raw assets.
        (\<exists>v u. published_candidate env (po_rc args) v = (Inr (initial, raw, manifest), u)) \<and>
        inventory_matches initial (manifest_rows manifest) \<and>
        list_all2 (promoted_file raw manifest) (sn_assets initial) assets \<and>
        files = map (staged_in (pb_tmp (pr_publisher pr)) (pr_stage pr)) assets \<and>
        (\<exists>v u. verify_evidence env re (pr_unzip pr) manifest raw v = (Inr (), u)) \<and>
        (\<exists>v u. unchanged_since env (po_rc args) initial v = (Inr (), u)))"

lemma promote_start_runs:
  "promote_start env re args w = (Inr (client, current_id, info, sha, attempt), v) \<Longrightarrow>
     ge_repo client = po_repo args \<and> positive (VStr (po_run_id args)) ''run ID'' = Inr current_id \<and> re_checkout re = Inr sha"
  unfolding promote_start_def by (auto simp: gh_runs new_github_repo)

lemma candidate_asset_runs:
  assumes "candidate_asset env (manifest_rows manifest) raw asset v = (Inr f, u)"
  shows "promoted_file raw manifest asset f"
proof -
  obtain bytes v' where "(if asset_name asset = MANIFEST then gh_lift (Inr raw)
       else gh_with (positive (get_or asset ''id'' VNone) ''asset ID'') (\<lambda>n.
         download_asset env (''releases/assets/'' @ str_of_int n))) v = (Inr bytes, v')"
    "(if asset_name asset = MANIFEST then Inr () else row_matches (manifest_rows manifest) (asset_name asset) bytes) = Inr ()"
    "f = (asset_name asset, bytes)"
    using assms unfolding candidate_asset_def Let_def gh_bind_runs gh_seq_runs gh_lift_runs by blast
  then show ?thesis by (auto simp: promoted_file_def gh_lift_def split: if_splits)
qed

lemma promote_ready_runs:
  assumes "promote_ready env re pr args current_id info w = (Inr (manifest, files, body), w')"
  shows "promoted_files env re pr args manifest files"
proof -
  obtain initial raw assets v1 u1 v2 u2 v3 u3 v4 u4 where
    found: "published_candidate env (po_rc args) v1 = (Inr (initial, raw, manifest), u1)"
    and evidence: "verify_evidence env re (pr_unzip pr) manifest raw v2 = (Inr (), u2)"
    and inventory: "inventory_matches initial (manifest_rows manifest)"
    and assets: "gh_map (candidate_asset env (manifest_rows manifest) raw) (sn_assets initial) v3 = (Inr assets, u3)"
    and unchanged: "unchanged_since env (po_rc args) initial v4 = (Inr (), u4)"
    and files: "files = map (staged_in (pb_tmp (pr_publisher pr)) (pr_stage pr)) assets"
    using assms unfolding promote_ready_def
    by (auto simp: gh_runs case_prod_unfold Let_def)
  have "list_all2 (promoted_file raw manifest) (sn_assets initial) assets"
    using gh_map_runs [OF assets] by (rule list_all2_mono) (auto intro: candidate_asset_runs)
  with found evidence inventory unchanged files show ?thesis unfolding promoted_files_def by blast
qed

definition ledger_puts :: "gh_env \<Rightarrow> codec \<Rightarrow> (string, pyval) dict \<Rightarrow> gh_call list \<Rightarrow> bool" where
  "ledger_puts env codec manifest put \<longleftrightarrow>
     (if truthy (version_plan_of manifest) then \<exists>lw. put = [ledger_put env codec lw] else put = [])"

lemma promote_finish_emits:
  "emits (promote_finish env pr current_id (manifest, files, body))
     (\<lambda>cs. \<exists>put n. ledger_puts env (pb_codec (pr_publisher pr)) manifest put \<and>
        cs = put @ transaction env (stable_tag manifest) (manifest_sha manifest) files False body n)"
proof -
  let ?codec = "pb_codec (pr_publisher pr)"
  let ?put = "if truthy (version_plan_of manifest)
        then gh_bind (gh_begin_publication env ?codec (version_plan_of manifest) current_id VNone True) (\<lambda>_. gh_lift (Inr ()))
        else gh_lift (Inr ())"
  have "emits ?put (ledger_puts env ?codec manifest)"
  proof (cases "truthy (version_plan_of manifest)")
    case True
    have "emits (gh_bind (gh_begin_publication env ?codec (version_plan_of manifest) current_id VNone True) (\<lambda>_. gh_lift (Inr ())))
      (\<lambda>cs. \<exists>lw. cs = [ledger_put env ?codec lw])"
      by (rule emits_before_read [OF emits_begin]) (intro reads_intros)
    with True show ?thesis by (simp add: ledger_puts_def [abs_def])
  next
    case False
    with emits_reads [OF reads_lift] show ?thesis by (simp add: ledger_puts_def [abs_def])
  qed
  moreover have "emits (gh_bind (publish_prepared env (pr_publisher pr) (stable_tag manifest) (manifest_sha manifest) files
        False body (gh_lift (Inr ()))) (\<lambda>release. gh_with (at_key release ''html_url'') (\<lambda>url.
          gh_lift (Inr [(''tag'', VStr (stable_tag manifest)), (''release_url'', url)]))))
      (\<lambda>cs. \<exists>n. cs = transaction env (stable_tag manifest) (manifest_sha manifest) files False body n)"
    by (rule emits_before_read [OF emits_publish]) (intro reads_intros)+
  ultimately show ?thesis
    unfolding promote_finish_def prod.case by (rule emits_weaken [OF gh_emits_bind]) blast
qed

text \<open>
  C9: A promotion publishes the bytes of the accepted candidate.  Whatever GitHub answers, when the command
  has written anything, the run in progress was this execution's own for the stable channel, the files
  are exactly those of the published candidate (the manifest as found in the evidence archive of its
  run, every other file with the size and digest it records), the candidate had not changed, and all
  that was written is a beginning of at most one ledger write followed by the one publication of those
  files under the stable tag at the candidate's commit.
\<close>

theorem promotion_copies_candidate:
  "case promote fuel env re pr args w of
     None \<Rightarrow> True
   | Some (result, w') \<Rightarrow>
       if writes w' = writes w then True
       else \<exists>client current_id info sha attempt run manifest files body put n k.
         ge_repo client = po_repo args \<and> positive (VStr (po_run_id args)) ''run ID'' = Inr current_id \<and>
         publishing_run client re current_id ''stable'' info sha attempt False run \<and>
         promoted_files client re pr args manifest files \<and>
         ledger_puts client (pb_codec (pr_publisher pr)) manifest put \<and>
         writes w' = rev (take k (put @
           transaction client (stable_tag manifest) (manifest_sha manifest) files False body n)) @ writes w"
proof (cases "promote fuel env re pr args w")
  case (Some p)
  obtain result w' where p: "p = (result, w')" by fastforce
  have "\<exists>client current_id info sha attempt run manifest files body put n k.
         ge_repo client = po_repo args \<and> positive (VStr (po_run_id args)) ''run ID'' = Inr current_id \<and>
         publishing_run client re current_id ''stable'' info sha attempt False run \<and>
         promoted_files client re pr args manifest files \<and>
         ledger_puts client (pb_codec (pr_publisher pr)) manifest put \<and>
         writes w' = rev (take k (put @
           transaction client (stable_tag manifest) (manifest_sha manifest) files False body n)) @ writes w"
    if "writes w' \<noteq> writes w"
  proof -
    from wait_bind_then [OF Some [unfolded p promote_def]] that reads_D [OF reads_promote_start, of env re args w]
    obtain client current_id info sha attempt v where
      start: "promote_start env re args w = (Inr (client, current_id, info, sha, attempt), v)" "writes v = writes w"
      and rest: "wait_bind (wait_for_executing_run fuel client re current_id ''stable'' info sha attempt False) (\<lambda>_.
         at_once (gh_bind (promote_ready client re pr args current_id info) (promote_finish client pr current_id))) v = Some (result, w')"
      by (auto simp: at_once_def)
    from wait_bind_then [OF rest] that start wait_writes obtain run u where
      wait: "wait_for_executing_run fuel client re current_id ''stable'' info sha attempt False v = Some (Inr run, u)"
      "writes u = writes w"
      and publish: "gh_bind (promote_ready client re pr args current_id info) (promote_finish client pr current_id) u = (result, w')"
      by (fastforce simp: at_once_def)
    from gh_reads_then [OF reads_promote_ready publish] that wait obtain manifest files body t where
      ready: "promote_ready client re pr args current_id info u = (Inr (manifest, files, body), t)" "writes t = writes w"
      and finish: "promote_finish client pr current_id (manifest, files, body) t = (result, w')" by auto
    from emits_prefix [OF promote_finish_emits finish] ready(2) obtain put n k where
      "ledger_puts client (pb_codec (pr_publisher pr)) manifest put"
      "writes w' = rev (take k (put @
         transaction client (stable_tag manifest) (manifest_sha manifest) files False body n)) @ writes w" by auto
    with promote_start_runs [OF start(1)] waited_run [OF wait(1)] promote_ready_runs [OF ready(1)]
    show ?thesis by blast
  qed
  then show ?thesis unfolding Some p by simp
qed simp

end
