(* ===== verification/Toolchains.thy ===== *)
theory Toolchains
  imports Release_Promotion
begin

section \<open>Toolchains of a final build\<close>

text \<open>
  Model of the toolchain comparison of \<^verbatim>\<open>scripts/release_versioned.py\<close>: a final build must have exactly the
  toolchains that the accepted candidate recorded, and a difference is described field by field without
  its values.  The description walks both values with an explicit stack; it is proved equal to a recursive
  description, and empty exactly for equal values.
\<close>

subsection \<open>Describing differences\<close>

definition label_char :: "char \<Rightarrow> bool" where
  "label_char c \<longleftrightarrow> class_has False
     [CRange (CHR ''A'') (CHR ''Z''), CRange (CHR ''a'') (CHR ''z''), CRange (CHR ''0'') (CHR ''9''),
      CChar (CHR ''_''), CChar (CHR ''.''), CChar (CHR ''/''), CChar (CHR ''~''), CChar (CHR ''-'')] c"

text \<open>\<^verbatim>\<open>[A-Za-z0-9_./~-]{1,200}\<close>; any other text is replaced by the digest of its UTF-8 form.\<close>

definition diagnostic_label :: "string \<Rightarrow> string" where
  "diagnostic_label s =
     (if s \<noteq> [] \<and> length s \<le> 200 \<and> list_all label_char s then s
      else ''redacted-sha256-'' @ sha256 (concat (map (map char_of \<circ> utf8_bytes) s)))"

definition pointer_part :: "string \<Rightarrow> string" where
  "pointer_part key =
     concat (map (\<lambda>c. if c = CHR ''~'' then ''~0'' else if c = CHR ''/'' then ''~1'' else [c]) key)"

type_synonym difference = "string \<times> pyval option \<times> pyval option"

definition queue_mapping :: "string \<Rightarrow> (string, pyval) dict \<Rightarrow> (string, pyval) dict \<Rightarrow> difference list" where
  "queue_mapping path before after =
     map (\<lambda>key. (diagnostic_label (path @ ''/'' @ pointer_part key), map_of before key, map_of after key))
       (sort (remdups (dict_keys before @ dict_keys after)))"

definition queue_list :: "string \<Rightarrow> pyval list \<Rightarrow> pyval list \<Rightarrow> difference list" where
  "queue_list path before after =
     map (\<lambda>i. (diagnostic_label (path @ ''/'' @ str_of_nat i),
               if i < length before then Some (before ! i) else None,
               if i < length after then Some (after ! i) else None))
       [0..<max (length before) (length after)]"

definition type_name :: "pyval \<Rightarrow> string" where
  "type_name v =
     (case type_of v of TNone \<Rightarrow> ''NoneType'' | TBool \<Rightarrow> ''bool'' | TInt \<Rightarrow> ''int'' | TFloat \<Rightarrow> ''float''
      | TStr \<Rightarrow> ''str'' | TList \<Rightarrow> ''list'' | TDict \<Rightarrow> ''dict'')"

text \<open>What is reported of one pair, and the pairs inside it.\<close>

datatype finding = Reported string | Inside "difference list"

definition compare_pair :: "string \<Rightarrow> pyval option \<Rightarrow> pyval option \<Rightarrow> finding" where
  "compare_pair path before after =
     (case (before, after) of
        (None, _) \<Rightarrow> Reported ''missing in accepted RC''
      | (Some _, None) \<Rightarrow> Reported ''missing in final build''
      | (Some b, Some a) \<Rightarrow>
          if py_eq b a then Inside []
          else if type_of b \<noteq> type_of a
            then Reported (''type changed ('' @ type_name b @ '' -> '' @ type_name a @ '')'')
          else (case (b, a) of
              (VDict d, VDict e) \<Rightarrow> Inside (queue_mapping path d e)
            | (VList xs, VList ys) \<Rightarrow> Inside (queue_list path xs ys)
            | _ \<Rightarrow> Reported ''value changed''))"

fun nodes :: "pyval \<Rightarrow> nat" where
  "nodes (VList vs) = Suc (sum_list (map (\<lambda>v. Suc (nodes v)) vs))"
| "nodes (VDict d) = Suc (sum_list (map (\<lambda>(_, v). Suc (nodes v)) d))"
| "nodes v = 1"

definition side_weight :: "pyval option \<Rightarrow> nat" where
  "side_weight v = (case v of None \<Rightarrow> 0 | Some x \<Rightarrow> 2 * nodes x)"

definition pair_weight :: "difference \<Rightarrow> nat" where
  "pair_weight p = (case p of (_, before, after) \<Rightarrow> Suc (side_weight before + side_weight after))"

definition stack_weight :: "difference list \<Rightarrow> nat" where
  "stack_weight ps = sum_list (map pair_weight ps)"

lemma stack_weight_simps [simp]:
  "stack_weight [] = 0" "stack_weight (p # ps) = pair_weight p + stack_weight ps"
  "stack_weight (ps @ qs) = stack_weight ps + stack_weight qs"
  by (simp_all add: stack_weight_def)

lemma pair_weight_pos: "0 < pair_weight p"
  by (simp add: pair_weight_def split: prod.split)

lemma keyed_sum:
  assumes "distinct ks"
  shows "sum_list (map (\<lambda>k. case map_of d k of None \<Rightarrow> 0 | Some v \<Rightarrow> f v) ks) \<le> sum_list (map (\<lambda>(_, v). f v) d :: nat list)"
  using assms
proof (induction d arbitrary: ks)
  case (Cons e d)
  obtain k v where e: "e = (k, v)" by fastforce
  let ?g = "\<lambda>k. case map_of d k of None \<Rightarrow> 0 | Some v \<Rightarrow> f v"
  have "sum_list (map (\<lambda>k'. case map_of (e # d) k' of None \<Rightarrow> 0 | Some v \<Rightarrow> f v) ks) \<le>
      f v + sum_list (map ?g (remove1 k ks))"
  proof (cases "k \<in> set ks")
    case True
    with Cons.prems have "sum_list (map (\<lambda>k'. case map_of (e # d) k' of None \<Rightarrow> 0 | Some v \<Rightarrow> f v) (remove1 k ks)) =
        sum_list (map ?g (remove1 k ks))"
      by (intro arg_cong [of _ _ sum_list] map_cong refl) (auto simp: e)
    with True show ?thesis by (simp add: sum_list_map_remove1 [of k] e)
  next
    case False
    then have same: "map (\<lambda>k'. case map_of (e # d) k' of None \<Rightarrow> 0 | Some v \<Rightarrow> f v) ks = map ?g ks"
      by (auto simp: e)
    show ?thesis unfolding same using False by (simp add: remove1_idem)
  qed
  also have "sum_list (map ?g (remove1 k ks)) \<le> sum_list (map (\<lambda>(_, v). f v) d)"
    using Cons by (simp add: distinct_remove1)
  finally show ?case by (simp add: e)
qed (simp add: sum_list_0)


lemma mapping_side:
  "sum_list (map (\<lambda>k. side_weight (map_of d k)) (remdups ks)) \<le> sum_list (map (\<lambda>(_, v). 2 * nodes v) d)"
  using keyed_sum [where ks = "remdups ks" and d = d and f = "\<lambda>v. 2 * nodes v"] by (simp add: side_weight_def)

lemma sum_list_sort: "sum_list (map f (sort xs)) = sum_list (map f xs :: nat list)"
  by (metis mset_map mset_sort sum_mset_sum_list)

lemma double_nodes: "sum_list (map (\<lambda>(_, v). Suc (nodes v)) d) = length d + sum_list (map (\<lambda>(_, v). nodes v) d)"
  by (induction d) auto

lemma sum_list_double: "sum_list (map (\<lambda>(_, v). 2 * nodes v) d) = 2 * sum_list (map (\<lambda>(_, v). nodes v) d)"
  by (induction d) auto

lemma queue_mapping_lighter: "stack_weight (queue_mapping path d e) < 2 * nodes (VDict d) + 2 * nodes (VDict e)"
proof -
  let ?ks = "remdups (dict_keys d @ dict_keys e)"
  have "stack_weight (queue_mapping path d e) =
      sum_list (map (\<lambda>k. Suc (side_weight (map_of d k) + side_weight (map_of e k))) ?ks)"
    by (simp add: queue_mapping_def stack_weight_def comp_def pair_weight_def sum_list_sort)
  also have "\<dots> = length ?ks + sum_list (map (\<lambda>k. side_weight (map_of d k)) ?ks) + sum_list (map (\<lambda>k. side_weight (map_of e k)) ?ks)"
    by (induction ?ks) (simp_all add: sum_list_Suc sum_list_addf)
  also have "\<dots> \<le> (length d + length e) + 2 * sum_list (map (\<lambda>(_, v). nodes v) d) + 2 * sum_list (map (\<lambda>(_, v). nodes v) e)"
    using mapping_side [of d "dict_keys d @ dict_keys e"] mapping_side [of e "dict_keys d @ dict_keys e"]
      length_remdups_leq [of "dict_keys d @ dict_keys e"] unfolding sum_list_double by simp
  finally show ?thesis by (simp add: double_nodes)
qed

lemma list_side:
  "sum_list (map (\<lambda>i. side_weight (if i < length xs then Some (xs ! i) else None)) [0..<n]) \<le> sum_list (map (\<lambda>v. 2 * nodes v) xs)"
proof -
  let ?g = "\<lambda>i. side_weight (if i < length xs then Some (xs ! i) else None)"
  have "sum_list (map ?g [0..<n]) = sum ?g {0..<n}" by (simp add: interv_sum_list_conv_sum_set_nat)
  also have "\<dots> = sum ?g ({0..<n} \<inter> {0..<length xs})"
    by (intro sum.mono_neutral_right) (auto simp: side_weight_def)
  also have "\<dots> \<le> sum ?g {0..<length xs}" by (intro sum_mono2) auto
  also have "\<dots> = sum_list (map (\<lambda>v. 2 * nodes v) xs)"
    unfolding sum_list_sum_nth by (intro sum.cong) (auto simp: side_weight_def)
  finally show ?thesis .
qed

lemma queue_list_lighter: "stack_weight (queue_list path xs ys) < 2 * nodes (VList xs) + 2 * nodes (VList ys)"
proof -
  let ?n = "max (length xs) (length ys)"
  have "stack_weight (queue_list path xs ys) =
      ?n + sum_list (map (\<lambda>i. side_weight (if i < length xs then Some (xs ! i) else None)) [0..<?n]) +
        sum_list (map (\<lambda>i. side_weight (if i < length ys then Some (ys ! i) else None)) [0..<?n])"
    by (simp add: queue_list_def stack_weight_def comp_def pair_weight_def sum_list_Suc sum_list_addf del: upt.simps)
  also have "\<dots> \<le> (length xs + length ys) + sum_list (map (\<lambda>v. 2 * nodes v) xs) + sum_list (map (\<lambda>v. 2 * nodes v) ys)"
    using list_side [of xs ?n] list_side [of ys ?n] by simp
  finally show ?thesis by (simp add: sum_list_Suc sum_list_const_mult)
qed

lemma compare_pair_lighter:
  assumes "compare_pair path before after = Inside ps"
  shows "stack_weight ps < pair_weight (path, before, after)"
proof (cases "before = None \<or> after = None \<or> py_eq (the before) (the after)")
  case True
  with assms show ?thesis by (auto simp: compare_pair_def pair_weight_def split: option.splits if_splits)
next
  case False
  then obtain b a where "before = Some b" "after = Some a" "\<not> py_eq b a" by auto
  with assms queue_mapping_lighter queue_list_lighter show ?thesis
    by (auto simp: compare_pair_def pair_weight_def side_weight_def less_SucI split: if_splits pyval.splits)
qed

function changes :: "difference list \<Rightarrow> (string \<times> string) list" where
  "changes [] = []"
| "changes ((path, before, after) # rest) =
     (case compare_pair path before after of
        Reported change \<Rightarrow> (path, change) # changes rest
      | Inside ps \<Rightarrow> changes (ps @ rest))"
  by pat_completeness auto
termination
proof (relation "measure stack_weight", goal_cases)
  case (2 path before after rest change)
  then show ?case using pair_weight_pos by simp
next
  case (3 path before after rest ps)
  then show ?case using compare_pair_lighter by simp
qed simp

definition toolchain_changes :: "pyval \<Rightarrow> pyval \<Rightarrow> (string \<times> string) list" where
  "toolchain_changes original current = changes [(''toolchain'', Some original, Some current)]"

subsection \<open>The description is complete\<close>

text \<open>The same description by recursion over the values.\<close>

function describe :: "difference \<Rightarrow> (string \<times> string) list" where
  "describe (path, before, after) =
     (case compare_pair path before after of
        Reported change \<Rightarrow> [(path, change)]
      | Inside ps \<Rightarrow> concat (map describe ps))"
  by pat_completeness auto
termination
proof (relation "measure pair_weight", goal_cases)
  case (2 path before after ps p)
  then have "pair_weight p \<le> stack_weight ps"
    unfolding stack_weight_def by (intro member_le_sum_list) auto
  with compare_pair_lighter [OF 2(1)] show ?case by simp
qed simp

lemma changes_describe: "changes ps = concat (map describe ps)"
  by (induction ps rule: changes.induct) (auto split: finding.split)

lemma describe_mapping_equal:
  assumes "concat (map describe (queue_mapping path d e)) = []"
    and IH: "\<And>p. p \<in> set (queue_mapping path d e) \<Longrightarrow> describe p = [] \<Longrightarrow>
      (\<forall>b a. snd p = (Some b, Some a) \<longrightarrow> distinct_fields b \<longrightarrow> distinct_fields a \<longrightarrow> py_eq b a)"
    and wf: "distinct_fields (VDict d)" "distinct_fields (VDict e)"
  shows "py_eq (VDict d) (VDict e)"
proof -
  have both: "\<exists>x y. map_of d k = Some x \<and> map_of e k = Some y \<and> py_eq x y"
    if k: "k \<in> set (dict_keys d) \<union> set (dict_keys e)" for k
  proof -
    let ?p = "(diagnostic_label (path @ ''/'' @ pointer_part k), map_of d k, map_of e k)"
    have mem: "?p \<in> set (queue_mapping path d e)" using k by (auto simp: queue_mapping_def)
    with assms(1) have none: "describe ?p = []" by auto
    then obtain x y where xy: "map_of d k = Some x" "map_of e k = Some y"
      by (auto simp: compare_pair_def split: option.splits)
    then have "distinct_fields x" "distinct_fields y"
      using wf by (auto dest!: map_of_SomeD simp: list_all_iff)
    with IH [OF mem none] xy show ?thesis by auto
  qed
  have keys: "k \<in> set (dict_keys d) \<longleftrightarrow> k \<in> set (dict_keys e)" for k
  proof -
    have known: "k \<in> set (dict_keys f) \<longleftrightarrow> map_of f k \<noteq> None" for f :: "(string, pyval) dict"
      by (simp add: map_of_eq_None_iff)
    show ?thesis using both [of k] unfolding Un_iff known by auto
  qed
  have "case map_of e k of Some y \<Rightarrow> py_eq x y | None \<Rightarrow> False" if "(k, x) \<in> set d" for k x
  proof -
    have "map_of d k = Some x" using that wf(1) by (simp add: map_of_is_SomeI)
    moreover have "k \<in> set (dict_keys d)" using that by force
    ultimately show ?thesis using both [of k] by auto
  qed
  with keys show ?thesis by (auto simp: list_all_iff)
qed

lemma describe_list_equal:
  assumes "concat (map describe (queue_list path xs ys)) = []"
    and IH: "\<And>p. p \<in> set (queue_list path xs ys) \<Longrightarrow> describe p = [] \<Longrightarrow>
      (\<forall>b a. snd p = (Some b, Some a) \<longrightarrow> distinct_fields b \<longrightarrow> distinct_fields a \<longrightarrow> py_eq b a)"
    and wf: "distinct_fields (VList xs)" "distinct_fields (VList ys)"
  shows "py_eq (VList xs) (VList ys)"
proof -
  have both: "i < length xs \<and> i < length ys \<and> py_eq (xs ! i) (ys ! i)" if i: "i < max (length xs) (length ys)" for i
  proof -
    let ?p = "(diagnostic_label (path @ ''/'' @ str_of_nat i), if i < length xs then Some (xs ! i) else None,
        if i < length ys then Some (ys ! i) else None)"
    have mem: "?p \<in> set (queue_list path xs ys)" using i by (auto simp: queue_list_def)
    with assms(1) have none: "describe ?p = []" by auto
    then have short: "i < length xs" "i < length ys"
      by (auto simp: compare_pair_def split: option.splits if_splits)
    then have "distinct_fields (xs ! i)" "distinct_fields (ys ! i)" using wf by (auto simp: list_all_iff)
    with IH [OF mem none] short show ?thesis by auto
  qed
  then have "length xs = length ys" by (metis less_irrefl max_less_iff_conj nat_neq_iff less_max_iff_disj)
  with both show ?thesis by (simp add: list_all2_conv_all_nth)
qed

lemma describe_empty_equal:
  "describe p = [] \<Longrightarrow> \<forall>b a. snd p = (Some b, Some a) \<longrightarrow> distinct_fields b \<longrightarrow> distinct_fields a \<longrightarrow> py_eq b a"
proof (induction p rule: describe.induct)
  case (1 path before after)
  have "py_eq b a" if "before = Some b" "after = Some a" and wf: "distinct_fields b" "distinct_fields a" for b a
  proof (rule ccontr)
    assume unequal: "\<not> py_eq b a"
    with 1(2) that(1,2) have same: "type_of b = type_of a" by (auto simp: compare_pair_def split: if_splits)
    show False
    proof (cases b)
      case (VDict d)
      with same obtain e where e: "a = VDict e" by (cases a) auto
      have inside: "compare_pair path before after = Inside (queue_mapping path d e)"
        using that unequal VDict e by (simp add: compare_pair_def del: py_eq.simps)
      from describe_mapping_equal [of path d e] 1(1) [OF inside] 1(2) inside wf VDict e unequal show False by fastforce
    next
      case (VList xs)
      with same obtain ys where ys: "a = VList ys" by (cases a) auto
      have inside: "compare_pair path before after = Inside (queue_list path xs ys)"
        using that unequal VList ys by (simp add: compare_pair_def del: py_eq.simps)
      from describe_list_equal [of path xs ys] 1(1) [OF inside] 1(2) inside wf VList ys unequal show False by fastforce
    qed (use 1(2) that unequal same in \<open>auto simp: compare_pair_def\<close>)
  qed
  then show ?case by auto
qed

text \<open>
  C11: The description of two toolchains walks them with an explicit stack and ends; it lists exactly the
  differences of the field-by-field recursion, in the order of the fields, and it is empty exactly when the two
  values are equal, for values as the JSON reader yields them.
\<close>

theorem toolchain_changes_complete:
  assumes "distinct_fields original" "distinct_fields current"
  shows "toolchain_changes original current = describe (''toolchain'', Some original, Some current) \<and>
    (toolchain_changes original current = [] \<longleftrightarrow> py_eq original current)"
proof -
  have same: "toolchain_changes original current = describe (''toolchain'', Some original, Some current)"
    by (simp add: toolchain_changes_def changes_describe del: describe.simps)
  have "describe (''toolchain'', Some original, Some current) = []" if "py_eq original current"
    using that by (simp add: compare_pair_def)
  with same describe_empty_equal [of "(''toolchain'', Some original, Some current)"] assms
  show ?thesis by auto
qed

definition sample_toolchain :: "string \<Rightarrow> pyval" where
  "sample_toolchain release = VDict [(''python'', VStr ''3.12''), (''image'', VDict [(''version'', VStr release)])]"

theorem toolchain_changes_complete_witness:
  "toolchain_changes (sample_toolchain ''1'') (sample_toolchain ''2'') = [(''toolchain/image/version'', ''value changed'')] \<and>
   \<not> py_eq (sample_toolchain ''1'') (sample_toolchain ''2'')"
proof -
  have wf: "distinct_fields (sample_toolchain ''1'')" "distinct_fields (sample_toolchain ''2'')" by code_simp+
  have change: "toolchain_changes (sample_toolchain ''1'') (sample_toolchain ''2'') =
      [(''toolchain/image/version'', ''value changed'')]" by code_simp
  with toolchain_changes_complete [OF wf] show ?thesis by simp
qed

subsection \<open>The toolchains of the accepted candidate\<close>

text \<open>A receipt as verified: its name, digest and inputs.\<close>

type_synonym receipt_row = "string \<times> string \<times> pyval"

definition MAX_TOOLCHAIN_DIAGNOSTICS :: nat where
  "MAX_TOOLCHAIN_DIAGNOSTICS = 100"

text \<open>The receipts that the candidate's manifest records, the last of a name first.\<close>

definition recorded_receipts :: "(string, pyval) dict \<Rightarrow> (pyval \<times> pyval) list rel" where
  "recorded_receipts manifest =
     bind_res (iterate (get_or manifest ''build_receipts'' (VList []))) (\<lambda>rows.
     bind_res (map_res (\<lambda>r. subscript r ''name'') rows) (\<lambda>names.
     bind_res (map_res (\<lambda>n. in_names n []) names) (\<lambda>_. Inr (rev (zip names rows)))))"

definition named_asset :: "(string, pyval) dict list \<Rightarrow> string \<Rightarrow> (string, pyval) dict option" where
  "named_asset assets name = find (\<lambda>d. get_or d ''name'' VNone = VStr name) assets"

text \<open>The toolchain of a receipt of the candidate beside that of the final build.\<close>

definition original_toolchain ::
  "gh_env \<Rightarrow> snapshot \<Rightarrow> (pyval \<times> pyval) list \<Rightarrow> receipt_row \<Rightarrow> (string \<times> pyval \<times> pyval) gh" where
  "original_toolchain env s recorded = (\<lambda>(name, _, inputs).
     case named_asset (sn_assets s) name of
       None \<Rightarrow> gh_lift (Inl (ReleaseError ''RC platform receipt is missing''))
     | Some asset \<Rightarrow>
         gh_with (bind_res (at_key asset ''id'') (\<lambda>v. positive v ''receipt asset ID'')) (\<lambda>n.
         gh_bind (binary env (''releases/assets/'' @ str_of_int n)) (\<lambda>raw.
         gh_with (case map_of recorded (VStr name) of None \<Rightarrow> Inl (Raised KeyError) | Some row \<Rightarrow> subscript row ''sha256'') (\<lambda>sha.
         gh_seq (rc_require (sha = VStr (sha256 raw)) ''RC toolchain receipt changed'')
         (gh_with (parse_json env raw) (\<lambda>original.
          gh_seq (rc_require (is_dict original \<and> is_dict inputs) ''Invalid toolchain receipt object'')
           (gh_lift (Inr (name, get_or (entries_of original) ''toolchain'' VNone, get_or (entries_of inputs) ''toolchain'' VNone)))))))))"

definition difference_lines :: "(string \<times> pyval \<times> pyval) list \<Rightarrow> string list" where
  "difference_lines rows =
     concat (map (\<lambda>(name, before, after).
       if py_eq before after then []
       else map (\<lambda>(path, change). ''  '' @ diagnostic_label name @ '': '' @ path @ '': '' @ change)
         (toolchain_changes before after)) rows)"

definition shown_differences :: "string list \<Rightarrow> string list" where
  "shown_differences differences =
     (let omitted = length differences - MAX_TOOLCHAIN_DIAGNOSTICS
      in take MAX_TOOLCHAIN_DIAGNOSTICS differences @
         (if omitted = 0 then [] else [''  '' @ str_of_nat omitted @ '' further field differences omitted (log limit)'']))"

definition toolchain_verdict :: "(string \<times> pyval \<times> pyval) list \<Rightarrow> unit rel" where
  "toolchain_verdict rows =
     (let changed = filter (\<lambda>(_, before, after). \<not> py_eq before after) rows; differences = difference_lines rows
      in if changed = [] then Inr ()
         else Inl (ReleaseError
           (''Build toolchain differs from accepted RC: '' @ str_of_nat (length changed) @ '' platform receipt(s), '' @
            str_of_nat (length differences) @ '' field difference(s).'' @ [CHR 0x0A] @
            join [CHR 0x0A] (shown_differences differences))))"

definition verify_final_toolchains :: "gh_env \<Rightarrow> (string, pyval) dict \<Rightarrow> receipt_row list \<Rightarrow> unit gh" where
  "verify_final_toolchains env accepted receipts =
     gh_with (at_key accepted ''tag'') (\<lambda>tag.
     gh_bind (release_snapshot env (text_of tag)) (\<lambda>s.
     gh_with (recorded_receipts accepted) (\<lambda>recorded.
     gh_seq (rc_require (set (map fst recorded) = VStr ` set (map fst receipts))
       ''Final platform receipt inventory differs from RC'')
     (gh_bind (gh_map (original_toolchain env s recorded) (sort_key fst receipts)) (\<lambda>rows.
       gh_lift (toolchain_verdict rows))))))"

lemma reads_original_toolchain [reads_intros]: "reads (original_toolchain env s recorded row)"
  unfolding original_toolchain_def case_prod_unfold by (intro reads_intros)

lemma reads_final_toolchains [reads_intros]: "reads (verify_final_toolchains env accepted receipts)"
  unfolding verify_final_toolchains_def by (intro reads_intros reads_map)

text \<open>The candidate's receipt of this name was downloaded with the digest its manifest records, and its toolchain is equal.\<close>

definition same_toolchain :: "gh_env \<Rightarrow> (string, pyval) dict \<Rightarrow> receipt_row \<Rightarrow> bool" where
  "same_toolchain env accepted row \<longleftrightarrow>
     (\<exists>n v raw u recorded item original.
        binary env (''releases/assets/'' @ str_of_int n) v = (Inr raw, u) \<and>
        recorded_receipts accepted = Inr recorded \<and> map_of recorded (VStr (fst row)) = Some item \<and>
        subscript item ''sha256'' = Inr (VStr (sha256 raw)) \<and> parse_json env raw = Inr original \<and>
        py_eq (get_or (entries_of original) ''toolchain'' VNone) (get_or (entries_of (snd (snd row))) ''toolchain'' VNone))"

lemma final_toolchains_equal:
  assumes "verify_final_toolchains env accepted receipts w = (Inr (), w')"
  shows "list_all (same_toolchain env accepted) receipts"
proof -
  obtain s recorded rows v u where recorded: "recorded_receipts accepted = Inr recorded"
    and rows: "gh_map (original_toolchain env s recorded) (sort_key fst receipts) v = (Inr rows, u)"
    and equal: "toolchain_verdict rows = Inr ()"
    using assms unfolding verify_final_toolchains_def gh_bind_runs gh_with_runs gh_seq_runs gh_lift_runs by blast
  have eq: "list_all (\<lambda>(_, before, after). py_eq before after) rows"
    using equal by (auto simp: toolchain_verdict_def Let_def filter_empty_conv list_all_iff split: if_splits)
  have "list_all2 (\<lambda>row y. \<exists>v u. original_toolchain env s recorded row v = (Inr y, u)) (sort_key fst receipts) rows"
    using gh_map_runs [OF rows] .
  then have "list_all2 (\<lambda>row y. same_toolchain env accepted row \<or> \<not> py_eq (fst (snd y)) (snd (snd y))) (sort_key fst receipts) rows"
  proof (rule list_all2_mono, elim exE)
    fix row y v u assume run: "original_toolchain env s recorded row v = (Inr y, u)"
    obtain name sha inputs where row: "row = (name, sha, inputs)" by (metis prod_cases3)
    from run recorded show "same_toolchain env accepted row \<or> \<not> py_eq (fst (snd y)) (snd (snd y))"
      unfolding row original_toolchain_def prod.case
      by (auto simp: gh_runs same_toolchain_def split: option.splits) blast+
  qed
  with eq have "list_all (same_toolchain env accepted) (sort_key fst receipts)"
    by (auto simp: list_all_length list_all2_conv_all_nth case_prod_unfold)
  then show ?thesis by (simp add: list_all_iff)
qed

lemma shown_differences_bounded: "length (shown_differences differences) \<le> 101"
  by (simp add: shown_differences_def MAX_TOOLCHAIN_DIAGNOSTICS_def Let_def)

end
