(* ===== verification/Release_Reuse.thy ===== *)
theory Release_Reuse
  imports Toolchains
begin

section \<open>Versioned releases: context and evidence\<close>

text \<open>
  Model of the reading half of \<^verbatim>\<open>scripts/release_versioned.py\<close>: the execution context of its commands, the
  verification of an accepted candidate, and the search for an earlier release that a scheduled run may
  reuse.  The local policy file and the event file are parameters.
\<close>

subsection \<open>Context\<close>

text \<open>What the commands read besides GitHub.\<close>

record site =
  st_publisher :: publisher
  st_unzip :: "string \<Rightarrow> (string \<times> nat \<times> string) list option"
  st_local_policy :: "pyval rel"

definition environ_value :: "gh_env \<Rightarrow> string \<Rightarrow> pyval" where
  "environ_value env name = (case map_of (ge_environ env) name of None \<Rightarrow> VNone | Some s \<Rightarrow> VStr s)"

type_synonym release_context = "(string, pyval) dict \<times> (string, pyval) dict \<times> (string, pyval) dict"

definition context_start :: "gh_env \<Rightarrow> run_env \<Rightarrow> (int \<times> int \<times> (string, pyval) dict \<times> string) gh" where
  "context_start env re =
     gh_with (positive (environ_value env ''GITHUB_RUN_ID'') ''run ID'') (\<lambda>run_id.
     gh_with (positive (environ_value env ''GITHUB_RUN_ATTEMPT'') ''run attempt'') (\<lambda>attempt.
     gh_bind (repository_info env) (\<lambda>info.
     gh_with (re_checkout re) (\<lambda>sha. gh_lift (Inr (run_id, attempt, info, sha))))))"

definition context_checked ::
  "gh_env \<Rightarrow> site \<Rightarrow> string \<Rightarrow> bool \<Rightarrow> (string, pyval) dict \<Rightarrow> (string, pyval) dict \<Rightarrow> release_context gh" where
  "context_checked env st channel gate info run =
     gh_with (at_key run ''head_sha'') (\<lambda>sha.
     gh_bind (source_policy_snapshot env (pb_codec (st_publisher st)) (text_of sha)) (\<lambda>snapshot.
     let data = get_or snapshot ''data'' VNone
     in gh_seq (require_release_policy data (ge_repo env) (channel \<in> {''rc'', ''stable''}))
        (gh_seq (rc_require (truthy (get_or (entries_of data) ''versioning'' VNone)) ''Repository has not enabled version plans'')
        (gh_with (st_local_policy st) (\<lambda>local_policy.
         gh_seq (rc_require (py_eq local_policy data) ''Working policy differs from source commit'')
         (gh_with (branch_of info) (\<lambda>branch.
          gh_bind (check_ancestry env (text_of sha) branch) (\<lambda>_.
          gh_bind (if gate then validate_validation_run env run (entries_of data) channel else gh_lift (Inr ())) (\<lambda>_.
            gh_lift (Inr (info, run, snapshot)))))))))))"

definition release_context :: "nat \<Rightarrow> gh_env \<Rightarrow> run_env \<Rightarrow> site \<Rightarrow> string \<Rightarrow> bool \<Rightarrow> release_context waiting" where
  "release_context fuel env re st channel gate =
     wait_bind (at_once (context_start env re)) (\<lambda>(run_id, attempt, info, sha).
     wait_bind (wait_for_executing_run fuel env re run_id channel info sha attempt gate) (\<lambda>run.
       at_once (context_checked env st channel gate info run)))"

subsection \<open>The accepted candidate of a final build\<close>

definition candidate_payload ::
  "gh_env \<Rightarrow> (string, (string, pyval) dict) dict \<Rightarrow> (string, pyval) dict \<Rightarrow> unit gh" where
  "candidate_payload env rows asset =
     gh_with (bind_res (at_key asset ''id'') (\<lambda>v. positive v ''asset ID'')) (\<lambda>n.
     gh_bind (download_asset env (''releases/assets/'' @ str_of_int n)) (\<lambda>bytes.
     gh_with (at_key asset ''size'') (\<lambda>size.
     gh_seq (rc_require (py_eq size (VInt (int (length bytes)))) ''RC asset size mismatch'')
       (gh_lift (row_matches rows (asset_name asset) bytes)))))"

definition parent_of :: "string \<Rightarrow> string \<Rightarrow> (string, pyval) dict \<Rightarrow> pyval" where
  "parent_of tag raw manifest =
     VDict [(''tag'', VStr tag), (''manifest_sha256'', VStr (sha256 raw)),
            (''source_sha'', VStr (manifest_sha manifest)), (''run_id'', get_or manifest ''run_id'' VNone)]"

definition other_assets :: "snapshot \<Rightarrow> (string, pyval) dict list" where
  "other_assets s = filter (\<lambda>d. asset_name d \<noteq> MANIFEST) (sn_assets s)"

definition manifest_asset :: "snapshot \<Rightarrow> (string, pyval) dict" where
  "manifest_asset s = hd (filter (\<lambda>d. asset_name d = MANIFEST) (sn_assets s))"

definition verified_rc ::
  "gh_env \<Rightarrow> run_env \<Rightarrow> site \<Rightarrow> pyval \<Rightarrow> (string, pyval) dict \<Rightarrow> (string, pyval) dict \<Rightarrow>
   ((string, pyval) dict \<times> pyval) gh" where
  "verified_rc env re st tag info current_run =
     (let codec = pb_codec (st_publisher st)
      in gh_seq (rc_require (is_str_ok (fullmatch candidate_pattern) tag) ''Stable requires an explicit vX.Y.Z-rc.N'')
      (gh_bind (published_candidate env (text_of tag)) (\<lambda>(initial, raw, manifest).
       gh_bind (source_policy_snapshot env codec (manifest_sha manifest)) (\<lambda>snapshot.
       gh_seq (rc_require (py_eq (VDict snapshot) (get_or manifest ''source_policy'' VNone)) ''RC source policy changed'')
       (gh_with (at_key current_run ''head_sha'') (\<lambda>head.
        gh_bind (require_current_fuzzing env codec (snapshot_policy snapshot) (text_of head)) (\<lambda>_.
        gh_with (bind_res (at_key (sn_ref initial) ''object'') (\<lambda>target. get_of target ''sha'' VNone)) (\<lambda>tag_sha.
        gh_seq (rc_require (tag_sha = VStr (manifest_sha manifest)) ''RC source tag mismatch'')
        (gh_with (at_key current_run ''id'') (\<lambda>current_id.
         gh_seq (rc_require (\<not> py_eq (get_or manifest ''run_id'' VNone) current_id) ''RC must come from a separate run'')
         (gh_bind (source_run_checked env re info (snapshot_policy snapshot) manifest) (\<lambda>_.
          gh_bind (verify_evidence env re (st_unzip st) manifest raw) (\<lambda>_.
          gh_seq (rc_require (inventory_matches initial (manifest_rows manifest)) ''RC asset inventory differs from immutable evidence'')
          (gh_with (at_key (manifest_asset initial) ''size'') (\<lambda>size.
           gh_seq (rc_require (py_eq size (VInt (int (length raw)))) ''RC asset size mismatch'')
           (gh_bind (gh_each (candidate_payload env (manifest_rows manifest)) (other_assets initial)) (\<lambda>_.
            gh_bind (unchanged_since env (text_of tag) initial) (\<lambda>_.
              gh_lift (Inr (manifest, parent_of (text_of tag) raw manifest))))))))))))))))))))"

subsection \<open>An earlier release of the same source\<close>

definition published_assets :: "pyval list \<Rightarrow> (string, pyval) dict list rel" where
  "published_assets assets =
     bind_res (map_res dict_of assets) (\<lambda>rows.
       let names = map (\<lambda>d. get_or d ''name'' VNone) rows
       in rel_seq (rc_require (list_all (is_str_ok asset_name_ok) names \<and>
              distinct (map (\<lambda>n. lower (text_of n)) names) \<and>
              list_all (\<lambda>d. get_or d ''state'' VNone = VStr ''uploaded'') rows)
            ''Qualified release has invalid or incomplete assets'') (Inr rows))"

definition published_plan_snapshot :: "gh_env \<Rightarrow> string \<Rightarrow> string \<Rightarrow> bool \<Rightarrow> snapshot gh" where
  "published_plan_snapshot env tag source prerelease =
     gh_bind (get env (''git/ref/tags/'' @ tag)) (\<lambda>ref_value.
     gh_bind (get env (''releases/tags/'' @ tag)) (\<lambda>release_value.
     gh_with (dict_of ref_value) (\<lambda>ref.
     gh_with (get_in ref ''object'' ''type'' VNone) (\<lambda>kind.
     gh_with (get_in ref ''object'' ''sha'' VNone) (\<lambda>sha.
     gh_seq (rc_require (get_or ref ''ref'' VNone = VStr (''refs/tags/'' @ tag) \<and> kind = VStr ''commit'' \<and> sha = VStr source)
       ''Qualified release tag/source mismatch'')
     (gh_with (dict_of release_value) (\<lambda>release.
      gh_seq (rc_require (get_or release ''tag_name'' VNone = VStr tag \<and> get_or release ''draft'' VNone = VBool False \<and>
          get_or release ''prerelease'' VNone = VBool prerelease) ''Qualified release is not published'')
      (gh_with (positive (get_or release ''id'' VNone) ''release ID'') (\<lambda>n.
       gh_bind (pages env (''releases/'' @ str_of_int n @ ''/assets'') None) (\<lambda>assets.
       gh_with (published_assets assets) (\<lambda>rows.
         gh_lift (Inr \<lparr>sn_ref = ref, sn_release = release, sn_assets = rows\<rparr>))))))))))))"

text \<open>\<^verbatim>\<open>v <= limit\<close> on a JSON value.\<close>

definition at_most :: "pyval \<Rightarrow> int \<Rightarrow> bool rel" where
  "at_most v limit =
     (case v of
        VInt n \<Rightarrow> Inr (n \<le> limit)
      | VBool b \<Rightarrow> Inr ((if b then 1 else 0) \<le> limit)
      | VFloat f \<Rightarrow> Inr (float_le f (Fin (of_int limit)))
      | _ \<Rightarrow> Inl (Raised TypeError))"

text \<open>The manifest of the earlier release is the one of this plan and source.\<close>

definition qualified_manifest ::
  "gh_env \<Rightarrow> (string, pyval) dict \<Rightarrow> release_plan \<Rightarrow> int \<Rightarrow> pyval \<Rightarrow> (string, pyval) dict rel" where
  "qualified_manifest env snapshot p source_run_id v =
     (let manifest = entries_of v; plan = VDict (plan_dict p)
      in bind_res (plan_digest (ge_float env) plan) (\<lambda>digest.
         rel_seq (rc_require (is_dict v \<and> get_or manifest ''schema'' VNone = VInt 1 \<and>
             get_or manifest ''repository'' VNone = VStr (ge_repo env) \<and>
             get_or manifest ''source_sha'' VNone = VStr (rp_source_sha p) \<and>
             get_or manifest ''version'' VNone = VStr (rp_base_version p) \<and>
             get_or manifest ''channel'' VNone = VStr (rp_channel p) \<and> get_or manifest ''tag'' VNone = VStr (rp_tag p) \<and>
             py_eq (get_or manifest ''version_plan'' VNone) plan \<and>
             get_or manifest ''plan_sha256'' VNone = VStr digest \<and>
             py_eq (get_or manifest ''source_policy'' VNone) (VDict snapshot) \<and>
             get_or manifest ''workflow_path'' VNone = VStr RELEASE_WORKFLOW \<and>
             py_eq (get_or manifest ''run_id'' VNone) (VInt source_run_id))
           ''Qualified manifest differs from its source and durable plan'')
         (rel_seq (validate_validation_manifest (ge_float env) manifest) (Inr manifest))))"

text \<open>The rows of its payloads by name, and the row of the manifest itself.\<close>

definition declared_rows :: "(string, pyval) dict \<Rightarrow> (pyval \<times> pyval) list rel" where
  "declared_rows manifest =
     (let rows = get_or manifest ''assets'' VNone
      in rel_seq (rc_require (is_list rows \<and> items_of rows \<noteq> []) ''Qualified payloads missing'')
         (bind_res (map_res (\<lambda>r. subscript r ''name'') (items_of rows)) (\<lambda>names.
          bind_res (map_res (\<lambda>n. in_names n []) names) (\<lambda>_. Inr (zip names (items_of rows))))))"

definition row_published :: "(string, pyval) dict list \<Rightarrow> pyval \<times> pyval \<Rightarrow> bool rel" where
  "row_published assets = (\<lambda>(name, row).
     case named_asset assets (text_of name) of
       None \<Rightarrow> Inl (Raised KeyError)
     | Some asset \<Rightarrow>
         bind_res (subscript row ''size'') (\<lambda>size.
           if \<not> py_eq (get_or asset ''size'' VNone) size then Inr False
           else bind_res (subscript row ''sha256'') (\<lambda>sha.
             case sha of VStr s \<Rightarrow> Inr (get_or asset ''digest'' VNone = VStr (''sha256:'' @ s)) | _ \<Rightarrow> Inl (Raised TypeError))))"

fun all_res :: "('a \<Rightarrow> bool rel) \<Rightarrow> 'a list \<Rightarrow> bool rel" where
  "all_res f [] = Inr True"
| "all_res f (x # xs) = bind_res (f x) (\<lambda>b. if b then all_res f xs else Inr False)"

definition payloads_published :: "(string, pyval) dict list \<Rightarrow> (pyval \<times> pyval) list \<Rightarrow> string \<Rightarrow> unit rel" where
  "payloads_published assets rows raw =
     rel_seq (rc_require (distinct (map fst rows) \<and>
         (\<lambda>d. VStr (asset_name d)) ` set assets = insert (VStr MANIFEST) (fst ` set rows)) ''Qualified asset inventory mismatch'')
     (bind_res (all_res (row_published assets)
         (filter (\<lambda>(name, _). name \<noteq> VStr MANIFEST) rows @
          [(VStr MANIFEST, VDict [(''size'', VInt (int (length raw))), (''sha256'', VStr (sha256 raw))])])) (\<lambda>same.
       rc_require same ''Qualified asset metadata mismatch''))"

text \<open>Exactly one job of these names, and it succeeded for the source commit.\<close>

definition gate_named :: "pyval list \<Rightarrow> string list \<Rightarrow> string \<Rightarrow> unit rel" where
  "gate_named jobs names source =
     bind_res (map_res (\<lambda>job. get_of job ''name'' VNone) jobs) (\<lambda>found.
       let gates = map (entries_of \<circ> fst) (filter (\<lambda>(_, n). n \<in> VStr ` set names) (zip jobs found))
       in rc_require (length gates = 1 \<and> get_or (hd gates) ''status'' VNone = VStr ''completed'' \<and>
            get_or (hd gates) ''conclusion'' VNone = VStr ''success'' \<and> get_or (hd gates) ''head_sha'' VNone = VStr source)
            ''Qualified run has no successful CI and Release gates'')"

definition qualified_source_run ::
  "gh_env \<Rightarrow> (string, pyval) dict \<Rightarrow> (string, pyval) dict \<Rightarrow> release_plan \<Rightarrow> int \<Rightarrow> (string, pyval) dict \<Rightarrow> unit gh" where
  "qualified_source_run env info policy p source_run_id manifest =
     gh_bind (get_dict env (run_path source_run_id)) (\<lambda>run.
     gh_bind (validate_validation_run env run policy (rp_channel p)) (\<lambda>_.
     gh_seq (rc_require (py_eq (get_or run ''id'' VNone) (VInt source_run_id)) ''Qualified run ID mismatch'')
     (gh_with (positive (get_or manifest ''run_attempt'' VNone) ''qualified run attempt'') (\<lambda>attempt.
      gh_bind (validate_run env run info (rp_source_sha p) attempt True False) (\<lambda>_.
      gh_bind (pages env (jobs_path source_run_id attempt) (Some ''jobs'')) (\<lambda>jobs.
        gh_lift (rel_seq (gate_named jobs [''Release gate''] (rp_source_sha p))
          (gate_named jobs [''CI gate'', ''checks / CI gate''] (rp_source_sha p)))))))))"

definition verify_scheduled_reuse ::
  "gh_env \<Rightarrow> run_env \<Rightarrow> site \<Rightarrow> (string, pyval) dict \<Rightarrow> (string, pyval) dict \<Rightarrow> release_plan \<Rightarrow> int \<Rightarrow> string \<Rightarrow> unit gh" where
  "verify_scheduled_reuse env re st info snapshot p source_run_id tag =
     (let look = published_plan_snapshot env tag (rp_source_sha p) (tag \<noteq> ''v'' @ rp_base_version p)
      in gh_bind look (\<lambda>initial.
         gh_with (snapshot_identity (ge_float env) initial) (\<lambda>before.
         case named_asset (sn_assets initial) MANIFEST of
           None \<Rightarrow> gh_lift (Inl (Raised KeyError))
         | Some asset \<Rightarrow>
             gh_with (bind_res (at_key asset ''size'') (\<lambda>v. at_most v 2000000)) (\<lambda>small.
             gh_seq (rc_require small ''Qualified manifest is too large'')
             (gh_with (bind_res (at_key asset ''id'') (\<lambda>v. positive v ''manifest ID'')) (\<lambda>n.
              gh_bind (binary env (''releases/assets/'' @ str_of_int n)) (\<lambda>raw.
              gh_with (parse_json env raw) (\<lambda>v.
              gh_with (qualified_manifest env snapshot p source_run_id v) (\<lambda>manifest.
              gh_with (declared_rows manifest) (\<lambda>rows.
              gh_seq (payloads_published (sn_assets initial) rows raw)
              (gh_bind (qualified_source_run env info (snapshot_policy snapshot) p source_run_id manifest) (\<lambda>_.
               gh_bind (verify_evidence env re (st_unzip st) manifest raw) (\<lambda>_.
               gh_bind look (\<lambda>later.
               gh_with (snapshot_identity (ge_float env) later) (\<lambda>now.
                 gh_lift (rc_require (now = before) ''Qualified release changed during verification''))))))))))))))))"

subsection \<open>The search\<close>

text \<open>The errors that only rule out one release.\<close>

fun unprovable :: "release_exc \<Rightarrow> bool" where
  "unprovable (Raised e) \<longleftrightarrow> e \<in> {ValueError, KeyError, TypeError}"
| "unprovable _ \<longleftrightarrow> True"

definition head_is :: "gh_env \<Rightarrow> string \<Rightarrow> pyval \<Rightarrow> bool gh" where
  "head_is env branch sha =
     gh_bind (get_dict env (head_path branch)) (\<lambda>ref. gh_with (get_in ref ''object'' ''sha'' VNone) (\<lambda>now. gh_lift (Inr (now = sha))))"

text \<open>The reservations for this source, base and policy, with the runs that made them.\<close>

definition same_source :: "gh_env \<Rightarrow> pyval \<Rightarrow> string \<Rightarrow> (string, pyval) dict \<Rightarrow> string \<times> reservation \<Rightarrow> (int \<times> release_plan) list rel" where
  "same_source env source base snapshot = (\<lambda>(key, r).
     let p = rv_plan r
     in if VStr (rp_source_sha p) \<noteq> source \<or> rp_base_version p \<noteq> base then Inr []
        else bind_res (policy_digest (ge_float env) (get_or snapshot ''data'' VNone)) (\<lambda>digest.
          if rp_policy_sha256 p = digest \<and> rp_channel p \<in> {''beta'', ''rc'', ''stable''}
          then bind_res (positive (VStr key) ''reserved run'') (\<lambda>n. Inr [(n, p)]) else Inr []))"

definition reuse_tags :: "string \<Rightarrow> release_plan \<Rightarrow> string list" where
  "reuse_tags base p =
     rp_tag p # (if rp_channel p = ''rc'' \<and> rp_promotion p = ''promote-bytes'' then [''v'' @ base] else [])"

definition newest_first :: "(int \<times> release_plan) list \<Rightarrow> (int \<times> release_plan) list" where
  "newest_first = sort_key (\<lambda>(_, p). - (case rp_build_number p of None \<Rightarrow> 0 | Some n \<Rightarrow> n))"

definition reuse_attempts :: "string \<Rightarrow> (int \<times> release_plan) list \<Rightarrow> (int \<times> release_plan \<times> string) list" where
  "reuse_attempts base records =
     concat (map (\<lambda>(n, p). map (\<lambda>tag. (n, p, tag)) (reuse_tags base p)) (take 10 (newest_first records)))"

fun try_reuse :: "(int \<times> release_plan \<times> string \<Rightarrow> unit gh) \<Rightarrow> bool gh \<Rightarrow> (int \<times> release_plan \<times> string) list \<Rightarrow> string gh" where
  "try_reuse verify current [] = gh_lift (Inr [])"
| "try_reuse verify current (a # as) = (\<lambda>w.
     case verify a w of
       (Inl e, w') \<Rightarrow> if unprovable e then try_reuse verify current as w' else (Inl e, w')
     | (Inr _, w') \<Rightarrow> gh_bind current (\<lambda>same. gh_lift (Inr (if same then snd (snd a) else []))) w')"

definition scheduled_reuse ::
  "gh_env \<Rightarrow> run_env \<Rightarrow> site \<Rightarrow> (string, pyval) dict \<Rightarrow> (string, pyval) dict \<Rightarrow> (string, pyval) dict \<Rightarrow> string \<Rightarrow> string gh" where
  "scheduled_reuse env re st info run snapshot base =
     gh_with (branch_of info) (\<lambda>branch.
     gh_with (at_key run ''head_sha'') (\<lambda>source.
     gh_bind (head_is env branch source) (\<lambda>same.
       if \<not> same then gh_lift (Inr [])
       else
         gh_bind (read_view env (pb_codec (st_publisher st))) (\<lambda>view.
         gh_with (read_state (ge_float env) view) (\<lambda>(ledger, _).
         gh_with (map_res (same_source env source base snapshot) (lg_plans ledger)) (\<lambda>records.
           try_reuse (\<lambda>(n, p, tag). verify_scheduled_reuse env re st info snapshot p n tag) (head_is env branch source)
             (reuse_attempts base (concat records))))))))"

subsection \<open>What the search proves\<close>

lemma reads_candidate_payload [reads_intros]: "reads (candidate_payload env rows asset)"
  unfolding candidate_payload_def by (intro reads_intros)

lemma reads_verified_rc [reads_intros]: "reads (verified_rc env re st tag info run)"
  unfolding verified_rc_def case_prod_unfold Let_def by (intro reads_intros reads_each)

lemma reads_context_start [reads_intros]: "reads (context_start env re)"
  unfolding context_start_def by (intro reads_intros)

lemma reads_context_checked [reads_intros]: "reads (context_checked env st channel gate info run)"
  unfolding context_checked_def Let_def by (intro reads_intros)

lemma reads_published_plan [reads_intros]: "reads (published_plan_snapshot env tag source prerelease)"
  unfolding published_plan_snapshot_def by (intro reads_intros)

lemma reads_qualified_source_run [reads_intros]: "reads (qualified_source_run env info policy p n manifest)"
  unfolding qualified_source_run_def by (intro reads_intros)

lemma reads_verify_reuse [reads_intros]: "reads (verify_scheduled_reuse env re st info snapshot p n tag)"
  unfolding verify_scheduled_reuse_def Let_def by (intro reads_intros)

lemma reads_head_is [reads_intros]: "reads (head_is env branch sha)"
  unfolding head_is_def by (intro reads_intros)

lemma reads_try_reuse:
  assumes "\<And>a. reads (verify a)" "reads current"
  shows "reads (try_reuse verify current as)"
proof (induction "as")
  case Nil
  then show ?case by (simp add: reads_lift)
next
  case (Cons a "as")
  let ?found = "gh_bind current (\<lambda>same. gh_lift (Inr (if same then snd (snd a) else [])))"
  have found: "reads ?found" by (intro reads_intros assms)
  show ?case
    unfolding reads_def
  proof
    fix w
    obtain r v where run: "verify a w = (r, v)" by fastforce
    note first = reads_D [OF assms(1) run]
    show "gw_tick w \<le> gw_tick (snd (try_reuse verify current (a # as) w)) \<and>
        writes (snd (try_reuse verify current (a # as) w)) = writes w"
    proof (cases r)
      case (Inl e)
      have "gw_tick v \<le> gw_tick (snd (try_reuse verify current as v)) \<and> writes (snd (try_reuse verify current as v)) = writes v"
        using Cons by (simp add: reads_def)
      with Inl run first show ?thesis by auto
    next
      case (Inr x)
      have "gw_tick v \<le> gw_tick (snd (?found v)) \<and> writes (snd (?found v)) = writes v"
        using found by (simp add: reads_def)
      with Inr run first show ?thesis by auto
    qed
  qed
qed

lemma try_reuse_found:
  "try_reuse verify current as w = (Inr tag, w') \<Longrightarrow> tag \<noteq> [] \<Longrightarrow>
     \<exists>a v u. a \<in> set as \<and> snd (snd a) = tag \<and> verify a v = (Inr (), u) \<and> (\<exists>t. current u = (Inr True, t))"
proof (induction "as" arbitrary: w)
  case (Cons a "as")
  obtain r v where run: "verify a w = (r, v)" by fastforce
  show ?case
  proof (cases r)
    case (Inl e)
    with Cons run show ?thesis by (fastforce split: if_splits)
  next
    case (Inr x)
    with Cons(2,3) run obtain u where "current v = (Inr True, u)" "snd (snd a) = tag"
      by (auto simp: gh_runs split: if_splits)
    with run Inr show ?thesis by (intro exI [of _ a] exI [of _ w] exI [of _ v]) auto
  qed
qed (simp add: gh_runs)

text \<open>A published release that is proved to be the one of reservation \<open>p\<close> of run \<open>n\<close>.\<close>

definition proven_release ::
  "gh_env \<Rightarrow> run_env \<Rightarrow> site \<Rightarrow> (string, pyval) dict \<Rightarrow> (string, pyval) dict \<Rightarrow> release_plan \<Rightarrow> int \<Rightarrow> string \<Rightarrow> bool" where
  "proven_release env re st info snapshot p n tag \<longleftrightarrow>
     (\<exists>initial raw v manifest rows.
        (\<exists>a b. published_plan_snapshot env tag (rp_source_sha p) (tag \<noteq> ''v'' @ rp_base_version p) a = (Inr initial, b)) \<and>
        parse_json env raw = Inr v \<and> qualified_manifest env snapshot p n v = Inr manifest \<and>
        declared_rows manifest = Inr rows \<and> payloads_published (sn_assets initial) rows raw = Inr () \<and>
        (\<exists>a b. qualified_source_run env info (snapshot_policy snapshot) p n manifest a = (Inr (), b)) \<and>
        (\<exists>a b. verify_evidence env re (st_unzip st) manifest raw a = (Inr (), b)))"

lemma verified_reuse_proven:
  assumes "verify_scheduled_reuse env re st info snapshot p n tag w = (Inr (), w')"
  shows "proven_release env re st info snapshot p n tag"
proof -
  let ?look = "published_plan_snapshot env tag (rp_source_sha p) (tag \<noteq> ''v'' @ rp_base_version p)"
  obtain initial v asset where look: "?look w = (Inr initial, v)" and asset: "named_asset (sn_assets initial) MANIFEST = Some asset"
    using assms unfolding verify_scheduled_reuse_def Let_def gh_bind_runs gh_with_runs gh_lift_runs
    by (cases "\<exists>initial v. ?look w = (Inr initial, v)") (auto simp: gh_runs split: option.splits)
  obtain raw read manifest rows a b c d where "parse_json env raw = Inr read"
    "qualified_manifest env snapshot p n read = Inr manifest" "declared_rows manifest = Inr rows"
    "payloads_published (sn_assets initial) rows raw = Inr ()"
    "qualified_source_run env info (snapshot_policy snapshot) p n manifest a = (Inr (), b)"
    "verify_evidence env re (st_unzip st) manifest raw c = (Inr (), d)"
    using assms look asset unfolding verify_scheduled_reuse_def Let_def
    by (auto simp: gh_runs)
  with look show ?thesis unfolding proven_release_def by blast
qed

lemma same_source_member:
  assumes "map_res (same_source env source base snapshot) plans = Inr records" "(n, p) \<in> set (concat records)"
  shows "\<exists>key r. (key, r) \<in> set plans \<and> rv_plan r = p \<and> positive (VStr key) ''reserved run'' = Inr n \<and>
    VStr (rp_source_sha p) = source \<and> rp_base_version p = base \<and>
    policy_digest (ge_float env) (get_or snapshot ''data'' VNone) = Inr (rp_policy_sha256 p)"
proof -
  from assms(2) obtain xs where xs: "xs \<in> set records" "(n, p) \<in> set xs" by auto
  from assms(1) have all: "list_all2 (\<lambda>x y. same_source env source base snapshot x = Inr y) plans records"
    by (simp add: map_res_Inr_iff)
  from xs(1) obtain i where i: "i < length records" "records ! i = xs" by (auto simp: in_set_conv_nth)
  obtain key r where e: "plans ! i = (key, r)" by fastforce
  have "same_source env source base snapshot (key, r) = Inr xs"
    using list_all2_nthD2 [OF all i(1)] e i(2) by simp
  moreover have "(key, r) \<in> set plans" using list_all2_lengthD [OF all] i(1) e by (metis nth_mem)
  moreover have "rv_plan r = p \<and> positive (VStr key) ''reserved run'' = Inr n \<and> VStr (rp_source_sha p) = source \<and>
      rp_base_version p = base \<and> policy_digest (ge_float env) (get_or snapshot ''data'' VNone) = Inr (rp_policy_sha256 p)"
    using calculation(1) xs(2) by (auto simp: same_source_def Let_def split: if_splits)
  ultimately show ?thesis by blast
qed

lemma reuse_attempts_member:
  "(n, p, tag) \<in> set (reuse_attempts base records) \<Longrightarrow> (n, p) \<in> set records \<and> tag \<in> set (reuse_tags base p)"
  by (auto simp: reuse_attempts_def newest_first_def dest: in_set_takeD)

lemma reuse_attempts_bounded: "length (reuse_attempts base records) \<le> 20"
proof -
  have "length (concat (map (\<lambda>(n, p). map (\<lambda>tag. (n, p, tag)) (reuse_tags base p)) rs)) \<le> 2 * length rs"
    for rs :: "(int \<times> release_plan) list"
    by (induction rs) (auto simp: reuse_tags_def)
  from this [of "take 10 (newest_first records)"] show ?thesis by (simp add: reuse_attempts_def)
qed

text \<open>
  C12: A scheduled run skips its own publication only for a release that is proved to be its own source.
  The search writes nothing and looks at no more than twenty releases; the tag it returns is that of a
  reservation in the ledger for this commit, base version and policy, whose release is published, whose
  manifest is the one of that plan and run and equals the evidence archive, whose payloads have the sizes
  and digests of the manifest, whose gates succeeded, and the branch had not moved afterwards.
\<close>

theorem scheduled_reuse_is_proven:
  "case scheduled_reuse env re st info run snapshot base w of (result, w') \<Rightarrow>
     writes w' = writes w \<and>
     (case result of
        Inl e \<Rightarrow> True
      | Inr tag \<Rightarrow>
          if tag = [] then True
          else \<exists>view ledger previous key r n branch source.
            (\<exists>a b. read_view env (pb_codec (st_publisher st)) a = (Inr view, b)) \<and>
            read_state (ge_float env) view = Inr (ledger, previous) \<and> (key, r) \<in> set (lg_plans ledger) \<and>
            positive (VStr key) ''reserved run'' = Inr n \<and> at_key run ''head_sha'' = Inr source \<and>
            VStr (rp_source_sha (rv_plan r)) = source \<and> rp_base_version (rv_plan r) = base \<and>
            policy_digest (ge_float env) (get_or snapshot ''data'' VNone) = Inr (rp_policy_sha256 (rv_plan r)) \<and>
            tag \<in> set (reuse_tags base (rv_plan r)) \<and>
            proven_release env re st info snapshot (rv_plan r) n tag \<and>
            branch_of info = Inr branch \<and> (\<exists>a b. head_is env branch source a = (Inr True, b)))"
proof -
  obtain result w' where run: "scheduled_reuse env re st info run snapshot base w = (result, w')" by fastforce
  have "reads (scheduled_reuse env re st info run snapshot base)"
    unfolding scheduled_reuse_def case_prod_unfold by (intro reads_intros reads_try_reuse)
  from reads_D [OF this run] have quiet: "writes w' = writes w" by simp
  have "\<exists>view ledger previous key r n branch source.
      (\<exists>a b. read_view env (pb_codec (st_publisher st)) a = (Inr view, b)) \<and>
      read_state (ge_float env) view = Inr (ledger, previous) \<and> (key, r) \<in> set (lg_plans ledger) \<and>
      positive (VStr key) ''reserved run'' = Inr n \<and> at_key run ''head_sha'' = Inr source \<and>
      VStr (rp_source_sha (rv_plan r)) = source \<and> rp_base_version (rv_plan r) = base \<and>
      policy_digest (ge_float env) (get_or snapshot ''data'' VNone) = Inr (rp_policy_sha256 (rv_plan r)) \<and>
      tag \<in> set (reuse_tags base (rv_plan r)) \<and>
      proven_release env re st info snapshot (rv_plan r) n tag \<and>
      branch_of info = Inr branch \<and> (\<exists>a b. head_is env branch source a = (Inr True, b))"
    if found: "result = Inr tag" "tag \<noteq> []" for tag
  proof -
    obtain branch source view ledger previous records a b c where
      known: "branch_of info = Inr branch" "at_key run ''head_sha'' = Inr source"
      and view: "read_view env (pb_codec (st_publisher st)) a = (Inr view, b)"
        "read_state (ge_float env) view = Inr (ledger, previous)"
      and records: "map_res (same_source env source base snapshot) (lg_plans ledger) = Inr records"
      and search: "try_reuse (\<lambda>(n, p, tag). verify_scheduled_reuse env re st info snapshot p n tag)
        (head_is env branch source) (reuse_attempts base (concat records)) c = (Inr tag, w')"
      using run found unfolding scheduled_reuse_def
      by (auto simp: gh_runs split: if_splits)
    from try_reuse_found [OF search found(2)] obtain n p v u t where
      hit: "(n, p, tag) \<in> set (reuse_attempts base (concat records))"
        "verify_scheduled_reuse env re st info snapshot p n tag v = (Inr (), u)"
        "head_is env branch source u = (Inr True, t)" by auto
    from reuse_attempts_member [OF hit(1)] have member: "(n, p) \<in> set (concat records)" "tag \<in> set (reuse_tags base p)"
      by auto
    from same_source_member [OF records member(1)] known view member(2) verified_reuse_proven [OF hit(2)] hit(3)
    show ?thesis by blast
  qed
  with run quiet show ?thesis by (auto split: sum.split)
qed

end
