(* ===== verification/Cas_Store.thy ===== *)
theory Cas_Store
  imports Venus_Prelude
begin

section \<open>Optimistic writers on a compare-and-swap store\<close>

text \<open>
  A store holds one content with a hash.  A writer reads it, computes an event and a new content, and
  later asks the store to replace the content whose hash it has read; the store takes the write only if
  it still holds that hash.  Any number of writers do this in any order, and a writer may stop between
  the two.  \<open>cas_step\<close> is that machine, over what a writer may compute from the content it read; the
  locale says when it refines a specification in which every event is one indivisible step.
\<close>

record ('s, 'e) cas_world =
  cw_file :: "('s \<times> string) option"
  cw_seen :: "('s \<times> string) list"
  cw_pending :: "('e \<times> 's \<times> string option) list"
  cw_log :: "'e list"

definition cas_start :: "('s, 'e) cas_world" where
  "cas_start = \<lparr>cw_file = None, cw_seen = [], cw_pending = [], cw_log = []\<rparr>"

text \<open>A stored blob has a hash of its own unless the same content was stored before.\<close>

inductive cas_step ::
  "(('s \<times> string) option \<Rightarrow> 'e \<Rightarrow> 's \<times> string option \<Rightarrow> bool) \<Rightarrow> ('s, 'e) cas_world \<Rightarrow> ('s, 'e) cas_world \<Rightarrow> bool"
  for prepare where
  prepared: "prepare (cw_file w) ev wr \<Longrightarrow> cas_step prepare w (w\<lparr>cw_pending := (ev, wr) # cw_pending w\<rparr>)"
| taken: "(ev, s, prev) \<in> set (cw_pending w) \<Longrightarrow> prev = map_option snd (cw_file w) \<Longrightarrow>
    \<forall>(s', h') \<in> set (cw_seen w). h' = h \<longrightarrow> s' = s \<Longrightarrow>
    cas_step prepare w (w\<lparr>cw_file := Some (s, h), cw_seen := (s, h) # cw_seen w,
      cw_pending := remove1 (ev, s, prev) (cw_pending w), cw_log := cw_log w @ [ev]\<rparr>)"
| refused: "(ev, s, prev) \<in> set (cw_pending w) \<Longrightarrow> prev \<noteq> map_option snd (cw_file w) \<Longrightarrow>
    cas_step prepare w (w\<lparr>cw_pending := remove1 (ev, s, prev) (cw_pending w)\<rparr>)"

definition cas_reachable where
  "cas_reachable prepare w \<longleftrightarrow> (cas_step prepare)\<^sup>*\<^sup>* cas_start w"

inductive runs_of :: "('a \<Rightarrow> 'e \<Rightarrow> 'a \<Rightarrow> bool) \<Rightarrow> 'a \<Rightarrow> 'e list \<Rightarrow> 'a \<Rightarrow> bool" for spec a where
  nothing: "runs_of spec a [] a"
| extend: "runs_of spec a evs b \<Longrightarrow> spec b ev c \<Longrightarrow> runs_of spec a (evs @ [ev]) c"

lemma runs_of_one: "spec a ev b \<Longrightarrow> runs_of spec a [ev] b"
  using runs_of.extend [OF runs_of.nothing] by fastforce

lemma runs_of_trans: "runs_of spec b fs c \<Longrightarrow> runs_of spec a evs b \<Longrightarrow> runs_of spec a (evs @ fs) c"
  by (induction rule: runs_of.induct) (auto simp flip: append_assoc intro: runs_of.extend)

text \<open>
  \<open>abs\<close> reads a content as a state of the specification, \<open>initial\<close> stands for a missing file, and
  \<open>good\<close> is what the writers keep of a content.
\<close>

locale cas_refinement =
  fixes prepare :: "('s \<times> string) option \<Rightarrow> 'e \<Rightarrow> 's \<times> string option \<Rightarrow> bool"
    and spec :: "'a \<Rightarrow> 'e \<Rightarrow> 'a \<Rightarrow> bool"
    and abs :: "'s \<Rightarrow> 'a"
    and initial :: 'a
    and good :: "'s \<Rightarrow> bool"
  assumes prepare_step: "prepare file ev (s', prev) \<Longrightarrow> (\<And>s h. file = Some (s, h) \<Longrightarrow> good s) \<Longrightarrow>
      prev = map_option snd file \<and> good s' \<and>
      spec (case file of None \<Rightarrow> initial | Some (s, h) \<Rightarrow> abs s) ev (abs s')"
begin

definition view :: "('s \<times> string) option \<Rightarrow> 'a" where
  "view file = (case file of None \<Rightarrow> initial | Some (s, h) \<Rightarrow> abs s)"

text \<open>The state a write was computed from: the content with the hash it names.\<close>

definition base_of :: "('s \<times> string) list \<Rightarrow> string option \<Rightarrow> 'a \<Rightarrow> bool" where
  "base_of seen prev a = (case prev of None \<Rightarrow> a = initial | Some h \<Rightarrow> \<exists>s. (s, h) \<in> set seen \<and> a = abs s)"

definition cas_ok :: "('s, 'e) cas_world \<Rightarrow> bool" where
  "cas_ok w \<longleftrightarrow>
     (\<forall>s h. cw_file w = Some (s, h) \<longrightarrow> (s, h) \<in> set (cw_seen w)) \<and>
     (\<forall>(s, h) \<in> set (cw_seen w). good s) \<and>
     (\<forall>(s, h) \<in> set (cw_seen w). \<forall>(s', h') \<in> set (cw_seen w). h = h' \<longrightarrow> s = s') \<and>
     (\<forall>(ev, s, prev) \<in> set (cw_pending w). good s \<and> (\<exists>a. base_of (cw_seen w) prev a \<and> spec a ev (abs s))) \<and>
     runs_of spec initial (cw_log w) (view (cw_file w))"

lemma base_of_mono: "base_of seen prev a \<Longrightarrow> base_of (x # seen) prev a"
  by (auto simp: base_of_def split: option.splits)

lemma base_of_file:
  assumes "cas_ok w" "base_of (cw_seen w) (map_option snd (cw_file w)) a"
  shows "a = view (cw_file w)"
  using assms by (cases "cw_file w") (fastforce simp: cas_ok_def base_of_def view_def)+

text \<open>A write that the store takes is one step of the specification from the state the store holds.\<close>

lemma taken_atomic:
  assumes "cas_ok w" "(ev, s, map_option snd (cw_file w)) \<in> set (cw_pending w)"
  shows "spec (view (cw_file w)) ev (abs s)"
proof -
  from assms obtain a where "base_of (cw_seen w) (map_option snd (cw_file w)) a" "spec a ev (abs s)"
    by (fastforce simp: cas_ok_def)
  with base_of_file [OF assms(1)] show ?thesis by blast
qed

lemma cas_ok_start: "cas_ok cas_start"
  by (simp add: cas_ok_def cas_start_def view_def runs_of.nothing)

lemma cas_ok_step:
  assumes "cas_step prepare w w'" "cas_ok w"
  shows "cas_ok w'"
  using assms(1)
proof cases
  case (prepared ev wr)
  obtain s prev where wr: "wr = (s, prev)" by fastforce
  have g: "good t" if "cw_file w = Some (t, h)" for t h using that assms(2) by (fastforce simp: cas_ok_def)
  from prepare_step [OF prepared(2) [unfolded wr] g]
  have p: "prev = map_option snd (cw_file w)" "good s" "spec (view (cw_file w)) ev (abs s)"
    by (auto simp: view_def)
  have "base_of (cw_seen w) prev (view (cw_file w))"
    using assms(2) p(1) by (cases "cw_file w") (fastforce simp: cas_ok_def base_of_def view_def)+
  with p assms(2) prepared wr show ?thesis unfolding cas_ok_def by auto
next
  case (taken ev s prev h)
  have "good s" using taken assms(2) by (fastforce simp: cas_ok_def)
  moreover have "runs_of spec initial (cw_log w @ [ev]) (abs s)"
    using taken_atomic [OF assms(2)] taken assms(2) by (auto simp: cas_ok_def intro: runs_of.extend)
  moreover have "\<exists>a. base_of ((s, h) # cw_seen w) prev' a \<and> spec a ev' (abs s')"
    if "(ev', s', prev') \<in> set (cw_pending w)" for ev' s' prev'
    using that assms(2) base_of_mono by (fastforce simp: cas_ok_def)
  ultimately show ?thesis
    using taken assms(2) set_remove1_subset [of "(ev, s, prev)" "cw_pending w"]
    unfolding cas_ok_def by (auto simp: view_def)
next
  case (refused ev s prev)
  with assms(2) set_remove1_subset [of "(ev, s, prev)" "cw_pending w"] show ?thesis
    unfolding cas_ok_def by auto
qed

lemma cas_ok_steps: "(cas_step prepare)\<^sup>*\<^sup>* w w' \<Longrightarrow> cas_ok w \<Longrightarrow> cas_ok w'"
  by (induction rule: rtranclp_induct) (auto intro: cas_ok_step)

lemma cas_ok_reachable: "cas_reachable prepare w \<Longrightarrow> cas_ok w"
  unfolding cas_reachable_def by (rule cas_ok_steps [OF _ cas_ok_start])

lemma step_runs:
  assumes "cas_step prepare w w'" "cas_ok w"
  shows "\<exists>evs. runs_of spec (view (cw_file w)) evs (view (cw_file w'))"
  using assms(1)
proof cases
  case (taken ev s prev h)
  then have "spec (view (cw_file w)) ev (view (cw_file w'))"
    using taken_atomic [OF assms(2)] by (auto simp: view_def)
  then show ?thesis by (blast intro: runs_of_one)
qed (auto intro: runs_of.nothing)

lemma steps_run:
  assumes "(cas_step prepare)\<^sup>*\<^sup>* w w'" "cas_ok w"
  shows "\<exists>evs. runs_of spec (view (cw_file w)) evs (view (cw_file w'))"
  using assms
proof (induction rule: rtranclp_induct)
  case base
  then show ?case by (auto intro: runs_of.nothing)
next
  case (step y z)
  from step obtain evs where "runs_of spec (view (cw_file w)) evs (view (cw_file y))" by blast
  moreover have "cas_ok y" using step cas_ok_steps by blast
  with step obtain fs where "runs_of spec (view (cw_file y)) fs (view (cw_file z))" using step_runs by blast
  ultimately show ?case by (blast intro: runs_of_trans)
qed

end

end
