(* ===== verification/Ledger_Machine.thy ===== *)
theory Ledger_Machine
  imports Release_Ledger Cas_Store
begin

section \<open>Concurrent runs on one ledger\<close>

text \<open>
  Release runs race on the ledger of \<^verbatim>\<open>scripts/release_state.py\<close>: each reads the file, computes, and then
  asks GitHub to replace the blob it has read.  \<open>ledger_next\<close> is the specification, in which every
  operation is one indivisible step on counter, floor and reserved plans.  \<open>ledger_prepare\<close> is what the
  code computes from a file: a reservation, a publication or a promotion, with the JSON value it sends.
  The machine of \<^verbatim>\<open>Cas_Store\<close> on it is the implementation; the interpretation below shows that it
  refines the specification, and the properties of the ledger follow.
\<close>

subsection \<open>Specification\<close>

datatype ledger_event = Reserve_event string int | Publish_event int | Promote_event int

record ledger_spec =
  sp_counter :: int
  sp_floor :: int
  sp_plans :: "string \<rightharpoonup> release_plan"

definition spec_start :: ledger_spec where
  "spec_start = \<lparr>sp_counter = 0, sp_floor = 0, sp_plans = Map.empty\<rparr>"

inductive ledger_next :: "ledger_spec \<Rightarrow> ledger_event \<Rightarrow> ledger_spec \<Rightarrow> bool" where
  reserve: "sp_plans a k = None \<Longrightarrow> sp_counter a < n \<Longrightarrow> rp_build_number p = Some n \<Longrightarrow> plan_ok p \<Longrightarrow>
    ledger_next a (Reserve_event k n) (a\<lparr>sp_counter := n, sp_plans := (sp_plans a)(k \<mapsto> p)\<rparr>)"
| publish: "sp_plans a k = Some p \<Longrightarrow> rp_build_number p = Some n \<Longrightarrow> sp_floor a < n \<Longrightarrow>
    ledger_next a (Publish_event n) (a\<lparr>sp_floor := n\<rparr>)"
| promote: "sp_plans a k = Some p \<Longrightarrow> rp_build_number p = Some n \<Longrightarrow> sp_floor a \<le> n \<Longrightarrow>
    ledger_next a (Promote_event n) (a\<lparr>sp_floor := n\<rparr>)"

text \<open>Numbers are reserved once, and neither they nor the floor are above the counter.\<close>

definition spec_ok :: "ledger_spec \<Rightarrow> bool" where
  "spec_ok a \<longleftrightarrow>
     0 \<le> sp_floor a \<and> sp_floor a \<le> sp_counter a \<and>
     (\<forall>k p. sp_plans a k = Some p \<longrightarrow> (\<exists>n. rp_build_number p = Some n \<and> 0 < n \<and> n \<le> sp_counter a)) \<and>
     (\<forall>j k p q. sp_plans a j = Some p \<longrightarrow> sp_plans a k = Some q \<longrightarrow> rp_build_number p = rp_build_number q \<longrightarrow> j = k)"

lemma spec_ok_start: "spec_ok spec_start"
  by (simp add: spec_ok_def spec_start_def)

lemma spec_ok_build: "spec_ok a \<Longrightarrow> sp_plans a k = Some p \<Longrightarrow> rp_build_number p = Some n \<Longrightarrow> n \<le> sp_counter a"
  unfolding spec_ok_def by (metis option.inject)

lemma spec_ok_next:
  assumes "ledger_next a ev b" "spec_ok a"
  shows "spec_ok b"
  using assms(1)
proof cases
  case (reserve k n p)
  have fresh: "rp_build_number q \<noteq> Some n" if "sp_plans a j = Some q" for j q
    using that assms(2) reserve(4) by (fastforce simp: spec_ok_def)
  have below: "\<exists>m. rp_build_number q = Some m \<and> 0 < m \<and> m \<le> n" if "sp_plans a j = Some q" for j q
    using that assms(2) reserve(4) by (fastforce simp: spec_ok_def)
  have n: "0 < n" using plan_ok_build reserve(5,6) by blast
  define plans where "plans = (sp_plans a)(k \<mapsto> p)"
  have "\<forall>j q. plans j = Some q \<longrightarrow> (\<exists>m. rp_build_number q = Some m \<and> 0 < m \<and> m \<le> n)"
    using below n reserve(5) by (simp add: plans_def)
  moreover have "\<forall>i j q q'. plans i = Some q \<longrightarrow> plans j = Some q' \<longrightarrow> rp_build_number q = rp_build_number q' \<longrightarrow> i = j"
    using fresh reserve(5) assms(2) unfolding plans_def spec_ok_def by (metis fun_upd_apply option.inject)
  moreover have "0 \<le> sp_floor a \<and> sp_floor a \<le> n" using assms(2) reserve(4) by (simp add: spec_ok_def)
  ultimately show ?thesis by (simp add: spec_ok_def reserve(2) plans_def [symmetric])
next
  case (publish k p n)
  with assms(2) spec_ok_build [OF assms(2) publish(3,4)] show ?thesis by (simp add: spec_ok_def)
next
  case (promote k p n)
  with assms(2) spec_ok_build [OF assms(2) promote(3,4)] show ?thesis by (simp add: spec_ok_def)
qed

lemma spec_ok_runs: "runs_of ledger_next a evs b \<Longrightarrow> spec_ok a \<Longrightarrow> spec_ok b"
  by (induction rule: runs_of.induct) (auto intro: spec_ok_next)

text \<open>A later state keeps the reservations, the counter and the floor of an earlier one.\<close>

definition keeps :: "ledger_spec \<Rightarrow> ledger_spec \<Rightarrow> bool" where
  "keeps a b \<longleftrightarrow> sp_counter a \<le> sp_counter b \<and> sp_floor a \<le> sp_floor b \<and> sp_plans a \<subseteq>\<^sub>m sp_plans b"

lemma keeps_refl [simp]: "keeps a a"
  by (simp add: keeps_def)

lemma keeps_trans: "keeps a b \<Longrightarrow> keeps b c \<Longrightarrow> keeps a c"
  by (auto simp: keeps_def intro: map_le_trans)

lemma keeps_next: "ledger_next a ev b \<Longrightarrow> keeps a b"
  by (auto simp: keeps_def map_le_def dom_def elim!: ledger_next.cases)

lemma keeps_runs: "runs_of ledger_next a evs b \<Longrightarrow> keeps a b"
  by (induction rule: runs_of.induct) (auto intro: keeps_trans keeps_next)

definition published :: "ledger_event list \<Rightarrow> int list" where
  "published evs = concat (map (\<lambda>ev. case ev of Publish_event n \<Rightarrow> [n] | _ \<Rightarrow> []) evs)"

lemma published_append [simp]:
  "published (evs @ [ev]) = published evs @ (case ev of Publish_event n \<Rightarrow> [n] | _ \<Rightarrow> [])"
  by (simp add: published_def)

text \<open>Every number published by a build is above all numbers published before it.\<close>

lemma published_below_floor:
  "runs_of ledger_next a evs b \<Longrightarrow> sorted_wrt (<) (published evs) \<and> (\<forall>n \<in> set (published evs). n \<le> sp_floor b)"
proof (induction rule: runs_of.induct)
  case (extend evs b ev c)
  from extend.hyps(2) show ?case
  proof cases
    case (publish k p n)
    then have "\<forall>m \<in> set (published evs). m < n" using extend.IH by force
    with publish extend.IH show ?thesis by (auto simp: sorted_wrt_append)
  next
    case (promote k p n)
    with extend.IH show ?thesis by auto
  qed (use extend.IH in simp)
qed (simp add: published_def)

subsection \<open>Implementation\<close>

text \<open>GitHub serves the stored file: what its content decodes to and the hash of its blob.\<close>

definition serves :: "(pyval \<times> string) option \<Rightarrow> github_view \<Rightarrow> bool" where
  "serves file gh =
     (case file of
        None \<Rightarrow> gv_file gh = Inr None
      | Some (v, h) \<Rightarrow> \<exists>f. gv_file gh = Inr (Some f) \<and> lf_json f = Inr v \<and> lf_sha f = h)"

inductive ledger_prepare ::
  "(pyfloat \<Rightarrow> string) \<Rightarrow> (pyval \<times> string) option \<Rightarrow> ledger_event \<Rightarrow> pyval \<times> string option \<Rightarrow> bool" for fr stored where
  reserve: "serves stored gh \<Longrightarrow>
    reserve_plan fr gh policy base channel source_sha run_id attempt stamp parent = Inr (Reserve create p wr) \<Longrightarrow>
    rp_build_number p = Some n \<Longrightarrow>
    ledger_prepare fr stored (Reserve_event (str_of_int run_id) n) (ledger_json (lw_state wr), lw_previous wr)"
| publish: "serves stored gh \<Longrightarrow> begin_publication fr gh plan run_id parent False = Inr (p, wr) \<Longrightarrow>
    rp_build_number p = Some n \<Longrightarrow>
    ledger_prepare fr stored (Publish_event n) (ledger_json (lw_state wr), lw_previous wr)"
| promote: "serves stored gh \<Longrightarrow> begin_publication fr gh plan run_id parent True = Inr (p, wr) \<Longrightarrow>
    rp_build_number p = Some n \<Longrightarrow>
    ledger_prepare fr stored (Promote_event n) (ledger_json (lw_state wr), lw_previous wr)"

definition abs_ledger :: "ledger \<Rightarrow> ledger_spec" where
  "abs_ledger l = \<lparr>sp_counter = lg_counter l, sp_floor = lg_publication_floor l,
     sp_plans = (\<lambda>k. map_option rv_plan (map_of (lg_plans l) k))\<rparr>"

definition abs_json :: "pyval \<Rightarrow> ledger_spec" where
  "abs_json v = (case ledger_of_json (\<lambda>_. []) v of Inl _ \<Rightarrow> spec_start | Inr l \<Rightarrow> abs_ledger l)"

definition good_json :: "pyval \<Rightarrow> bool" where
  "good_json v \<longleftrightarrow> (\<exists>l. ledger_wf l \<and> v = ledger_json l)"

subsection \<open>Reading the stored ledger\<close>

lemma validate_plan_plain: "validate_plan fr v None None = check_plan v"
  by (cases "check_plan v") (simp_all add: validate_plan_def)

lemma ledger_of_json_any: "ledger_of_json fr v = ledger_of_json fr' v"
proof -
  have eq: "read_reservation fr = read_reservation fr'"
    unfolding fun_eq_iff read_reservation_def validate_plan_plain by simp
  show ?thesis unfolding ledger_of_json_def eq by (rule refl)
qed

lemma distinct_keys_sort_key: "distinct (dict_keys d) \<Longrightarrow> distinct (dict_keys (sort_key fst d))"
  by (metis distinct_map distinct_sort inj_on_cong set_sort)

lemma norm_plans_keys [simp]: "dict_keys (norm_plans d) = dict_keys d"
  by (induction d) (auto simp: norm_plans_def)

lemma map_of_norm_plans: "map_of (norm_plans d) k = map_option norm_reservation (map_of d k)"
  by (induction d) (auto simp: norm_plans_def)

lemma set_norm_plans: "set (norm_plans d) = (\<lambda>(k, r). (k, norm_reservation r)) ` set d"
  by (simp add: norm_plans_def)

lemma norm_reservation_ok:
  "reservation_ok c (k, norm_reservation r) \<longleftrightarrow> reservation_ok c (k, r)"
  "entry_wf (k, r) \<Longrightarrow> entry_wf (k, norm_reservation r)"
proof -
  show "reservation_ok c (k, norm_reservation r) \<longleftrightarrow> reservation_ok c (k, r)"
    by (simp add: reservation_ok_def norm_reservation_def)
  have "fst ` set (canon_dict (rv_other r)) = fst ` set (rv_other r)"
    by (metis dict_keys_canon_dict list.set_map)
  then show "entry_wf (k, r) \<Longrightarrow> entry_wf (k, norm_reservation r)"
    using distinct_keys_sort_key [of "canon_dict (rv_other r)"] by (simp add: entry_wf_def norm_reservation_def)
qed

lemma norm_ledger_wf:
  assumes "ledger_wf l"
  shows "ledger_wf (norm_ledger l)"
proof -
  have "list_all (reservation_ok (lg_counter l)) (sort_key fst (norm_plans (lg_plans l)))"
    "list_all entry_wf (sort_key fst (norm_plans (lg_plans l)))"
    using assms by (auto simp: ledger_wf_def ledger_ok_def list_all_iff set_norm_plans norm_reservation_ok)
  moreover have "distinct (dict_keys (sort_key fst (norm_plans (lg_plans l))))"
    using assms by (intro distinct_keys_sort_key) (simp add: ledger_wf_def)
  moreover have "fst ` set (canon_dict (lg_other l)) = fst ` set (lg_other l)"
    by (metis dict_keys_canon_dict list.set_map)
  ultimately show ?thesis
    using assms distinct_keys_sort_key [of "canon_dict (lg_other l)"]
    by (simp add: ledger_wf_def ledger_ok_def norm_ledger_def)
qed

lemma abs_norm_ledger:
  assumes "ledger_wf l"
  shows "abs_ledger (norm_ledger l) = abs_ledger l"
proof -
  have "map_of (sort_key fst (norm_plans (lg_plans l))) = map_of (norm_plans (lg_plans l))"
    using assms by (intro map_of_sort_key) (simp add: ledger_wf_def)
  moreover have "rv_plan \<circ> norm_reservation = rv_plan" by (simp add: fun_eq_iff norm_reservation_def)
  ultimately show ?thesis
    by (simp add: abs_ledger_def norm_ledger_def map_of_norm_plans option.map_comp)
qed

lemma abs_json_ledger_json: "ledger_wf l \<Longrightarrow> abs_json (ledger_json l) = abs_ledger l"
  by (simp add: abs_json_def ledger_of_json_ledger_json abs_norm_ledger)

lemma empty_ledger_wf: "ledger_wf empty_ledger"
  by (simp add: ledger_wf_def empty_ledger_ok) (simp add: empty_ledger_def)

lemma abs_empty_ledger: "abs_ledger empty_ledger = spec_start"
  by (simp add: abs_ledger_def empty_ledger_def spec_start_def)

text \<open>What a run reads from the stored file.\<close>

lemma read_state_serves:
  assumes "serves stored gh" "\<And>v h. stored = Some (v, h) \<Longrightarrow> good_json v" "read_state fr gh = Inr (l, prev)"
  shows "ledger_wf l" "abs_ledger l = (case stored of None \<Rightarrow> spec_start | Some (v, h) \<Rightarrow> abs_json v)"
    "prev = map_option snd stored" "prev \<noteq> Some []"
proof -
  have "ledger_wf l \<and> abs_ledger l = (case stored of None \<Rightarrow> spec_start | Some (v, h) \<Rightarrow> abs_json v) \<and>
    prev = map_option snd stored \<and> prev \<noteq> Some []"
  proof (cases stored)
    case None
    with assms show ?thesis
      by (auto simp: serves_def read_state_def empty_ledger_wf abs_empty_ledger)
  next
    case (Some x)
    obtain v h where x: "x = (v, h)" by fastforce
    from assms(2) Some x obtain l0 where l0: "ledger_wf l0" "v = ledger_json l0" by (auto simp: good_json_def)
    have h: "h \<noteq> []" if "fullmatch sha_pattern h" using that by (auto simp: sha_pattern_def fullmatch_Rep_Cls)
    from assms(1,3) Some x l0 have "l = norm_ledger l0" "prev = Some h" "fullmatch sha_pattern h"
      by (auto simp: serves_def read_state_def ledger_of_json_ledger_json)
    with l0 h Some x show ?thesis
      by (simp add: norm_ledger_wf abs_norm_ledger abs_json_ledger_json)
  qed
  then show "ledger_wf l" "abs_ledger l = (case stored of None \<Rightarrow> spec_start | Some (v, h) \<Rightarrow> abs_json v)"
    "prev = map_option snd stored" "prev \<noteq> Some []" by blast+
qed

subsection \<open>Refinement\<close>

lemma positive_VInt:
  assumes "positive (VInt n) name = Inr m"
  shows "m = n" "\<exists>k. positive (VStr (str_of_int n)) name' = Inr k"
proof -
  from assms have f: "fullmatch positive_pattern (str_of_int n)" and len: "length (str_of_nat (nat \<bar>n\<bar>)) \<le> max_str_digits"
    and m: "m = n"
    by (auto simp: positive_def split: if_splits)
  have "\<not> re_chars False positive_pattern (CHR ''-'')"
    by (simp add: positive_pattern_def digit_class_def class_has_def)
  with fullmatch_chars [OF f] have "0 \<le> n" by (auto simp: str_of_int_def split: if_splits)
  with len have "length (str_of_int n) \<le> max_str_digits" by (simp add: str_of_int_def)
  with f show "m = n" "\<exists>k. positive (VStr (str_of_int n)) name' = Inr k"
    using m by (simp_all add: positive_def int_of_str_of_int)
qed

lemma write_state_sel [simp]:
  "lw_state (write_state l prev) = l" "prev \<noteq> Some [] \<Longrightarrow> lw_previous (write_state l prev) = prev"
  by (simp_all add: write_state_def)

lemma reserve_wf:
  assumes "ledger_wf l" "k \<notin> set (dict_keys (lg_plans l))" "lg_counter l < n" "plan_ok p" "rp_build_number p = Some n"
    and "positive (VStr k) ''Invalid ledger run ID'' = Inr m"
  shows "ledger_wf (l\<lparr>lg_counter := n, lg_plans := lg_plans l @ [(k, \<lparr>rv_plan = p, rv_parent = x, rv_other = []\<rparr>)]\<rparr>)"
proof -
  have "list_all (reservation_ok n) (lg_plans l)"
    using assms(1,3) by (fastforce simp: ledger_wf_def ledger_ok_def list_all_iff reservation_ok_def)
  then show ?thesis
    using assms plan_ok_build [of p n]
    by (auto simp: ledger_wf_def ledger_ok_def reservation_ok_def entry_wf_def)
qed

lemma reserve_refines:
  assumes "serves stored gh" "\<And>v h. stored = Some (v, h) \<Longrightarrow> good_json v"
    and r: "reserve_plan fr gh policy base channel source_sha run_id attempt stamp parent = Inr (Reserve create p wr)"
    and n: "rp_build_number p = Some n"
  shows "lw_previous wr = map_option snd stored \<and> good_json (ledger_json (lw_state wr)) \<and>
    ledger_next (case stored of None \<Rightarrow> spec_start | Some (v, h) \<Rightarrow> abs_json v) (Reserve_event (str_of_int run_id) n)
      (abs_json (ledger_json (lw_state wr)))"
proof -
  from r obtain m l prev sequence config where pos: "positive (VInt run_id) ''Invalid run ID'' = Inr m"
    and rd: "read_state fr gh = Inr (l, prev)" and fresh: "map_of (lg_plans l) (str_of_int m) = None"
    and cr: "create_plan fr base channel sequence source_sha policy (Some (max (lg_counter l) (policy_floor config) + 1)) = Inr p"
    and wr: "wr = write_state (l\<lparr>lg_counter := max (lg_counter l) (policy_floor config) + 1,
        lg_plans := dict_set (str_of_int m) \<lparr>rv_plan = p, rv_parent = Some parent, rv_other = []\<rparr> (lg_plans l)\<rparr>) prev"
    by (auto simp: reserve_plan_def Let_def split: option.splits prod.splits)
  note key = positive_VInt [OF pos]
  note rd = read_state_serves [OF assms(1,2) rd]
  note cr = create_plan_ok [OF cr]
  have nn: "n = max (lg_counter l) (policy_floor config) + 1" using cr(4) n by simp
  have keys: "str_of_int run_id \<notin> set (dict_keys (lg_plans l))"
    using fresh key(1) by (simp add: map_of_eq_None_iff)
  define l' where "l' = l\<lparr>lg_counter := n, lg_plans := lg_plans l @
    [(str_of_int run_id, \<lparr>rv_plan = p, rv_parent = Some parent, rv_other = []\<rparr>)]\<rparr>"
  have wr': "wr = write_state l' prev"
    using wr keys by (simp add: l'_def nn key(1) dict_set_new)
  obtain k where "positive (VStr (str_of_int run_id)) ''Invalid ledger run ID'' = Inr k" using key(2) by blast
  then have wf: "ledger_wf l'"
    unfolding l'_def using rd(1) keys cr(1) n by (intro reserve_wf) (auto simp: nn)
  have "sp_plans (abs_ledger l') = (sp_plans (abs_ledger l))(str_of_int run_id \<mapsto> p)"
    using fresh key(1) by (auto simp: abs_ledger_def l'_def map_add_def fun_eq_iff split: option.split)
  then have "abs_ledger l' = (abs_ledger l)\<lparr>sp_counter := n, sp_plans := (sp_plans (abs_ledger l))(str_of_int run_id \<mapsto> p)\<rparr>"
    by (simp add: abs_ledger_def l'_def)
  moreover have "ledger_next (abs_ledger l) (Reserve_event (str_of_int run_id) n)
      ((abs_ledger l)\<lparr>sp_counter := n, sp_plans := (sp_plans (abs_ledger l))(str_of_int run_id \<mapsto> p)\<rparr>)"
    using fresh key(1) n cr(1) nn by (intro ledger_next.reserve) (auto simp: abs_ledger_def)
  ultimately show ?thesis
    using rd wf by (auto simp: wr' good_json_def abs_json_ledger_json)
qed

lemma publication_wf:
  assumes "ledger_wf l" "(k, r) \<in> set (lg_plans l)" "rp_build_number (rv_plan r) = Some n"
  shows "ledger_wf (l\<lparr>lg_publication_floor := n\<rparr>)"
  using assms by (fastforce simp: ledger_wf_def ledger_ok_def list_all_iff reservation_ok_def)

lemma publication_refines:
  assumes "serves stored gh" "\<And>v h. stored = Some (v, h) \<Longrightarrow> good_json v"
    and r: "begin_publication fr gh plan run_id parent promotion = Inr (p, wr)"
    and n: "rp_build_number p = Some n"
  shows "lw_previous wr = map_option snd stored \<and> good_json (ledger_json (lw_state wr)) \<and>
    ledger_next (case stored of None \<Rightarrow> spec_start | Some (v, h) \<Rightarrow> abs_json v)
      (if promotion then Promote_event n else Publish_event n) (abs_json (ledger_json (lw_state wr)))"
proof -
  from r n obtain l prev where rd: "read_state fr gh = Inr (l, prev)"
    and v: "(if promotion then verify_promotion_order_in fr gh l plan
             else verify_reservation_in fr gh l plan run_id parent) = Inr p"
    and wr: "wr = write_state (l\<lparr>lg_publication_floor := n\<rparr>) prev"
    by (auto simp: begin_publication_def plan_build_def split: prod.splits option.splits)
  note rd = read_state_serves [OF assms(1,2) rd]
  have "\<exists>k r. (k, r) \<in> set (lg_plans l) \<and> rv_plan r = p \<and>
      (if promotion then lg_publication_floor l \<le> n else lg_publication_floor l < n)"
  proof (cases promotion)
    case True
    with v n have "length (filter (\<lambda>(_, r). rv_plan r = p) (lg_plans l)) = 1" "lg_publication_floor l \<le> n"
      by (auto simp: verify_promotion_order_in_def plan_build_def)
    moreover from this(1) have "filter (\<lambda>(_, r). rv_plan r = p) (lg_plans l) \<noteq> []" by auto
    then obtain k r where "(k, r) \<in> set (lg_plans l)" "rv_plan r = p" by (auto simp: filter_empty_conv)
    ultimately show ?thesis using True by auto
  next
    case False
    with v n obtain m where "case map_of (lg_plans l) (str_of_int m) of None \<Rightarrow> False
        | Some r \<Rightarrow> rv_plan r = p \<and> (case rv_parent r of None \<Rightarrow> False | Some v \<Rightarrow> py_eq v parent) \<and> rv_other r = []"
      and fl: "lg_publication_floor l < n"
      by (auto simp: verify_reservation_in_def plan_build_def)
    then obtain r where "map_of (lg_plans l) (str_of_int m) = Some r" "rv_plan r = p"
      by (cases "map_of (lg_plans l) (str_of_int m)") simp_all
    with False fl show ?thesis by (auto dest!: map_of_SomeD)
  qed
  then obtain k r where kr: "(k, r) \<in> set (lg_plans l)" "rv_plan r = p"
    "if promotion then lg_publication_floor l \<le> n else lg_publication_floor l < n" by blast
  have "distinct (dict_keys (lg_plans l))" using rd(1) by (simp add: ledger_wf_def)
  then have "sp_plans (abs_ledger l) k = Some p" using kr by (auto simp: abs_ledger_def)
  then have "ledger_next (abs_ledger l) (if promotion then Promote_event n else Publish_event n)
      ((abs_ledger l)\<lparr>sp_floor := n\<rparr>)"
    using kr(3) n ledger_next.publish [of "abs_ledger l" k p n] ledger_next.promote [of "abs_ledger l" k p n]
    by (cases promotion) (simp_all add: abs_ledger_def)
  moreover have "ledger_wf (l\<lparr>lg_publication_floor := n\<rparr>)" using rd(1) kr n by (intro publication_wf) auto
  moreover have "abs_ledger (l\<lparr>lg_publication_floor := n\<rparr>) = (abs_ledger l)\<lparr>sp_floor := n\<rparr>" by (simp add: abs_ledger_def)
  ultimately show ?thesis using rd by (auto simp: wr good_json_def abs_json_ledger_json)
qed

interpretation ledger: cas_refinement "ledger_prepare fr" ledger_next abs_json spec_start good_json for fr
proof
  fix stored ev s' prev
  assume "ledger_prepare fr stored ev (s', prev)" and "\<And>s h. stored = Some (s, h) \<Longrightarrow> good_json s"
  then show "prev = map_option snd stored \<and> good_json s' \<and>
      ledger_next (case stored of None \<Rightarrow> spec_start | Some (s, h) \<Rightarrow> abs_json s) ev (abs_json s')"
    by (cases rule: ledger_prepare.cases)
      (use reserve_refines publication_refines [where promotion = True] publication_refines [where promotion = False] in fastforce)+
qed

subsection \<open>Properties\<close>

type_synonym ledger_world = "(pyval, ledger_event) cas_world"

text \<open>The ledger that the store holds.\<close>

definition stored_ledger :: "ledger_world \<Rightarrow> ledger_spec" where
  "stored_ledger w = (case cw_file w of None \<Rightarrow> spec_start | Some (v, h) \<Rightarrow> abs_json v)"

lemma view_stored: "ledger.view (cw_file w) = stored_ledger w"
  by (simp add: ledger.view_def stored_ledger_def)

lemma ledger_log: "cas_reachable (ledger_prepare fr) w \<Longrightarrow> runs_of ledger_next spec_start (cw_log w) (stored_ledger w)"
  using ledger.cas_ok_reachable [of fr w] by (simp add: ledger.cas_ok_def view_stored)

text \<open>
  C16: the ledger behaves as if every accepted operation were indivisible.  However the reads and writes
  of concurrent runs interleave, the stored ledger is what the accepted reservations, publications and
  promotions yield one after the other from the empty ledger, in the order in which GitHub took them.
\<close>

theorem ledger_refines_atomic_operations:
  assumes "cas_reachable (ledger_prepare fr) w"
  shows "runs_of ledger_next spec_start (cw_log w) (stored_ledger w)"
  using assms by (rule ledger_log)

text \<open>
  C17: no build number is reserved twice.  In every reachable state two runs with the same build number are
  the same run, every reserved number is between one and the counter, and the publication floor is not
  above the counter.
\<close>

theorem build_number_reserved_once:
  assumes "cas_reachable (ledger_prepare fr) w"
    and "sp_plans (stored_ledger w) j = Some p" "sp_plans (stored_ledger w) k = Some q"
    and "rp_build_number p = rp_build_number q"
  shows "j = k \<and> (\<exists>n. rp_build_number p = Some n \<and> 0 < n \<and> n \<le> sp_counter (stored_ledger w)) \<and>
    sp_floor (stored_ledger w) \<le> sp_counter (stored_ledger w)"
proof -
  have "spec_ok (stored_ledger w)" using spec_ok_runs [OF ledger_log [OF assms(1)] spec_ok_start] .
  with assms(2-4) show ?thesis unfolding spec_ok_def by metis
qed

text \<open>
  C18: nothing that was reserved is ever changed.  From a reachable state on, whatever concurrent runs do,
  every reservation keeps its plan and neither the counter nor the publication floor decreases.
\<close>

theorem reservations_never_change:
  assumes "cas_reachable (ledger_prepare fr) w" "(cas_step (ledger_prepare fr))\<^sup>*\<^sup>* w w'"
  shows "sp_plans (stored_ledger w) \<subseteq>\<^sub>m sp_plans (stored_ledger w') \<and>
    sp_counter (stored_ledger w) \<le> sp_counter (stored_ledger w') \<and>
    sp_floor (stored_ledger w) \<le> sp_floor (stored_ledger w')"
proof -
  from ledger.steps_run [OF assms(2) ledger.cas_ok_reachable [OF assms(1)]]
  obtain evs where "runs_of ledger_next (stored_ledger w) evs (stored_ledger w')" by (auto simp: view_stored)
  from keeps_runs [OF this] show ?thesis by (simp add: keeps_def)
qed

text \<open>
  C19: every publication of a build consumes a number above all numbers consumed before, so no build number
  is published by two builds and an older build is never published after a newer one.
\<close>

theorem published_numbers_increase:
  assumes "cas_reachable (ledger_prepare fr) w"
  shows "sorted_wrt (<) (published (cw_log w))"
  using published_below_floor [OF ledger_log [OF assms]] by blast

subsection \<open>An example\<close>

definition empty_view :: github_view where
  "empty_view = \<lparr>gv_file = Inr None, gv_ref = Inr False, gv_tags = Inr [], gv_releases = Inr [],
     gv_tag_ref = (\<lambda>_. Inr False), gv_release_by_tag = (\<lambda>_. Inr False), gv_ref_later = Inr False\<rparr>"

lemma example_reserve:
  obtains p wr where "reserve_plan fr empty_view example_policy ''1.2.3'' ''rc'' example_sha 5 1 [] VNone =
    Inr (Reserve True p wr)" "rp_build_number p = Some 1"
proof -
  obtain p where p: "create_plan fr ''1.2.3'' ''rc'' (VInt 1) example_sha example_policy (Some 1) = Inr p"
    by (rule example_plan_created [of 1 fr]) simp_all
  have pos: "positive (VInt 5) ''Invalid run ID'' = Inr 5"
    by code_simp
  have ver: "fullmatch base_pattern ''1.2.3''" by code_simp
  have fl: "versioning_of example_policy = Inr config \<Longrightarrow> policy_floor config = 0 \<and>
      get_or config ''build_number_floor'' (VInt 0) = VInt 0" for config
    by (auto simp: versioning_of_def example_policy_def policy_floor_def get_or_def)
  obtain config where config: "versioning_of example_policy = Inr config"
    by (simp add: versioning_of_def example_policy_def)
  have "\<exists>wr. reserve_plan fr empty_view example_policy ''1.2.3'' ''rc'' example_sha 5 1 [] VNone = Inr (Reserve True p wr)"
    by (simp add: reserve_plan_def pos read_state_def empty_view_def empty_ledger_def choose_sequence_def
      next_sequence_def rc_version_def ver max_default_def reserved_sequences_def config fl [OF config] int_field_ok_def
      p ensure_absent_def Let_def map_filter_simps)
  with p create_plan_ok(4) [OF p] that show ?thesis by blast
qed

lemma example_ledger_world:
  obtains w where "cas_reachable (ledger_prepare fr) w" "cw_log w = [Reserve_event ''5'' 1]"
proof -
  obtain p wr where r: "reserve_plan fr empty_view example_policy ''1.2.3'' ''rc'' example_sha 5 1 [] VNone =
    Inr (Reserve True p wr)" "rp_build_number p = Some 1" by (rule example_reserve)
  define ev :: ledger_event where "ev = Reserve_event (str_of_int 5) 1"
  have prep: "ledger_prepare fr None ev (ledger_json (lw_state wr), lw_previous wr)"
    unfolding ev_def by (rule ledger_prepare.reserve [OF _ r]) (simp add: serves_def empty_view_def)
  then have prev: "lw_previous wr = None" using ledger.prepare_step [OF prep] by simp
  define w1 :: ledger_world where "w1 = cas_start\<lparr>cw_pending := [(ev, ledger_json (lw_state wr), None)]\<rparr>"
  have "cas_step (ledger_prepare fr) cas_start w1"
    using cas_step.prepared [of "ledger_prepare fr" cas_start ev "(ledger_json (lw_state wr), lw_previous wr)"] prep prev
    by (simp add: w1_def cas_start_def)
  moreover have "cas_step (ledger_prepare fr) w1 (w1\<lparr>cw_file := Some (ledger_json (lw_state wr), example_sha),
      cw_seen := [(ledger_json (lw_state wr), example_sha)], cw_pending := [], cw_log := [ev]\<rparr>)" (is "cas_step _ _ ?w2")
    using cas_step.taken [of ev "ledger_json (lw_state wr)" None w1 example_sha "ledger_prepare fr"]
    by (simp add: w1_def cas_start_def)
  ultimately have "cas_reachable (ledger_prepare fr) ?w2"
    unfolding cas_reachable_def by (meson converse_rtranclp_into_rtranclp rtranclp.rtrancl_refl)
  moreover have "str_of_int 5 = ''5''" by code_simp
  ultimately show ?thesis by (intro that [of ?w2]) (simp_all add: ev_def)
qed

theorem ledger_refines_atomic_operations_witness:
  "\<exists>w. cw_log w = [Reserve_event ''5'' 1] \<and> runs_of ledger_next spec_start [Reserve_event ''5'' 1] (stored_ledger w)"
proof -
  obtain w where w: "cas_reachable (ledger_prepare (\<lambda>_. [])) w" "cw_log w = [Reserve_event ''5'' 1]"
    by (rule example_ledger_world)
  from ledger_refines_atomic_operations [OF w(1)] w(2) show ?thesis by auto
qed

lemma runs_of_single: "runs_of spec a [ev] b \<Longrightarrow> spec a ev b"
  by (erule runs_of.cases) (auto elim: runs_of.cases)

lemma example_stored:
  assumes "cas_reachable (ledger_prepare fr) w" "cw_log w = [Reserve_event ''5'' 1]"
  obtains p where "sp_plans (stored_ledger w) ''5'' = Some p" "rp_build_number p = Some 1"
proof -
  have "ledger_next spec_start (Reserve_event ''5'' 1) (stored_ledger w)"
    using ledger_log [OF assms(1)] assms(2) by (auto dest: runs_of_single)
  then show ?thesis by cases (use that in auto)
qed

theorem build_number_reserved_once_witness:
  "\<exists>w p. sp_plans (stored_ledger w) ''5'' = Some p \<and> 1 \<le> sp_counter (stored_ledger w)"
proof -
  obtain w where w: "cas_reachable (ledger_prepare (\<lambda>_. [])) w" "cw_log w = [Reserve_event ''5'' 1]"
    by (rule example_ledger_world)
  obtain p where p: "sp_plans (stored_ledger w) ''5'' = Some p" "rp_build_number p = Some 1"
    using example_stored [OF w] .
  from build_number_reserved_once [OF w(1) p(1) p(1) refl] p show ?thesis by auto
qed

theorem reservations_never_change_witness:
  "\<exists>w :: ledger_world. sp_plans (stored_ledger cas_start) \<subseteq>\<^sub>m sp_plans (stored_ledger w) \<and> cw_log w \<noteq> []"
proof -
  obtain w where w: "cas_reachable (ledger_prepare (\<lambda>_. [])) w" "cw_log w = [Reserve_event ''5'' 1]"
    by (rule example_ledger_world)
  have "cas_reachable (ledger_prepare (\<lambda>_. [])) cas_start" by (simp add: cas_reachable_def)
  from reservations_never_change [OF this w(1) [unfolded cas_reachable_def]] w(2) show ?thesis by auto
qed

theorem published_numbers_increase_witness:
  "\<exists>w :: ledger_world. sorted_wrt (<) (published (cw_log w)) \<and> cw_log w \<noteq> []"
proof -
  obtain w where w: "cas_reachable (ledger_prepare (\<lambda>_. [])) w" "cw_log w = [Reserve_event ''5'' 1]"
    by (rule example_ledger_world)
  from published_numbers_increase [OF w(1)] w(2) show ?thesis by (intro exI [of _ w]) simp
qed

end
