(* ===== verification/Ledger_Types.thy ===== *)
theory Ledger_Types
  imports Ledger_Machine
begin

section \<open>The type of the stored ledger\<close>

text \<open>
  JSON schemas with a conformance relation, the schema of the file that \<^verbatim>\<open>scripts/release_state.py\<close>
  keeps on GitHub, and the proof that every file the ledger machine stores conforms to it.
\<close>

subsection \<open>Schemas\<close>

text \<open>
  An integer schema has a lower bound, a text schema may ask for a pattern; an object lists its
  fields, each required or not, and may be open to others.
\<close>

datatype schema =
    Sc_any
  | Sc_null
  | Sc_int int
  | Sc_text "re option"
  | Sc_or schema schema
  | Sc_map schema
  | Sc_object "(string \<times> bool \<times> schema) list" bool

fun conf :: "schema \<Rightarrow> pyval \<Rightarrow> bool" where
  "conf Sc_any v \<longleftrightarrow> True"
| "conf Sc_null v \<longleftrightarrow> v = VNone"
| "conf (Sc_int low) v \<longleftrightarrow> (case v of VInt n \<Rightarrow> low \<le> n | _ \<Rightarrow> False)"
| "conf (Sc_text p) v \<longleftrightarrow>
     (case v of VStr s \<Rightarrow> (case p of None \<Rightarrow> True | Some r \<Rightarrow> fullmatch r s) | _ \<Rightarrow> False)"
| "conf (Sc_or a b) v \<longleftrightarrow> conf a v \<or> conf b v"
| "conf (Sc_map a) v \<longleftrightarrow>
     (case v of VDict d \<Rightarrow> distinct (dict_keys d) \<and> list_all (\<lambda>(k, w). conf a w) d | _ \<Rightarrow> False)"
| "conf (Sc_object rows opened) v \<longleftrightarrow>
     (case v of
        VDict d \<Rightarrow>
          distinct (dict_keys d) \<and>
          list_all (\<lambda>(k, needed, a). case map_of d k of None \<Rightarrow> \<not> needed | Some w \<Rightarrow> conf a w) rows \<and>
          (opened \<or> set (dict_keys d) \<subseteq> fst ` set rows)
      | _ \<Rightarrow> False)"

text \<open>Sorting the keys of objects, as the encoder does, keeps a value in its type.\<close>

lemma distinct_canon_dict: "dict_keys (canon_dict d) = dict_keys d"
  by (simp add: canon_dict_def comp_def case_prod_unfold)

lemma map_of_canon_dict: "map_of (canon_dict d) k = map_option canon (map_of d k)"
  by (induction d) (auto simp: canon_dict_def)

lemma conf_canon: "conf a v \<Longrightarrow> conf a (canon v)"
proof (induction a v rule: conf.induct)
  case (3 low v)
  then show ?case by (cases v) auto
next
  case (4 p v)
  then show ?case by (cases v) auto
next
  case (6 a v)
  then obtain d where v: "v = VDict d" "distinct (dict_keys d)" "list_all (\<lambda>(k, w). conf a w) d"
    by (cases v) auto
  have "conf a (canon w)" if "(k, w) \<in> set d" for k w
    using 6(1) [OF v(1) that refl] v(3) that by (auto simp: list_all_iff)
  then have "list_all (\<lambda>(k, w). conf a w) (sort_key fst (canon_dict d))"
    by (auto simp: list_all_iff canon_dict_def)
  moreover have "distinct (dict_keys (sort_key fst (canon_dict d)))"
    using v(2) distinct_canon_dict [of d] by (intro distinct_keys_sort_key) simp
  ultimately show ?case unfolding v(1) canon_VDict by simp
next
  case (7 rows opened v)
  then obtain d where v: "v = VDict d" "distinct (dict_keys d)"
      "list_all (\<lambda>(k, needed, a). case map_of d k of None \<Rightarrow> \<not> needed | Some w \<Rightarrow> conf a w) rows"
      "opened \<or> set (dict_keys d) \<subseteq> fst ` set rows"
    by (cases v) auto
  let ?e = "sort_key fst (canon_dict d)"
  have e: "distinct (dict_keys (canon_dict d))" "set (dict_keys ?e) = set (dict_keys d)"
    using v(2) distinct_canon_dict [of d] by (simp_all add: image_image) (metis distinct_canon_dict list.set_map)
  have lookup: "map_of ?e k = map_option canon (map_of d k)" for k
    unfolding map_of_sort_key [OF e(1)] by (rule map_of_canon_dict)
  have "case map_of ?e k of None \<Rightarrow> \<not> needed | Some w \<Rightarrow> conf a w" if r: "(k, needed, a) \<in> set rows" for k needed a
  proof (cases "map_of d k")
    case None
    with v(3) r show ?thesis by (auto simp: lookup list_all_iff)
  next
    case (Some w)
    with v(3) r have "conf a w" by (auto simp: list_all_iff)
    with 7 v(1) r Some show ?thesis by (fastforce simp: lookup)
  qed
  then have "list_all (\<lambda>(k, needed, a). case map_of ?e k of None \<Rightarrow> \<not> needed | Some w \<Rightarrow> conf a w) rows"
    by (auto simp: list_all_iff)
  moreover have "distinct (dict_keys ?e)" using e(1) by (rule distinct_keys_sort_key)
  ultimately show ?case using v(4) e(2) unfolding v(1) canon_VDict by simp
qed auto


subsection \<open>The ledger\<close>

definition plan_schema :: schema where
  "plan_schema = Sc_object
     [(''schema_version'', True, Sc_int 1), (''base_version'', True, Sc_text (Some base_pattern)),
      (''version'', True, Sc_text None), (''channel'', True, Sc_text None),
      (''sequence'', True, Sc_or Sc_null (Sc_or (Sc_int 1) (Sc_text None))), (''tag'', True, Sc_text None),
      (''source_sha'', True, Sc_text (Some sha_pattern)), (''build_number'', True, Sc_or Sc_null (Sc_int 1)),
      (''policy_sha256'', True, Sc_text (Some digest_pattern)), (''promotion'', True, Sc_text None)] False"

definition reservation_schema :: schema where
  "reservation_schema = Sc_object [(''plan'', True, plan_schema), (''parent'', False, Sc_any)] True"

definition ledger_schema :: schema where
  "ledger_schema = Sc_object
     [(''schema'', True, Sc_int 1), (''counter'', True, Sc_int 0), (''publication_floor'', True, Sc_int 0),
      (''plans'', True, Sc_map reservation_schema)] True"

lemma plan_typed:
  assumes "plan_ok p"
  shows "conf plan_schema (VDict (plan_dict p))"
proof -
  have id: "identity_of (VStr (rp_base_version p)) (VStr (rp_channel p)) (rp_sequence p) = Inr (rp_version p)"
    using assms by (simp add: plan_ok_def)
  then have base: "fullmatch base_pattern (rp_base_version p)" by (auto simp: identity_of_def is_str_ok_def)
  have sequence: "conf (Sc_or Sc_null (Sc_or (Sc_int 1) (Sc_text None))) (rp_sequence p)"
    using id by (cases rule: identity_of_cases) (auto split: if_splits)
  have build: "conf (Sc_or Sc_null (Sc_int 1)) (int_or_none (rp_build_number p))"
    using assms by (cases "rp_build_number p") (auto simp: plan_ok_def build_ok_def int_or_none_def)
  have pats: "fullmatch sha_pattern (rp_source_sha p)" "fullmatch digest_pattern (rp_policy_sha256 p)"
    using assms by (simp_all add: plan_ok_def)
  have shape: "distinct (dict_keys (plan_dict p))" by (simp add: plan_dict_def)
  show ?thesis
    using base sequence build pats shape unfolding plan_schema_def plan_dict_def by simp
qed

lemma reservation_typed:
  assumes "plan_ok (rv_plan r)" "distinct (''plan'' # ''parent'' # dict_keys (rv_other r))"
  shows "conf reservation_schema (reservation_value r)"
  using assms plan_typed [OF assms(1)] unfolding reservation_schema_def reservation_value_def
  by (cases "rv_parent r") (auto split: option.split)

lemma ledger_value_typed:
  assumes "ledger_wf l"
  shows "conf ledger_schema (ledger_value l)"
proof -
  have "conf reservation_schema (reservation_value r)" if "(k, r) \<in> set (lg_plans l)" for k r
  proof -
    have "reservation_ok (lg_counter l) (k, r)" "entry_wf (k, r)"
      using assms that unfolding ledger_wf_def ledger_ok_def list_all_iff by blast+
    then show ?thesis
      unfolding reservation_ok_def entry_wf_def snd_conv by (intro reservation_typed) (elim conjE; assumption)+
  qed
  then have "list_all (\<lambda>(k, w). conf reservation_schema w) (map (\<lambda>(k, r). (k, reservation_value r)) (lg_plans l))"
    by (auto simp: list_all_iff)
  moreover have "distinct (dict_keys (map (\<lambda>(k, r). (k, reservation_value r)) (lg_plans l)))"
    using assms by (simp add: ledger_wf_def comp_def case_prod_unfold)
  moreover have "0 \<le> lg_publication_floor l" "0 \<le> lg_counter l" using assms by (auto simp: ledger_wf_def ledger_ok_def)
  moreover have "distinct (dict_keys (lg_other l))"
    "''schema'' \<notin> set (dict_keys (lg_other l))" "''counter'' \<notin> set (dict_keys (lg_other l))"
    "''publication_floor'' \<notin> set (dict_keys (lg_other l))" "''plans'' \<notin> set (dict_keys (lg_other l))"
    using assms by (simp_all add: ledger_wf_def)
  ultimately show ?thesis unfolding ledger_schema_def ledger_value_def by simp
qed

lemma good_json_typed: "good_json v \<Longrightarrow> conf ledger_schema v"
  using ledger_value_typed conf_canon unfolding good_json_def ledger_json_def by blast

lemma ledger_file_good:
  assumes "cas_reachable (ledger_prepare fr) w" "cw_file w = Some (v, h)"
  shows "good_json v"
  using ledger.cas_ok_reachable [OF assms(1)] assms(2) by (fastforce simp: ledger.cas_ok_def)

text \<open>
  C22: the file that concurrent release runs keep on GitHub stays well typed.  In every reachable state
  it is an object with distinct keys, schema version, a counter and a publication floor that are not
  negative, and by run a reservation whose plan has exactly the ten plan fields with their types, a
  strict base version, a full commit and a full policy digest.
\<close>

theorem stored_ledger_well_typed:
  assumes "cas_reachable (ledger_prepare fr) w" "cw_file w = Some (v, h)"
  shows "conf ledger_schema v"
  using ledger_file_good [OF assms] by (rule good_json_typed)

theorem stored_ledger_well_typed_witness:
  "\<exists>(w :: ledger_world) v h. cw_file w = Some (v, h) \<and> conf ledger_schema v"
proof -
  obtain w where w: "cas_reachable (ledger_prepare (\<lambda>_. [])) w" "cw_log w = [Reserve_event ''5'' 1]"
    by (rule example_ledger_world)
  obtain p where "sp_plans (stored_ledger w) ''5'' = Some p" using example_stored [OF w] by blast
  then obtain v h where "cw_file w = Some (v, h)"
    by (cases "cw_file w") (auto simp: stored_ledger_def spec_start_def)
  with stored_ledger_well_typed [OF w(1)] show ?thesis by blast
qed

end
