(* ===== verification/Spec2Isabelle.thy ===== *)
theory Spec2Isabelle
  imports Server_App Tls_Policy Socket_Diagnostics Release_Reuse Ledger_Types
begin

text \<open>
  Verification of the Venus OS MCP server (\<^verbatim>\<open>src/src/mcp_venus_os\<close>) and of the toolkit that releases it
  (\<^verbatim>\<open>src/scripts\<close>).

  \<^bold>\<open>The program.\<close>  The server offers tools that read and control a Victron energy system.  Readings come
  from the MQTT broker of the device or, on the device itself, from D-Bus; control writes are published to
  the broker; management commands run over SSH.  Every operation that changes something passes the safety
  validator, and every control write also a reviewed hardware contract.  The toolkit derives version plans
  from a policy, reserves build numbers in a ledger file on a GitHub branch, checks the evidence of a build,
  and publishes, promotes or reuses releases through the GitHub command line.

  \<^bold>\<open>Foundations.\<close>  \<open>Venus_Prelude\<close> holds results as sums, dictionaries as association lists (the locale
  \<open>dictionary\<close> with its interpretation) and list lemmas.  \<open>Py_Float\<close>, \<open>Py_Str\<close>, \<open>Py_Value\<close>, \<open>Py_Regex\<close> and
  \<open>Py_Sha256\<close> model the Python used here: binary floats as exact rationals with rounding, strings as
  characters below 256, dynamic values \<open>pyval\<close>, regular expressions with an executable matcher proved against
  its relational meaning, and SHA-256 on 32-bit words.

  \<^bold>\<open>The server\<close>, one theory per part, in the order of calls:
  \<^item> \<open>Venus_Config\<close> (\<^verbatim>\<open>config.py\<close>), \<open>Safety\<close> (\<^verbatim>\<open>safety.py\<close>), \<open>Hardware_Contracts\<close> (\<^verbatim>\<open>hardware_contracts.py\<close>):
    settings with their constraints, the gate in the order of its checks, and the contracts.  The lemmas
    characterise exactly when each accepts, and bound what passes.
  \<^item> \<open>Telemetry\<close> (\<^verbatim>\<open>telemetry.py\<close>), \<open>Capabilities\<close> (\<^verbatim>\<open>capabilities.py\<close>): path tables, subscriptions, topics to
    refresh, detected companion services.
  \<^item> \<open>Mqtt_State\<close>, \<open>Mqtt_Session\<close>, \<open>Mqtt_Inbox\<close>, \<open>Mqtt_Feed\<close>, \<open>Mqtt_Lifecycle\<close>, \<open>Mqtt_Registry\<close>, \<open>Mqtt_Machine\<close>
    (\<^verbatim>\<open>mqtt_client.py\<close>): the client's fields as a record, the callbacks of the MQTT library, the decoder
    thread, start and stop, and last the step relation of all interleavings.  Its invariant, by rule
    induction, gives the properties about stale transports, freshness and delivery order.  A fresh client
    without a portal is followed from its start to the end of its decoder thread.
  \<^item> \<open>Server_Read\<close>, \<open>Server_Write\<close>, \<open>Server_App\<close> (\<^verbatim>\<open>server.py\<close>, \<^verbatim>\<open>__main__.py\<close>): the tools, the gate with its
    confirmation, the verified read-back and the process.  A tool returns its answer and what it sent.
  \<^item> \<open>Dbus_Client\<close> (\<^verbatim>\<open>dbus_client.py\<close>), \<open>Ssh_Client\<close> and \<open>Server_Ssh\<close> (\<^verbatim>\<open>ssh_client.py\<close>, \<^verbatim>\<open>server.py\<close>): the two
    other transports.  An SSH operation records what it asks of the network, the reachability probe
    included.  The locale \<open>ssh_policy\<close> says once that a property of requests is kept by every
    operation; its interpretations give keys, addresses, commands and requests.
  \<^item> \<open>Tls_Policy\<close> (\<^verbatim>\<open>tls_policy.py\<close>), \<open>Socket_Diagnostics\<close> (\<^verbatim>\<open>socket_diagnostics.py\<close>): certificate keys at the
    end of the handshake, and a snapshot of kernel socket data at its machine widths.

  \<^bold>\<open>The release toolkit.\<close>
  \<^item> \<open>Version_Plan\<close> (\<^verbatim>\<open>version_plan.py\<close>), \<open>Version_Receipt\<close> (\<^verbatim>\<open>version_receipt.py\<close>): policies, identities and
    frozen plans; build receipts and the payloads they cover.  Round trips of creation and validation.
  \<^item> \<open>Release_Ledger\<close>, \<open>Cas_Store\<close>, \<open>Ledger_Machine\<close>, \<open>Ledger_Types\<close> (\<^verbatim>\<open>release_state.py\<close>): the ledger, and
    concurrent runs on it.  The locale \<open>cas_refinement\<close> proves once that optimistic writers on a
    compare-and-swap file refine atomic operations; its interpretation on the ledger gives that build
    numbers are unique and only grow.
  \<^item> \<open>Release_Checks\<close> (\<^verbatim>\<open>release_validation.py\<close>, \<^verbatim>\<open>validate_scorecard_json.py\<close>), \<open>Change_Scope\<close>
    (\<^verbatim>\<open>change_scope.py\<close>), \<open>Fuzz_Policy\<close> (\<^verbatim>\<open>release_fuzz.py\<close>): what must have been checked, which changes
    need no heavy check, and the targets and reports of fuzzing.
  \<^item> \<open>Github_Client\<close> (class \<^verbatim>\<open>GitHub\<close> of \<^verbatim>\<open>release_control.py\<close>): requests as processes.  An operation maps a world,
    a clock tick and the log of processes started, to a result and a world; every answer is a parameter
    indexed by the tick, so it may differ at every call.  \<open>reads\<close> says that an operation starts no writing
    process, \<open>emits\<close> which writes it makes and in which order; both have one rule per construct, and
    the commands are handled by these rules.
  \<^item> \<open>Release_Notes\<close>, \<open>Release_Run\<close>, \<open>Release_Publish\<close>, \<open>Release_Commands\<close>, \<open>Release_Promotion\<close>
    (\<^verbatim>\<open>release_control.py\<close>): the Markdown reader of the changelog; the source policy, the run that executes and
    the wait for it; staging and the publication transaction; manifests and evidence; the commands
    \<^verbatim>\<open>candidate\<close> and \<^verbatim>\<open>promote\<close> as a whole.
  \<^item> \<open>Ledger_Client\<close> (\<^verbatim>\<open>release_state.py\<close> over the client): the ledger operations that a publication
    calls, proved to be those of \<open>Release_Ledger\<close> on what was read.
  \<^item> \<open>Toolchains\<close>, \<open>Release_Reuse\<close> (\<^verbatim>\<open>release_versioned.py\<close>): the toolchains of a final build, the accepted
    candidate it derives from, and the search for a release that a scheduled run may reuse.

  \<^bold>\<open>Errors.\<close>  A raised exception is the left value of a sum: \<open>py_exc\<close> in the server, \<open>release_exc\<close> in the toolkit,
  which keeps the classes that the code tells apart.  The text of a message keeps its fixed part only.

  \<^bold>\<open>Bounds and loops.\<close>  Structural or measured recursion throughout, but for four loops that take
  fuel, where \<open>None\<close> is a loop that has not ended.  The read-back of a write, the warm-up and the wait for the
  executing run look at a clock; they are proved to end once the clock has passed the deadline.  The comment
  scan of a line gets fuel above twice its length, which is proved enough.
  The wait of \<^verbatim>\<open>connect\<close> is its fifty looks, a metadata read its three attempts, a refresh round its limits.

  \<^bold>\<open>Parameters.\<close>  The broker and the topic matcher, D-Bus, asyncssh and the device, the TLS library, the
  kernel, \<^verbatim>\<open>gh\<close>, Git, JSON decoding, Base64, Git hashes, ZIP archives, clocks, the file system and the environment.
  A lemma assumes of them only what its statement says.

  \<^bold>\<open>Not modelled.\<close>  In the server: reading settings from the environment, logging, and the objects of the
  framework.  In the toolkit: editing version files and inspecting artifacts (the rest of
  \<^verbatim>\<open>version_plan.py\<close>), the client class \<^verbatim>\<open>StateGitHub\<close>, the commands \<^verbatim>\<open>prepare\<close> and \<^verbatim>\<open>publish\<close> of
  \<^verbatim>\<open>release_versioned.py\<close> and the readback of an ambiguous draft creation that only they use, running fuzz campaigns, and the argument parsers.
  Signing, provenance, container and packaging scripts, the probes of the runner, the inspection of
  workflow files and the interactive release command line are processes and files around libraries that
  are not part of the repository.
\<close>

end
